(* ===== verification/Warden_Prelude.thy ===== *)
theory Warden_Prelude
  imports Main "HOL-Library.Word"
begin

unbundle bit_operations_syntax

text \<open>
  Shared vocabulary of the development: the machine types of the C sources, the few C library
  functions the drivers use on strings, the table scan that every \<^verbatim>\<open>for\<close> loop over a fixed
  array of slots becomes, and the word lemmas the component theories rely on.
\<close>

section \<open>Machine types\<close>

type_synonym u8 = "8 word"
type_synonym u16 = "16 word"
type_synonym u32 = "32 word"
type_synonym u64 = "64 word"

text \<open>A pointer that the code only compares or hands on is an address; 0 is \<^verbatim>\<open>NULL\<close>.\<close>

type_synonym ptr = nat

abbreviation (input) NULL :: ptr where
  "NULL \<equiv> 0"

named_theorems c_string \<open>facts on the C string functions\<close>
named_theorems word_time \<open>facts on wrapping word arithmetic\<close>

section \<open>C strings\<close>

text \<open>
  A C string is its characters without the terminator. \<open>snprintf_s n s\<close> is what
  \<^verbatim>\<open>snprintf(dst, n, "%s", s)\<close> leaves in \<^verbatim>\<open>dst\<close>: at most \<open>n - 1\<close> characters.
\<close>

definition snprintf_s :: "nat \<Rightarrow> string \<Rightarrow> string" where
  "snprintf_s n s = take (n - 1) s"

lemma snprintf_s_fits [c_string]: "length s < n \<Longrightarrow> snprintf_s n s = s"
  by (simp add: snprintf_s_def)

lemma length_snprintf_s [c_string]: "0 < n \<Longrightarrow> length (snprintf_s n s) < n"
  by (simp add: snprintf_s_def)

text \<open>\<open>strncmp a b n == 0\<close> compares at most \<open>n\<close> characters, terminators included.\<close>

definition strncmp_eq :: "string \<Rightarrow> string \<Rightarrow> nat \<Rightarrow> bool" where
  "strncmp_eq a b n \<longleftrightarrow> take n a = take n b"

text \<open>\<^verbatim>\<open>%d\<close> of a non-negative number.\<close>

fun show_nat :: "nat \<Rightarrow> string" where
  "show_nat n = (if n < 10 then [char_of (48 + n)] else show_nat (n div 10) @ [char_of (48 + n mod 10)])"

declare show_nat.simps [simp del]

section \<open>Scanning a table of slots\<close>

text \<open>
  \<^verbatim>\<open>for (i = 0; i < N; i++) body(&tab[i])\<close>: the body may rewrite its own slot and threads a
  state (callback effects, counters) from slot to slot.
\<close>

fun scan :: "('a \<Rightarrow> 's \<Rightarrow> 'a \<times> 's) \<Rightarrow> 'a list \<Rightarrow> 's \<Rightarrow> 'a list \<times> 's" where
  "scan f [] s = ([], s)"
| "scan f (x # xs) s =
     (let (x', s1) = f x s; (xs', s2) = scan f xs s1 in (x' # xs', s2))"

lemma length_scan [simp]: "length (fst (scan f xs s)) = length xs"
  by (induction xs arbitrary: s) (auto simp: Let_def split_beta)

lemma scan_nth: "i < length xs \<Longrightarrow> \<exists>s'. fst (scan f xs s) ! i = fst (f (xs ! i) s')"
proof (induction xs arbitrary: s i)
  case Nil
  then show ?case by simp
next
  case (Cons x xs)
  show ?case
  proof (cases i)
    case 0
    then show ?thesis by (auto simp: Let_def split_beta)
  next
    case (Suc j)
    with Cons.prems have "j < length xs" by simp
    from Cons.IH [OF this, of "snd (f x s)"] Suc show ?thesis
      by (auto simp: Let_def split_beta)
  qed
qed

lemma scan_pure: "(\<And>x s. x \<in> set xs \<Longrightarrow> f x s = (g x, s)) \<Longrightarrow> scan f xs s = (map g xs, s)"
  by (induction xs arbitrary: s) auto

text \<open>An invariant of the slots and one of the threaded state, kept by every body, are kept by the scan.\<close>

lemma scan_invariant:
  assumes "\<And>x s. P x \<Longrightarrow> Q s \<Longrightarrow> P (fst (f x s)) \<and> Q (snd (f x s))"
    and "\<forall>x \<in> set xs. P x" and "Q s"
  shows "(\<forall>x \<in> set (fst (scan f xs s)). P x) \<and> Q (snd (scan f xs s))"
  using assms(2,3)
proof (induction xs arbitrary: s)
  case Nil
  then show ?case by simp
next
  case (Cons x xs)
  then have "P (fst (f x s))" and "Q (snd (f x s))"
    using assms(1) by auto
  with Cons show ?case by (auto simp: Let_def split_beta)
qed

text \<open>
  The contract that the guarded scans of a table share: slots that fail the guard are left alone,
  slots that satisfy it are rewritten by the body, and a log kept in the threaded state grows by
  one entry group per guarded slot, in slot order.
\<close>

locale slot_scan =
  fixes guard :: "'a \<Rightarrow> bool"
    and body :: "'a \<Rightarrow> 's \<Rightarrow> 'a \<times> 's"
    and entries :: "'s \<Rightarrow> 'e list"
    and entry :: "'a \<Rightarrow> 'e"
  assumes body_logs: "guard x \<Longrightarrow> entries (snd (body x s)) = entries s @ [entry x]"
begin

abbreviation slot :: "'a \<Rightarrow> 's \<Rightarrow> 'a \<times> 's" where
  "slot x s \<equiv> (if guard x then body x s else (x, s))"

lemma untouched:
  assumes "i < length xs" and "\<not> guard (xs ! i)"
  shows "fst (scan slot xs s) ! i = xs ! i"
  using scan_nth [OF assms(1), of slot s] assms(2) by auto

lemma touched:
  assumes "i < length xs" and "guard (xs ! i)"
  shows "\<exists>s'. fst (scan slot xs s) ! i = fst (body (xs ! i) s')"
  using scan_nth [OF assms(1), of slot s] assms(2) by auto

lemma logged:
  "entries (snd (scan slot xs s)) = entries s @ map entry (filter guard xs)"
proof (induction xs arbitrary: s)
  case Nil
  then show ?case by simp
next
  case (Cons x xs)
  show ?case
    by (cases "guard x") (simp_all add: Let_def split_beta Cons.IH body_logs)
qed

end

lemma length_filter_update:
  "i < length xs \<Longrightarrow> \<not> P (xs ! i) \<Longrightarrow> P y \<Longrightarrow>
     length (filter P (xs[i := y])) = Suc (length (filter P xs))"
proof (induction xs arbitrary: i)
  case Nil
  then show ?case by simp
next
  case (Cons x xs)
  then show ?case by (cases i) auto
qed

section \<open>Wrapping time stamps\<close>

text \<open>
  The difference of two 32-bit time stamps is the real age as long as the age fits in 32 bits,
  whatever the stamps wrapped to.
\<close>

lemma unat_stamp_diff [word_time]:
  assumes "t \<le> now" and "now - t < 2 ^ 32"
  shows "unat ((of_nat now :: u32) - of_nat t) = now - t"
proof -
  have "(of_nat now :: u32) - of_nat t = of_nat (now - t)"
    using assms(1) by simp
  then show ?thesis
    using assms(2) by (simp add: unat_of_nat take_bit_nat_eq_self)
qed

lemma stamp_age_gt [word_time]:
  assumes "t \<le> now" and "now - t < 2 ^ 32"
  shows "(of_nat now :: u32) - of_nat t > b \<longleftrightarrow> now - t > unat b"
  using unat_stamp_diff [OF assms] by (simp add: word_less_nat_alt)

section \<open>Single bits\<close>

lemma and_bit_zero: "(v :: u32) AND push_bit n 1 = 0 \<longleftrightarrow> \<not> bit v n"
  by (simp add: push_bit_eq_mult and_exp_eq_0_iff_not_bit)

lemma bit_ucast_u8: "bit (ucast (v :: u32) :: u8) n \<longleftrightarrow> n < 8 \<and> bit v n"
  by (simp add: bit_unsigned_iff)

lemma sint_small: "unat (w :: u32) < 2 ^ 31 \<Longrightarrow> sint w = int (unat w)"
proof -
  assume "unat w < 2 ^ 31"
  then have "int (unat w) < int (2 ^ 31)" by (simp only: of_nat_less_iff)
  then have "uint w < 2 ^ 31" by simp
  moreover have "0 \<le> uint w" by simp
  then have "- (2 ^ 31) \<le> uint w" by (rule order_trans [rotated]) simp
  ultimately have "signed_take_bit 31 (uint w) = uint w" by (intro signed_take_bit_int_eq_self)
  then show ?thesis by (simp add: sint_uint)
qed

end
