(* ===== verification/Freshness.thy ===== *)
theory Freshness
  imports Warden_Prelude
begin

text \<open>
  The UI Freshness Contract engine, \<^verbatim>\<open>drivers/freshness/freshness.{h,c}\<close>: the pure decision
  \<^verbatim>\<open>warden_fresh_decide\<close>, \<^verbatim>\<open>refresh_one\<close>, and the operations on the static table \<^verbatim>\<open>s_vals\<close>. The
  producer and render callbacks of a binding are function pointers into code outside the engine:
  they are the environment argument \<open>fresh_env\<close> of every operation that calls them, and each call
  is recorded in order in \<open>calls\<close>. Callbacks do not re-enter the engine.
\<close>

section \<open>Data\<close>

text \<open>
  The results a producer may report. A callback returns a C \<^verbatim>\<open>int\<close>; a value that is none of the
  three enumerators takes the \<^verbatim>\<open>default:\<close> arm and is \<open>FRESH_RESULT_OTHER\<close>.
\<close>

datatype warden_fresh_result_t = FRESH_OK | FRESH_UNKNOWN | FRESH_SAME | FRESH_RESULT_OTHER int

datatype warden_fresh_render_t = FRESH_RENDER_VALUE | FRESH_RENDER_UNKNOWN | FRESH_RENDER_NOCHANGE

definition FRESH_UNKNOWN_MARK :: string where
  "FRESH_UNKNOWN_MARK = [char_of (226::nat), char_of (128::nat), char_of (148::nat)]"

definition FRESH_MAX :: nat where
  "FRESH_MAX = 96"

definition FRESH_BUFSZ :: nat where
  "FRESH_BUFSZ = 64"

record warden_fresh =
  page :: ptr
  produce :: ptr
  ud :: ptr
  max_stale_ms :: u32
  source :: "string option"
  render :: ptr
  widget :: ptr
  last_ok_ms :: u32
  last_str :: string
  ever_ok :: bool
  showing_unknown :: bool
  visible :: bool
  used :: bool

text \<open>A slot cleared by \<^verbatim>\<open>memset(v, 0, sizeof *v)\<close>, and the initial static table.\<close>

definition zero_slot :: warden_fresh where
  "zero_slot = \<lparr>page = NULL, produce = NULL, ud = NULL, max_stale_ms = 0, source = None,
     render = NULL, widget = NULL, last_ok_ms = 0, last_str = '''', ever_ok = False,
     showing_unknown = False, visible = False, used = False\<rparr>"

text \<open>
  Calling a producer \<open>fn\<close> with a buffer of \<open>n\<close> bytes and its user data gives its result, what it
  left in the buffer and the new outside world; calling a renderer changes only the outside world.
\<close>

record 'w fresh_env =
  call_produce :: "ptr \<Rightarrow> nat \<Rightarrow> ptr \<Rightarrow> 'w \<Rightarrow> warden_fresh_result_t \<times> string \<times> 'w"
  call_render :: "ptr \<Rightarrow> ptr \<Rightarrow> warden_fresh_render_t \<Rightarrow> string \<Rightarrow> ptr \<Rightarrow> 'w \<Rightarrow> 'w"

datatype fresh_call =
    Produced ptr ptr warden_fresh_result_t string
  | Rendered ptr ptr warden_fresh_render_t string ptr

record 'w fresh_io =
  world :: 'w
  calls :: "fresh_call list"

record 'w fresh_state =
  s_vals :: "warden_fresh list"
  fio :: "'w fresh_io"

section \<open>Operations\<close>

fun warden_fresh_decide ::
  "warden_fresh_result_t \<Rightarrow> bool \<Rightarrow> bool \<Rightarrow> u32 \<Rightarrow> u32 \<Rightarrow> warden_fresh_render_t" where
  "warden_fresh_decide FRESH_OK ever unk age max_stale = FRESH_RENDER_VALUE"
| "warden_fresh_decide FRESH_SAME ever unk age max_stale =
     (if unk then FRESH_RENDER_VALUE else FRESH_RENDER_NOCHANGE)"
| "warden_fresh_decide _ ever unk age max_stale =
     (if \<not> ever then FRESH_RENDER_UNKNOWN
      else if age > max_stale then FRESH_RENDER_UNKNOWN
      else FRESH_RENDER_NOCHANGE)"

definition do_render ::
  "'w fresh_env \<Rightarrow> warden_fresh \<Rightarrow> warden_fresh_render_t \<Rightarrow> string \<Rightarrow> 'w fresh_io \<Rightarrow> 'w fresh_io" where
  "do_render env v what buf i =
     i\<lparr>world := call_render env (render v) (widget v) what buf (ud v) (world i),
       calls := calls i @ [Rendered (render v) (widget v) what buf (ud v)]\<rparr>"

definition refresh_one ::
  "'w fresh_env \<Rightarrow> u32 \<Rightarrow> warden_fresh \<Rightarrow> 'w fresh_io \<Rightarrow> warden_fresh \<times> 'w fresh_io" where
  "refresh_one env now v i =
     (let (r, buf, w) = call_produce env (produce v) FRESH_BUFSZ (ud v) (world i);
          i1 = i\<lparr>world := w, calls := calls i @ [Produced (produce v) (ud v) r buf]\<rparr>;
          what = warden_fresh_decide r (ever_ok v) (showing_unknown v)
                   (now - last_ok_ms v) (max_stale_ms v);
          v1 = (if r = FRESH_OK then v\<lparr>last_str := snprintf_s FRESH_BUFSZ buf\<rparr> else v);
          v2 = (if r = FRESH_OK \<or> r = FRESH_SAME
                then v1\<lparr>last_ok_ms := now, ever_ok := True\<rparr> else v1)
      in case what of
           FRESH_RENDER_VALUE \<Rightarrow>
             (v2\<lparr>showing_unknown := False\<rparr>,
              do_render env v2 FRESH_RENDER_VALUE (if r = FRESH_OK then buf else last_str v2) i1)
         | FRESH_RENDER_UNKNOWN \<Rightarrow>
             (v2\<lparr>showing_unknown := True\<rparr>,
              do_render env v2 FRESH_RENDER_UNKNOWN FRESH_UNKNOWN_MARK i1)
         | FRESH_RENDER_NOCHANGE \<Rightarrow> (v2, i1))"

text \<open>The search of \<^verbatim>\<open>warden_fresh_bind\<close> for the first slot that is not used.\<close>

fun first_free :: "nat \<Rightarrow> warden_fresh list \<Rightarrow> nat option" where
  "first_free i [] = None"
| "first_free i (v # vs) = (if used v then first_free (Suc i) vs else Some i)"

text \<open>The slot as \<^verbatim>\<open>warden_fresh_bind\<close> leaves it: cleared, then filled in and marked visible and used.\<close>

definition bound_slot ::
  "ptr \<Rightarrow> ptr \<Rightarrow> ptr \<Rightarrow> u32 \<Rightarrow> string option \<Rightarrow> ptr \<Rightarrow> ptr \<Rightarrow> warden_fresh" where
  "bound_slot pg prod_fn udata stale src rend_fn wid =
     zero_slot\<lparr>page := pg, produce := prod_fn, ud := udata, max_stale_ms := stale, source := src,
       render := rend_fn, widget := wid, visible := True, used := True\<rparr>"

definition warden_fresh_bind ::
  "ptr \<Rightarrow> ptr \<Rightarrow> ptr \<Rightarrow> u32 \<Rightarrow> string option \<Rightarrow> ptr \<Rightarrow> ptr \<Rightarrow> 'w fresh_state
   \<Rightarrow> nat option \<times> 'w fresh_state" where
  "warden_fresh_bind pg prod_fn udata stale src rend_fn wid s =
     (if prod_fn = NULL \<or> rend_fn = NULL then (None, s)
      else case first_free 0 (s_vals s) of
             None \<Rightarrow> (None, s)
           | Some i \<Rightarrow>
               (Some i, s\<lparr>s_vals :=
                  (s_vals s)[i := bound_slot pg prod_fn udata stale src rend_fn wid]\<rparr>))"

definition warden_fresh_set_visible :: "ptr \<Rightarrow> bool \<Rightarrow> 'w fresh_state \<Rightarrow> 'w fresh_state" where
  "warden_fresh_set_visible pg vis s =
     s\<lparr>s_vals := map (\<lambda>v. if used v \<and> page v = pg then v\<lparr>visible := vis\<rparr> else v) (s_vals s)\<rparr>"

definition run_scan ::
  "(warden_fresh \<Rightarrow> 'w fresh_io \<Rightarrow> warden_fresh \<times> 'w fresh_io) \<Rightarrow> 'w fresh_state \<Rightarrow> 'w fresh_state" where
  "run_scan f s = (let (vs, i) = scan f (s_vals s) (fio s) in s\<lparr>s_vals := vs, fio := i\<rparr>)"

definition warden_fresh_page_show ::
  "'w fresh_env \<Rightarrow> ptr \<Rightarrow> u32 \<Rightarrow> 'w fresh_state \<Rightarrow> 'w fresh_state" where
  "warden_fresh_page_show env pg now =
     run_scan (\<lambda>v i. if used v \<and> page v = pg
                     then refresh_one env now (v\<lparr>visible := True\<rparr>) i else (v, i))"

definition warden_fresh_tick :: "'w fresh_env \<Rightarrow> u32 \<Rightarrow> 'w fresh_state \<Rightarrow> 'w fresh_state" where
  "warden_fresh_tick env now =
     run_scan (\<lambda>v i. if used v \<and> visible v then refresh_one env now v i else (v, i))"

definition warden_fresh_invalidate ::
  "'w fresh_env \<Rightarrow> string option \<Rightarrow> u32 \<Rightarrow> 'w fresh_state \<Rightarrow> 'w fresh_state" where
  "warden_fresh_invalidate env src now s =
     (case src of
        None \<Rightarrow> s
      | Some name \<Rightarrow>
          run_scan (\<lambda>v i. if used v \<and> visible v \<and> source v \<noteq> None \<and> source v = Some name
                          then refresh_one env now v i else (v, i)) s)"

definition warden_fresh_reset :: "'w fresh_state \<Rightarrow> 'w fresh_state" where
  "warden_fresh_reset s = s\<lparr>s_vals := replicate (length (s_vals s)) zero_slot\<rparr>"

definition warden_fresh_count :: "'w fresh_state \<Rightarrow> u32" where
  "warden_fresh_count s = foldl (\<lambda>n v. if used v then n + 1 else n) 0 (s_vals s)"

fun budget_step :: "u32 \<times> bool \<Rightarrow> warden_fresh \<Rightarrow> u32 \<times> bool" where
  "budget_step (best, seen) v =
     (if used v \<and> visible v \<and> (\<not> seen \<or> max_stale_ms v < best)
      then (max_stale_ms v, True) else (best, seen))"

definition warden_fresh_min_budget_ms :: "'w fresh_state \<Rightarrow> u32" where
  "warden_fresh_min_budget_ms s = fst (foldl budget_step (0, False) (s_vals s))"

section \<open>One refresh\<close>

text \<open>What a refresh never changes: everything the binding was declared with.\<close>

lemma refresh_one_frame [simp]:
  "page (fst (refresh_one env now v i)) = page v"
  "produce (fst (refresh_one env now v i)) = produce v"
  "ud (fst (refresh_one env now v i)) = ud v"
  "max_stale_ms (fst (refresh_one env now v i)) = max_stale_ms v"
  "source (fst (refresh_one env now v i)) = source v"
  "render (fst (refresh_one env now v i)) = render v"
  "widget (fst (refresh_one env now v i)) = widget v"
  "visible (fst (refresh_one env now v i)) = visible v"
  "used (fst (refresh_one env now v i)) = used v"
  by (auto simp: refresh_one_def Let_def split: prod.splits warden_fresh_render_t.splits)

text \<open>Either the widget shows the unknown mark, or the value it shows is within its budget.\<close>

definition fresh_at :: "u32 \<Rightarrow> warden_fresh \<Rightarrow> bool" where
  "fresh_at now v \<longleftrightarrow>
     showing_unknown v \<or> ever_ok v \<and> now - last_ok_ms v \<le> max_stale_ms v"

lemma decide_unknown_cases:
  assumes "r \<noteq> FRESH_OK" and "r \<noteq> FRESH_SAME"
  shows "warden_fresh_decide r ever unk age b =
           (if \<not> ever \<or> age > b then FRESH_RENDER_UNKNOWN else FRESH_RENDER_NOCHANGE)"
  using assms by (cases r) auto

lemma refresh_one_fresh: "fresh_at now (fst (refresh_one env now v i))"
proof -
  obtain r buf w where p: "call_produce env (produce v) FRESH_BUFSZ (ud v) (world i) = (r, buf, w)"
    by (cases "call_produce env (produce v) FRESH_BUFSZ (ud v) (world i)")
  show ?thesis
  proof (cases "r = FRESH_OK \<or> r = FRESH_SAME")
    case True
    then show ?thesis
      by (auto simp: refresh_one_def p fresh_at_def Let_def split: if_splits)
  next
    case False
    then have r: "r \<noteq> FRESH_OK" "r \<noteq> FRESH_SAME" by auto
    show ?thesis
      by (simp add: refresh_one_def p fresh_at_def Let_def decide_unknown_cases [OF r] r)
         (auto simp: not_less)
  qed
qed

text \<open>The producers a call sequence ran, and the values it painted.\<close>

fun producer_of :: "fresh_call \<Rightarrow> (ptr \<times> ptr) list" where
  "producer_of (Produced f u r buf) = [(f, u)]"
| "producer_of (Rendered f wid what buf u) = []"

definition producers :: "fresh_call list \<Rightarrow> (ptr \<times> ptr) list" where
  "producers cs = concat (map producer_of cs)"

lemma producers_append [simp]: "producers (xs @ ys) = producers xs @ producers ys"
  by (simp add: producers_def)

lemma producers_Cons [simp]: "producers (c # cs) = producer_of c @ producers cs"
  by (simp add: producers_def)

lemma producers_Nil [simp]: "producers [] = []"
  by (simp add: producers_def)

lemma refresh_one_producers [simp]:
  "producers (calls (snd (refresh_one env now v i))) = producers (calls i) @ [(produce v, ud v)]"
  by (auto simp: refresh_one_def do_render_def Let_def
      split: prod.splits warden_fresh_render_t.splits)

section \<open>The scans of the table\<close>

interpretation tick_scan: slot_scan "\<lambda>v. used v \<and> visible v" "refresh_one env now"
    "\<lambda>i. producers (calls i)" "\<lambda>v. (produce v, ud v)" for env now
  by unfold_locales simp

interpretation show_scan: slot_scan "\<lambda>v. used v \<and> page v = pg"
    "\<lambda>v i. refresh_one env now (v\<lparr>visible := True\<rparr>) i"
    "\<lambda>i. producers (calls i)" "\<lambda>v. (produce v, ud v)" for env now pg
  by unfold_locales simp

interpretation inval_scan: slot_scan
    "\<lambda>v. used v \<and> visible v \<and> source v \<noteq> None \<and> source v = Some name"
    "refresh_one env now"
    "\<lambda>i. producers (calls i)" "\<lambda>v. (produce v, ud v)" for env now name
  by unfold_locales simp

lemma run_scan_simps [simp]:
  "s_vals (run_scan f s) = fst (scan f (s_vals s) (fio s))"
  "fio (run_scan f s) = snd (scan f (s_vals s) (fio s))"
  by (simp_all add: run_scan_def split_beta)

lemmas fresh_scan_defs =
  warden_fresh_tick_def warden_fresh_page_show_def warden_fresh_invalidate_def

text \<open>A selected slot after the scan is its refresh, from some state of the outside world.\<close>

lemma tick_slot:
  assumes "i < length (s_vals s)" and "used (s_vals s ! i)" and "visible (s_vals s ! i)"
  shows "\<exists>j. s_vals (warden_fresh_tick env now s) ! i = fst (refresh_one env now (s_vals s ! i) j)"
  using tick_scan.touched [OF assms(1) conjI [OF assms(2,3)]]
  by (simp only: fresh_scan_defs run_scan_simps)

lemma show_slot:
  assumes "i < length (s_vals s)" and "used (s_vals s ! i)" and "page (s_vals s ! i) = pg"
  shows "\<exists>j. s_vals (warden_fresh_page_show env pg now s) ! i =
           fst (refresh_one env now ((s_vals s ! i)\<lparr>visible := True\<rparr>) j)"
  using show_scan.touched [OF assms(1) conjI [OF assms(2,3)]]
  by (simp only: fresh_scan_defs run_scan_simps)

lemma inval_slot:
  assumes "i < length (s_vals s)" and "used (s_vals s ! i)" and "visible (s_vals s ! i)"
    and "source (s_vals s ! i) = Some name"
  shows "\<exists>j. s_vals (warden_fresh_invalidate env (Some name) now s) ! i =
           fst (refresh_one env now (s_vals s ! i) j)"
proof -
  from assms(2-) have "used (s_vals s ! i) \<and> visible (s_vals s ! i) \<and>
      source (s_vals s ! i) \<noteq> None \<and> source (s_vals s ! i) = Some name" by simp
  from inval_scan.touched [OF assms(1) this] show ?thesis
    by (simp only: fresh_scan_defs run_scan_simps option.case)
qed

section \<open>The freshness contract\<close>



section \<open>Reachable engine states\<close>

text \<open>
  The engine runs on one thread, so a run is a sequence of the public calls, in any order and with
  any arguments, from the zeroed static table.
\<close>

inductive fresh_reach :: "'w fresh_env \<Rightarrow> nat \<Rightarrow> 'w fresh_state \<Rightarrow> bool" for env n where
  start: "fresh_reach env n \<lparr>s_vals = replicate n zero_slot, fio = \<lparr>world = w, calls = []\<rparr>\<rparr>"
| bind: "fresh_reach env n s \<Longrightarrow>
    fresh_reach env n (snd (warden_fresh_bind pg p u b src r wid s))"
| set_visible: "fresh_reach env n s \<Longrightarrow> fresh_reach env n (warden_fresh_set_visible pg vis s)"
| page_show: "fresh_reach env n s \<Longrightarrow> fresh_reach env n (warden_fresh_page_show env pg now s)"
| tick: "fresh_reach env n s \<Longrightarrow> fresh_reach env n (warden_fresh_tick env now s)"
| invalidate: "fresh_reach env n s \<Longrightarrow> fresh_reach env n (warden_fresh_invalidate env src now s)"
| reset: "fresh_reach env n s \<Longrightarrow> fresh_reach env n (warden_fresh_reset s)"

definition slot_ok :: "warden_fresh \<Rightarrow> bool" where
  "slot_ok v \<longleftrightarrow>
     (if used v then produce v \<noteq> NULL \<and> render v \<noteq> NULL else v = zero_slot) \<and>
     length (last_str v) < FRESH_BUFSZ \<and>
     (\<not> ever_ok v \<longrightarrow> last_str v = '''' \<and> last_ok_ms v = 0)"

fun call_ok :: "fresh_call \<Rightarrow> bool" where
  "call_ok (Produced f u r buf) \<longleftrightarrow> f \<noteq> NULL"
| "call_ok (Rendered f wid what buf u) \<longleftrightarrow>
     f \<noteq> NULL \<and> what \<noteq> FRESH_RENDER_NOCHANGE \<and>
     (what = FRESH_RENDER_UNKNOWN \<longrightarrow> buf = FRESH_UNKNOWN_MARK)"

definition io_ok :: "'w fresh_io \<Rightarrow> bool" where
  "io_ok i \<longleftrightarrow> list_all call_ok (calls i)"

lemma slot_ok_zero [simp]: "slot_ok zero_slot"
  by (simp add: slot_ok_def zero_slot_def FRESH_BUFSZ_def)

lemma refresh_one_ok:
  assumes "slot_ok v" and "used v" and "io_ok i"
  shows "slot_ok (fst (refresh_one env now v i)) \<and> io_ok (snd (refresh_one env now v i))"
proof -
  obtain r buf w where p: "call_produce env (produce v) FRESH_BUFSZ (ud v) (world i) = (r, buf, w)"
    by (cases "call_produce env (produce v) FRESH_BUFSZ (ud v) (world i)")
  have len: "length (snprintf_s FRESH_BUFSZ buf) < FRESH_BUFSZ"
    by (rule length_snprintf_s) (simp add: FRESH_BUFSZ_def)
  show ?thesis
    using assms len
    by (cases r) (auto simp: refresh_one_def p do_render_def Let_def slot_ok_def io_ok_def)
qed

lemma visible_update_ok: "slot_ok v \<Longrightarrow> used v \<Longrightarrow> slot_ok (v\<lparr>visible := b\<rparr>)"
  by (simp add: slot_ok_def)

lemma guarded_scan_ok:
  assumes "\<forall>v \<in> set (s_vals s). slot_ok v" and "io_ok (fio s)"
    and "\<And>v i. slot_ok v \<Longrightarrow> io_ok i \<Longrightarrow> slot_ok (fst (f v i)) \<and> io_ok (snd (f v i))"
  shows "(\<forall>v \<in> set (s_vals (run_scan f s)). slot_ok v) \<and> io_ok (fio (run_scan f s))"
  using scan_invariant [of slot_ok io_ok f "s_vals s" "fio s"] assms by auto

lemma first_free_Some:
  "first_free k vs = Some i \<Longrightarrow>
     k \<le> i \<and> i < k + length vs \<and> \<not> used (vs ! (i - k)) \<and> (\<forall>j < i - k. used (vs ! j))"
proof (induction vs arbitrary: k)
  case Nil
  then show ?case by simp
next
  case (Cons v vs)
  show ?case
  proof (cases "used v")
    case False
    with Cons.prems show ?thesis by simp
  next
    case True
    with Cons.prems have f: "first_free (Suc k) vs = Some i" by simp
    from Cons.IH [OF this] True show ?thesis
      by (auto simp: nth_Cons' less_Suc_eq_0_disj split: nat.splits)
  qed
qed

lemma first_free_None: "first_free k vs = None \<longleftrightarrow> (\<forall>v \<in> set vs. used v)"
  by (induction vs arbitrary: k) auto

lemma fresh_reach_inv:
  "fresh_reach env n s \<Longrightarrow>
     length (s_vals s) = n \<and> (\<forall>v \<in> set (s_vals s). slot_ok v) \<and> io_ok (fio s)"
proof (induction rule: fresh_reach.induct)
  case (start w)
  then show ?case by (auto simp: io_ok_def)
next
  case (bind s pg p u b src r wid)
  have "slot_ok (bound_slot pg p u b src r wid)" if "p \<noteq> NULL" "r \<noteq> NULL"
    using that by (simp add: slot_ok_def bound_slot_def zero_slot_def FRESH_BUFSZ_def)
  with bind show ?case
    by (auto simp: warden_fresh_bind_def split: option.splits dest!: set_update_subset_insert [THEN subsetD])
next
  case (set_visible s pg vis)
  then show ?case
    by (auto simp: warden_fresh_set_visible_def visible_update_ok)
next
  case (page_show s pg now)
  then have "(\<forall>v \<in> set (s_vals (warden_fresh_page_show env pg now s)). slot_ok v) \<and>
      io_ok (fio (warden_fresh_page_show env pg now s))"
    unfolding warden_fresh_page_show_def
    by (intro guarded_scan_ok) (auto simp: visible_update_ok refresh_one_ok)
  with page_show show ?case by (simp add: warden_fresh_page_show_def)
next
  case (tick s now)
  then have "(\<forall>v \<in> set (s_vals (warden_fresh_tick env now s)). slot_ok v) \<and>
      io_ok (fio (warden_fresh_tick env now s))"
    unfolding warden_fresh_tick_def by (intro guarded_scan_ok) (auto simp: refresh_one_ok)
  with tick show ?case by (simp add: warden_fresh_tick_def)
next
  case (invalidate s src now)
  show ?case
  proof (cases src)
    case None
    with invalidate show ?thesis by (simp add: warden_fresh_invalidate_def)
  next
    case (Some name)
    with invalidate have "(\<forall>v \<in> set (s_vals (warden_fresh_invalidate env src now s)). slot_ok v) \<and>
        io_ok (fio (warden_fresh_invalidate env src now s))"
      unfolding warden_fresh_invalidate_def Some option.case
      by (intro guarded_scan_ok) (auto simp: refresh_one_ok)
    with invalidate Some show ?thesis by (simp add: warden_fresh_invalidate_def)
  qed
next
  case (reset s)
  then show ?case by (auto simp: warden_fresh_reset_def)
qed


section \<open>Refinement of a contract with unbounded time\<close>

text \<open>
  What a technician sees on a widget, and the contract of one binding stated with real time: the
  last confirmation is a natural number of milliseconds that never wraps.
\<close>

datatype display = Blank | Shows string | Unknown

fun display_step :: "display \<Rightarrow> fresh_call \<Rightarrow> display" where
  "display_step d (Rendered f wid FRESH_RENDER_VALUE buf u) = Shows buf"
| "display_step d (Rendered f wid FRESH_RENDER_UNKNOWN buf u) = Unknown"
| "display_step d _ = d"

definition display_of :: "fresh_call list \<Rightarrow> display" where
  "display_of cs = foldl display_step Blank cs"

record fresh_spec =
  last_ok :: "nat option"
  good :: string
  shown :: display

definition spec_init :: fresh_spec where
  "spec_init = \<lparr>last_ok = None, good = '''', shown = Blank\<rparr>"

definition too_old :: "nat \<Rightarrow> nat \<Rightarrow> nat option \<Rightarrow> bool" where
  "too_old budget now lo = (case lo of None \<Rightarrow> True | Some t \<Rightarrow> now - t > budget)"

fun spec_refresh ::
  "nat \<Rightarrow> nat \<Rightarrow> warden_fresh_result_t \<Rightarrow> string \<Rightarrow> fresh_spec \<Rightarrow> fresh_spec" where
  "spec_refresh budget now FRESH_OK buf a = \<lparr>last_ok = Some now, good = buf, shown = Shows buf\<rparr>"
| "spec_refresh budget now FRESH_SAME buf a =
     a\<lparr>last_ok := Some now, shown := (if shown a = Unknown then Shows (good a) else shown a)\<rparr>"
| "spec_refresh budget now _ buf a =
     (if too_old budget now (last_ok a) then a\<lparr>shown := Unknown\<rparr> else a)"

text \<open>
  The simulation: the 32-bit stamp is the real time modulo \<open>2 ^ 32\<close>, and \<open>showing_unknown\<close> is
  what the display shows.
\<close>

definition fresh_rel :: "warden_fresh \<Rightarrow> 'w fresh_io \<Rightarrow> fresh_spec \<Rightarrow> bool" where
  "fresh_rel v i a \<longleftrightarrow>
     ever_ok v = (last_ok a \<noteq> None) \<and>
     (\<forall>t. last_ok a = Some t \<longrightarrow> last_ok_ms v = of_nat t) \<and>
     last_str v = good a \<and>
     showing_unknown v = (shown a = Unknown) \<and>
     display_of (calls i) = shown a"

lemma display_of_append [simp]: "display_of (cs @ [c]) = display_step (display_of cs) c"
  by (simp add: display_of_def)

lemma display_of_append2 [simp]:
  "display_of (cs @ [c, d]) = display_step (display_step (display_of cs) c) d"
  by (simp add: display_of_def)

text \<open>The age that the code computes decides staleness as the real age does.\<close>

definition age_visible :: "nat \<Rightarrow> fresh_spec \<Rightarrow> bool" where
  "age_visible now a \<longleftrightarrow>
     (\<forall>t. last_ok a = Some t \<longrightarrow> t \<le> now \<and> (now - t < 2 ^ 32 \<or> shown a = Unknown))"

lemma refresh_one_simulates:
  assumes rel: "fresh_rel v i a" and age: "age_visible now a"
    and p: "call_produce env (produce v) FRESH_BUFSZ (ud v) (world i) = (r, buf, w)"
    and len: "length buf < FRESH_BUFSZ"
  shows "fresh_rel (fst (refresh_one env (of_nat now) v i)) (snd (refresh_one env (of_nat now) v i))
           (spec_refresh (unat (max_stale_ms v)) now r buf a)"
proof (cases "r = FRESH_OK \<or> r = FRESH_SAME")
  case True
  with rel len show ?thesis
    by (auto simp: refresh_one_def p do_render_def fresh_rel_def Let_def c_string)
next
  case False
  then have r: "r \<noteq> FRESH_OK" "r \<noteq> FRESH_SAME" by auto
  have spec: "spec_refresh (unat (max_stale_ms v)) now r buf a =
      (if too_old (unat (max_stale_ms v)) now (last_ok a) then a\<lparr>shown := Unknown\<rparr> else a)"
    using r by (cases r) auto
  show ?thesis
  proof (cases "last_ok a")
    case None
    with rel show ?thesis
      by (auto simp: refresh_one_def p do_render_def fresh_rel_def Let_def spec r
          decide_unknown_cases [OF r] too_old_def)
  next
    case (Some t)
    with age have t: "t \<le> now" "now - t < 2 ^ 32 \<or> shown a = Unknown"
      by (auto simp: age_visible_def)
    have stamp: "last_ok_ms v = of_nat t" and ever: "ever_ok v"
      using rel Some by (auto simp: fresh_rel_def)
    show ?thesis
    proof (cases "now - t < 2 ^ 32")
      case True
      with rel Some show ?thesis
        by (auto simp: refresh_one_def p do_render_def fresh_rel_def Let_def spec r
            decide_unknown_cases [OF r] too_old_def stamp ever stamp_age_gt [OF t(1) True])
    next
      case False
      with t have unk: "shown a = Unknown" by simp
      then have spec': "spec_refresh (unat (max_stale_ms v)) now r buf a = a"
        by (simp add: spec)
      from unk rel show ?thesis
        by (auto simp: refresh_one_def p do_render_def fresh_rel_def Let_def spec' r
            decide_unknown_cases [OF r])
    qed
  qed
qed

text \<open>A binding refreshed at the real times \<open>ts\<close>, and the abstract contract run on what the producer said.\<close>

fun refresh_run ::
  "'w fresh_env \<Rightarrow> nat list \<Rightarrow> warden_fresh \<Rightarrow> 'w fresh_io \<Rightarrow> warden_fresh \<times> 'w fresh_io" where
  "refresh_run env [] v i = (v, i)"
| "refresh_run env (t # ts) v i =
     (let (v1, i1) = refresh_one env (of_nat t) v i in refresh_run env ts v1 i1)"

fun result_of :: "fresh_call \<Rightarrow> (warden_fresh_result_t \<times> string) list" where
  "result_of (Produced f u r buf) = [(r, buf)]"
| "result_of (Rendered f wid what buf u) = []"

definition results :: "fresh_call list \<Rightarrow> (warden_fresh_result_t \<times> string) list" where
  "results cs = concat (map result_of cs)"

fun spec_run ::
  "nat \<Rightarrow> (nat \<times> warden_fresh_result_t \<times> string) list \<Rightarrow> fresh_spec \<Rightarrow> fresh_spec" where
  "spec_run b [] a = a"
| "spec_run b ((t, r, buf) # obs) a = spec_run b obs (spec_refresh b t r buf a)"

fun paced :: "nat \<Rightarrow> nat \<Rightarrow> nat list \<Rightarrow> bool" where
  "paced g prev [] = True"
| "paced g prev (t # ts) = (prev \<le> t \<and> t - prev \<le> g \<and> paced g t ts)"

definition bounded_producers :: "'w fresh_env \<Rightarrow> bool" where
  "bounded_producers env \<longleftrightarrow>
     (\<forall>f n u w. 0 < n \<longrightarrow> length (fst (snd (call_produce env f n u w))) < n)"

lemma bounded_producersD:
  "bounded_producers env \<Longrightarrow> length (fst (snd (call_produce env f FRESH_BUFSZ u w))) < FRESH_BUFSZ"
  unfolding bounded_producers_def by (drule spec [of _ f], drule spec [of _ FRESH_BUFSZ])
    (simp add: FRESH_BUFSZ_def)

text \<open>Abstract invariant: a value on display was confirmed within the budget of the last refresh.\<close>

definition spec_fresh :: "nat \<Rightarrow> nat \<Rightarrow> fresh_spec \<Rightarrow> bool" where
  "spec_fresh b now a \<longleftrightarrow>
     (\<forall>t. last_ok a = Some t \<longrightarrow> t \<le> now \<and> (shown a = Unknown \<or> now - t \<le> b)) \<and>
     (last_ok a = None \<longrightarrow> shown a \<in> {Blank, Unknown})"

lemma spec_refresh_fresh:
  assumes "spec_fresh b prev a" and "prev \<le> now"
  shows "spec_fresh b now (spec_refresh b now r buf a)"
  using assms by (cases r) (auto simp: spec_fresh_def too_old_def split: option.splits)

lemma spec_fresh_age_visible:
  assumes "spec_fresh b prev a" and "prev \<le> now" and "now - prev \<le> g" and "b + g < 2 ^ 32"
  shows "age_visible now a"
  unfolding age_visible_def
proof (intro allI impI)
  fix t assume "last_ok a = Some t"
  with assms(1) have "t \<le> prev" "shown a = Unknown \<or> prev - t \<le> b"
    by (auto simp: spec_fresh_def)
  with assms(2-) show "t \<le> now \<and> (now - t < 2 ^ 32 \<or> shown a = Unknown)"
    by linarith
qed

lemma results_refresh_one:
  assumes "call_produce env (produce v) FRESH_BUFSZ (ud v) (world i) = (r, buf, w)"
  shows "results (calls (snd (refresh_one env now v i))) = results (calls i) @ [(r, buf)]"
  using assms
  by (auto simp: refresh_one_def do_render_def Let_def results_def
      split: warden_fresh_render_t.splits)

lemma refresh_run_simulates:
  assumes "bounded_producers env" and "fresh_rel v i a" and "spec_fresh (unat (max_stale_ms v)) prev a"
    and "paced g prev ts" and "unat (max_stale_ms v) + g < 2 ^ 32"
  shows "\<exists>obs. map fst obs = ts \<and>
      results (calls (snd (refresh_run env ts v i))) = results (calls i) @ map snd obs \<and>
      fresh_rel (fst (refresh_run env ts v i)) (snd (refresh_run env ts v i))
        (spec_run (unat (max_stale_ms v)) obs a) \<and>
      spec_fresh (unat (max_stale_ms v)) (last (prev # ts)) (spec_run (unat (max_stale_ms v)) obs a)"
  using assms(2-)
proof (induction ts arbitrary: v i a prev)
  case Nil
  then show ?case by (auto intro!: exI [of _ "[]"])
next
  case (Cons t ts)
  let ?b = "unat (max_stale_ms v)"
  obtain r buf w where p: "call_produce env (produce v) FRESH_BUFSZ (ud v) (world i) = (r, buf, w)"
    by (cases "call_produce env (produce v) FRESH_BUFSZ (ud v) (world i)")
  obtain v1 i1 where one: "refresh_one env (of_nat t) v i = (v1, i1)"
    by (cases "refresh_one env (of_nat t) v i")
  have len: "length buf < FRESH_BUFSZ"
    using bounded_producersD [OF assms(1), of "produce v" "ud v" "world i"] p by simp
  have stale: "max_stale_ms v1 = max_stale_ms v"
    using refresh_one_frame(4) [of env "of_nat t" v i] one by simp
  have vis: "age_visible t a"
    using Cons.prems by (auto intro: spec_fresh_age_visible)
  have rel1: "fresh_rel v1 i1 (spec_refresh ?b t r buf a)"
    using refresh_one_simulates [OF Cons.prems(1) vis p len] one by simp
  have fr1: "spec_fresh ?b t (spec_refresh ?b t r buf a)"
    using Cons.prems by (auto intro: spec_refresh_fresh)
  have res1: "results (calls i1) = results (calls i) @ [(r, buf)]"
    using results_refresh_one [OF p, of "of_nat t"] one by simp
  obtain obs where "map fst obs = ts"
    "results (calls (snd (refresh_run env ts v1 i1))) = results (calls i1) @ map snd obs"
    "fresh_rel (fst (refresh_run env ts v1 i1)) (snd (refresh_run env ts v1 i1))
        (spec_run ?b obs (spec_refresh ?b t r buf a))"
    "spec_fresh ?b (last (t # ts)) (spec_run ?b obs (spec_refresh ?b t r buf a))"
    using Cons.IH [of v1 i1 "spec_refresh ?b t r buf a" t] rel1 fr1 Cons.prems(3,4)
    unfolding stale by auto
  then show ?case
    by (intro exI [of _ "(t, r, buf) # obs"]) (auto simp: one res1)
qed

lemma spec_run_last_ok:
  "last_ok (spec_run b obs a) = Some t \<Longrightarrow> last_ok a = Some t \<or>
     (\<exists>k < length obs. fst (obs ! k) = t \<and> fst (snd (obs ! k)) \<in> {FRESH_OK, FRESH_SAME})"
proof (induction b obs a rule: spec_run.induct)
  case (1 b a)
  then show ?case by simp
next
  case (2 b t' r buf obs a)
  from "2.IH" [OF "2.prems" [unfolded spec_run.simps]]
  consider (here) "last_ok (spec_refresh b t' r buf a) = Some t"
    | (later) k where "k < length obs" "fst (obs ! k) = t" "fst (snd (obs ! k)) \<in> {FRESH_OK, FRESH_SAME}"
    by blast
  then show ?case
  proof cases
    case here
    then show ?thesis
      by (cases r) (auto split: if_splits intro!: exI [of _ 0])
  next
    case later
    then show ?thesis by (intro disjI2 exI [of _ "Suc k"]) auto
  qed
qed

lemma bound_slot_rel:
  "fresh_rel (bound_slot pg p u b src r wid) \<lparr>world = w, calls = []\<rparr> spec_init"
  by (simp add: fresh_rel_def bound_slot_def zero_slot_def spec_init_def display_of_def)

lemma spec_init_fresh: "spec_fresh b t spec_init"
  by (simp add: spec_fresh_def spec_init_def)

lemma max_stale_bound_slot [simp]: "max_stale_ms (bound_slot pg p u b src r wid) = b"
  by (simp add: bound_slot_def)

lemma bound_run:
  assumes "bounded_producers env" and "paced g t0 ts" and "unat b + g < 2 ^ 32"
    and "refresh_run env ts (bound_slot pg p u b src r wid) \<lparr>world = w, calls = []\<rparr> = (v', i')"
  shows "fresh_rel v' i' (spec_run (unat b) (zip ts (results (calls i'))) spec_init) \<and>
    spec_fresh (unat b) (last (t0 # ts)) (spec_run (unat b) (zip ts (results (calls i'))) spec_init) \<and>
    length (results (calls i')) = length ts"
proof -
  let ?v = "bound_slot pg p u b src r wid"
  obtain obs where obs: "map fst obs = ts" "results (calls i') = map snd obs"
    "fresh_rel v' i' (spec_run (unat b) obs spec_init)"
    "spec_fresh (unat b) (last (t0 # ts)) (spec_run (unat b) obs spec_init)"
    using refresh_run_simulates [OF assms(1) bound_slot_rel [of pg p u b src r wid w]
        spec_init_fresh assms(2)] assms(3,4) by (auto simp: results_def)
  have "zip ts (results (calls i')) = obs"
    using obs(1,2) zip_map_fst_snd [of obs] by simp
  with obs show ?thesis by (metis length_map)
qed

text \<open>C5 (fresh_refines_unbounded): the engine implements the contract stated with unbounded real
  time. A binding refreshed at any increasing real times, as long as two refreshes are never
  further apart than \<open>g\<close> with budget \<open>+ g < 2 ^ 32\<close> ms, shows on its widget exactly what the
  contract prescribes for the results its producer reported, although the code only keeps 32-bit
  stamps that wrap every 49.7 days.\<close>

theorem fresh_refines_unbounded:
  assumes "bounded_producers env" and "paced g t0 ts" and "unat b + g < 2 ^ 32"
    and "refresh_run env ts (bound_slot pg p u b src r wid) \<lparr>world = w, calls = []\<rparr> = (v', i')"
  shows "display_of (calls i') =
      shown (spec_run (unat b) (zip ts (results (calls i'))) spec_init)"
  using bound_run [OF assms] by (simp add: fresh_rel_def)


section \<open>Binding, counting and the shared tick period\<close>

lemma count_foldl:
  "foldl (\<lambda>n v. if used v then n + 1 else n) (k :: u32) vs = k + of_nat (length (filter used vs))"
  by (induction vs arbitrary: k) (simp_all add: algebra_simps)

text \<open>Binding. With a \<^verbatim>\<open>NULL\<close> callback or a full table nothing changes
  and \<^verbatim>\<open>NULL\<close> is returned; otherwise the first free slot, and only it, receives the binding, hidden
  state cleared, and the number of live bindings grows by one.\<close>

theorem warden_fresh_bind_spec:
  assumes "warden_fresh_bind pg p u b src r wid s = (res, s')"
  shows "(res = None \<longleftrightarrow> p = NULL \<or> r = NULL \<or> (\<forall>v \<in> set (s_vals s). used v)) \<and>
    (res = None \<longrightarrow> s' = s) \<and>
    (\<forall>i. res = Some i \<longrightarrow> i < length (s_vals s) \<and> \<not> used (s_vals s ! i) \<and>
       (\<forall>j < i. used (s_vals s ! j)) \<and>
       s_vals s' = (s_vals s)[i := bound_slot pg p u b src r wid] \<and> fio s' = fio s \<and>
       warden_fresh_count s' = warden_fresh_count s + 1)"
proof (cases "p = NULL \<or> r = NULL")
  case True
  with assms show ?thesis by (auto simp: warden_fresh_bind_def)
next
  case nn: False
  show ?thesis
  proof (cases "first_free 0 (s_vals s)")
    case None
    with assms nn show ?thesis by (auto simp: warden_fresh_bind_def first_free_None)
  next
    case (Some i)
    note ff = first_free_Some [OF Some, simplified]
    have res: "res = Some i" "s' = s\<lparr>s_vals := (s_vals s)[i := bound_slot pg p u b src r wid]\<rparr>"
      using assms nn Some by (auto simp: warden_fresh_bind_def)
    have "length (filter used (s_vals s')) = Suc (length (filter used (s_vals s)))"
      using ff length_filter_update [of i "s_vals s" used] by (simp add: res bound_slot_def)
    then have "warden_fresh_count s' = warden_fresh_count s + 1"
      by (simp add: warden_fresh_count_def count_foldl)
    moreover have "\<not> (\<forall>v \<in> set (s_vals s). used v)"
      using ff by auto
    ultimately show ?thesis using res ff nn by auto
  qed
qed

abbreviation live :: "warden_fresh \<Rightarrow> bool" where
  "live v \<equiv> used v \<and> visible v"

lemma budget_fold_seen:
  "foldl budget_step (k, True) vs = (fold min (map max_stale_ms (filter live vs)) k, True)"
  by (induction vs arbitrary: k) (auto simp: min_def)

lemma budget_fold:
  "fst (foldl budget_step (0, False) vs) =
     (case map max_stale_ms (filter live vs) of [] \<Rightarrow> 0 | m # ms \<Rightarrow> fold min ms m)"
  by (induction vs) (simp_all add: budget_fold_seen)

text \<open>The budget that sizes the shared tick is the minimum over
  the used and visible bindings, and 0 when there is none; a zero-tolerance binding wins, it is
  not mistaken for the empty case.\<close>

theorem warden_fresh_min_budget_spec:
  "warden_fresh_min_budget_ms s =
     (if \<exists>v \<in> set (s_vals s). used v \<and> visible v
      then Min (max_stale_ms ` {v \<in> set (s_vals s). used v \<and> visible v}) else 0)"
proof (cases "filter live (s_vals s)")
  case Nil
  then show ?thesis
    by (auto simp: warden_fresh_min_budget_ms_def budget_fold filter_empty_conv)
next
  case (Cons v vs)
  have "warden_fresh_min_budget_ms s = Min (set (map max_stale_ms (filter live (s_vals s))))"
    using Min.set_eq_fold [of "max_stale_ms v" "map max_stale_ms vs"]
    by (simp add: warden_fresh_min_budget_ms_def budget_fold Cons)
  moreover have "v \<in> set (filter live (s_vals s))"
    using Cons by simp
  then have "\<exists>v \<in> set (s_vals s). live v" by auto
  ultimately show ?thesis by simp
qed

section \<open>Limits of the 32-bit clock and of \<^verbatim>\<open>FRESH_SAME\<close>\<close>

text \<open>
  A scripted environment: the producer reports the next result of a script kept in the world, in
  the manner of the programmable fakes of the test harness; renderers change nothing.
\<close>

definition script_env :: "(warden_fresh_result_t \<times> string) list fresh_env" where
  "script_env = \<lparr>
     call_produce = (\<lambda>f n u w. case w of
         [] \<Rightarrow> (FRESH_UNKNOWN, '''', [])
       | (r, buf) # rest \<Rightarrow> (r, snprintf_s n buf, rest)),
     call_render = (\<lambda>f wid what buf u w. w)\<rparr>"

lemma script_env_simps [simp]:
  "call_produce script_env f n u [] = (FRESH_UNKNOWN, '''', [])"
  "call_produce script_env f n u ((r, buf) # rest) = (r, snprintf_s n buf, rest)"
  "call_render script_env f wid what buf u w = w"
  by (simp_all add: script_env_def)

lemma bounded_script_env: "bounded_producers script_env"
  unfolding bounded_producers_def
  by (auto simp: script_env_def snprintf_s_def split: list.splits)

text \<open>The pacing hypothesis is needed. A value confirmed once, on a page that
  is then not refreshed for a little over \<open>2 ^ 32\<close> ms, passes as fresh: with a budget of 100 ms the
  widget still shows the confident value \<open>42\<close> at a refresh whose producer reports the source
  unavailable, when the value is \<open>2 ^ 32 + 50\<close> ms old.\<close>

theorem fresh_wrap_alias:
  "display_of (calls (snd (refresh_run script_env [0, 2 ^ 32 + 50]
     (bound_slot 1 2 3 100 None 4 5)
     \<lparr>world = [(FRESH_OK, ''42''), (FRESH_UNKNOWN, '''')], calls = []\<rparr>))) = Shows ''42'' \<and>
   \<not> (2 ^ 32 + 50 - 0 \<le> unat (100 :: u32))"
  by (simp add: refresh_one_def do_render_def display_of_def bound_slot_def zero_slot_def
      snprintf_s_def FRESH_BUFSZ_def)

text \<open>A binding whose producer reports \<^verbatim>\<open>FRESH_SAME\<close> from its first
  refresh on is never painted, however often it is refreshed: the widget stays blank while the
  engine counts the value as good.\<close>

theorem fresh_same_never_paints:
  assumes "\<And>f n u w. fst (call_produce env f n u w) = FRESH_SAME"
    and "refresh_run env ts (bound_slot pg p u b src r wid) \<lparr>world = w, calls = []\<rparr> = (v', i')"
  shows "display_of (calls i') = Blank \<and> (ts \<noteq> [] \<longrightarrow> ever_ok v')"
proof -
  have step: "display_of (calls (snd (refresh_one env now v i))) = display_of (calls i) \<and>
      ever_ok (fst (refresh_one env now v i)) \<and>
      \<not> showing_unknown (fst (refresh_one env now v i))"
    if "\<not> showing_unknown v" for now v and i :: "'a fresh_io"
    using that assms(1) [of "produce v" FRESH_BUFSZ "ud v" "world i"]
    by (auto simp: refresh_one_def Let_def split: prod.splits)
  have "display_of (calls (snd (refresh_run env ts v i))) = display_of (calls i) \<and>
      (ts \<noteq> [] \<or> ever_ok v \<longrightarrow> ever_ok (fst (refresh_run env ts v i)))"
    if "\<not> showing_unknown v" for v and i :: "'a fresh_io"
    using that
  proof (induction ts arbitrary: v i)
    case Nil
    then show ?case by simp
  next
    case (Cons t ts)
    from step [OF Cons.prems, of "of_nat t" i] Cons.IH [of "fst (refresh_one env (of_nat t) v i)"
        "snd (refresh_one env (of_nat t) v i)"]
    show ?case by (simp add: split_beta)
  qed
  from this [of "bound_slot pg p u b src r wid" "\<lparr>world = w, calls = []\<rparr>"] assms(2)
  show ?thesis by (simp add: bound_slot_def zero_slot_def display_of_def)
qed

section \<open>Witnesses\<close>

definition demo_fresh :: "(warden_fresh_result_t \<times> string) list fresh_state" where
  "demo_fresh = \<lparr>s_vals = [bound_slot 1 2 3 100 (Some ''net'') 4 5],
     fio = \<lparr>world = [(FRESH_OK, ''7'')], calls = []\<rparr>\<rparr>"

lemma demo_fresh_simps [simp]:
  "length (s_vals demo_fresh) = 1"
  "used (s_vals demo_fresh ! 0)" "visible (s_vals demo_fresh ! 0)"
  "page (s_vals demo_fresh ! 0) = 1" "source (s_vals demo_fresh ! 0) = Some ''net''"
  by (simp_all add: demo_fresh_def bound_slot_def)




theorem fresh_refines_unbounded_witness:
  "bounded_producers script_env \<and> paced 1000 0 [10, 60, 500] \<and> unat (100 :: u32) + 1000 < 2 ^ 32 \<and>
   display_of (calls (snd (refresh_run script_env [10, 60, 500] (bound_slot 1 2 3 100 None 4 5)
     \<lparr>world = [(FRESH_OK, ''42''), (FRESH_UNKNOWN, ''''), (FRESH_UNKNOWN, '''')], calls = []\<rparr>))) =
   shown (spec_run 100 (zip [10, 60, 500] (results (calls (snd (refresh_run script_env [10, 60, 500]
     (bound_slot 1 2 3 100 None 4 5)
     \<lparr>world = [(FRESH_OK, ''42''), (FRESH_UNKNOWN, ''''), (FRESH_UNKNOWN, '''')], calls = []\<rparr>)))))
     spec_init)"
  using fresh_refines_unbounded [OF bounded_script_env, of 1000 0 "[10, 60, 500]" 100]
    bounded_script_env by (simp add: prod_eq_iff)


theorem warden_fresh_bind_spec_witness:
  "fst (warden_fresh_bind 1 2 3 100 None 4 5 demo_fresh) = None \<and>
   snd (warden_fresh_bind 1 2 3 100 None 4 5 demo_fresh) = demo_fresh"
  using warden_fresh_bind_spec [OF prod.collapse [symmetric], of 1 2 3 100 None 4 5 demo_fresh]
  by (simp add: demo_fresh_def bound_slot_def)

definition same_env :: "unit fresh_env" where
  "same_env = \<lparr>call_produce = (\<lambda>f n u w. (FRESH_SAME, '''', w)), call_render = (\<lambda>f wid what buf u w. w)\<rparr>"

theorem fresh_same_never_paints_witness:
  "display_of (calls (snd (refresh_run same_env [1, 2, 3] (bound_slot 1 2 3 100 None 4 5)
     \<lparr>world = (), calls = []\<rparr>))) = Blank"
  using fresh_same_never_paints [of same_env "[1, 2, 3]" 1 2 3 100 None 4 5 "()",
      OF _ prod.collapse [symmetric]]
  by (simp add: same_env_def del: refresh_run.simps)

end
