(* ===== verification/Relays.thy ===== *)
theory Relays
  imports Warden_Prelude
begin

text \<open>
  The two onboard relays, \<^verbatim>\<open>drivers/relays/relays.{h,c}\<close>: the \<^verbatim>\<open>relay_io\<close> seam, the sysfs backend
  behind it, and the decision logic above it. The backend's state is a type variable \<open>'w\<close> that
  \<open>write_fn\<close> changes; \<open>stat\<close>, a line read and an integer read only look at it. Every path goes
  through \<^verbatim>\<open>snprintf\<close> into a buffer of the source's size, truncation included.
\<close>

section \<open>The seam\<close>

record 'w relay_io =
  exists_fn :: "string \<Rightarrow> 'w \<Rightarrow> bool"
  write_fn :: "string \<Rightarrow> string \<Rightarrow> 'w \<Rightarrow> 'w"
  read_line_fn :: "string \<Rightarrow> nat \<Rightarrow> 'w \<Rightarrow> string option"
  read_int_fn :: "string \<Rightarrow> 'w \<Rightarrow> int option"

definition WARDEN_RELAY_COUNT :: nat where
  "WARDEN_RELAY_COUNT = 2"

definition s_gpio :: "nat list" where
  "s_gpio = [32, 33]"

definition s_name :: "string list" where
  "s_name = [''Relay 1'', ''Relay 2'']"

text \<open>\<^verbatim>\<open>getenv("WARDEN_GPIO_ROOT")\<close> is the argument \<open>var\<close>; an unset or empty one means the default.\<close>

definition gpio_root :: "string option \<Rightarrow> string" where
  "gpio_root var =
     (case var of Some r \<Rightarrow> if r \<noteq> '''' then r else ''/sys/class/gpio'' | None \<Rightarrow> ''/sys/class/gpio'')"

section \<open>The sysfs backend\<close>

text \<open>
  A file system as the backend sees it: what \<^verbatim>\<open>stat\<close>/\<^verbatim>\<open>fopen\<close> find at a path, and the effect of
  \<^verbatim>\<open>fopen(path, "w"); fputs; fclose\<close> (none, where the file cannot be opened for writing).
\<close>

datatype node = Dir | File string

record 'w fileops =
  node_at :: "string \<Rightarrow> 'w \<Rightarrow> node option"
  put_file :: "string \<Rightarrow> string \<Rightarrow> 'w \<Rightarrow> 'w"

text \<open>\<^verbatim>\<open>fgets\<close> into \<open>n\<close> bytes: up to \<open>n - 1\<close> characters, through the first newline; nothing at end of file.\<close>

fun upto_newline :: "string \<Rightarrow> string" where
  "upto_newline [] = []"
| "upto_newline (c # cs) = (if c = CHR 0x0A then [c] else c # upto_newline cs)"

definition c_fgets :: "nat \<Rightarrow> string \<Rightarrow> string option" where
  "c_fgets n s = (if s = [] then None else Some (take (n - 1) (upto_newline s)))"

text \<open>\<^verbatim>\<open>fscanf("%d")\<close>: leading white space, an optional sign, at least one digit.\<close>

definition is_space :: "char \<Rightarrow> bool" where
  "is_space c \<longleftrightarrow> c \<in> {CHR '' '', CHR 0x09, CHR 0x0A, CHR 0x0B, CHR 0x0C, CHR 0x0D}"

definition is_digit :: "char \<Rightarrow> bool" where
  "is_digit c \<longleftrightarrow> (48 :: nat) \<le> of_char c \<and> of_char c \<le> (57 :: nat)"

definition dec_value :: "string \<Rightarrow> int" where
  "dec_value ds = foldl (\<lambda>n c. 10 * n + (of_char c - 48)) 0 ds"

definition c_scan_int :: "string \<Rightarrow> int option" where
  "c_scan_int s =
     (let s1 = dropWhile is_space s;
          (neg, s2) = (case s1 of c # cs \<Rightarrow> if c = CHR ''-'' then (True, cs)
                                        else if c = CHR ''+'' then (False, cs) else (False, s1)
                        | [] \<Rightarrow> (False, s1));
          ds = takeWhile is_digit s2
      in if ds = [] then None else Some (if neg then - dec_value ds else dec_value ds))"

definition sysfs_exists :: "'w fileops \<Rightarrow> string \<Rightarrow> 'w \<Rightarrow> bool" where
  "sysfs_exists fo path w = (node_at fo path w \<noteq> None)"

definition sysfs_write :: "'w fileops \<Rightarrow> string \<Rightarrow> string \<Rightarrow> 'w \<Rightarrow> 'w" where
  "sysfs_write fo path v w = put_file fo path v w"

definition sysfs_read_line :: "'w fileops \<Rightarrow> string \<Rightarrow> nat \<Rightarrow> 'w \<Rightarrow> string option" where
  "sysfs_read_line fo path n w =
     (case node_at fo path w of Some (File c) \<Rightarrow> c_fgets n c | _ \<Rightarrow> None)"

definition sysfs_read_int :: "'w fileops \<Rightarrow> string \<Rightarrow> 'w \<Rightarrow> int option" where
  "sysfs_read_int fo path w =
     (case node_at fo path w of Some (File c) \<Rightarrow> c_scan_int c | _ \<Rightarrow> None)"

definition s_sysfs_io :: "'w fileops \<Rightarrow> 'w relay_io" where
  "s_sysfs_io fo = \<lparr>exists_fn = sysfs_exists fo, write_fn = sysfs_write fo,
     read_line_fn = sysfs_read_line fo, read_int_fn = sysfs_read_int fo\<rparr>"

definition warden_relay__set_io :: "'w fileops \<Rightarrow> 'w relay_io option \<Rightarrow> 'w relay_io" where
  "warden_relay__set_io fo io = (case io of Some i \<Rightarrow> i | None \<Rightarrow> s_sysfs_io fo)"

section \<open>Decision logic\<close>

definition warden_relay_name :: "nat \<Rightarrow> string" where
  "warden_relay_name idx = (if idx < WARDEN_RELAY_COUNT then s_name ! idx else ''-'')"

text \<open>The paths, by the buffer they are printed into.\<close>

definition gpio_path :: "string \<Rightarrow> nat \<Rightarrow> string" where
  "gpio_path root g = snprintf_s 80 (root @ ''/gpio'' @ show_nat g)"

definition export_path :: "string \<Rightarrow> string" where
  "export_path root = snprintf_s 80 (root @ ''/export'')"

definition direction_path :: "string \<Rightarrow> nat \<Rightarrow> string" where
  "direction_path root g = snprintf_s 96 (root @ ''/gpio'' @ show_nat g @ ''/direction'')"

definition value_path :: "string \<Rightarrow> nat \<Rightarrow> string" where
  "value_path root g = snprintf_s 96 (root @ ''/gpio'' @ show_nat g @ ''/value'')"

definition exported :: "'w relay_io \<Rightarrow> string \<Rightarrow> nat \<Rightarrow> 'w \<Rightarrow> bool" where
  "exported io root g w = exists_fn io (gpio_path root g) w"

definition ensure_ready :: "'w relay_io \<Rightarrow> string \<Rightarrow> nat \<Rightarrow> 'w \<Rightarrow> bool \<times> 'w" where
  "ensure_ready io root g w =
     (let w1 = (if exported io root g w then w
                else write_fn io (export_path root) (snprintf_s 16 (show_nat g)) w)
      in if \<not> exported io root g w \<and> \<not> exported io root g w1 then (False, w1)
         else case read_line_fn io (direction_path root g) 16 w1 of
                None \<Rightarrow> (False, w1)
              | Some dir \<Rightarrow>
                  if \<not> strncmp_eq dir ''out'' 3
                  then let cur = (case read_int_fn io (value_path root g) w1 of
                                    Some c \<Rightarrow> c | None \<Rightarrow> 0)
                       in (True, write_fn io (direction_path root g)
                                   (if cur \<noteq> 0 then ''high'' else ''low'') w1)
                  else (True, w1))"

definition warden_relay_available ::
  "'w relay_io \<Rightarrow> string option \<Rightarrow> nat \<Rightarrow> 'w \<Rightarrow> bool \<times> 'w" where
  "warden_relay_available io var idx w =
     (if idx \<ge> WARDEN_RELAY_COUNT then (False, w)
      else ensure_ready io (gpio_root var) (s_gpio ! idx) w)"

definition warden_relay_get :: "'w relay_io \<Rightarrow> string option \<Rightarrow> nat \<Rightarrow> 'w \<Rightarrow> bool" where
  "warden_relay_get io var idx w =
     (if idx \<ge> WARDEN_RELAY_COUNT then False
      else if \<not> exported io (gpio_root var) (s_gpio ! idx) w then False
      else (case read_int_fn io (value_path (gpio_root var) (s_gpio ! idx)) w of
              Some v \<Rightarrow> v \<noteq> 0 | None \<Rightarrow> False))"

definition warden_relay_set ::
  "'w relay_io \<Rightarrow> string option \<Rightarrow> nat \<Rightarrow> bool \<Rightarrow> 'w \<Rightarrow> 'w" where
  "warden_relay_set io var idx on w =
     (if idx \<ge> WARDEN_RELAY_COUNT then w
      else let (ok, w1) = ensure_ready io (gpio_root var) (s_gpio ! idx) w
           in if \<not> ok then w1
              else write_fn io (value_path (gpio_root var) (s_gpio ! idx))
                     (if on then ''1'' else ''0'') w1)"

section \<open>Paths\<close>

lemma show_gpio [simp]: "show_nat 32 = ''32''" "show_nat 33 = ''33''"
  by (code_simp, code_simp)

lemma show_gpio_length: "g \<in> {32, 33} \<Longrightarrow> length (show_nat g) = 2"
  by auto

definition relay_paths :: "string \<Rightarrow> string set" where
  "relay_paths root = insert (root @ ''/export'')
     {root @ ''/gpio'' @ show_nat g @ leaf |g leaf.
        g \<in> {32, 33} \<and> leaf \<in> {''/direction'', ''/value''}}"

text \<open>Every path the driver builds is exact, not truncated, for the two
  relay lines as long as the gpio root has at most 72 characters; at 73 the check for an exported
  line looks at the same truncated path for both relays, which is neither line's directory.\<close>

theorem relay_paths_exact:
  "(length root \<le> 72 \<longrightarrow> (\<forall>g \<in> {32, 33}.
      gpio_path root g = root @ ''/gpio'' @ show_nat g \<and>
      export_path root = root @ ''/export'' \<and>
      direction_path root g = root @ ''/gpio'' @ show_nat g @ ''/direction'' \<and>
      value_path root g = root @ ''/gpio'' @ show_nat g @ ''/value'')) \<and>
   (length root = 73 \<longrightarrow>
      gpio_path root 32 = gpio_path root 33 \<and> gpio_path root 32 = root @ ''/gpio3'')"
  by (auto simp: gpio_path_def export_path_def direction_path_def value_path_def snprintf_s_def)

section \<open>What the driver writes\<close>

text \<open>A sequence of seam writes, as a state change.\<close>

definition do_writes :: "'w relay_io \<Rightarrow> (string \<times> string) list \<Rightarrow> 'w \<Rightarrow> 'w" where
  "do_writes io ws w = foldl (\<lambda>w (p, v). write_fn io p v w) w ws"

lemma do_writes_simps [simp]:
  "do_writes io [] w = w"
  "do_writes io [(p, v)] w = write_fn io p v w"
  "do_writes io (ws @ vs) w = do_writes io vs (do_writes io ws w)"
  by (simp_all add: do_writes_def)

lemma ensure_ready_writes:
  "\<exists>ws. snd (ensure_ready io root g w) = do_writes io ws w \<and> length ws \<le> 2 \<and>
     set ws \<subseteq> {(export_path root, snprintf_s 16 (show_nat g)),
                 (direction_path root g, ''high''), (direction_path root g, ''low'')}"
proof -
  define ws1 where "ws1 = (if exported io root g w then []
      else [(export_path root, snprintf_s 16 (show_nat g))])"
  have w1: "(if exported io root g w then w
      else write_fn io (export_path root) (snprintf_s 16 (show_nat g)) w) = do_writes io ws1 w"
    by (simp add: ws1_def)
  have "snd (ensure_ready io root g w) = do_writes io ws1 w \<or>
      (\<exists>v \<in> {''high'', ''low''}. snd (ensure_ready io root g w) =
         do_writes io (ws1 @ [(direction_path root g, v)]) w)"
    unfolding ensure_ready_def w1 by (auto simp: Let_def split: option.splits)
  then show ?thesis
  proof (elim disjE bexE)
    assume "snd (ensure_ready io root g w) = do_writes io ws1 w"
    then show ?thesis by (intro exI [of _ ws1]) (simp add: ws1_def)
  next
    fix v
    assume "v \<in> {''high'', ''low''}"
      "snd (ensure_ready io root g w) = do_writes io (ws1 @ [(direction_path root g, v)]) w"
    then show ?thesis
      by (intro exI [of _ "ws1 @ [(direction_path root g, v)]"]) (auto simp: ws1_def)
  qed
qed

lemma s_gpio_nth: "idx < WARDEN_RELAY_COUNT \<Longrightarrow> s_gpio ! idx \<in> {32, 33}"
  by (auto simp: WARDEN_RELAY_COUNT_def s_gpio_def less_2_cases_iff)

lemma relay_line: "idx < 2 \<Longrightarrow> s_gpio ! idx = 32 + idx"
  by (auto simp: s_gpio_def less_2_cases_iff)

text \<open>Whatever the backend, driving a relay writes only to the export
  file and to the direction and value files of that relay's own line, with the line number as the
  only number ever exported, and an index out of range writes nothing. In particular no other
  line's files (the neighbouring RS485 pair among them) are ever written.\<close>

theorem relay_writes_confined:
  assumes "length (gpio_root var) \<le> 72"
  shows "\<exists>ws. warden_relay_set io var idx on w = do_writes io ws w \<and>
    (idx \<ge> WARDEN_RELAY_COUNT \<longrightarrow> ws = []) \<and>
    (\<forall>(p, v) \<in> set ws.
       p = gpio_root var @ ''/export'' \<and> v = show_nat (32 + idx) \<or>
       p = gpio_root var @ ''/gpio'' @ show_nat (32 + idx) @ ''/direction'' \<or>
       p = gpio_root var @ ''/gpio'' @ show_nat (32 + idx) @ ''/value'')"
proof (cases "idx \<ge> WARDEN_RELAY_COUNT")
  case True
  then show ?thesis
    by (intro exI [of _ "[]"]) (simp add: warden_relay_set_def)
next
  case False
  then have g: "s_gpio ! idx = 32 + idx" "32 + idx \<in> {32, 33}"
    by (auto simp: WARDEN_RELAY_COUNT_def s_gpio_def less_2_cases_iff not_le)
  let ?r = "gpio_root var" and ?g = "32 + idx"
  have paths: "export_path ?r = ?r @ ''/export''"
    "direction_path ?r ?g = ?r @ ''/gpio'' @ show_nat ?g @ ''/direction''"
    "value_path ?r ?g = ?r @ ''/gpio'' @ show_nat ?g @ ''/value''"
    "snprintf_s 16 (show_nat ?g) = show_nat ?g"
    using assms g(2)
    by (auto simp: export_path_def direction_path_def value_path_def snprintf_s_def)
  obtain ws where ws: "snd (ensure_ready io ?r ?g w) = do_writes io ws w"
    "set ws \<subseteq> {(export_path ?r, snprintf_s 16 (show_nat ?g)),
                 (direction_path ?r ?g, ''high''), (direction_path ?r ?g, ''low'')}"
    using ensure_ready_writes [of io ?r ?g w] by blast
  let ?vs = "if fst (ensure_ready io ?r ?g w)
      then ws @ [(value_path ?r ?g, if on then ''1'' else ''0'')] else ws"
  have "warden_relay_set io var idx on w = do_writes io ?vs w"
    using False by (simp add: warden_relay_set_def g ws(1) split_beta)
  moreover have "\<forall>(p, v) \<in> set ?vs. p = ?r @ ''/export'' \<and> v = show_nat ?g \<or>
       p = ?r @ ''/gpio'' @ show_nat ?g @ ''/direction'' \<or>
       p = ?r @ ''/gpio'' @ show_nat ?g @ ''/value''"
    using ws(2) unfolding paths by auto
  ultimately show ?thesis using False by blast
qed

theorem relay_paths_exact_witness:
  "gpio_path (replicate 72 CHR ''r'') 33 = replicate 72 CHR ''r'' @ ''/gpio33'' \<and>
   gpio_path (replicate 73 CHR ''r'') 32 = gpio_path (replicate 73 CHR ''r'') 33"
  using relay_paths_exact [of "replicate 72 CHR ''r''"] relay_paths_exact [of "replicate 73 CHR ''r''"]
  by simp

section \<open>A GPIO backend\<close>

text \<open>
  What the sysfs GPIO interface documents of a line, read through the seam: \<open>exp g\<close>, the line's
  directory is there; \<open>output g\<close>, its direction; \<open>level g\<close>, the level it drives or sees. Exporting
  changes no direction and no level, and may fail; \<open>high\<close> and \<open>low\<close> written to \<open>direction\<close> switch
  the line to output at that level; \<open>value\<close> is the level, writable on an output.
\<close>

definition relay_lines :: "nat set" where
  "relay_lines = {32, 33}"

lemma relay_lines_idx: "idx < 2 \<Longrightarrow> 32 + idx \<in> relay_lines"
  by (auto simp: relay_lines_def)

lemma snprintf_line: "g \<in> relay_lines \<Longrightarrow> snprintf_s 16 (show_nat g) = show_nat g"
  by (auto simp: relay_lines_def snprintf_s_def)

locale relay_backend =
  fixes io :: "'w relay_io" and root :: string
    and exp :: "nat \<Rightarrow> 'w \<Rightarrow> bool" and out :: "nat \<Rightarrow> 'w \<Rightarrow> bool" and level :: "nat \<Rightarrow> 'w \<Rightarrow> bool"
  assumes exists_exp: "g \<in> relay_lines \<Longrightarrow> exists_fn io (gpio_path root g) w = exp g w"
    and export_exp: "g \<in> relay_lines \<Longrightarrow> h \<noteq> g \<Longrightarrow>
      exp h (write_fn io (export_path root) (show_nat g) w) = exp h w"
    and export_out: "g \<in> relay_lines \<Longrightarrow> out h (write_fn io (export_path root) (show_nat g) w) = out h w"
    and export_level: "g \<in> relay_lines \<Longrightarrow>
      level h (write_fn io (export_path root) (show_nat g) w) = level h w"
    and direction_read: "g \<in> relay_lines \<Longrightarrow> exp g w \<Longrightarrow>
      \<exists>s. read_line_fn io (direction_path root g) 16 w = Some s \<and>
          strncmp_eq s ''out'' 3 = out g w"
    and value_read: "g \<in> relay_lines \<Longrightarrow> exp g w \<Longrightarrow>
      \<exists>v. read_int_fn io (value_path root g) w = Some v \<and> (v \<noteq> 0) = level g w"
    and direction_exp: "g \<in> relay_lines \<Longrightarrow> v \<in> {''high'', ''low''} \<Longrightarrow>
      exp h (write_fn io (direction_path root g) v w) = exp h w"
    and direction_out: "g \<in> relay_lines \<Longrightarrow> v \<in> {''high'', ''low''} \<Longrightarrow> exp g w \<Longrightarrow>
      out h (write_fn io (direction_path root g) v w) = (h = g \<or> out h w)"
    and direction_level: "g \<in> relay_lines \<Longrightarrow> v \<in> {''high'', ''low''} \<Longrightarrow> exp g w \<Longrightarrow>
      level h (write_fn io (direction_path root g) v w) = (if h = g then v = ''high'' else level h w)"
    and value_exp: "g \<in> relay_lines \<Longrightarrow> v \<in> {''1'', ''0''} \<Longrightarrow>
      exp h (write_fn io (value_path root g) v w) = exp h w"
    and value_out: "g \<in> relay_lines \<Longrightarrow> v \<in> {''1'', ''0''} \<Longrightarrow>
      out h (write_fn io (value_path root g) v w) = out h w"
    and value_level: "g \<in> relay_lines \<Longrightarrow> v \<in> {''1'', ''0''} \<Longrightarrow> exp g w \<Longrightarrow> out g w \<Longrightarrow>
      level h (write_fn io (value_path root g) v w) = (if h = g then v = ''1'' else level h w)"
begin

abbreviation after_export :: "nat \<Rightarrow> 'w \<Rightarrow> 'w" where
  "after_export g w \<equiv> (if exp g w then w else write_fn io (export_path root) (show_nat g) w)"

lemma exported_exp: "g \<in> relay_lines \<Longrightarrow> exported io root g w = exp g w"
  by (simp add: exported_def exists_exp)

lemma after_export_state:
  assumes "g \<in> relay_lines"
  shows "out h (after_export g w) = out h w" and "level h (after_export g w) = level h w"
    and "h \<noteq> g \<Longrightarrow> exp h (after_export g w) = exp h w"
  using assms export_exp export_out export_level by auto

text \<open>What is left of \<open>ensure_ready\<close> on such a backend: export, then switch to output at the level read.\<close>

lemma ensure_ready_eq:
  assumes "g \<in> relay_lines"
  shows "ensure_ready io root g w =
    (let w1 = after_export g w
     in if \<not> exp g w1 then (False, w1)
        else if out g w1 then (True, w1)
        else (True, write_fn io (direction_path root g)
                      (if level g w1 then ''high'' else ''low'') w1))"
proof -
  note n = snprintf_line [OF assms]
  let ?w1 = "after_export g w"
  show ?thesis
  proof (cases "exp g ?w1")
    case True
    obtain s v where
      "read_line_fn io (direction_path root g) 16 ?w1 = Some s" "strncmp_eq s ''out'' 3 = out g ?w1"
      "read_int_fn io (value_path root g) ?w1 = Some v" "(v \<noteq> 0) = level g ?w1"
      using direction_read [OF assms True] value_read [OF assms True] by auto
    then show ?thesis
      using True by (cases "exp g w") (simp_all add: ensure_ready_def exported_exp [OF assms] n Let_def)
  next
    case False
    then have "\<not> exp g w" by auto
    with False show ?thesis
      by (simp add: ensure_ready_def exported_exp [OF assms] n Let_def)
  qed
qed

lemma ensure_ready_state:
  assumes g: "g \<in> relay_lines" and r: "ensure_ready io root g w = (ok, w')"
  shows "ok = exp g w' \<and> (ok \<longrightarrow> out g w') \<and> level h w' = level h w \<and>
    (h \<noteq> g \<longrightarrow> out h w' = out h w \<and> exp h w' = exp h w)"
proof -
  define w1 where "w1 = after_export g w"
  have w1: "out k w1 = out k w" "level k w1 = level k w" "k \<noteq> g \<Longrightarrow> exp k w1 = exp k w" for k
    unfolding w1_def using after_export_state [OF g] by auto
  have "(ok, w') = (if \<not> exp g w1 then (False, w1) else if out g w1 then (True, w1)
      else (True, write_fn io (direction_path root g) (if level g w1 then ''high'' else ''low'') w1))"
    using r unfolding ensure_ready_eq [OF g] w1_def Let_def by simp
  then show ?thesis
    using w1 direction_exp [OF g, of "if level g w1 then ''high'' else ''low''"]
      direction_out [OF g, of "if level g w1 then ''high'' else ''low''" w1]
      direction_level [OF g, of "if level g w1 then ''high'' else ''low''" w1]
    by (auto split: if_splits)
qed

text \<open>Availability, driving and reading, on the lines of the backend.\<close>

lemma available_eq:
  assumes "gpio_root var = root" and "idx < 2"
  shows "warden_relay_available io var idx w = ensure_ready io root (32 + idx) w"
  using assms by (simp add: warden_relay_available_def relay_line WARDEN_RELAY_COUNT_def)

lemma available_state:
  assumes "gpio_root var = root" and "warden_relay_available io var idx w = (ok, w')"
  shows "level h w' = level h w \<and> ok = (idx < 2 \<and> exp (32 + idx) w') \<and> (ok \<longrightarrow> out (32 + idx) w')"
proof (cases "idx < 2")
  case True
  with assms ensure_ready_state [OF relay_lines_idx [OF True], of w ok w' h] show ?thesis
    by (simp add: available_eq)
next
  case False
  with assms(2) show ?thesis by (simp add: warden_relay_available_def WARDEN_RELAY_COUNT_def)
qed

lemma get_level:
  assumes "gpio_root var = root" and "idx < 2"
  shows "warden_relay_get io var idx w = (exp (32 + idx) w \<and> level (32 + idx) w)"
proof -
  note g = relay_lines_idx [OF assms(2)]
  show ?thesis
    using value_read [OF g, of w] assms(2)
    by (auto simp: warden_relay_get_def WARDEN_RELAY_COUNT_def relay_line assms(1) exported_exp [OF g])
qed

lemma set_state:
  assumes "gpio_root var = root" and "idx < 2"
    and w': "w' = warden_relay_set io var idx on w"
  shows "level h w' = (if h = 32 + idx \<and> exp h w' then on else level h w)"
    and "h \<noteq> 32 + idx \<Longrightarrow> exp h w' = exp h w \<and> out h w' = out h w"
    and "exp (32 + idx) w' = fst (warden_relay_available io var idx w)"
proof -
  note g = relay_lines_idx [OF assms(2)]
  obtain ok w1 where r: "ensure_ready io root (32 + idx) w = (ok, w1)"
    by (cases "ensure_ready io root (32 + idx) w")
  have eq: "w' = (if ok then write_fn io (value_path root (32 + idx)) (if on then ''1'' else ''0'') w1
      else w1)"
    using assms(2) by (simp add: w' warden_relay_set_def WARDEN_RELAY_COUNT_def relay_line assms(1) r)
  note st = ensure_ready_state [OF g r, of h] ensure_ready_state [OF g r, of "32 + idx"] value_exp [OF g] value_out [OF g] value_level [OF g]
  show "level h w' = (if h = 32 + idx \<and> exp h w' then on else level h w)"
    unfolding eq using st by auto
  show "h \<noteq> 32 + idx \<Longrightarrow> exp h w' = exp h w \<and> out h w' = out h w"
    unfolding eq using st by auto
  show "exp (32 + idx) w' = fst (warden_relay_available io var idx w)"
    unfolding eq using st assms(2)
    by (auto simp: available_eq assms(1) r)
qed

end

section \<open>The sysfs backend over the kernel's GPIO files\<close>

text \<open>
  The documented behaviour of \<^verbatim>\<open>/sys/class/gpio\<close> as a file system for the seam's sysfs backend: a
  line's directory and files appear once it is exported (refused while another user holds the
  line), \<open>direction\<close> reads \<open>in\<close> or \<open>out\<close>, \<open>value\<close> reads \<open>0\<close> or \<open>1\<close>, each with a newline.
\<close>

record gpio_line =
  ln_exported :: bool
  ln_busy :: bool
  ln_out :: bool
  ln_level :: bool

datatype gpio_leaf = Line_dir | Direction | Level

definition sysfs_table :: "(string \<times> nat \<times> gpio_leaf) list" where
  "sysfs_table =
     [(''/sys/class/gpio/gpio32'', 32, Line_dir), (''/sys/class/gpio/gpio33'', 33, Line_dir),
      (''/sys/class/gpio/gpio32/direction'', 32, Direction),
      (''/sys/class/gpio/gpio33/direction'', 33, Direction),
      (''/sys/class/gpio/gpio32/value'', 32, Level), (''/sys/class/gpio/gpio33/value'', 33, Level)]"

definition gpio_node :: "string \<Rightarrow> (nat \<Rightarrow> gpio_line) \<Rightarrow> node option" where
  "gpio_node p w =
     (case map_of sysfs_table p of
        None \<Rightarrow> None
      | Some (g, leaf) \<Rightarrow>
          if \<not> ln_exported (w g) then None
          else Some (case leaf of
                 Line_dir \<Rightarrow> Dir
               | Direction \<Rightarrow> File (if ln_out (w g) then ''out'' @ [CHR 0x0A] else ''in'' @ [CHR 0x0A])
               | Level \<Rightarrow> File (if ln_level (w g) then ''1'' @ [CHR 0x0A] else ''0'' @ [CHR 0x0A])))"

definition gpio_put :: "string \<Rightarrow> string \<Rightarrow> (nat \<Rightarrow> gpio_line) \<Rightarrow> nat \<Rightarrow> gpio_line" where
  "gpio_put p v w =
     (if p = ''/sys/class/gpio/export'' then
        (case map_of [(''32'', 32), (''33'', 33)] v of
           None \<Rightarrow> w
         | Some g \<Rightarrow> if ln_busy (w g) then w else w(g := (w g)\<lparr>ln_exported := True\<rparr>))
      else case map_of sysfs_table p of
        Some (g, Direction) \<Rightarrow>
          if \<not> ln_exported (w g) then w
          else if v = ''high'' then w(g := (w g)\<lparr>ln_out := True, ln_level := True\<rparr>)
          else if v = ''low'' \<or> v = ''out'' then w(g := (w g)\<lparr>ln_out := True, ln_level := False\<rparr>)
          else if v = ''in'' then w(g := (w g)\<lparr>ln_out := False\<rparr>) else w
      | Some (g, Level) \<Rightarrow>
          if ln_exported (w g) \<and> ln_out (w g) then w(g := (w g)\<lparr>ln_level := (v \<noteq> ''0'')\<rparr>) else w
      | _ \<Rightarrow> w)"

definition gpio_files :: "(nat \<Rightarrow> gpio_line) fileops" where
  "gpio_files = \<lparr>node_at = gpio_node, put_file = gpio_put\<rparr>"

lemma sysfs_read_back [simp]:
  "c_fgets 16 [CHR ''o'', CHR ''u'', CHR ''t'', CHR 0x0A] = Some (''out'' @ [CHR 0x0A])"
  "c_fgets 16 [CHR ''i'', CHR ''n'', CHR 0x0A] = Some (''in'' @ [CHR 0x0A])"
  "c_scan_int [CHR ''1'', CHR 0x0A] = Some 1"
  "c_scan_int [CHR ''0'', CHR 0x0A] = Some 0"
  by code_simp+

lemma sysfs_paths:
  "gpio_root None = ''/sys/class/gpio''"
  "export_path ''/sys/class/gpio'' = ''/sys/class/gpio/export''"
  "gpio_path ''/sys/class/gpio'' 32 = ''/sys/class/gpio/gpio32''"
  "gpio_path ''/sys/class/gpio'' 33 = ''/sys/class/gpio/gpio33''"
  "direction_path ''/sys/class/gpio'' 32 = ''/sys/class/gpio/gpio32/direction''"
  "direction_path ''/sys/class/gpio'' 33 = ''/sys/class/gpio/gpio33/direction''"
  "value_path ''/sys/class/gpio'' 32 = ''/sys/class/gpio/gpio32/value''"
  "value_path ''/sys/class/gpio'' 33 = ''/sys/class/gpio/gpio33/value''"
  by (simp_all add: gpio_root_def export_path_def gpio_path_def direction_path_def value_path_def
      snprintf_s_def)

lemma sysfs_export: "export_path (gpio_root None) = ''/sys/class/gpio/export''"
  by (simp add: sysfs_paths)

text \<open>The files of the two lines, found by the paths the driver builds.\<close>

lemma sysfs_lookup:
  assumes "g \<in> relay_lines"
  shows "map_of sysfs_table (gpio_path (gpio_root None) g) = Some (g, Line_dir)"
    and "map_of sysfs_table (direction_path (gpio_root None) g) = Some (g, Direction)"
    and "map_of sysfs_table (value_path (gpio_root None) g) = Some (g, Level)"
    and "direction_path (gpio_root None) g \<noteq> ''/sys/class/gpio/export''"
    and "value_path (gpio_root None) g \<noteq> ''/sys/class/gpio/export''"
    and "map_of [(''32'', 32), (''33'', 33)] (show_nat g) = Some g"
  using assms by (auto simp: relay_lines_def sysfs_table_def sysfs_paths)

lemmas gpio_files_defs = gpio_files_def s_sysfs_io_def sysfs_exists_def sysfs_write_def
  sysfs_read_line_def sysfs_read_int_def gpio_node_def gpio_put_def

text \<open>The seam's operations on such a file system, for a line of the board.\<close>

lemma gpio_seam:
  assumes g: "g \<in> relay_lines"
  shows "exists_fn (s_sysfs_io gpio_files) (gpio_path (gpio_root None) g) w = ln_exported (w g)"
    and "write_fn (s_sysfs_io gpio_files) (export_path (gpio_root None)) (show_nat g) w =
      (if ln_busy (w g) then w else w(g := (w g)\<lparr>ln_exported := True\<rparr>))"
    and "ln_exported (w g) \<Longrightarrow>
      read_line_fn (s_sysfs_io gpio_files) (direction_path (gpio_root None) g) 16 w =
      Some ((if ln_out (w g) then ''out'' else ''in'') @ [CHR 0x0A])"
    and "ln_exported (w g) \<Longrightarrow>
      read_int_fn (s_sysfs_io gpio_files) (value_path (gpio_root None) g) w =
      Some (if ln_level (w g) then 1 else 0)"
    and "v \<in> {''high'', ''low''} \<Longrightarrow>
      write_fn (s_sysfs_io gpio_files) (direction_path (gpio_root None) g) v w =
      (if ln_exported (w g) then w(g := (w g)\<lparr>ln_out := True, ln_level := (v = ''high'')\<rparr>) else w)"
    and "v \<in> {''1'', ''0''} \<Longrightarrow>
      write_fn (s_sysfs_io gpio_files) (value_path (gpio_root None) g) v w =
      (if ln_exported (w g) \<and> ln_out (w g) then w(g := (w g)\<lparr>ln_level := (v = ''1'')\<rparr>) else w)"
  by (auto simp: gpio_files_defs sysfs_lookup [OF g] sysfs_export simp del: map_of.simps)

interpretation gpio_sysfs: relay_backend "s_sysfs_io gpio_files" "gpio_root None"
  "\<lambda>g w. ln_exported (w g)" "\<lambda>g w. ln_out (w g)" "\<lambda>g w. ln_level (w g)"
  by unfold_locales (auto simp: gpio_seam strncmp_eq_def)



text \<open>C11 (relay_set_get): over a GPIO backend, driving relay \<open>idx\<close> and reading it back gives the
  level that was asked for, exactly when the line could be made available (and false otherwise, the
  level left as it was); every other line keeps its level, its direction and its export state, so the
  other relay reads as before.\<close>

theorem relay_set_get:
  assumes "relay_backend io (gpio_root var) exp out level"
    and "idx < WARDEN_RELAY_COUNT"
    and "w' = warden_relay_set io var idx on w"
  shows "warden_relay_get io var idx w' = (fst (warden_relay_available io var idx w) \<and> on) \<and>
    (\<not> fst (warden_relay_available io var idx w) \<longrightarrow> level (32 + idx) w' = level (32 + idx) w) \<and>
    (\<forall>h. h \<noteq> 32 + idx \<longrightarrow> level h w' = level h w \<and> out h w' = out h w \<and> exp h w' = exp h w) \<and>
    (\<forall>j. j \<noteq> idx \<longrightarrow> warden_relay_get io var j w' = warden_relay_get io var j w)"
proof -
  have i: "idx < 2" using assms(2) by (simp add: WARDEN_RELAY_COUNT_def)
  note st = relay_backend.set_state [OF assms(1) refl i assms(3)]
    and get = relay_backend.get_level [OF assms(1) refl]
  have other: "warden_relay_get io var j w' = warden_relay_get io var j w" if "j \<noteq> idx" for j
  proof (cases "j < 2")
    case True
    with that st(1,2) [of "32 + j"] show ?thesis by (auto simp: get)
  next
    case False
    then show ?thesis by (simp add: warden_relay_get_def WARDEN_RELAY_COUNT_def)
  qed
  from st other show ?thesis by (auto simp: get [OF i])
qed

theorem relay_set_get_witness:
  "warden_relay_get (s_sysfs_io gpio_files) None 1
     (warden_relay_set (s_sysfs_io gpio_files) None 1 True
        (\<lambda>_. \<lparr>ln_exported = False, ln_busy = False, ln_out = False, ln_level = False\<rparr>))"
proof -
  let ?w = "\<lambda>_ :: nat. \<lparr>ln_exported = False, ln_busy = False, ln_out = False, ln_level = False\<rparr>"
  have g: "33 \<in> relay_lines" by (simp add: relay_lines_def)
  have "fst (warden_relay_available (s_sysfs_io gpio_files) None 1 ?w)"
    by (simp add: gpio_sysfs.available_eq gpio_sysfs.ensure_ready_eq [OF g] gpio_seam(2) [OF g]
        del: show_gpio)
  then show ?thesis
    using relay_set_get [OF gpio_sysfs.relay_backend_axioms, of 1 _ True ?w]
    by (simp add: WARDEN_RELAY_COUNT_def)
qed

theorem relay_writes_confined_witness:
  "\<exists>ws. warden_relay_set (s_sysfs_io gpio_files) None 1 True
      (\<lambda>_. \<lparr>ln_exported = False, ln_busy = False, ln_out = False, ln_level = False\<rparr>) =
      do_writes (s_sysfs_io gpio_files) ws
      (\<lambda>_. \<lparr>ln_exported = False, ln_busy = False, ln_out = False, ln_level = False\<rparr>)"
  using relay_writes_confined [of None "s_sysfs_io gpio_files" 1 True]
  by (simp add: sysfs_paths(1)) blast

end
