(* ===== verification/Mailbox_Echo.thy ===== *)
theory Mailbox_Echo
  imports Warden_Prelude
begin

unbundle bit_operations_syntax

text \<open>
  The mailbox echo firmware of the HPMCU, \<^verbatim>\<open>kernel/rv1106-enablement/mailbox/scr1-echo/main.c\<close>.
  The firmware is a transition function, one step per volatile access, so that the Linux side (A7)
  can be interleaved with it at every register access. The mailbox hardware is the register model
  of the source's header comment; which of the two words of a message rings the doorbell is a
  parameter, because \<^verbatim>\<open>main.c\<close> says the command word and \<^verbatim>\<open>mailbox/VERIFIED.md\<close> (and
  \<^verbatim>\<open>mbox-roundtrip.sh\<close>), from the hardware, say the data word.
\<close>

section \<open>Registers\<close>

definition MBOX_BASE :: u32 where "MBOX_BASE = 0xFF5C0000"
definition A2B_INTEN :: u32 where "A2B_INTEN = MBOX_BASE + 0x00"
definition A2B_STATUS :: u32 where "A2B_STATUS = MBOX_BASE + 0x04"
definition A2B_CMD :: "nat \<Rightarrow> u32" where "A2B_CMD x = MBOX_BASE + 0x08 + of_nat x * 8"
definition A2B_DAT :: "nat \<Rightarrow> u32" where "A2B_DAT x = MBOX_BASE + 0x0c + of_nat x * 8"
definition B2A_STATUS :: u32 where "B2A_STATUS = MBOX_BASE + 0x2C"
definition B2A_CMD :: "nat \<Rightarrow> u32" where "B2A_CMD x = MBOX_BASE + 0x30 + of_nat x * 8"
definition B2A_DAT :: "nat \<Rightarrow> u32" where "B2A_DAT x = MBOX_BASE + 0x34 + of_nat x * 8"
definition NUM_CHANS :: nat where "NUM_CHANS = 4"
definition SRAM_DBG_BASE :: u32 where "SRAM_DBG_BASE = 0xFF6FFF00"
definition DBG_STATE :: u32 where "DBG_STATE = SRAM_DBG_BASE + 0x08"
definition DBG_LASTCMD :: u32 where "DBG_LASTCMD = SRAM_DBG_BASE + 0x0c"
definition DBG_ECHOCNT :: u32 where "DBG_ECHOCNT = SRAM_DBG_BASE + 0x10"
definition STATE_MBOX :: u32 where "STATE_MBOX = 0x584F424D"

lemmas reg_addr_defs = MBOX_BASE_def A2B_INTEN_def A2B_STATUS_def A2B_CMD_def A2B_DAT_def
  B2A_STATUS_def B2A_CMD_def B2A_DAT_def SRAM_DBG_BASE_def DBG_STATE_def DBG_LASTCMD_def
  DBG_ECHOCNT_def

text \<open>What answers at those addresses: the mailbox block and three words of \<open>hpmcu_sram\<close>.\<close>

datatype reg = R_A2B_INTEN | R_A2B_STATUS | R_A2B_CMD nat | R_A2B_DAT nat
  | R_B2A_STATUS | R_B2A_CMD nat | R_B2A_DAT nat | R_DBG_STATE | R_DBG_LASTCMD | R_DBG_ECHOCNT

definition reg_table :: "(u32 \<times> reg) list" where
  "reg_table =
     [(A2B_INTEN, R_A2B_INTEN), (A2B_STATUS, R_A2B_STATUS), (B2A_STATUS, R_B2A_STATUS),
      (DBG_STATE, R_DBG_STATE), (DBG_LASTCMD, R_DBG_LASTCMD), (DBG_ECHOCNT, R_DBG_ECHOCNT)] @
     map (\<lambda>x. (A2B_CMD x, R_A2B_CMD x)) [0..<NUM_CHANS] @
     map (\<lambda>x. (A2B_DAT x, R_A2B_DAT x)) [0..<NUM_CHANS] @
     map (\<lambda>x. (B2A_CMD x, R_B2A_CMD x)) [0..<NUM_CHANS] @
     map (\<lambda>x. (B2A_DAT x, R_B2A_DAT x)) [0..<NUM_CHANS]"

definition decode_addr :: "u32 \<Rightarrow> reg option" where
  "decode_addr a = map_of reg_table a"

record mbox =
  a2b_inten :: u32
  a2b_status :: u32
  a2b_cmd :: "nat \<Rightarrow> u32"
  a2b_dat :: "nat \<Rightarrow> u32"
  b2a_inten :: u32
  b2a_status :: u32
  b2a_cmd :: "nat \<Rightarrow> u32"
  b2a_dat :: "nat \<Rightarrow> u32"
  dbg_state :: u32
  dbg_lastcmd :: u32
  dbg_echocnt :: u32

datatype doorbell = On_Cmd | On_Dat

definition chan_bit :: "nat \<Rightarrow> u32" where
  "chan_bit ch = push_bit ch 1"

text \<open>A doorbell write raises the peer's status bit where the peer enabled it; status is write-1-clear.\<close>

definition ring :: "bool \<Rightarrow> u32 \<Rightarrow> nat \<Rightarrow> u32 \<Rightarrow> u32" where
  "ring rings en ch st = (if rings \<and> bit en ch then st OR chan_bit ch else st)"

fun reg_read :: "reg \<Rightarrow> mbox \<Rightarrow> u32" where
  "reg_read R_A2B_INTEN r = a2b_inten r"
| "reg_read R_A2B_STATUS r = a2b_status r"
| "reg_read (R_A2B_CMD x) r = a2b_cmd r x"
| "reg_read (R_A2B_DAT x) r = a2b_dat r x"
| "reg_read R_B2A_STATUS r = b2a_status r"
| "reg_read (R_B2A_CMD x) r = b2a_cmd r x"
| "reg_read (R_B2A_DAT x) r = b2a_dat r x"
| "reg_read R_DBG_STATE r = dbg_state r"
| "reg_read R_DBG_LASTCMD r = dbg_lastcmd r"
| "reg_read R_DBG_ECHOCNT r = dbg_echocnt r"

fun reg_write :: "doorbell \<Rightarrow> reg \<Rightarrow> u32 \<Rightarrow> mbox \<Rightarrow> mbox" where
  "reg_write d R_A2B_INTEN v r = r\<lparr>a2b_inten := v\<rparr>"
| "reg_write d R_A2B_STATUS v r = r\<lparr>a2b_status := a2b_status r AND NOT v\<rparr>"
| "reg_write d (R_A2B_CMD x) v r =
     r\<lparr>a2b_cmd := (a2b_cmd r)(x := v), a2b_status := ring (d = On_Cmd) (a2b_inten r) x (a2b_status r)\<rparr>"
| "reg_write d (R_A2B_DAT x) v r =
     r\<lparr>a2b_dat := (a2b_dat r)(x := v), a2b_status := ring (d = On_Dat) (a2b_inten r) x (a2b_status r)\<rparr>"
| "reg_write d R_B2A_STATUS v r = r\<lparr>b2a_status := b2a_status r AND NOT v\<rparr>"
| "reg_write d (R_B2A_CMD x) v r =
     r\<lparr>b2a_cmd := (b2a_cmd r)(x := v), b2a_status := ring (d = On_Cmd) (b2a_inten r) x (b2a_status r)\<rparr>"
| "reg_write d (R_B2A_DAT x) v r =
     r\<lparr>b2a_dat := (b2a_dat r)(x := v), b2a_status := ring (d = On_Dat) (b2a_inten r) x (b2a_status r)\<rparr>"
| "reg_write d R_DBG_STATE v r = r\<lparr>dbg_state := v\<rparr>"
| "reg_write d R_DBG_LASTCMD v r = r\<lparr>dbg_lastcmd := v\<rparr>"
| "reg_write d R_DBG_ECHOCNT v r = r\<lparr>dbg_echocnt := v\<rparr>"

text \<open>\<^verbatim>\<open>REG32(a)\<close> as an rvalue and as an lvalue.\<close>

definition REG32 :: "u32 \<Rightarrow> mbox \<Rightarrow> u32" where
  "REG32 a r = (case decode_addr a of Some x \<Rightarrow> reg_read x r | None \<Rightarrow> 0)"

definition REG32_write :: "doorbell \<Rightarrow> u32 \<Rightarrow> u32 \<Rightarrow> mbox \<Rightarrow> mbox" where
  "REG32_write d a v r = (case decode_addr a of Some x \<Rightarrow> reg_write d x v r | None \<Rightarrow> r)"

section \<open>The firmware\<close>

text \<open>
  Where \<^verbatim>\<open>main\<close> is: four initialising stores, then the endless loop. \<open>Chan st ch\<close> is the head of
  the inner loop with the status word latched at the top of the pass; the other locations carry
  the locals \<^verbatim>\<open>status\<close>, \<^verbatim>\<open>ch\<close>, \<^verbatim>\<open>cmd\<close> and \<^verbatim>\<open>dat\<close> that are live there.
\<close>

datatype pc = Init_State | Init_Last | Init_Cnt | Init_Inten | Poll
  | Chan u32 nat
  | Read_Dat u32 nat u32
  | Write_Cmd u32 nat u32 u32
  | Write_Dat u32 nat u32 u32
  | Ack u32 nat u32
  | Dbg_Last u32 nat u32
  | Dbg_Cnt u32 nat

record mcu =
  at :: pc
  echoes :: u32

fun main_step :: "doorbell \<Rightarrow> mcu \<times> mbox \<Rightarrow> mcu \<times> mbox" where
  "main_step d (m, r) =
     (case at m of
        Init_State \<Rightarrow> (m\<lparr>at := Init_Last, echoes := 0\<rparr>, REG32_write d DBG_STATE STATE_MBOX r)
      | Init_Last \<Rightarrow> (m\<lparr>at := Init_Cnt\<rparr>, REG32_write d DBG_LASTCMD 0 r)
      | Init_Cnt \<Rightarrow> (m\<lparr>at := Init_Inten\<rparr>, REG32_write d DBG_ECHOCNT 0 r)
      | Init_Inten \<Rightarrow> (m\<lparr>at := Poll\<rparr>, REG32_write d A2B_INTEN (push_bit NUM_CHANS 1 - 1) r)
      | Poll \<Rightarrow> (m\<lparr>at := Chan (REG32 A2B_STATUS r) 0\<rparr>, r)
      | Chan st ch \<Rightarrow>
          if \<not> ch < NUM_CHANS then (m\<lparr>at := Poll\<rparr>, r)
          else if st AND chan_bit ch \<noteq> 0 then (m\<lparr>at := Read_Dat st ch (REG32 (A2B_CMD ch) r)\<rparr>, r)
          else (m\<lparr>at := Chan st (ch + 1)\<rparr>, r)
      | Read_Dat st ch cmd \<Rightarrow> (m\<lparr>at := Write_Cmd st ch cmd (REG32 (A2B_DAT ch) r)\<rparr>, r)
      | Write_Cmd st ch cmd dat \<Rightarrow>
          (m\<lparr>at := Write_Dat st ch cmd dat\<rparr>, REG32_write d (B2A_CMD ch) cmd r)
      | Write_Dat st ch cmd dat \<Rightarrow> (m\<lparr>at := Ack st ch cmd\<rparr>, REG32_write d (B2A_DAT ch) dat r)
      | Ack st ch cmd \<Rightarrow> (m\<lparr>at := Dbg_Last st ch cmd\<rparr>, REG32_write d A2B_STATUS (chan_bit ch) r)
      | Dbg_Last st ch cmd \<Rightarrow> (m\<lparr>at := Dbg_Cnt st ch\<rparr>, REG32_write d DBG_LASTCMD cmd r)
      | Dbg_Cnt st ch \<Rightarrow>
          (m\<lparr>at := Chan st (ch + 1), echoes := echoes m + 1\<rparr>,
           REG32_write d DBG_ECHOCNT (echoes m + 1) r))"

text \<open>The same loop body run without interruption: one channel, and one pass over the channels.\<close>

definition echo_channel :: "doorbell \<Rightarrow> u32 \<Rightarrow> nat \<Rightarrow> u32 \<times> mbox \<Rightarrow> u32 \<times> mbox" where
  "echo_channel d st ch = (\<lambda>(n, r).
     if st AND chan_bit ch \<noteq> 0
     then let cmd = REG32 (A2B_CMD ch) r;
              dat = REG32 (A2B_DAT ch) r;
              r = REG32_write d (B2A_CMD ch) cmd r;
              r = REG32_write d (B2A_DAT ch) dat r;
              r = REG32_write d A2B_STATUS (chan_bit ch) r;
              r = REG32_write d DBG_LASTCMD cmd r;
              r = REG32_write d DBG_ECHOCNT (n + 1) r
          in (n + 1, r)
     else (n, r))"

definition echo_pass :: "doorbell \<Rightarrow> u32 \<times> mbox \<Rightarrow> u32 \<times> mbox" where
  "echo_pass d = (\<lambda>(n, r). fold (echo_channel d (REG32 A2B_STATUS r)) [0..<NUM_CHANS] (n, r))"

section \<open>Register access\<close>

lemma reg_access [simp]:
  "decode_addr A2B_INTEN = Some R_A2B_INTEN"
  "decode_addr A2B_STATUS = Some R_A2B_STATUS"
  "decode_addr B2A_STATUS = Some R_B2A_STATUS"
  "decode_addr DBG_STATE = Some R_DBG_STATE"
  "decode_addr DBG_LASTCMD = Some R_DBG_LASTCMD"
  "decode_addr DBG_ECHOCNT = Some R_DBG_ECHOCNT"
  by code_simp+

lemma less_NUM_CHANS: "ch < NUM_CHANS \<longleftrightarrow> ch \<in> {0, 1, 2, 3}"
  by (auto simp: NUM_CHANS_def)

lemma decode_all:
  "decode_addr (A2B_CMD 0) = Some (R_A2B_CMD 0)" "decode_addr (A2B_CMD 1) = Some (R_A2B_CMD 1)"
  "decode_addr (A2B_CMD 2) = Some (R_A2B_CMD 2)" "decode_addr (A2B_CMD 3) = Some (R_A2B_CMD 3)"
  "decode_addr (A2B_DAT 0) = Some (R_A2B_DAT 0)" "decode_addr (A2B_DAT 1) = Some (R_A2B_DAT 1)"
  "decode_addr (A2B_DAT 2) = Some (R_A2B_DAT 2)" "decode_addr (A2B_DAT 3) = Some (R_A2B_DAT 3)"
  "decode_addr (B2A_CMD 0) = Some (R_B2A_CMD 0)" "decode_addr (B2A_CMD 1) = Some (R_B2A_CMD 1)"
  "decode_addr (B2A_CMD 2) = Some (R_B2A_CMD 2)" "decode_addr (B2A_CMD 3) = Some (R_B2A_CMD 3)"
  "decode_addr (B2A_DAT 0) = Some (R_B2A_DAT 0)" "decode_addr (B2A_DAT 1) = Some (R_B2A_DAT 1)"
  "decode_addr (B2A_DAT 2) = Some (R_B2A_DAT 2)" "decode_addr (B2A_DAT 3) = Some (R_B2A_DAT 3)"
  by code_simp+

lemma decode_chan [simp]:
  assumes "ch < NUM_CHANS"
  shows "decode_addr (A2B_CMD ch) = Some (R_A2B_CMD ch)"
    and "decode_addr (A2B_DAT ch) = Some (R_A2B_DAT ch)"
    and "decode_addr (B2A_CMD ch) = Some (R_B2A_CMD ch)"
    and "decode_addr (B2A_DAT ch) = Some (R_B2A_DAT ch)"
  using assms decode_all unfolding less_NUM_CHANS by auto

lemma bit_chan_bit [simp]: "ch < NUM_CHANS \<Longrightarrow> bit (chan_bit ch) n \<longleftrightarrow> n = ch"
  by (auto simp: chan_bit_def bit_exp_iff NUM_CHANS_def)

lemma and_chan_bit [simp]: "ch < NUM_CHANS \<Longrightarrow> st AND chan_bit ch = 0 \<longleftrightarrow> \<not> bit st ch"
proof
  assume ch: "ch < NUM_CHANS" and "st AND chan_bit ch = 0"
  then have "\<not> bit (st AND chan_bit ch) ch" by simp
  with ch show "\<not> bit st ch" by (simp add: bit_and_iff)
next
  assume "ch < NUM_CHANS" and "\<not> bit st ch"
  then show "st AND chan_bit ch = 0"
    by (intro bit_eqI) (auto simp: bit_and_iff)
qed

lemma bit_clear [simp]:
  "ch < NUM_CHANS \<Longrightarrow> bit (st AND NOT (chan_bit ch)) n \<longleftrightarrow> bit st n \<and> n \<noteq> ch"
  by (cases "n < 32") (auto simp: bit_and_iff bit_not_iff dest: bit_imp_le_length)

lemma bit_ring [simp]:
  "ch < NUM_CHANS \<Longrightarrow> bit (ring rings en ch st) n \<longleftrightarrow> bit st n \<or> rings \<and> bit en ch \<and> n = ch"
  by (auto simp: ring_def bit_or_iff)

section \<open>One pass over the channels\<close>

lemma echo_channel_simp:
  assumes "ch < NUM_CHANS"
  shows "echo_channel d st ch (n, r) =
    (if bit st ch then
       (n + 1, r\<lparr>b2a_cmd := (b2a_cmd r)(ch := a2b_cmd r ch),
                 b2a_dat := (b2a_dat r)(ch := a2b_dat r ch),
                 b2a_status := ring True (b2a_inten r) ch (b2a_status r),
                 a2b_status := a2b_status r AND NOT (chan_bit ch),
                 dbg_lastcmd := a2b_cmd r ch, dbg_echocnt := n + 1\<rparr>)
     else (n, r))"
  using assms
  by (cases d) (simp_all add: echo_channel_def REG32_def REG32_write_def Let_def ring_def)

text \<open>What a pass over the first \<open>k\<close> channels has done, against the registers it started from.\<close>

definition echoed :: "u32 \<Rightarrow> nat \<Rightarrow> u32 \<times> mbox \<Rightarrow> u32 \<times> mbox \<Rightarrow> bool" where
  "echoed st k = (\<lambda>(n, r) (n', r').
     a2b_cmd r' = a2b_cmd r \<and> a2b_dat r' = a2b_dat r \<and> b2a_inten r' = b2a_inten r \<and>
     a2b_inten r' = a2b_inten r \<and> dbg_state r' = dbg_state r \<and>
     n' = n + of_nat (length (filter (bit st) [0..<k])) \<and>
     ((\<forall>ch < k. \<not> bit st ch) \<longrightarrow> r' = r) \<and>
     ((\<exists>ch < k. bit st ch) \<longrightarrow> dbg_echocnt r' = n') \<and>
     (\<forall>ch. if ch < k \<and> bit st ch
           then b2a_cmd r' ch = a2b_cmd r ch \<and> b2a_dat r' ch = a2b_dat r ch \<and>
             \<not> bit (a2b_status r') ch \<and> bit (b2a_status r') ch = (bit (b2a_status r) ch \<or> bit (b2a_inten r) ch)
           else b2a_cmd r' ch = b2a_cmd r ch \<and> b2a_dat r' ch = b2a_dat r ch \<and>
             bit (a2b_status r') ch = bit (a2b_status r) ch \<and> bit (b2a_status r') ch = bit (b2a_status r) ch))"

lemma echoed_step:
  assumes "echoed st k s s'" and "k < NUM_CHANS"
  shows "echoed st (Suc k) s (echo_channel d st k s')"
proof (cases "bit st k")
  case True
  with assms show ?thesis
    by (cases s; cases s') (auto simp: echoed_def echo_channel_simp less_Suc_eq)
next
  case False
  then have c: "(ch < Suc k \<and> bit st ch) = (ch < k \<and> bit st ch)" for ch
    by (auto simp: less_Suc_eq)
  then have a: "(\<forall>ch < Suc k. \<not> bit st ch) = (\<forall>ch < k. \<not> bit st ch)" by blast
  have "echoed st (Suc k) = echoed st k"
    using False by (simp only: echoed_def c a) simp
  moreover have "echo_channel d st k s' = s'"
    using False assms(2) by (cases s') (simp add: echo_channel_simp)
  ultimately show ?thesis using assms(1) by simp
qed

lemma echoed_fold: "k \<le> NUM_CHANS \<Longrightarrow> echoed st k s (fold (echo_channel d st) [0..<k] s)"
proof (induction k)
  case 0
  then show ?case by (auto simp: echoed_def)
next
  case (Suc k)
  then show ?case using echoed_step [of st k s _ d] by simp
qed

text \<open>The interruptible firmware, left alone, computes exactly that pass.\<close>

lemma main_channel:
  assumes "ch < NUM_CHANS"
  shows "\<exists>k \<le> 7. (main_step d ^^ k) (\<lparr>at = Chan st ch, echoes = n\<rparr>, r) =
    (\<lparr>at = Chan st (ch + 1), echoes = fst (echo_channel d st ch (n, r))\<rparr>,
     snd (echo_channel d st ch (n, r)))"
proof (cases "bit st ch")
  case True
  with assms show ?thesis
    by (intro exI [of _ 7]) (simp add: numeral_eq_Suc echo_channel_def Let_def)
next
  case False
  with assms show ?thesis
    by (intro exI [of _ 1]) (simp add: echo_channel_def)
qed

lemma main_channels:
  assumes "k \<le> NUM_CHANS"
  shows "\<exists>j \<le> 7 * k. (main_step d ^^ j) (\<lparr>at = Chan st 0, echoes = n\<rparr>, r) =
    (\<lparr>at = Chan st k, echoes = fst (fold (echo_channel d st) [0..<k] (n, r))\<rparr>,
     snd (fold (echo_channel d st) [0..<k] (n, r)))"
  using assms
proof (induction k)
  case 0
  then show ?case by simp
next
  case (Suc k)
  let ?p = "fold (echo_channel d st) [0..<k] (n, r)"
  obtain j where "j \<le> 7 * k" "(main_step d ^^ j) (\<lparr>at = Chan st 0, echoes = n\<rparr>, r) =
      (\<lparr>at = Chan st k, echoes = fst ?p\<rparr>, snd ?p)"
    using Suc by auto
  moreover obtain i where "i \<le> 7" "(main_step d ^^ i) (\<lparr>at = Chan st k, echoes = fst ?p\<rparr>, snd ?p) =
      (\<lparr>at = Chan st (k + 1), echoes = fst (echo_channel d st k ?p)\<rparr>, snd (echo_channel d st k ?p))"
    using main_channel [of k d st "fst ?p" "snd ?p"] Suc.prems by auto
  ultimately show ?case
    by (intro exI [of _ "i + j"]) (simp add: funpow_add)
qed

lemma main_pass:
  "\<exists>j \<le> 30. (main_step d ^^ j) (\<lparr>at = Poll, echoes = n\<rparr>, r) =
     (\<lparr>at = Poll, echoes = fst (echo_pass d (n, r))\<rparr>, snd (echo_pass d (n, r)))"
proof -
  let ?st = "REG32 A2B_STATUS r"
  obtain j where "j \<le> 28" "(main_step d ^^ j) (\<lparr>at = Chan ?st 0, echoes = n\<rparr>, r) =
    (\<lparr>at = Chan ?st 4, echoes = fst (echo_pass d (n, r))\<rparr>, snd (echo_pass d (n, r)))"
    using main_channels [of 4 d ?st n r] by (auto simp: echo_pass_def NUM_CHANS_def)
  then have "(main_step d ^^ Suc (j + 1)) (\<lparr>at = Poll, echoes = n\<rparr>, r) =
     (\<lparr>at = Poll, echoes = fst (echo_pass d (n, r))\<rparr>, snd (echo_pass d (n, r)))"
    by (simp only: funpow.simps comp_def funpow_add) (simp add: NUM_CHANS_def)
  then show ?thesis using \<open>j \<le> 28\<close> by (intro exI [of _ "Suc (j + 1)"]) simp
qed

text \<open>Left alone, the firmware goes round its loop in at most 30 register accesses, and
  one round echoes both words of every channel whose status bit was set, verbatim, rings the reply
  doorbell of those channels that Linux enabled, acknowledges exactly those messages, leaves the
  other channels alone, and counts one echo per message (modulo 2^32).\<close>

theorem mailbox_pass:
  "\<exists>j \<le> 30. \<exists>n' r'. (main_step d ^^ j) (\<lparr>at = Poll, echoes = n\<rparr>, r) = (\<lparr>at = Poll, echoes = n'\<rparr>, r') \<and>
     n' = n + of_nat (length (filter (bit (a2b_status r)) [0..<NUM_CHANS])) \<and>
     ((\<exists>ch < NUM_CHANS. bit (a2b_status r) ch) \<longrightarrow> dbg_echocnt r' = n') \<and>
     (\<forall>ch. if ch < NUM_CHANS \<and> bit (a2b_status r) ch
       then b2a_cmd r' ch = a2b_cmd r ch \<and> b2a_dat r' ch = a2b_dat r ch \<and> \<not> bit (a2b_status r') ch \<and>
         bit (b2a_status r') ch = (bit (b2a_status r) ch \<or> bit (b2a_inten r) ch)
       else b2a_cmd r' ch = b2a_cmd r ch \<and> b2a_dat r' ch = b2a_dat r ch \<and>
         bit (a2b_status r') ch = bit (a2b_status r) ch \<and> bit (b2a_status r') ch = bit (b2a_status r) ch)"
proof -
  obtain n' r' where p: "echo_pass d (n, r) = (n', r')" by (cases "echo_pass d (n, r)")
  have "echoed (a2b_status r) NUM_CHANS (n, r) (n', r')"
    using echoed_fold [of NUM_CHANS "a2b_status r" "(n, r)" d] p
    by (simp add: echo_pass_def REG32_def)
  then show ?thesis
    using main_pass [of d n r] unfolding p echoed_def by fastforce
qed

section \<open>Both sides, interleaved\<close>

text \<open>
  The Linux side of a channel, as \<^verbatim>\<open>mbox-roundtrip.sh\<close> and \<^verbatim>\<open>VERIFIED.md\<close> describe it: command word,
  then data word, then wait for the reply status, read both words, clear the status. When a sender
  may start is the parameter \<open>may\<close>, a check of the registers.
\<close>

datatype a7 = Idle | Sent_Cmd u32 | Sent u32 u32 | Got_Cmd u32 u32 u32 | Got u32 u32 u32 u32

datatype event = Mcu | Send_Cmd nat u32 | Send_Dat nat u32 | Recv_Cmd nat | Recv_Dat nat | Recv_Ack nat

record sys =
  core :: mcu
  hw :: mbox
  linux :: "nat \<Rightarrow> a7"
  replies :: "(nat \<times> (u32 \<times> u32) \<times> (u32 \<times> u32)) list"

fun sys_step :: "doorbell \<Rightarrow> (mbox \<Rightarrow> nat \<Rightarrow> bool) \<Rightarrow> event \<Rightarrow> sys \<Rightarrow> sys option" where
  "sys_step d may Mcu s =
     (let (m, r) = main_step d (core s, hw s) in Some (s\<lparr>core := m, hw := r\<rparr>))"
| "sys_step d may (Send_Cmd ch c) s =
     (if ch < NUM_CHANS \<and> linux s ch = Idle \<and> may (hw s) ch
      then Some (s\<lparr>hw := REG32_write d (A2B_CMD ch) c (hw s), linux := (linux s)(ch := Sent_Cmd c)\<rparr>)
      else None)"
| "sys_step d may (Send_Dat ch v) s =
     (case linux s ch of
        Sent_Cmd c \<Rightarrow> if ch < NUM_CHANS
          then Some (s\<lparr>hw := REG32_write d (A2B_DAT ch) v (hw s), linux := (linux s)(ch := Sent c v)\<rparr>)
          else None
      | _ \<Rightarrow> None)"
| "sys_step d may (Recv_Cmd ch) s =
     (case linux s ch of
        Sent c v \<Rightarrow> if ch < NUM_CHANS \<and> bit (REG32 B2A_STATUS (hw s)) ch
          then Some (s\<lparr>linux := (linux s)(ch := Got_Cmd c v (REG32 (B2A_CMD ch) (hw s)))\<rparr>)
          else None
      | _ \<Rightarrow> None)"
| "sys_step d may (Recv_Dat ch) s =
     (case linux s ch of
        Got_Cmd c v c' \<Rightarrow> if ch < NUM_CHANS
          then Some (s\<lparr>linux := (linux s)(ch := Got c v c' (REG32 (B2A_DAT ch) (hw s)))\<rparr>)
          else None
      | _ \<Rightarrow> None)"
| "sys_step d may (Recv_Ack ch) s =
     (case linux s ch of
        Got c v c' v' \<Rightarrow> if ch < NUM_CHANS
          then Some (s\<lparr>hw := REG32_write d B2A_STATUS (chan_bit ch) (hw s),
                       linux := (linux s)(ch := Idle), replies := replies s @ [(ch, (c, v), (c', v'))]\<rparr>)
          else None
      | _ \<Rightarrow> None)"

text \<open>The firmware at its entry, no message in flight, Linux's side of the doorbell enabled.\<close>

definition sys_init :: "sys \<Rightarrow> bool" where
  "sys_init s \<longleftrightarrow> at (core s) = Init_State \<and> a2b_status (hw s) = 0 \<and> b2a_status (hw s) = 0 \<and>
     (\<forall>ch < NUM_CHANS. bit (b2a_inten (hw s)) ch) \<and> (\<forall>ch. linux s ch = Idle) \<and> replies s = []"

inductive sys_reach :: "doorbell \<Rightarrow> (mbox \<Rightarrow> nat \<Rightarrow> bool) \<Rightarrow> sys \<Rightarrow> bool" for d may where
  start: "sys_init s \<Longrightarrow> sys_reach d may s"
| step: "sys_reach d may s \<Longrightarrow> sys_step d may e s = Some s' \<Longrightarrow> sys_reach d may s'"

text \<open>The senders' checks compared below.\<close>

definition enabled :: "mbox \<Rightarrow> nat \<Rightarrow> bool" where
  "enabled r ch = bit (REG32 A2B_INTEN r) ch"

definition enabled_idle :: "mbox \<Rightarrow> nat \<Rightarrow> bool" where
  "enabled_idle r ch \<longleftrightarrow> bit (REG32 A2B_INTEN r) ch \<and> \<not> bit (REG32 A2B_STATUS r) ch"

text \<open>What the firmware still owes channel \<open>ch\<close>: a latched status bit, or a message in hand.\<close>

fun pending :: "nat \<Rightarrow> pc \<Rightarrow> bool" where
  "pending ch (Chan st k) = (k \<le> ch \<and> bit st ch)"
| "pending ch (Read_Dat st k _) = (k < ch \<and> bit st ch)"
| "pending ch (Write_Cmd st k _ _) = (k < ch \<and> bit st ch)"
| "pending ch (Write_Dat st k _ _) = (k < ch \<and> bit st ch)"
| "pending ch (Ack st k _) = (k < ch \<and> bit st ch)"
| "pending ch (Dbg_Last st k _) = (k < ch \<and> bit st ch)"
| "pending ch (Dbg_Cnt st k) = (k < ch \<and> bit st ch)"
| "pending ch _ = False"

datatype stage = Away | Has_Cmd u32 | Has_Both u32 u32 | Replied_Cmd u32 u32 | Unacked

fun stage_of :: "nat \<Rightarrow> pc \<Rightarrow> stage" where
  "stage_of ch (Read_Dat st k c) = (if k = ch then Has_Cmd c else Away)"
| "stage_of ch (Write_Cmd st k c v) = (if k = ch then Has_Both c v else Away)"
| "stage_of ch (Write_Dat st k c v) = (if k = ch then Replied_Cmd c v else Away)"
| "stage_of ch (Ack st k c) = (if k = ch then Unacked else Away)"
| "stage_of ch _ = Away"

fun pc_ok :: "pc \<Rightarrow> bool" where
  "pc_ok (Read_Dat st k _) = (k < NUM_CHANS)"
| "pc_ok (Write_Cmd st k _ _) = (k < NUM_CHANS)"
| "pc_ok (Write_Dat st k _ _) = (k < NUM_CHANS)"
| "pc_ok (Ack st k _) = (k < NUM_CHANS)"
| "pc_ok (Dbg_Last st k _) = (k < NUM_CHANS)"
| "pc_ok (Dbg_Cnt st k) = (k < NUM_CHANS)"
| "pc_ok _ = True"

text \<open>A message is on its way to the firmware, or its reply is there to be read.\<close>

definition asked :: "nat \<Rightarrow> mbox \<Rightarrow> u32 \<Rightarrow> u32 \<Rightarrow> bool" where
  "asked ch r c v \<longleftrightarrow> bit (a2b_status r) ch \<and> \<not> bit (b2a_status r) ch \<and> a2b_cmd r ch = c \<and> a2b_dat r ch = v"

definition replied :: "nat \<Rightarrow> mbox \<Rightarrow> a7 \<Rightarrow> bool" where
  "replied ch r a = (case a of
       Idle \<Rightarrow> \<not> bit (b2a_status r) ch
     | Sent_Cmd _ \<Rightarrow> False
     | Sent c v \<Rightarrow> bit (b2a_status r) ch \<and> b2a_cmd r ch = c \<and> b2a_dat r ch = v
     | Got_Cmd c v c' \<Rightarrow> bit (b2a_status r) ch \<and> c' = c \<and> b2a_dat r ch = v
     | Got c v c' v' \<Rightarrow> c' = c \<and> v' = v)"

definition chan_inv :: "nat \<Rightarrow> pc \<Rightarrow> mbox \<Rightarrow> a7 \<Rightarrow> bool" where
  "chan_inv ch p r a = (case stage_of ch p of
       Away \<Rightarrow> (\<exists>c v. a = Sent c v \<and> asked ch r c v) \<or>
         \<not> pending ch p \<and> \<not> bit (a2b_status r) ch \<and>
           (replied ch r a \<or>
            (\<exists>c. a = Sent_Cmd c \<and> a2b_cmd r ch = c \<and> \<not> bit (b2a_status r) ch \<and> bit (a2b_inten r) ch))
     | Has_Cmd c' \<Rightarrow> (\<exists>c v. a = Sent c v \<and> asked ch r c v \<and> c' = c)
     | Has_Both c' v' \<Rightarrow> (\<exists>c v. a = Sent c v \<and> asked ch r c v \<and> c' = c \<and> v' = v)
     | Replied_Cmd c' v' \<Rightarrow>
         (\<exists>c v. a = Sent c v \<and> asked ch r c v \<and> c' = c \<and> v' = v \<and> b2a_cmd r ch = c)
     | Unacked \<Rightarrow> bit (a2b_status r) ch \<and> replied ch r a)"

definition sys_inv :: "sys \<Rightarrow> bool" where
  "sys_inv s \<longleftrightarrow> pc_ok (at (core s)) \<and>
     (\<forall>ch < NUM_CHANS. bit (b2a_inten (hw s)) ch \<and> chan_inv ch (at (core s)) (hw s) (linux s ch)) \<and>
     (\<forall>(ch, m, m') \<in> set (replies s). m' = m)"

lemma bit_all_chans: "ch < NUM_CHANS \<Longrightarrow> bit (push_bit NUM_CHANS 1 - 1 :: u32) ch"
proof -
  have "push_bit NUM_CHANS 1 - 1 = (mask NUM_CHANS :: u32)"
    by (simp add: mask_eq_exp_minus_1)
  then show "ch < NUM_CHANS \<Longrightarrow> ?thesis" by (simp only: bit_mask_iff) (simp add: NUM_CHANS_def)
qed

lemma mcu_inv:
  assumes "main_step On_Dat (m, r) = (m', r')" and "pc_ok (at m)" and "ch < NUM_CHANS"
    and "bit (b2a_inten r) ch" and "chan_inv ch (at m) r a"
  shows "pc_ok (at m') \<and> bit (b2a_inten r') ch \<and> chan_inv ch (at m') r' a"
proof (cases "at m")
  case Init_Inten
  have "bit (push_bit NUM_CHANS 1 - 1 :: u32) ch"
    using assms(3) by (rule bit_all_chans)
  with assms Init_Inten show ?thesis
    by (auto simp: chan_inv_def REG32_write_def asked_def replied_def split: a7.splits)
qed (use assms in \<open>auto simp: chan_inv_def REG32_def REG32_write_def asked_def replied_def
    split: a7.splits if_splits\<close>)

text \<open>A step of Linux on one channel changes nothing that another channel's invariant reads.\<close>

definition same_chan :: "nat \<Rightarrow> mbox \<Rightarrow> mbox \<Rightarrow> bool" where
  "same_chan ch r r' \<longleftrightarrow> bit (a2b_status r') ch = bit (a2b_status r) ch \<and>
     bit (b2a_status r') ch = bit (b2a_status r) ch \<and> bit (a2b_inten r') ch = bit (a2b_inten r) ch \<and>
     a2b_cmd r' ch = a2b_cmd r ch \<and> a2b_dat r' ch = a2b_dat r ch \<and>
     b2a_cmd r' ch = b2a_cmd r ch \<and> b2a_dat r' ch = b2a_dat r ch"

lemma chan_inv_same: "same_chan ch r r' \<Longrightarrow> chan_inv ch p r' a = chan_inv ch p r a"
proof -
  assume e: "same_chan ch r r'"
  then have "asked ch r' = asked ch r" by (intro ext) (simp add: same_chan_def asked_def)
  moreover have "replied ch r' = replied ch r"
    using e by (intro ext) (auto simp: same_chan_def replied_def split: a7.splits)
  ultimately show ?thesis using e
    by (cases "stage_of ch p") (simp_all add: same_chan_def chan_inv_def)
qed

lemma linux_inv:
  assumes "s' = s\<lparr>hw := r', linux := (linux s)(ch := a'), replies := l\<rparr>"
    and "sys_inv s" and "ch < NUM_CHANS" and "b2a_inten r' = b2a_inten (hw s)"
    and "\<And>k. k < NUM_CHANS \<Longrightarrow> k \<noteq> ch \<Longrightarrow> same_chan k (hw s) r'"
    and "chan_inv ch (at (core s)) r' a'"
    and "\<forall>(c, m, m') \<in> set l. m' = m"
  shows "sys_inv s'"
proof -
  have "chan_inv k (at (core s)) r' (linux s k)" if "k < NUM_CHANS" "k \<noteq> ch" for k
    using chan_inv_same [OF assms(5) [OF that]] assms(2) that by (simp add: sys_inv_def)
  with assms show ?thesis by (simp add: sys_inv_def)
qed

lemma linux_writes_same:
  assumes "k < NUM_CHANS" "ch < NUM_CHANS" "k \<noteq> ch"
  shows "same_chan k r (REG32_write d (A2B_CMD ch) v r)" "same_chan k r (REG32_write d (A2B_DAT ch) v r)"
    "same_chan k r (REG32_write d B2A_STATUS (chan_bit ch) r)" "same_chan k r r"
  using assms by (simp_all add: same_chan_def REG32_write_def)

lemma linux_writes_inten:
  assumes "ch < NUM_CHANS"
  shows "b2a_inten (REG32_write d (A2B_CMD ch) v r) = b2a_inten r"
    "b2a_inten (REG32_write d (A2B_DAT ch) v r) = b2a_inten r"
    "b2a_inten (REG32_write d B2A_STATUS v r) = b2a_inten r"
  using assms by (simp_all add: REG32_write_def)

text \<open>Each of Linux's steps keeps the invariant of its own channel.\<close>

lemma linux_chan_inv:
  assumes "ch < NUM_CHANS"
  shows "chan_inv ch p r Idle \<Longrightarrow> enabled_idle r ch \<Longrightarrow>
      chan_inv ch p (REG32_write On_Dat (A2B_CMD ch) c r) (Sent_Cmd c)"
    and "chan_inv ch p r (Sent_Cmd c) \<Longrightarrow>
      chan_inv ch p (REG32_write On_Dat (A2B_DAT ch) v r) (Sent c v)"
    and "chan_inv ch p r (Sent c v) \<Longrightarrow> bit (REG32 B2A_STATUS r) ch \<Longrightarrow>
      chan_inv ch p r (Got_Cmd c v (REG32 (B2A_CMD ch) r))"
    and "chan_inv ch p r (Got_Cmd c v c') \<Longrightarrow> chan_inv ch p r (Got c v c' (REG32 (B2A_DAT ch) r))"
    and "chan_inv ch p r (Got c v c' v') \<Longrightarrow>
      chan_inv ch p (REG32_write On_Dat B2A_STATUS (chan_bit ch) r) Idle \<and> (c', v') = (c, v)"
  using assms
  by (auto simp: chan_inv_def enabled_idle_def REG32_def REG32_write_def asked_def replied_def
      split: stage.splits)

lemma sys_step_inv:
  assumes "sys_step On_Dat enabled_idle e s = Some s'" and "sys_inv s"
  shows "sys_inv s'"
proof (cases e)
  case Mcu
  obtain m r where mr: "main_step On_Dat (core s, hw s) = (m, r)" by fastforce
  with assms Mcu have s': "s' = s\<lparr>core := m, hw := r\<rparr>" by (simp del: main_step.simps)
  have "0 < NUM_CHANS" by (simp add: NUM_CHANS_def)
  with mcu_inv [OF mr] assms(2) show ?thesis
    unfolding sys_inv_def s' by auto
next
  case (Send_Cmd ch c)
  with assms have ch: "ch < NUM_CHANS" and l: "linux s ch = Idle" "enabled_idle (hw s) ch"
    and s': "s' = s\<lparr>hw := REG32_write On_Dat (A2B_CMD ch) c (hw s), linux := (linux s)(ch := Sent_Cmd c),
      replies := replies s\<rparr>"
    by (auto split: if_splits)
  show ?thesis
    by (rule linux_inv [OF s' assms(2) ch])
      (use assms(2) ch l linux_chan_inv(1) [OF ch]
        in \<open>auto simp: sys_inv_def linux_writes_same linux_writes_inten\<close>)
next
  case (Send_Dat ch v)
  with assms obtain c where ch: "ch < NUM_CHANS" and l: "linux s ch = Sent_Cmd c"
    and s': "s' = s\<lparr>hw := REG32_write On_Dat (A2B_DAT ch) v (hw s), linux := (linux s)(ch := Sent c v),
      replies := replies s\<rparr>"
    by (auto split: if_splits a7.splits)
  show ?thesis
    by (rule linux_inv [OF s' assms(2) ch])
      (use assms(2) ch l linux_chan_inv(2) [OF ch]
        in \<open>auto simp: sys_inv_def linux_writes_same linux_writes_inten\<close>)
next
  case (Recv_Cmd ch)
  with assms obtain c v where ch: "ch < NUM_CHANS" and l: "linux s ch = Sent c v"
    "bit (REG32 B2A_STATUS (hw s)) ch"
    and s': "s' = s\<lparr>hw := hw s, linux := (linux s)(ch := Got_Cmd c v (REG32 (B2A_CMD ch) (hw s))),
      replies := replies s\<rparr>"
    by (auto split: if_splits a7.splits)
  show ?thesis
    by (rule linux_inv [OF s' assms(2) ch])
      (use assms(2) ch l linux_chan_inv(3) [OF ch]
        in \<open>auto simp: sys_inv_def linux_writes_same\<close>)
next
  case (Recv_Dat ch)
  with assms obtain c v c' where ch: "ch < NUM_CHANS" and l: "linux s ch = Got_Cmd c v c'"
    and s': "s' = s\<lparr>hw := hw s, linux := (linux s)(ch := Got c v c' (REG32 (B2A_DAT ch) (hw s))),
      replies := replies s\<rparr>"
    by (auto split: if_splits a7.splits)
  show ?thesis
    by (rule linux_inv [OF s' assms(2) ch])
      (use assms(2) ch l linux_chan_inv(4) [OF ch]
        in \<open>auto simp: sys_inv_def linux_writes_same\<close>)
next
  case (Recv_Ack ch)
  with assms obtain c v c' v' where ch: "ch < NUM_CHANS" and l: "linux s ch = Got c v c' v'"
    and s': "s' = s\<lparr>hw := REG32_write On_Dat B2A_STATUS (chan_bit ch) (hw s),
      linux := (linux s)(ch := Idle), replies := replies s @ [(ch, (c, v), (c', v'))]\<rparr>"
    by (auto split: if_splits a7.splits)
  have i: "chan_inv ch (at (core s)) (hw s) (Got c v c' v')"
    using assms(2) ch l unfolding sys_inv_def by metis
  show ?thesis
    by (rule linux_inv [OF s' assms(2) ch])
      (use assms(2) ch linux_chan_inv(5) [OF ch i]
        in \<open>auto simp: sys_inv_def linux_writes_same linux_writes_inten\<close>)
qed

lemma sys_init_inv: "sys_init s \<Longrightarrow> sys_inv s"
  by (auto simp: sys_init_def sys_inv_def chan_inv_def replied_def)

lemma sys_reach_inv: "sys_reach On_Dat enabled_idle s \<Longrightarrow> sys_inv s"
  by (induction rule: sys_reach.induct) (use sys_init_inv sys_step_inv in blast)+

lemma sys_inv_chan: "sys_inv s \<Longrightarrow> ch < NUM_CHANS \<Longrightarrow> chan_inv ch (at (core s)) (hw s) (linux s ch)"
  by (simp add: sys_inv_def)

lemma chan_inv_reply:
  "chan_inv ch p r (Sent c v) \<Longrightarrow> bit (b2a_status r) ch \<Longrightarrow> b2a_cmd r ch = c \<and> b2a_dat r ch = v"
  by (auto simp: chan_inv_def asked_def replied_def split: stage.splits)

text \<open>C4 (mailbox_verbatim): in every interleaving of Linux and the firmware, at the granularity of a
  register access, with the doorbell on the data word and a sender that starts a message only when
  the channel is enabled and its \<^verbatim>\<open>A2B_STATUS\<close> bit is clear, every reply Linux has taken is the
  message it sent on that channel, and every reply it is about to take is too.\<close>

theorem mailbox_verbatim:
  assumes "sys_reach On_Dat enabled_idle s"
  shows "(\<forall>(ch, sent, got) \<in> set (replies s). got = sent) \<and>
    (\<forall>ch < NUM_CHANS. \<forall>c v. linux s ch = Sent c v \<longrightarrow> bit (b2a_status (hw s)) ch \<longrightarrow>
       b2a_cmd (hw s) ch = c \<and> b2a_dat (hw s) ch = v)"
proof -
  have inv: "sys_inv s" using assms by (rule sys_reach_inv)
  have "b2a_cmd (hw s) ch = c \<and> b2a_dat (hw s) ch = v"
    if "ch < NUM_CHANS" "linux s ch = Sent c v" "bit (b2a_status (hw s)) ch" for ch c v
    using sys_inv_chan [OF inv that(1)] that by (intro chan_inv_reply) simp_all
  with inv show ?thesis by (auto simp: sys_inv_def)
qed

section \<open>Every message is answered\<close>

text \<open>
  How far the firmware is from the top of its loop, and from the reply to \<open>ch\<close>: one round more,
  where the message is not part of the round in progress.
\<close>

fun to_poll :: "pc \<Rightarrow> nat" where
  "to_poll Init_State = 4"
| "to_poll Init_Last = 3"
| "to_poll Init_Cnt = 2"
| "to_poll Init_Inten = 1"
| "to_poll Poll = 0"
| "to_poll (Chan st k) = 7 * (NUM_CHANS - k) + 1"
| "to_poll (Read_Dat st k _) = 7 * (NUM_CHANS - k)"
| "to_poll (Write_Cmd st k _ _) = 7 * (NUM_CHANS - k) - 1"
| "to_poll (Write_Dat st k _ _) = 7 * (NUM_CHANS - k) - 2"
| "to_poll (Ack st k _) = 7 * (NUM_CHANS - k) - 3"
| "to_poll (Dbg_Last st k _) = 7 * (NUM_CHANS - k) - 4"
| "to_poll (Dbg_Cnt st k) = 7 * (NUM_CHANS - k) - 5"

definition to_reply :: "nat \<Rightarrow> pc \<Rightarrow> nat" where
  "to_reply ch p = (if pending ch p \<or> stage_of ch p \<noteq> Away then to_poll p else to_poll p + 30)"

lemma to_reply_bound: "to_reply ch p \<le> 59"
  by (cases p) (auto simp: to_reply_def NUM_CHANS_def)

lemma main_closer:
  assumes "main_step On_Dat (m, r) = (m', r')" and "pc_ok (at m)" and "ch < NUM_CHANS"
    and "bit (b2a_inten r) ch" and "asked ch r c v" and "stage_of ch (at m) \<noteq> Unacked"
    and "\<not> bit (b2a_status r') ch"
  shows "to_reply ch (at m') < to_reply ch (at m)"
proof (cases "at m")
  case (Chan st k)
  with assms show ?thesis
    by (cases "k < NUM_CHANS"; cases "bit st k"; cases "k = ch")
      (auto simp: to_reply_def NUM_CHANS_def)
qed (use assms in \<open>auto simp: to_reply_def REG32_def REG32_write_def asked_def NUM_CHANS_def
    split: if_splits\<close>)

text \<open>A run in which the reply to \<open>ch\<close> is never there, with the number of firmware steps in it.\<close>

inductive waiting :: "nat \<Rightarrow> sys \<Rightarrow> nat \<Rightarrow> sys \<Rightarrow> bool" for ch s where
  wait_here: "\<not> bit (b2a_status (hw s)) ch \<Longrightarrow> waiting ch s 0 s"
| wait_step: "waiting ch s n s1 \<Longrightarrow> sys_step On_Dat enabled_idle e s1 = Some s2 \<Longrightarrow>
    \<not> bit (b2a_status (hw s2)) ch \<Longrightarrow> waiting ch s (if e = Mcu then Suc n else n) s2"

lemma linux_keeps_mcu:
  "sys_step d may e s = Some s' \<Longrightarrow> e \<noteq> Mcu \<Longrightarrow> core s' = core s"
  by (cases e) (auto split: if_splits a7.splits)

lemma waiting_linux:
  assumes "sys_step d may e s = Some s'" and "linux s ch = Sent c v" and "\<not> bit (b2a_status (hw s)) ch"
  shows "linux s' ch = Sent c v"
  using assms by (cases e) (auto simp: REG32_def split_beta Let_def split: if_splits a7.splits)

lemma waiting_rank:
  assumes "sys_reach On_Dat enabled_idle s" and "ch < NUM_CHANS" and "linux s ch = Sent c v"
    and "waiting ch s n s'"
  shows "sys_inv s' \<and> linux s' ch = Sent c v \<and> \<not> bit (b2a_status (hw s')) ch \<and>
    to_reply ch (at (core s')) + n \<le> to_reply ch (at (core s))"
  using assms(4)
proof (induction rule: waiting.induct)
  case wait_here
  then show ?case using assms sys_reach_inv by simp
next
  case (wait_step n s1 e s2)
  have inv2: "sys_inv s2" using wait_step sys_step_inv by blast
  have l2: "linux s2 ch = Sent c v" using waiting_linux wait_step by blast
  show ?case
  proof (cases "e = Mcu")
    case True
    obtain m r where mr: "main_step On_Dat (core s1, hw s1) = (m, r)" by fastforce
    then have s2: "core s2 = m" "hw s2 = r" using wait_step(2) True by (auto simp del: main_step.simps)
    have "chan_inv ch (at (core s1)) (hw s1) (Sent c v)" "pc_ok (at (core s1))"
      "bit (b2a_inten (hw s1)) ch" "\<not> bit (b2a_status (hw s1)) ch"
      using wait_step.IH assms(2) by (auto simp: sys_inv_def)
    then have "asked ch (hw s1) c v" "stage_of ch (at (core s1)) \<noteq> Unacked"
      by (auto simp: chan_inv_def replied_def split: stage.splits)
    from main_closer [OF mr _ assms(2) _ this] wait_step s2 assms(2)
    have "to_reply ch (at (core s2)) < to_reply ch (at (core s1))"
      by (simp add: sys_inv_def)
    with wait_step inv2 l2 True show ?thesis by simp
  next
    case False
    with linux_keeps_mcu [OF wait_step(2)] wait_step inv2 l2 show ?thesis by simp
  qed
qed

text \<open>C13 (mailbox_answers): every message is answered. Under the same protocol, however Linux and the
  firmware are interleaved, once a message is sent the firmware takes at most 59 register accesses
  before the reply doorbell of its channel is rung.\<close>

theorem mailbox_answers:
  assumes "sys_reach On_Dat enabled_idle s" and "ch < NUM_CHANS" and "linux s ch = Sent c v"
    and "waiting ch s n s'"
  shows "n \<le> 59 \<and> (\<exists>s2. sys_step On_Dat enabled_idle Mcu s' = Some s2)"
  using waiting_rank [OF assms] to_reply_bound [of ch "at (core s)"]
  by (auto simp: split_beta Let_def)

section \<open>Two ways to lose the echo\<close>

fun run_events :: "doorbell \<Rightarrow> (mbox \<Rightarrow> nat \<Rightarrow> bool) \<Rightarrow> event list \<Rightarrow> sys \<Rightarrow> sys option" where
  "run_events d may [] s = Some s"
| "run_events d may (e # es) s =
     (case sys_step d may e s of None \<Rightarrow> None | Some s' \<Rightarrow> run_events d may es s')"

definition sys0 :: sys where
  "sys0 = \<lparr>core = \<lparr>at = Init_State, echoes = 0\<rparr>,
     hw = \<lparr>a2b_inten = 0, a2b_status = 0, a2b_cmd = (\<lambda>_. 0), a2b_dat = (\<lambda>_. 0), b2a_inten = 15,
       b2a_status = 0, b2a_cmd = (\<lambda>_. 0), b2a_dat = (\<lambda>_. 0), dbg_state = 0, dbg_lastcmd = 0,
       dbg_echocnt = 0\<rparr>, linux = (\<lambda>_. Idle), replies = []\<rparr>"

lemma bit_15: "ch < NUM_CHANS \<Longrightarrow> bit (15 :: u32) ch"
  using bit_all_chans [of ch] by (simp add: NUM_CHANS_def)

lemma sys0_init: "sys_init sys0"
proof -
  have "\<forall>ch < NUM_CHANS. bit (b2a_inten (hw sys0)) ch"
    using bit_15 by (simp del: bit_numeral_word_iff add: sys0_def)
  then show ?thesis by (simp add: sys_init_def) (simp add: sys0_def)
qed

lemma run_reach: "sys_reach d may s \<Longrightarrow> run_events d may es s = Some s' \<Longrightarrow> sys_reach d may s'"
  by (induction es arbitrary: s) (auto split: option.splits intro: sys_reach.step)

text \<open>Linux and the firmware run these from the start.\<close>

definition boot :: "event list" where
  "boot = replicate 4 Mcu"

definition first_echo :: "event list" where
  "first_echo = boot @ [Send_Cmd 0 1, Send_Dat 0 2] @ replicate 5 Mcu @ [Recv_Cmd 0, Recv_Dat 0, Recv_Ack 0]"

definition hasty :: "event list" where
  "hasty = first_echo @ [Send_Cmd 0 7, Send_Dat 0 8, Mcu]"

text \<open>A message that no status bit, no latched status and no location of the firmware knows of.\<close>

definition forgotten :: "sys \<Rightarrow> bool" where
  "forgotten s \<longleftrightarrow> linux s 0 = Sent 7 8 \<and> \<not> bit (a2b_status (hw s)) 0 \<and> \<not> bit (b2a_status (hw s)) 0 \<and>
     \<not> pending 0 (at (core s)) \<and> stage_of 0 (at (core s)) = Away \<and> pc_ok (at (core s))"

lemma forgotten_mcu:
  assumes "main_step d (m, r) = (m', r')" and "pc_ok (at m)" and "\<not> pending 0 (at m)"
    and "stage_of 0 (at m) = Away" and "\<not> bit (a2b_status r) 0" and "\<not> bit (b2a_status r) 0"
  shows "pc_ok (at m') \<and> \<not> pending 0 (at m') \<and> stage_of 0 (at m') = Away \<and>
    \<not> bit (a2b_status r') 0 \<and> \<not> bit (b2a_status r') 0"
  using assms
  by (cases "at m") (auto simp: REG32_def REG32_write_def split: if_splits intro!: gr0I)

lemma forgotten_step:
  assumes "sys_step d may e s = Some s'" and "forgotten s"
  shows "forgotten s'"
proof (cases "e = Mcu")
  case True
  obtain m r where mr: "main_step d (core s, hw s) = (m, r)" by fastforce
  then have "s' = s\<lparr>core := m, hw := r\<rparr>" using assms(1) True by (simp del: main_step.simps)
  with forgotten_mcu [OF mr] assms(2) show ?thesis by (simp add: forgotten_def)
next
  case False
  have "linux s' 0 = Sent 7 8"
    using waiting_linux [OF assms(1)] assms(2) by (simp add: forgotten_def)
  moreover have "\<not> bit (a2b_status (hw s')) 0 \<and> \<not> bit (b2a_status (hw s')) 0"
    using assms False
    by (cases e) (auto simp: forgotten_def REG32_write_def split: if_splits a7.splits)
  ultimately show ?thesis
    using linux_keeps_mcu [OF assms(1) False] assms(2) by (simp add: forgotten_def)
qed

lemma forgotten_run: "run_events d may es s = Some s' \<Longrightarrow> forgotten s \<Longrightarrow> forgotten s'"
  by (induction es arbitrary: s) (auto split: option.splits dest: forgotten_step)

lemma hasty_forgotten:
  "case run_events On_Dat enabled hasty sys0 of Some s \<Rightarrow> forgotten s | None \<Rightarrow> False"
  by code_simp

text \<open>C38 (mailbox_lost_message): the sender has to wait for the acknowledgement, not only for the reply. The
  firmware rings the reply doorbell before it clears its own status bit, so a sender that starts its
  next message as soon as it has taken the reply can have that message acknowledged unread: there is
  a reachable state from which, whatever happens, the message on channel 0 is never answered.\<close>

theorem mailbox_lost_message:
  "\<exists>s. sys_reach On_Dat enabled s \<and> linux s 0 = Sent 7 8 \<and>
     (\<forall>es s'. run_events On_Dat enabled es s = Some s' \<longrightarrow>
        linux s' 0 = Sent 7 8 \<and> \<not> bit (b2a_status (hw s')) 0)"
proof -
  obtain s where s: "run_events On_Dat enabled hasty sys0 = Some s" "forgotten s"
    using hasty_forgotten by (auto split: option.splits)
  then have "sys_reach On_Dat enabled s"
    using run_reach sys_reach.start [OF sys0_init] by blast
  with s(2) forgotten_run [where s = s] show ?thesis
    unfolding forgotten_def by blast
qed

text \<open>The order of the firmware's two reply words matters. If the command
  word rang the doorbell, as \<^verbatim>\<open>main.c\<close> says, Linux could read the reply between the two writes
  and take the previous data word for the echo.\<close>

theorem mailbox_cmd_doorbell_stale:
  "\<exists>s. sys_reach On_Cmd enabled_idle s \<and> (0, (1, 2), (1, 0)) \<in> set (replies s)"
proof -
  let ?es = "boot @ [Send_Cmd 0 1, Send_Dat 0 2] @ replicate 4 Mcu @ [Recv_Cmd 0, Recv_Dat 0, Recv_Ack 0]"
  have "case run_events On_Cmd enabled_idle ?es sys0 of
      Some s \<Rightarrow> (0, (1, 2), (1, 0)) \<in> set (replies s) | None \<Rightarrow> False"
    by code_simp
  then obtain s where "run_events On_Cmd enabled_idle ?es sys0 = Some s"
    "(0, (1, 2), (1, 0)) \<in> set (replies s)"
    by (auto split: option.splits)
  then show ?thesis using run_reach sys_reach.start [OF sys0_init] by blast
qed

section \<open>Witnesses\<close>

lemma first_echo_taken:
  "case run_events On_Dat enabled_idle first_echo sys0 of
     Some s \<Rightarrow> (0, (1, 2), (1, 2)) \<in> set (replies s) | None \<Rightarrow> False"
  by code_simp

theorem mailbox_verbatim_witness:
  "\<exists>s. run_events On_Dat enabled_idle first_echo sys0 = Some s \<and> replies s \<noteq> [] \<and>
     (\<forall>(ch, sent, got) \<in> set (replies s). got = sent)"
proof -
  obtain s where s: "run_events On_Dat enabled_idle first_echo sys0 = Some s" "replies s \<noteq> []"
    using first_echo_taken by (fastforce split: option.splits)
  then have "sys_reach On_Dat enabled_idle s"
    using run_reach sys_reach.start [OF sys0_init] by blast
  with mailbox_verbatim s show ?thesis by blast
qed

lemma one_sent:
  "case run_events On_Dat enabled_idle (boot @ [Send_Cmd 0 1, Send_Dat 0 2]) sys0 of
     Some s \<Rightarrow> linux s 0 = Sent 1 2 \<and> \<not> bit (b2a_status (hw s)) 0 | None \<Rightarrow> False"
  by code_simp

theorem mailbox_answers_witness:
  "\<exists>s. linux s 0 = Sent 1 2 \<and> waiting 0 s 0 s \<and> (\<exists>s2. sys_step On_Dat enabled_idle Mcu s = Some s2)"
proof -
  obtain s where s: "run_events On_Dat enabled_idle (boot @ [Send_Cmd 0 1, Send_Dat 0 2]) sys0 = Some s"
    "linux s 0 = Sent 1 2" "\<not> bit (b2a_status (hw s)) 0"
    using one_sent by (auto split: option.splits)
  then have "sys_reach On_Dat enabled_idle s"
    using run_reach sys_reach.start [OF sys0_init] by blast
  moreover have "waiting 0 s 0 s" using s(3) by (rule waiting.wait_here)
  moreover have "0 < NUM_CHANS" by (simp add: NUM_CHANS_def)
  ultimately show ?thesis using mailbox_answers [of s 0 1 2 0 s] s(2) by blast
qed

theorem mailbox_lost_message_witness:
  "\<exists>s :: sys. linux s 0 = Sent 7 8 \<and> \<not> bit (b2a_status (hw s)) 0"
  using mailbox_lost_message by (metis run_events.simps(1))

theorem mailbox_pass_witness:
  "\<exists>j \<le> 30. \<exists>n' r'. (main_step On_Dat ^^ j)
     (\<lparr>at = Poll, echoes = 0\<rparr>, (hw sys0)\<lparr>a2b_status := 3, a2b_dat := (\<lambda>_. 9)\<rparr>) =
     (\<lparr>at = Poll, echoes = n'\<rparr>, r') \<and> b2a_dat r' 1 = 9 \<and> b2a_dat r' 2 = 0"
proof -
  let ?r = "(hw sys0)\<lparr>a2b_status := 3, a2b_dat := (\<lambda>_. 9)\<rparr>"
  have "1 < NUM_CHANS \<and> bit (a2b_status ?r) 1" "\<not> bit (a2b_status ?r) 2"
    "a2b_dat ?r 1 = 9" "b2a_dat ?r 2 = 0"
    by (simp_all add: NUM_CHANS_def sys0_def)
  with mailbox_pass [of On_Dat 0 ?r] show ?thesis by metis
qed

end
