(* ===== verification/Kernel_Monad.thy ===== *)
theory Kernel_Monad
  imports Warden_Prelude "HOL-Library.State_Monad"
begin

text \<open>
  The state monad the kernel drivers are written in, and the weakest-precondition calculus their
  properties are proved with. A driver function is a \<open>state\<close> computation over the system state; a C
  function that returns an error code returns an \<open>int\<close>, 0 or negative, and \<open>chk m k\<close> is the idiom
  \<^verbatim>\<open>ret = m; if (ret) return ret; k\<close>.
\<close>

abbreviation returnS :: "'a \<Rightarrow> ('s, 'a) state" where
  "returnS \<equiv> State_Monad.return"

definition gets :: "('s \<Rightarrow> 'a) \<Rightarrow> ('s, 'a) state" where
  "gets f = State (\<lambda>s. (f s, s))"

definition modify :: "('s \<Rightarrow> 's) \<Rightarrow> ('s, unit) state" where
  "modify f = State (\<lambda>s. ((), f s))"

definition chk :: "('s, int) state \<Rightarrow> ('s, int) state \<Rightarrow> ('s, int) state" where
  "chk m k = do { ret \<leftarrow> m; if ret \<noteq> 0 then returnS ret else k }"

definition ignore :: "('s, 'a) state \<Rightarrow> ('s, unit) state" where
  "ignore m = do { _ \<leftarrow> m; returnS () }"

text \<open>An operation of a part of the state, run on the whole.\<close>

definition lift_on :: "('s \<Rightarrow> 'w) \<Rightarrow> ('w \<Rightarrow> 's \<Rightarrow> 's) \<Rightarrow> ('w \<Rightarrow> 'a \<times> 'w) \<Rightarrow> ('s, 'a) state" where
  "lift_on sel upd f = State (\<lambda>s. case f (sel s) of (a, w) \<Rightarrow> (a, upd w s))"

section \<open>Weakest preconditions\<close>

named_theorems wp \<open>weakest preconditions of the model's operations\<close>

definition wp :: "('s, 'a) state \<Rightarrow> ('a \<Rightarrow> 's \<Rightarrow> bool) \<Rightarrow> 's \<Rightarrow> bool" where
  "wp m Q s = (case run_state m s of (a, s') \<Rightarrow> Q a s')"

lemma wp_run: "run_state m s = (a, s') \<Longrightarrow> wp m Q s = Q a s'"
  by (simp add: wp_def)

lemma wp_return [wp]: "wp (returnS a) Q s = Q a s"
  by (simp add: wp_def)

lemma wp_bind [wp]: "wp (State_Monad.bind m f) Q s = wp m (\<lambda>a. wp (f a) Q) s"
  by (simp add: wp_def split: prod.splits)

lemma wp_gets [wp]: "wp (gets f) Q s = Q (f s) s"
  by (simp add: wp_def gets_def)

lemma wp_modify [wp]: "wp (modify f) Q s = Q () (f s)"
  by (simp add: wp_def modify_def)

lemma wp_if [wp]: "wp (if b then m else n) Q s = (if b then wp m Q s else wp n Q s)"
  by simp

lemma wp_ifI: "(b \<Longrightarrow> wp m Q s) \<Longrightarrow> (\<not> b \<Longrightarrow> wp n Q s) \<Longrightarrow> wp (if b then m else n) Q s"
  by simp

lemma if_goalI: "(b \<Longrightarrow> P) \<Longrightarrow> (\<not> b \<Longrightarrow> Q) \<Longrightarrow> if b then P else Q"
  by simp

lemma wp_chk [wp]:
  "wp (chk m k) Q s = wp m (\<lambda>ret s'. if ret \<noteq> 0 then Q ret s' else wp k Q s') s"
  by (simp add: chk_def wp_def split: prod.splits)

lemma wp_ignore [wp]: "wp (ignore m) Q s = wp m (\<lambda>_. Q ()) s"
  by (simp add: ignore_def wp_def split: prod.splits)

lemma wp_lift_on [wp]:
  "wp (lift_on sel upd f) Q s = (case f (sel s) of (a, w) \<Rightarrow> Q a (upd w s))"
  by (simp add: wp_def lift_on_def split: prod.splits)

lemma wp_mono: "wp m Q s \<Longrightarrow> (\<And>a s'. Q a s' \<Longrightarrow> R a s') \<Longrightarrow> wp m R s"
  by (auto simp: wp_def split: prod.splits)

lemma wp_conj: "wp m (\<lambda>a s'. Q a s' \<and> R a s') s = (wp m Q s \<and> wp m R s)"
  by (auto simp: wp_def split: prod.splits)

text \<open>What holds of every result holds of the result.\<close>

lemma wpI: "(\<And>a s'. run_state m s = (a, s') \<Longrightarrow> Q a s') \<Longrightarrow> wp m Q s"
  by (auto simp: wp_def split: prod.splits)

lemma wpD: "wp m Q s \<Longrightarrow> run_state m s = (a, s') \<Longrightarrow> Q a s'"
  by (simp add: wp_def)

section \<open>What an operation leaves alone\<close>

text \<open>\<open>keeps f m\<close>: the part \<open>f\<close> of the state is the same after \<open>m\<close>. The rules go through a program by its structure.\<close>

named_theorems keeps \<open>operations that leave a part of the state alone\<close>

definition keeps :: "('s \<Rightarrow> 'b) \<Rightarrow> ('s, 'a) state \<Rightarrow> bool" where
  "keeps f m \<longleftrightarrow> (\<forall>s. f (snd (run_state m s)) = f s)"

lemma keepsD: "keeps f m \<Longrightarrow> run_state m s = (a, s') \<Longrightarrow> f s' = f s"
  by (metis keeps_def snd_conv)

lemma keeps_comp: "keeps f m \<Longrightarrow> keeps (\<lambda>s. g (f s)) m"
  by (simp add: keeps_def)

lemma keeps_return [keeps]: "keeps f (returnS a)"
  by (simp add: keeps_def)

lemma keeps_gets [keeps]: "keeps f (gets g)"
  by (simp add: keeps_def gets_def)

lemma keeps_modify: "(\<And>s. f (g s) = f s) \<Longrightarrow> keeps f (modify g)"
  by (simp add: keeps_def modify_def)

lemma keeps_bind [keeps]: "keeps f m \<Longrightarrow> (\<And>a. keeps f (k a)) \<Longrightarrow> keeps f (State_Monad.bind m k)"
  by (simp add: keeps_def split: prod.split) (metis snd_conv)

lemma keeps_ignore [keeps]: "keeps f m \<Longrightarrow> keeps f (ignore m)"
  unfolding ignore_def by (intro keeps)

lemma keeps_if [keeps]: "(b \<Longrightarrow> keeps f m) \<Longrightarrow> (\<not> b \<Longrightarrow> keeps f n) \<Longrightarrow> keeps f (if b then m else n)"
  by simp

lemma keeps_option [keeps]:
  "(x = None \<Longrightarrow> keeps f m) \<Longrightarrow> (\<And>a. x = Some a \<Longrightarrow> keeps f (k a)) \<Longrightarrow>
     keeps f (case x of None \<Rightarrow> m | Some a \<Rightarrow> k a)"
  by (cases x) auto

lemma keeps_prod [keeps]: "(\<And>a b. x = (a, b) \<Longrightarrow> keeps f (k a b)) \<Longrightarrow> keeps f (case x of (a, b) \<Rightarrow> k a b)"
  by (cases x) auto

lemma keeps_Let [keeps]: "keeps f (k x) \<Longrightarrow> keeps f (Let x k)"
  by simp

text \<open>A step that leaves \<open>f\<close> alone, in a proof about what follows it.\<close>

lemma wp_keeps: "keeps f m \<Longrightarrow> (\<And>a s'. f s' = f s \<Longrightarrow> Q a s') \<Longrightarrow> wp m Q s"
  by (auto simp: keeps_def wp_def split: prod.splits) (metis snd_conv)

lemma wp_keeps_bind:
  "keeps f m \<Longrightarrow> (\<And>a s'. f s' = f s \<Longrightarrow> wp (k a) Q s') \<Longrightarrow> wp (State_Monad.bind m k) Q s"
  unfolding wp_bind by (rule wp_keeps)

section \<open>Invariants of an operation\<close>

named_theorems preserves \<open>operations that keep an invariant\<close>

definition preserves :: "('s \<Rightarrow> bool) \<Rightarrow> ('s, 'a) state \<Rightarrow> bool" where
  "preserves J m \<longleftrightarrow> (\<forall>s. J s \<longrightarrow> J (snd (run_state m s)))"

lemma preservesD: "preserves J m \<Longrightarrow> run_state m s = (a, s') \<Longrightarrow> J s \<Longrightarrow> J s'"
  by (metis preserves_def snd_conv)

lemma preserves_wp: "preserves J m \<Longrightarrow> J s \<Longrightarrow> wp m (\<lambda>_. J) s"
  by (auto simp: preserves_def wp_def split: prod.split)

lemma wp_preserves: "(\<And>s. J s \<Longrightarrow> wp m (\<lambda>_. J) s) \<Longrightarrow> preserves J m"
  by (auto simp: preserves_def wp_def split_beta)

lemma preserves_return [preserves]: "preserves J (returnS a)"
  by (simp add: preserves_def)

lemma preserves_gets [preserves]: "preserves J (gets g)"
  by (simp add: preserves_def gets_def)

lemma preserves_modify: "(\<And>s. J s \<Longrightarrow> J (g s)) \<Longrightarrow> preserves J (modify g)"
  by (simp add: preserves_def modify_def)

lemma preserves_bind [preserves]:
  "preserves J m \<Longrightarrow> (\<And>a. preserves J (k a)) \<Longrightarrow> preserves J (State_Monad.bind m k)"
  by (simp add: preserves_def split: prod.split) (metis snd_conv)

lemma preserves_ignore [preserves]: "preserves J m \<Longrightarrow> preserves J (ignore m)"
  unfolding ignore_def by (intro preserves)

lemma preserves_if [preserves]:
  "(b \<Longrightarrow> preserves J m) \<Longrightarrow> (\<not> b \<Longrightarrow> preserves J n) \<Longrightarrow> preserves J (if b then m else n)"
  by simp

lemma preserves_option [preserves]:
  "(x = None \<Longrightarrow> preserves J m) \<Longrightarrow> (\<And>a. x = Some a \<Longrightarrow> preserves J (k a)) \<Longrightarrow>
     preserves J (case x of None \<Rightarrow> m | Some a \<Rightarrow> k a)"
  by (cases x) auto

lemma preserves_prod [preserves]:
  "(\<And>a b. x = (a, b) \<Longrightarrow> preserves J (k a b)) \<Longrightarrow> preserves J (case x of (a, b) \<Rightarrow> k a b)"
  by (cases x) auto

lemma preserves_Let [preserves]: "preserves J (k x) \<Longrightarrow> preserves J (Let x k)"
  by simp

end
