(* ===== verification/Rtc.thy ===== *)
theory Rtc
  imports Kernel_Monad
begin

unbundle bit_operations_syntax

text \<open>
  The internal RTC driver, \<^verbatim>\<open>kernel/rv1106-enablement/rtc/rtc-rockchip.c\<close>. The register map, the BCD
  helpers, \<^verbatim>\<open>DIV_ROUND_CLOSEST\<close> and the platform calls of the kernel are parameters (\<open>rtc_api\<close>,
  \<open>rtc_platform\<close>) on a device state \<open>'w\<close>; what the properties need of them are the laws of the locale
  \<open>rtc_bus\<close> and the BCD laws. The reference counts the driver moves (clock enables, wake-up
  enables, the queued trim work, the alarm notifications) are fields of the system state.
\<close>

section \<open>Registers and bit fields\<close>

definition RTC_SET_SECONDS :: u32 where "RTC_SET_SECONDS = 0x0"
definition RTC_ALARM_SECONDS :: u32 where "RTC_ALARM_SECONDS = 0x20"
definition RTC_CTRL :: u32 where "RTC_CTRL = 0x3c"
definition RTC_STATUS0 :: u32 where "RTC_STATUS0 = 0x40"
definition RTC_STATUS1 :: u32 where "RTC_STATUS1 = 0x44"
definition RTC_INT0_EN :: u32 where "RTC_INT0_EN = 0x48"
definition RTC_COMP_H :: u32 where "RTC_COMP_H = 0x58"
definition RTC_COMP_D :: u32 where "RTC_COMP_D = 0x5c"
definition RTC_COMP_M :: u32 where "RTC_COMP_M = 0x60"
definition RTC_LDO_CTRL :: u32 where "RTC_LDO_CTRL = 0x6c"
definition RTC_VPTAT_TRIM :: u32 where "RTC_VPTAT_TRIM = 0x78"
definition RTC_ANALOG_EN :: u32 where "RTC_ANALOG_EN = 0x7c"
definition RTC_CLK32K_TEST :: u32 where "RTC_CLK32K_TEST = 0x80"
definition RTC_TEST_ST :: u32 where "RTC_TEST_ST = 0x84"
definition RTC_TEST_LEN :: u32 where "RTC_TEST_LEN = 0x88"
definition RTC_CNT_0 :: u32 where "RTC_CNT_0 = 0x8c"

abbreviation BIT :: "nat \<Rightarrow> u32" where
  "BIT n \<equiv> push_bit n 1"

definition VI_GRF_VI_MISC_CON0 :: u32 where "VI_GRF_VI_MISC_CON0 = 0x50000"
definition RTC_CLAMP_EN :: u32 where "RTC_CLAMP_EN = BIT 6"
definition RTC_CTRL_REG_START_RTC :: u32 where "RTC_CTRL_REG_START_RTC = BIT 0"
definition RTC_CTRL_REG_RTC_READSEL_M :: u32 where "RTC_CTRL_REG_RTC_READSEL_M = BIT 7"
definition RTC_INT_REG_ALARM_EN :: u32 where "RTC_INT_REG_ALARM_EN = BIT 7"
definition RTC_D2A_XO_EN :: u32 where "RTC_D2A_XO_EN = BIT 0"
definition RTC_D2A_CLK_OUT_EN :: u32 where "RTC_D2A_CLK_OUT_EN = BIT 5"
definition RTC_STATUS_MASK :: u32 where "RTC_STATUS_MASK = 0xFF"
definition SECONDS_REG_MSK :: u32 where "SECONDS_REG_MSK = 0x7F"
definition MINUTES_REG_MAK :: u32 where "MINUTES_REG_MAK = 0x7F"
definition HOURS_REG_MSK :: u32 where "HOURS_REG_MSK = 0x3F"
definition DAYS_REG_MSK :: u32 where "DAYS_REG_MSK = 0x3F"
definition MONTHS_REG_MSK :: u32 where "MONTHS_REG_MSK = 0x1F"
definition YEARS_REG_MSK :: u32 where "YEARS_REG_MSK = 0xFF"
definition WEEKS_REG_MSK :: u32 where "WEEKS_REG_MSK = 0x7"
definition CLK_32K_ENABLE :: u32 where "CLK_32K_ENABLE = BIT 5"
definition D2A_POR_REG_SEL1 :: u32 where "D2A_POR_REG_SEL1 = BIT 4"
definition D2A_POR_REG_SEL0 :: u32 where "D2A_POR_REG_SEL0 = BIT 1"
definition ENABLE_ALARM_INT :: u32 where "ENABLE_ALARM_INT = 0xFF"
definition ALARM_INT_STATUS :: u32 where "ALARM_INT_STATUS = BIT 4"
definition CLK32K_TEST_EN :: u32 where "CLK32K_TEST_EN = BIT 0"
definition CLK32K_TEST_START :: u32 where "CLK32K_TEST_START = BIT 0"
definition CLK32K_TEST_DONE :: u32 where "CLK32K_TEST_DONE = BIT 2"
definition CLK32K_TEST_LEN :: u32 where "CLK32K_TEST_LEN = 1"
definition CLK32K_COMP_DIR_ADD :: u32 where "CLK32K_COMP_DIR_ADD = BIT 7"
definition CLK32K_COMP_EN :: u32 where "CLK32K_COMP_EN = BIT 2"
definition CLK32K_NO_COMP :: u32 where "CLK32K_NO_COMP = 0x1"
definition CLK32K_TEST_REF_CLK :: u32 where "CLK32K_TEST_REF_CLK = 24000000"
definition RTC_WRITE_MASK :: u32 where "RTC_WRITE_MASK = 0xc4522900"
definition RTC_TIMEOUT :: nat where "RTC_TIMEOUT = 3000 * 1000"
definition NUM_TIME_REGS :: nat where "NUM_TIME_REGS = 8"
definition NUM_ALARM_REGS :: nat where "NUM_ALARM_REGS = 7"
definition ROCKCHIP_RV1106_RTC :: u32 where "ROCKCHIP_RV1106_RTC = 1"

lemmas rtc_consts = RTC_SET_SECONDS_def RTC_ALARM_SECONDS_def RTC_CTRL_def RTC_STATUS0_def
  RTC_STATUS1_def RTC_INT0_EN_def RTC_COMP_H_def RTC_COMP_D_def RTC_COMP_M_def
  RTC_LDO_CTRL_def RTC_VPTAT_TRIM_def RTC_ANALOG_EN_def RTC_CLK32K_TEST_def
  RTC_TEST_ST_def RTC_TEST_LEN_def RTC_CNT_0_def VI_GRF_VI_MISC_CON0_def
  RTC_CLAMP_EN_def RTC_CTRL_REG_START_RTC_def RTC_CTRL_REG_RTC_READSEL_M_def
  RTC_INT_REG_ALARM_EN_def RTC_D2A_XO_EN_def RTC_D2A_CLK_OUT_EN_def RTC_STATUS_MASK_def
  SECONDS_REG_MSK_def MINUTES_REG_MAK_def HOURS_REG_MSK_def DAYS_REG_MSK_def
  MONTHS_REG_MSK_def YEARS_REG_MSK_def WEEKS_REG_MSK_def CLK_32K_ENABLE_def
  D2A_POR_REG_SEL1_def D2A_POR_REG_SEL0_def ENABLE_ALARM_INT_def ALARM_INT_STATUS_def
  CLK32K_TEST_EN_def CLK32K_TEST_START_def CLK32K_TEST_DONE_def CLK32K_TEST_LEN_def
  CLK32K_COMP_DIR_ADD_def CLK32K_COMP_EN_def CLK32K_NO_COMP_def CLK32K_TEST_REF_CLK_def
  RTC_WRITE_MASK_def RTC_TIMEOUT_def NUM_TIME_REGS_def NUM_ALARM_REGS_def
  ROCKCHIP_RV1106_RTC_def

section \<open>The environment\<close>

text \<open>\<^verbatim>\<open>struct rtc_time\<close> and \<^verbatim>\<open>struct rtc_wkalrm\<close>: the fields the driver uses.\<close>

record rtc_time =
  tm_sec :: int
  tm_min :: int
  tm_hour :: int
  tm_mday :: int
  tm_mon :: int
  tm_year :: int
  tm_wday :: int

record rtc_wkalrm =
  alarm_enabled :: bool
  alarm_time :: rtc_time

text \<open>
  The kernel services, results first. A failed read still leaves something in its destination: the
  second component. \<open>read_poll a p sleep timeout\<close> is \<^verbatim>\<open>regmap_read_poll_timeout\<close>.
\<close>

record 'w rtc_api =
  regmap_read :: "u32 \<Rightarrow> 'w \<Rightarrow> (int \<times> u32) \<times> 'w"
  regmap_write :: "u32 \<Rightarrow> u32 \<Rightarrow> 'w \<Rightarrow> int \<times> 'w"
  regmap_bulk_read :: "u32 \<Rightarrow> nat \<Rightarrow> 'w \<Rightarrow> (int \<times> u32 list) \<times> 'w"
  regmap_bulk_write :: "u32 \<Rightarrow> u32 list \<Rightarrow> 'w \<Rightarrow> int \<times> 'w"
  read_poll :: "u32 \<Rightarrow> (u32 \<Rightarrow> bool) \<Rightarrow> nat \<Rightarrow> nat \<Rightarrow> 'w \<Rightarrow> (int \<times> u32) \<times> 'w"
  grf_write :: "u32 \<Rightarrow> u32 \<Rightarrow> 'w \<Rightarrow> int \<times> 'w"
  clk_bulk_prepare_enable :: "'w \<Rightarrow> int \<times> 'w"
  bin2bcd :: "u32 \<Rightarrow> u8"
  bcd2bin :: "u8 \<Rightarrow> u32"
  DIV_ROUND_CLOSEST :: "u32 \<Rightarrow> u32 \<Rightarrow> u32"
  rtc_valid_tm :: "rtc_time \<Rightarrow> int"

text \<open>What the platform answers a probe: error codes (0 for success), and the device tree's properties.\<close>

record rtc_platform =
  kzalloc_ok :: bool
  node_regmap :: int
  match_data :: u32
  grf_lookup :: int
  bulk_get_all :: int
  add_action :: int
  allocate_device :: int
  get_irq :: int
  request_irq :: int
  bypass_property :: bool
  register_device :: int

text \<open>\<^verbatim>\<open>struct rockchip_rtc\<close>, and the system around it.\<close>

record rockchip_rtc =
  has_grf :: bool
  num_clks :: int
  irq :: int
  mode :: u32
  suspend_bypass :: bool

record 'w rtc_sys =
  bus :: 'w
  rtc :: rockchip_rtc
  clk_on :: int
  irq_wake :: int
  may_wakeup :: bool
  trim_queued :: bool
  alarms :: nat
  clk_action :: bool

abbreviation on_bus :: "('w \<Rightarrow> 'a \<times> 'w) \<Rightarrow> ('w rtc_sys, 'a) state" where
  "on_bus f \<equiv> lift_on bus (\<lambda>w s. s\<lparr>bus := w\<rparr>) f"

definition ENODEV :: int where "ENODEV = 19"
definition EINVAL :: int where "EINVAL = 22"
definition ENOMEM :: int where "ENOMEM = 12"

section \<open>Register access\<close>

definition rockchip_rtc_write :: "'w rtc_api \<Rightarrow> u32 \<Rightarrow> u32 \<Rightarrow> ('w rtc_sys, int) state" where
  "rockchip_rtc_write api offset v = on_bus (regmap_write api offset (v OR RTC_WRITE_MASK))"

definition rockchip_rtc_update_bits ::
  "'w rtc_api \<Rightarrow> u32 \<Rightarrow> u32 \<Rightarrow> u32 \<Rightarrow> ('w rtc_sys, int) state" where
  "rockchip_rtc_update_bits api offset msk bits = do {
     (_, v) \<leftarrow> on_bus (regmap_read api offset);
     on_bus (regmap_write api offset (((v AND NOT msk) OR bits) OR RTC_WRITE_MASK))
   }"

section \<open>Time\<close>

text \<open>One field of a register array, through its mask and BCD; a C \<^verbatim>\<open>int\<close> from an \<^verbatim>\<open>unsigned\<close>.\<close>

definition field :: "'w rtc_api \<Rightarrow> u32 list \<Rightarrow> nat \<Rightarrow> u32 \<Rightarrow> int" where
  "field api dat i msk = sint (bcd2bin api (ucast (dat ! i AND msk)))"

definition to_field :: "'w rtc_api \<Rightarrow> int \<Rightarrow> u32" where
  "to_field api v = ucast (bin2bcd api (word_of_int v)) OR RTC_WRITE_MASK"

definition rockchip_rtc_read_time :: "'w rtc_api \<Rightarrow> ('w rtc_sys, int \<times> rtc_time option) state" where
  "rockchip_rtc_read_time api = do {
     (ret, _) \<leftarrow> on_bus (regmap_bulk_read api RTC_SET_SECONDS NUM_TIME_REGS);
     if ret \<noteq> 0 then returnS (ret, None) else do {
     (ret, _) \<leftarrow> on_bus (regmap_bulk_read api RTC_SET_SECONDS NUM_TIME_REGS);
     if ret \<noteq> 0 then returnS (ret, None) else do {
     (ret, rtc_data) \<leftarrow> on_bus (regmap_bulk_read api RTC_SET_SECONDS NUM_TIME_REGS);
     if ret \<noteq> 0 then returnS (ret, None) else do {
       let yearl = field api rtc_data 5 YEARS_REG_MSK;
       let yearh = field api rtc_data 6 YEARS_REG_MSK;
       returnS (ret, Some \<lparr>tm_sec = field api rtc_data 0 SECONDS_REG_MSK,
                           tm_min = field api rtc_data 1 MINUTES_REG_MAK,
                           tm_hour = field api rtc_data 2 HOURS_REG_MSK,
                           tm_mday = field api rtc_data 3 DAYS_REG_MSK,
                           tm_mon = field api rtc_data 4 MONTHS_REG_MSK - 1,
                           tm_year = yearh * 100 + yearl + 100,
                           tm_wday = field api rtc_data 7 WEEKS_REG_MSK\<rparr>)
     }}}
   }"

text \<open>The year as the two BCD bytes it is stored in, low and high; C division of a non-negative number.\<close>

definition split_year :: "int \<Rightarrow> int \<times> int" where
  "split_year y =
     (if y > 199 then let yearh = (y - 100) div 100 in (y - 100 - yearh * 100, yearh)
      else let yearh = 0 in (y - 100 - yearh * 100, yearh))"

definition rockchip_rtc_set_time :: "'w rtc_api \<Rightarrow> rtc_time \<Rightarrow> ('w rtc_sys, int) state" where
  "rockchip_rtc_set_time api tm = (
     let (yearl, yearh) = split_year (tm_year tm);
         rtc_data = [to_field api (tm_sec tm), to_field api (tm_min tm), to_field api (tm_hour tm),
                     to_field api (tm_mday tm), to_field api (tm_mon tm + 1),
                     to_field api yearl, to_field api yearh, to_field api (tm_wday tm)]
     in chk (rockchip_rtc_update_bits api RTC_CTRL RTC_CTRL_REG_START_RTC 0) (do {
       _ \<leftarrow> on_bus (read_poll api RTC_STATUS1 (\<lambda>st. st AND RTC_CTRL_REG_START_RTC = 0) 0 RTC_TIMEOUT);
       chk (on_bus (regmap_bulk_write api RTC_SET_SECONDS rtc_data)) (
       chk (rockchip_rtc_update_bits api RTC_CTRL
              (RTC_CTRL_REG_RTC_READSEL_M OR RTC_CTRL_REG_START_RTC)
              (RTC_CTRL_REG_RTC_READSEL_M OR RTC_CTRL_REG_START_RTC)) (do {
         _ \<leftarrow> on_bus (read_poll api RTC_STATUS1 (\<lambda>st. st AND RTC_CTRL_REG_START_RTC \<noteq> 0) 0 RTC_TIMEOUT);
         returnS 0
       }))
     }))"

section \<open>Alarm\<close>

text \<open>The alarm registers have no weekday: \<^verbatim>\<open>readalarm\<close> leaves the caller's \<^verbatim>\<open>tm_wday\<close> as it is.\<close>

definition rockchip_rtc_readalarm ::
  "'w rtc_api \<Rightarrow> rtc_wkalrm \<Rightarrow> ('w rtc_sys, int \<times> rtc_wkalrm) state" where
  "rockchip_rtc_readalarm api alrm = do {
     (ret, alrm_data) \<leftarrow> on_bus (regmap_bulk_read api RTC_ALARM_SECONDS NUM_ALARM_REGS);
     if ret \<noteq> 0 then returnS (ret, alrm) else do {
       let yearl = field api alrm_data 5 YEARS_REG_MSK;
       let yearh = field api alrm_data 6 YEARS_REG_MSK;
       let t = \<lparr>tm_sec = field api alrm_data 0 SECONDS_REG_MSK,
                tm_min = field api alrm_data 1 MINUTES_REG_MAK,
                tm_hour = field api alrm_data 2 HOURS_REG_MSK,
                tm_mday = field api alrm_data 3 DAYS_REG_MSK,
                tm_mon = field api alrm_data 4 MONTHS_REG_MSK - 1,
                tm_year = yearh * 100 + yearl + 100,
                tm_wday = tm_wday (alarm_time alrm)\<rparr>;
       (ret, int_reg) \<leftarrow> on_bus (regmap_read api RTC_INT0_EN);
       if ret \<noteq> 0 then returnS (ret, alrm\<lparr>alarm_time := t\<rparr>)
       else returnS (0, \<lparr>alarm_enabled = (int_reg AND RTC_INT_REG_ALARM_EN \<noteq> 0), alarm_time = t\<rparr>)
     }
   }"

definition rockchip_rtc_stop_alarm :: "'w rtc_api \<Rightarrow> ('w rtc_sys, int) state" where
  "rockchip_rtc_stop_alarm api = rockchip_rtc_write api RTC_INT0_EN 0"

definition rockchip_rtc_start_alarm :: "'w rtc_api \<Rightarrow> ('w rtc_sys, int) state" where
  "rockchip_rtc_start_alarm api = do {
     _ \<leftarrow> rockchip_rtc_write api RTC_STATUS0 RTC_STATUS_MASK;
     _ \<leftarrow> rockchip_rtc_write api RTC_STATUS0 0;
     rockchip_rtc_write api RTC_INT0_EN ENABLE_ALARM_INT
   }"

definition rockchip_rtc_setalarm :: "'w rtc_api \<Rightarrow> rtc_wkalrm \<Rightarrow> ('w rtc_sys, int) state" where
  "rockchip_rtc_setalarm api alrm =
     chk (rockchip_rtc_stop_alarm api) (
       let t = alarm_time alrm;
           (yearl, yearh) = split_year (tm_year t);
           alrm_data = [to_field api (tm_sec t), to_field api (tm_min t), to_field api (tm_hour t),
                        to_field api (tm_mday t), to_field api (tm_mon t + 1),
                        to_field api yearl, to_field api yearh]
       in chk (on_bus (regmap_bulk_write api RTC_ALARM_SECONDS alrm_data)) (
            if alarm_enabled alrm then chk (rockchip_rtc_start_alarm api) (returnS 0)
            else returnS 0))"

definition rockchip_rtc_alarm_irq_enable :: "'w rtc_api \<Rightarrow> bool \<Rightarrow> ('w rtc_sys, int) state" where
  "rockchip_rtc_alarm_irq_enable api en =
     (if en then rockchip_rtc_start_alarm api else rockchip_rtc_stop_alarm api)"

text \<open>
  The threaded handler. \<^verbatim>\<open>irqreturn_t\<close> is an \<open>int\<close>, \<open>IRQ_HANDLED\<close> is 1; \<^verbatim>\<open>rtc_update_irq(rtc, 1,
  RTC_IRQF | RTC_AF)\<close> is one alarm notification.
\<close>

definition IRQ_HANDLED :: int where "IRQ_HANDLED = 1"

definition rockchip_rtc_alarm_irq :: "'w rtc_api \<Rightarrow> ('w rtc_sys, int) state" where
  "rockchip_rtc_alarm_irq api = do {
     (ret, status) \<leftarrow> on_bus (regmap_read api RTC_STATUS0);
     if ret \<noteq> 0 then returnS ret else
     chk (rockchip_rtc_write api RTC_STATUS0 status) (do {
       (if status AND ALARM_INT_STATUS \<noteq> 0 then modify (\<lambda>s. s\<lparr>alarms := alarms s + 1\<rparr>)
        else returnS ());
       returnS IRQ_HANDLED
     })
   }"

section \<open>Compensation of the 32 kHz clock\<close>

definition g_ref :: u32 where
  "g_ref = CLK32K_TEST_REF_CLK * (CLK32K_TEST_LEN + 1)"

text \<open>
  The measured count against the reference: the product \<^verbatim>\<open>32768 * (...)\<close> is 32-bit, the rest 64-bit;
  \<^verbatim>\<open>do_div\<close> divides its first argument in place.
\<close>

definition comp_camp :: "u32 \<Rightarrow> u32" where
  "comp_camp counts =
     (let camp = (if counts > g_ref then 36 * ucast (32768 * (counts - g_ref))
                  else 36 * ucast (32768 * (g_ref - counts))) :: u64
      in ucast (camp div ucast (g_ref div 100)))"

definition comp_dir :: "u32 \<Rightarrow> u32" where
  "comp_dir counts = (if counts > g_ref then 0 else CLK32K_COMP_DIR_ADD)"

text \<open>The hourly, daily and monthly amounts, in units of a 32 kHz second.\<close>

definition comp_hour :: "'w rtc_api \<Rightarrow> u32 \<Rightarrow> int" where
  "comp_hour api tcamp = sint (DIV_ROUND_CLOSEST api tcamp 32768)"

definition comp_day :: "'w rtc_api \<Rightarrow> u32 \<Rightarrow> int" where
  "comp_day api tcamp = sint (DIV_ROUND_CLOSEST api (24 * tcamp) 32768)"

definition comp_mon :: "'w rtc_api \<Rightarrow> u32 \<Rightarrow> int" where
  "comp_mon api tcamp = sint (DIV_ROUND_CLOSEST api (30 * 24 * tcamp) 32768)"

text \<open>What is left for the last hour of a day and for the last day of a month, with its direction.\<close>

definition comp_det_day :: "int \<Rightarrow> int \<Rightarrow> int \<times> u32" where
  "comp_det_day c_hour c_day =
     (if c_day > c_hour * 23 then (c_day - c_hour * 23, CLK32K_COMP_DIR_ADD)
      else (c_hour * 24 - c_day, 0))"

definition comp_det_mon :: "int \<Rightarrow> int \<Rightarrow> int \<Rightarrow> int \<times> u32" where
  "comp_det_mon c_hour c_day c_mon =
     (if c_mon > 29 * c_day + 23 * c_hour
      then (c_mon - 29 * c_day - 23 * c_hour, CLK32K_COMP_DIR_ADD)
      else (29 * c_day + 23 * c_hour - c_mon, 0))"

definition comp_reg :: "'w rtc_api \<Rightarrow> int \<Rightarrow> u32 \<Rightarrow> u32" where
  "comp_reg api v dir = ucast (bin2bcd api (word_of_int (v - 1))) OR dir"

definition rockchip_rtc_compensation_delay_work :: "'w rtc_api \<Rightarrow> ('w rtc_sys, unit) state" where
  "rockchip_rtc_compensation_delay_work api = ignore (
     chk (rockchip_rtc_update_bits api RTC_CLK32K_TEST CLK32K_TEST_EN CLK32K_TEST_EN) (
     chk (rockchip_rtc_write api RTC_TEST_LEN CLK32K_TEST_LEN) (
     chk (rockchip_rtc_update_bits api RTC_TEST_ST CLK32K_TEST_START CLK32K_TEST_START) (do {
       _ \<leftarrow> on_bus (read_poll api RTC_TEST_ST (\<lambda>don. don AND CLK32K_TEST_DONE \<noteq> 0) 20000 RTC_TIMEOUT);
       (ret, count) \<leftarrow> on_bus (regmap_bulk_read api RTC_CNT_0 4);
       if ret \<noteq> 0 then returnS ret else do {
         let counts = count ! 0 OR push_bit 8 (count ! 1) OR push_bit 16 (count ! 2) OR push_bit 24 (count ! 3);
         let tcamp = comp_camp counts;
         let c_hour = comp_hour api tcamp;
         let c_day = comp_day api tcamp;
         let c_mon = comp_mon api tcamp;
         _ \<leftarrow> rockchip_rtc_write api RTC_COMP_H
               (if c_hour > 1 then comp_reg api c_hour (comp_dir counts) else CLK32K_NO_COMP);
         let (c_det_day, trim_dir) = comp_det_day c_hour c_day;
         _ \<leftarrow> rockchip_rtc_write api RTC_COMP_D
               (if c_det_day > 1 then comp_reg api c_det_day trim_dir else CLK32K_NO_COMP);
         let (c_det_mon, trim_dir) = comp_det_mon c_hour c_day c_mon;
         _ \<leftarrow> rockchip_rtc_write api RTC_COMP_M
               (if c_det_mon \<noteq> 0 then comp_reg api c_det_mon trim_dir else CLK32K_NO_COMP);
         (ret, _) \<leftarrow> on_bus (regmap_read api RTC_CTRL);
         if ret \<noteq> 0 then returnS ret
         else rockchip_rtc_update_bits api RTC_CTRL CLK32K_COMP_EN CLK32K_COMP_EN
       }
     }))))"

definition rockchip_rtc_is_trimed :: "'w rtc_api \<Rightarrow> ('w rtc_sys, bool) state" where
  "rockchip_rtc_is_trimed api = do {
     (ret, comp_done) \<leftarrow> on_bus (regmap_read api RTC_CTRL);
     if ret \<noteq> 0 then returnS False
     else returnS (comp_done AND CLK32K_COMP_EN = CLK32K_COMP_EN)
   }"

text \<open>\<^verbatim>\<open>queue_delayed_work\<close> and \<^verbatim>\<open>cancel_delayed_work_sync\<close> of the one trim work.\<close>

definition rockchip_rtc_trim_start :: "'w rtc_api \<Rightarrow> ('w rtc_sys, unit) state" where
  "rockchip_rtc_trim_start api = do {
     done \<leftarrow> rockchip_rtc_is_trimed api;
     if \<not> done then modify (\<lambda>s. s\<lparr>trim_queued := True\<rparr>) else returnS ()
   }"

definition rockchip_rtc_trim_close :: "'w rtc_api \<Rightarrow> ('w rtc_sys, unit) state" where
  "rockchip_rtc_trim_close api = do {
     done \<leftarrow> rockchip_rtc_is_trimed api;
     if \<not> done then modify (\<lambda>s. s\<lparr>trim_queued := False\<rparr>) else returnS ()
   }"

section \<open>Power management\<close>

text \<open>The clock bulk as one reference count; a failed enable leaves it as it was.\<close>

definition clk_enable :: "'w rtc_api \<Rightarrow> ('w rtc_sys, int) state" where
  "clk_enable api = do {
     ret \<leftarrow> on_bus (clk_bulk_prepare_enable api);
     (if ret = 0 then modify (\<lambda>s. s\<lparr>clk_on := clk_on s + 1\<rparr>) else returnS ());
     returnS ret
   }"

definition rockchip_rtc_clk_disable :: "('w rtc_sys, unit) state" where
  "rockchip_rtc_clk_disable = modify (\<lambda>s. s\<lparr>clk_on := clk_on s - 1\<rparr>)"

text \<open>The clamp of the RTC domain, written through the GRF where there is one.\<close>

definition grf_clamp :: "'w rtc_api \<Rightarrow> bool \<Rightarrow> ('w rtc_sys, int) state" where
  "grf_clamp api on = do {
     md \<leftarrow> gets (mode \<circ> rtc);
     if md = ROCKCHIP_RV1106_RTC then do {
       _ \<leftarrow> on_bus (grf_write api VI_GRF_VI_MISC_CON0
              (if on then push_bit 16 RTC_CLAMP_EN OR RTC_CLAMP_EN else push_bit 16 RTC_CLAMP_EN));
       returnS 0
     } else returnS (- EINVAL)
   }"

definition rockchip_rtc_suspend :: "'w rtc_api \<Rightarrow> ('w rtc_sys, int) state" where
  "rockchip_rtc_suspend api = do {
     bypass \<leftarrow> gets (suspend_bypass \<circ> rtc);
     if bypass then returnS 0 else do {
       modify (\<lambda>s. if may_wakeup s then s\<lparr>irq_wake := irq_wake s + 1\<rparr> else s);
       rockchip_rtc_trim_close api;
       grf \<leftarrow> gets (has_grf \<circ> rtc);
       chk (if grf then grf_clamp api False else returnS 0) (do {
         rockchip_rtc_clk_disable;
         returnS 0
       })
     }
   }"

definition rockchip_rtc_resume :: "'w rtc_api \<Rightarrow> ('w rtc_sys, int) state" where
  "rockchip_rtc_resume api = do {
     bypass \<leftarrow> gets (suspend_bypass \<circ> rtc);
     if bypass then returnS 0 else do {
       modify (\<lambda>s. if may_wakeup s then s\<lparr>irq_wake := irq_wake s - 1\<rparr> else s);
       grf \<leftarrow> gets (has_grf \<circ> rtc);
       chk (if grf then grf_clamp api True else returnS 0) (
       chk (clk_enable api) (do {
         rockchip_rtc_trim_start api;
         returnS 0
       }))
     }
   }"

section \<open>Probe\<close>

definition default_tm :: rtc_time where
  "default_tm = \<lparr>tm_sec = 0, tm_min = 0, tm_hour = 12, tm_mday = 1, tm_mon = 0, tm_year = 121, tm_wday = 0\<rparr>"

text \<open>
  \<^verbatim>\<open>devm_add_action_or_reset\<close>: the clock-disable action is registered, or run at once on failure.
  \<open>clk_action\<close> records that the driver core will run it when the device goes away or the probe fails.
\<close>

definition add_clk_action :: "rtc_platform \<Rightarrow> ('w rtc_sys, int) state" where
  "add_clk_action pf =
     (if add_action pf \<noteq> 0 then do { rockchip_rtc_clk_disable; returnS (add_action pf) }
      else do { modify (\<lambda>s. s\<lparr>clk_action := True\<rparr>); returnS 0 })"

text \<open>
  The registers a probe sets up, in order. An uninitialised \<^verbatim>\<open>tm_read\<close> (when the read fails) is the
  parameter \<open>junk\<close>.
\<close>

definition probe_analog :: "'w rtc_api \<Rightarrow> ('w rtc_sys, int) state" where
  "probe_analog api =
     chk (rockchip_rtc_update_bits api RTC_VPTAT_TRIM (D2A_POR_REG_SEL1 OR CLK_32K_ENABLE)
            (D2A_POR_REG_SEL1 OR CLK_32K_ENABLE)) (
     chk (rockchip_rtc_update_bits api RTC_ANALOG_EN D2A_POR_REG_SEL0 0x00) (
     chk (rockchip_rtc_update_bits api RTC_LDO_CTRL RTC_D2A_XO_EN RTC_D2A_XO_EN) (
     chk (rockchip_rtc_update_bits api RTC_ANALOG_EN RTC_D2A_CLK_OUT_EN RTC_D2A_CLK_OUT_EN) (
     chk (rockchip_rtc_update_bits api RTC_CTRL (RTC_CTRL_REG_START_RTC OR RTC_CTRL_REG_RTC_READSEL_M)
            (RTC_CTRL_REG_RTC_READSEL_M OR RTC_CTRL_REG_START_RTC)) (
     chk (rockchip_rtc_write api RTC_STATUS0 RTC_STATUS_MASK) (
     rockchip_rtc_write api RTC_STATUS0 0))))))"

definition probe_time :: "'w rtc_api \<Rightarrow> rtc_time \<Rightarrow> ('w rtc_sys, unit) state" where
  "probe_time api junk = do {
     (_, tm_read) \<leftarrow> rockchip_rtc_read_time api;
     if rtc_valid_tm api (case tm_read of Some t \<Rightarrow> t | None \<Rightarrow> junk) \<noteq> 0
     then ignore (rockchip_rtc_set_time api default_tm) else returnS ()
   }"

text \<open>The end of the probe, after the time has been checked; and all of it that runs with the clock on.\<close>

definition probe_register :: "'w rtc_api \<Rightarrow> rtc_platform \<Rightarrow> ('w rtc_sys, int) state" where
  "probe_register api pf =
     (if allocate_device pf \<noteq> 0 then returnS (allocate_device pf) else do {
        modify (\<lambda>s. s\<lparr>rtc := (rtc s)\<lparr>irq := get_irq pf\<rparr>\<rparr>);
        if get_irq pf < 0 then returnS (get_irq pf)
        else if request_irq pf \<noteq> 0 then returnS (request_irq pf) else do {
          modify (\<lambda>s. s\<lparr>rtc := (rtc s)\<lparr>suspend_bypass := bypass_property pf\<rparr>\<rparr>);
          rockchip_rtc_trim_start api;
          returnS (register_device pf)
        }
      })"

definition probe_clocked ::
  "'w rtc_api \<Rightarrow> rtc_platform \<Rightarrow> rtc_time \<Rightarrow> ('w rtc_sys, int) state" where
  "probe_clocked api pf junk =
     chk (add_clk_action pf) (
     chk (probe_analog api) (do {
       modify (\<lambda>s. s\<lparr>may_wakeup := True\<rparr>);
       probe_time api junk;
       probe_register api pf
     }))"

definition rockchip_rtc_probe ::
  "'w rtc_api \<Rightarrow> rtc_platform \<Rightarrow> rtc_time \<Rightarrow> ('w rtc_sys, int) state" where
  "rockchip_rtc_probe api pf junk =
     (if \<not> kzalloc_ok pf then returnS (- ENOMEM)
      else if node_regmap pf \<noteq> 0 then returnS (node_regmap pf)
      else do {
        modify (\<lambda>s. s\<lparr>rtc := (rtc s)\<lparr>mode := match_data pf, has_grf := (grf_lookup pf = 0)\<rparr>\<rparr>);
        chk (if grf_lookup pf = 0 then grf_clamp api True else returnS 0) (do {
          modify (\<lambda>s. s\<lparr>rtc := (rtc s)\<lparr>num_clks := bulk_get_all pf\<rparr>\<rparr>);
          if bulk_get_all pf < 1 then returnS (- ENODEV)
          else chk (clk_enable api) (probe_clocked api pf junk)
        })
      })"

section \<open>BCD\<close>

text \<open>The documented behaviour of the kernel's BCD helpers: two digits to a byte and back.\<close>

definition bcd_ok :: "'w rtc_api \<Rightarrow> bool" where
  "bcd_ok api \<longleftrightarrow>
     (\<forall>n \<le> 99. bin2bcd api (of_nat n) = of_nat (n div 10 * 16 + n mod 10)) \<and>
     (\<forall>b. bcd2bin api b = of_nat (unat b mod 16 + unat b div 16 * 10))"

definition bcd8 :: "nat \<Rightarrow> u8" where
  "bcd8 n = of_nat (n div 10 * 16 + n mod 10)"

definition unbcd8 :: "u8 \<Rightarrow> int" where
  "unbcd8 b = sint (of_nat (unat b mod 16 + unat b div 16 * 10) :: u32)"

text \<open>How far each register mask reaches: every two-digit value it keeps, it reads back.\<close>

lemma unbcd8_table:
  "list_all (\<lambda>n. unbcd8 (bcd8 n AND 0x7F) = int n) [0..<80]"
  "list_all (\<lambda>n. unbcd8 (bcd8 n AND 0x3F) = int n) [0..<40]"
  "list_all (\<lambda>n. unbcd8 (bcd8 n AND 0x1F) = int n) [0..<20]"
  "list_all (\<lambda>n. unbcd8 (bcd8 n AND 0x7) = int n) [0..<8]"
  "list_all (\<lambda>n. unbcd8 (bcd8 n AND 0xFF) = int n) [0..<100]"
  by code_simp+

lemma list_all_upt: "list_all P [0..<k] \<Longrightarrow> n < k \<Longrightarrow> P n"
  by (simp add: list_all_iff)

lemma unbcd8_masked:
  "0 \<le> v \<Longrightarrow> v < 80 \<Longrightarrow> unbcd8 (bcd8 (nat v) AND 0x7F) = v"
  "0 \<le> v \<Longrightarrow> v < 40 \<Longrightarrow> unbcd8 (bcd8 (nat v) AND 0x3F) = v"
  "0 \<le> v \<Longrightarrow> v < 20 \<Longrightarrow> unbcd8 (bcd8 (nat v) AND 0x1F) = v"
  "0 \<le> v \<Longrightarrow> v < 8 \<Longrightarrow> unbcd8 (bcd8 (nat v) AND 0x7) = v"
  "0 \<le> v \<Longrightarrow> v < 100 \<Longrightarrow> unbcd8 (bcd8 (nat v) AND 0xFF) = v"
  using unbcd8_table [THEN list_all_upt, of "nat v"] by simp_all

lemma ucast_u8_back [simp]: "ucast (ucast (b :: u8) :: u32) = b"
  by (rule bit_word_eqI) (simp add: bit_unsigned_iff)

lemma low_key: "ucast RTC_WRITE_MASK = (0 :: u8)"
  by (simp add: RTC_WRITE_MASK_def)

lemma low_byte_key: "ucast (ucast (b :: u8) OR RTC_WRITE_MASK) = b" "ucast (v OR RTC_WRITE_MASK) = (ucast v :: u8)"
proof -
  note low_key
  then show "ucast (v OR RTC_WRITE_MASK) = (ucast v :: u8)" for v by (simp only: unsigned_or_eq or.right_neutral)
  then show "ucast (ucast b OR RTC_WRITE_MASK) = b" by simp
qed

lemma low_byte_not: "ucast (NOT (v :: u32)) = (NOT (ucast v) :: u8)"
  by (rule bit_word_eqI) (simp add: bit_unsigned_iff bit_not_iff)

lemma to_field_byte:
  assumes "bcd_ok api" and "0 \<le> v" and "v \<le> 99"
  shows "ucast (to_field api v) = bcd8 (nat v)"
proof -
  obtain n where v: "v = int n" using assms(2) by (rule nonneg_int_cases)
  have "bin2bcd api (word_of_int v) = bcd8 (nat v)"
    using assms(1,3) by (simp add: v bcd_ok_def bcd8_def)
  then show ?thesis
    by (simp add: to_field_def low_byte_key)
qed

lemma field_byte:
  assumes "bcd_ok api"
  shows "field api dat i msk = unbcd8 (ucast (dat ! i) AND ucast msk)"
  using assms by (simp add: field_def unbcd8_def bcd_ok_def unsigned_and_eq)

section \<open>The register map\<close>

text \<open>
  The registers that hold what is written to them: time, alarm, control and interrupt enable. What
  the driver relies on, by register and data byte (the upper bytes carry the write key): a read
  changes none of them and reports their byte; a write that succeeds stores its byte there and one
  that fails, or that goes elsewhere, changes none; a bulk write (of at most eight registers, all
  the driver ever does) touches no register outside its range. The clock does not tick between the operations of a property.
\<close>

definition plain :: "u32 set" where
  "plain = {0x0, 0x4, 0x8, 0xc, 0x10, 0x14, 0x18, 0x1c, 0x20, 0x24, 0x28, 0x2c, 0x30, 0x34, 0x38, 0x3c, 0x48}"

lemma less_eight: "i < (8 :: nat) \<longleftrightarrow> i \<in> {0, 1, 2, 3, 4, 5, 6, 7}"
  by auto

text \<open>The bytes \<^verbatim>\<open>set_time\<close> writes, and the function with them named.\<close>

definition time_regs :: "'w rtc_api \<Rightarrow> rtc_time \<Rightarrow> u32 list" where
  "time_regs api tm = (let (yearl, yearh) = split_year (tm_year tm) in
     map (to_field api) [tm_sec tm, tm_min tm, tm_hour tm, tm_mday tm, tm_mon tm + 1, yearl, yearh, tm_wday tm])"

lemma length_time_regs [simp]: "length (time_regs api tm) = 8"
  by (simp add: time_regs_def split: prod.splits)

lemma set_time_eq:
  "rockchip_rtc_set_time api tm =
     chk (rockchip_rtc_update_bits api RTC_CTRL RTC_CTRL_REG_START_RTC 0) (do {
       _ \<leftarrow> on_bus (read_poll api RTC_STATUS1 (\<lambda>st. st AND RTC_CTRL_REG_START_RTC = 0) 0 RTC_TIMEOUT);
       chk (on_bus (regmap_bulk_write api RTC_SET_SECONDS (time_regs api tm))) (
       chk (rockchip_rtc_update_bits api RTC_CTRL
              (RTC_CTRL_REG_RTC_READSEL_M OR RTC_CTRL_REG_START_RTC)
              (RTC_CTRL_REG_RTC_READSEL_M OR RTC_CTRL_REG_START_RTC)) (do {
         _ \<leftarrow> on_bus (read_poll api RTC_STATUS1 (\<lambda>st. st AND RTC_CTRL_REG_START_RTC \<noteq> 0) 0 RTC_TIMEOUT);
         returnS 0
       }))
     })"
  by (simp add: rockchip_rtc_set_time_def time_regs_def Let_def split: prod.splits)

lemma time_reg_plain:
  assumes "i < (8 :: nat)"
  shows "4 * of_nat i \<in> plain" and "4 * of_nat i \<noteq> RTC_CTRL"
  using assms by (auto simp: less_eight plain_def RTC_CTRL_def)

lemma time_reg_all:
  "(\<forall>i < 8. 4 * of_nat i \<in> plain \<longrightarrow> P i) \<longleftrightarrow> P 0 \<and> P 1 \<and> P 2 \<and> P 3 \<and> P 4 \<and> P 5 \<and> P 6 \<and> P 7"
  using time_reg_plain(1) by (auto simp: less_eight)

lemma start_bits:
  "ucast (RTC_CTRL_REG_RTC_READSEL_M OR RTC_CTRL_REG_START_RTC) = (0x81 :: u8)"
  by (simp add: rtc_consts)

text \<open>The time and the alarm time that register bytes stand for.\<close>

definition decode_time :: "(nat \<Rightarrow> u8) \<Rightarrow> rtc_time" where
  "decode_time b = \<lparr>tm_sec = unbcd8 (b 0 AND 0x7F), tm_min = unbcd8 (b 1 AND 0x7F),
     tm_hour = unbcd8 (b 2 AND 0x3F), tm_mday = unbcd8 (b 3 AND 0x3F),
     tm_mon = unbcd8 (b 4 AND 0x1F) - 1,
     tm_year = unbcd8 (b 6 AND 0xFF) * 100 + unbcd8 (b 5 AND 0xFF) + 100,
     tm_wday = unbcd8 (b 7 AND 0x7)\<rparr>"

lemma mask_bytes:
  "ucast SECONDS_REG_MSK = (0x7F :: u8)" "ucast MINUTES_REG_MAK = (0x7F :: u8)"
  "ucast HOURS_REG_MSK = (0x3F :: u8)" "ucast DAYS_REG_MSK = (0x3F :: u8)"
  "ucast MONTHS_REG_MSK = (0x1F :: u8)" "ucast YEARS_REG_MSK = (0xFF :: u8)"
  "ucast WEEKS_REG_MSK = (0x7 :: u8)"
  by (simp_all add: rtc_consts)

text \<open>A date the two-digit registers can hold: the years 2000 to 11999.\<close>

definition tm_ok :: "rtc_time \<Rightarrow> bool" where
  "tm_ok tm \<longleftrightarrow> 0 \<le> tm_sec tm \<and> tm_sec tm \<le> 59 \<and> 0 \<le> tm_min tm \<and> tm_min tm \<le> 59 \<and>
     0 \<le> tm_hour tm \<and> tm_hour tm \<le> 23 \<and> 1 \<le> tm_mday tm \<and> tm_mday tm \<le> 31 \<and>
     0 \<le> tm_mon tm \<and> tm_mon tm \<le> 11 \<and> 100 \<le> tm_year tm \<and> tm_year tm \<le> 10099 \<and>
     0 \<le> tm_wday tm \<and> tm_wday tm \<le> 6"

lemma split_year_ok:
  assumes "100 \<le> y" and "y \<le> 10099" and "split_year y = (yl, yh)"
  shows "0 \<le> yl \<and> yl \<le> 99 \<and> 0 \<le> yh \<and> yh \<le> 99 \<and> yh * 100 + yl + 100 = y"
  using assms unfolding split_year_def Let_def by (cases "y > 199") auto

lemma decode_time_regs:
  assumes "bcd_ok api" and "tm_ok tm" and "\<forall>i < 8. b i = ucast (time_regs api tm ! i)"
  shows "decode_time b = tm"
proof -
  obtain yl yh where y: "split_year (tm_year tm) = (yl, yh)" by fastforce
  note yy = split_year_ok [OF _ _ y]
  have "b 0 = bcd8 (nat (tm_sec tm))" "b 1 = bcd8 (nat (tm_min tm))" "b 2 = bcd8 (nat (tm_hour tm))"
    "b 3 = bcd8 (nat (tm_mday tm))" "b 4 = bcd8 (nat (tm_mon tm + 1))" "b 5 = bcd8 (nat yl)"
    "b 6 = bcd8 (nat yh)" "b 7 = bcd8 (nat (tm_wday tm))"
    using assms(2,3) yy by (simp_all add: time_regs_def y tm_ok_def to_field_byte [OF assms(1)])
  then show ?thesis
    using assms(2) yy by (cases tm) (simp add: decode_time_def tm_ok_def unbcd8_masked)
qed

lemma setalarm_eq:
  "rockchip_rtc_setalarm api alrm = chk (rockchip_rtc_stop_alarm api)
     (chk (on_bus (regmap_bulk_write api RTC_ALARM_SECONDS (take 7 (time_regs api (alarm_time alrm))))) (
        if alarm_enabled alrm then chk (rockchip_rtc_start_alarm api) (returnS 0) else returnS 0))"
  by (simp add: rockchip_rtc_setalarm_def time_regs_def Let_def split: prod.splits)

lemma less_seven: "i < (7 :: nat) \<longleftrightarrow> i \<in> {0, 1, 2, 3, 4, 5, 6}"
  by auto

lemma alarm_reg_plain:
  assumes "i < (7 :: nat)"
  shows "0x20 + 4 * of_nat i \<in> plain" and "0x20 + 4 * of_nat i \<noteq> RTC_INT0_EN"
    and "RTC_INT0_EN \<noteq> 0x20 + 4 * of_nat i"
  using assms by (auto simp: less_seven plain_def RTC_INT0_EN_def)

lemma alarm_reg_all:
  "(\<forall>i < 7. 0x20 + 4 * of_nat i \<in> plain \<longrightarrow> P i) \<longleftrightarrow> P 0 \<and> P 1 \<and> P 2 \<and> P 3 \<and> P 4 \<and> P 5 \<and> P 6"
  using alarm_reg_plain(1) by (auto simp: less_seven)

lemma alarm_en_bit: "v AND RTC_INT_REG_ALARM_EN = 0 \<longleftrightarrow> \<not> bit (ucast v :: u8) 7"
  unfolding RTC_INT_REG_ALARM_EN_def and_bit_zero bit_ucast_u8 by simp

locale rtc_bus =
  fixes api :: "'w rtc_api" and reg :: "u32 \<Rightarrow> 'w \<Rightarrow> u8"
  assumes read_frame: "b \<in> plain \<Longrightarrow> reg b (snd (regmap_read api a w)) = reg b w"
    and read_value: "a \<in> plain \<Longrightarrow> regmap_read api a w = ((0, v), w') \<Longrightarrow> ucast v = reg a w"
    and write_reg: "b \<in> plain \<Longrightarrow> regmap_write api a v w = (r, w') \<Longrightarrow>
      reg b w' = (if r = 0 \<and> b = a then ucast v else reg b w)"
    and bulk_read_frame: "b \<in> plain \<Longrightarrow> reg b (snd (regmap_bulk_read api a n w)) = reg b w"
    and bulk_read_value: "regmap_bulk_read api a n w = ((0, vs), w') \<Longrightarrow> i < n \<Longrightarrow>
      a + 4 * of_nat i \<in> plain \<Longrightarrow> ucast (vs ! i) = reg (a + 4 * of_nat i) w"
    and bulk_write_frame: "b \<in> plain \<Longrightarrow> (\<And>i. i < length vs \<Longrightarrow> b \<noteq> a + 4 * of_nat i) \<Longrightarrow>
      reg b (snd (regmap_bulk_write api a vs w)) = reg b w"
    and bulk_write_value: "regmap_bulk_write api a vs w = (0, w') \<Longrightarrow> length vs \<le> 8 \<Longrightarrow> i < length vs \<Longrightarrow>
      a + 4 * of_nat i \<in> plain \<Longrightarrow> reg (a + 4 * of_nat i) w' = ucast (vs ! i)"
    and poll_frame: "b \<in> plain \<Longrightarrow> reg b (snd (read_poll api a p t u w)) = reg b w"
begin

text \<open>The bytes of a register block in a system state.\<close>

abbreviation R :: "'w rtc_sys \<Rightarrow> u32 \<Rightarrow> u8" where
  "R s b \<equiv> reg b (bus s)"

lemma wp_read:
  "(\<And>r v s'. (\<forall>b \<in> plain. R s' b = R s b) \<Longrightarrow> (r = 0 \<Longrightarrow> a \<in> plain \<Longrightarrow> ucast v = R s a) \<Longrightarrow> Q (r, v) s')
    \<Longrightarrow> wp (on_bus (regmap_read api a)) Q s"
  using read_frame [of _ a "bus s"] read_value [of a "bus s"]
  by (auto simp: wp_lift_on split: prod.splits)

lemma wp_poll:
  "(\<And>x s'. (\<forall>b \<in> plain. R s' b = R s b) \<Longrightarrow> Q x s')
    \<Longrightarrow> wp (on_bus (read_poll api a p t u)) Q s"
  using poll_frame [of _ a p t u "bus s"] by (auto simp: wp_lift_on split: prod.splits)

lemma wp_reg_write:
  "(\<And>r s'. (\<forall>b \<in> plain. R s' b = (if r = 0 \<and> b = a then ucast v else R s b)) \<Longrightarrow> Q r s')
    \<Longrightarrow> wp (on_bus (regmap_write api a v)) Q s"
  using write_reg [of _ a v "bus s"] by (auto simp: wp_lift_on split: prod.splits)

lemma wp_bulk_read:
  "(\<And>r vs s'. (\<forall>b \<in> plain. R s' b = R s b) \<Longrightarrow>
      (r = 0 \<Longrightarrow> (\<forall>i < n. a + 4 * of_nat i \<in> plain \<longrightarrow> ucast (vs ! i) = R s (a + 4 * of_nat i))) \<Longrightarrow> Q (r, vs) s')
    \<Longrightarrow> wp (on_bus (regmap_bulk_read api a n)) Q s"
  using bulk_read_frame [of _ a n "bus s"] bulk_read_value [of a n "bus s"]
  by (auto simp: wp_lift_on split: prod.splits)

lemma wp_bulk_write:
  "length vs \<le> 8 \<Longrightarrow> (\<And>r s'. (\<forall>b \<in> plain. (\<forall>i < length vs. b \<noteq> a + 4 * of_nat i) \<longrightarrow> R s' b = R s b) \<Longrightarrow>
      (r = 0 \<Longrightarrow> (\<forall>i < length vs. a + 4 * of_nat i \<in> plain \<longrightarrow> R s' (a + 4 * of_nat i) = ucast (vs ! i))) \<Longrightarrow> Q r s')
    \<Longrightarrow> wp (on_bus (regmap_bulk_write api a vs)) Q s"
  using bulk_write_frame [of _ vs a "bus s"] bulk_write_value [of a vs "bus s"]
  by (fastforce simp: wp_lift_on split: prod.splits)

lemma wp_update:
  assumes q: "\<And>r s'. (\<forall>b \<in> plain. b \<noteq> a \<longrightarrow> R s' b = R s b) \<Longrightarrow>
      (r = 0 \<Longrightarrow> a \<in> plain \<Longrightarrow> (\<exists>v. R s' a = (v AND NOT (ucast msk)) OR ucast bits)) \<Longrightarrow>
      (r \<noteq> 0 \<Longrightarrow> a \<in> plain \<Longrightarrow> R s' a = R s a) \<Longrightarrow> Q r s'"
  shows "wp (rockchip_rtc_update_bits api a msk bits) Q s"
  unfolding rockchip_rtc_update_bits_def wp_bind
proof (rule wp_read, simp only: prod.case, rule wp_reg_write, goal_cases)
  case (1 r v s1 r2 s2)
  then have "R s2 a = (ucast v AND NOT (ucast msk)) OR ucast bits" if "r2 = 0" "a \<in> plain"
    using that by (simp add: low_key unsigned_or_eq unsigned_and_eq low_byte_not)
  with 1 show ?case by (intro q) auto
qed

lemma wp_rtc_write:
  "(\<And>r s'. (\<forall>b \<in> plain. R s' b = (if r = 0 \<and> b = a then ucast v else R s b)) \<Longrightarrow> Q r s')
    \<Longrightarrow> wp (rockchip_rtc_write api a v) Q s"
  unfolding rockchip_rtc_write_def by (rule wp_reg_write) (simp add: low_byte_key)

text \<open>\<open>rockchip_rtc_set_time\<close>: which bytes end up in the time registers, and the state of the counter.\<close>

lemma set_time_regs:
  "wp (rockchip_rtc_set_time api tm) (\<lambda>r s'. r = 0 \<longrightarrow>
     (\<forall>i < 8. R s' (4 * of_nat i) = ucast (time_regs api tm ! i)) \<and>
     bit (R s' RTC_CTRL) 0 \<and> bit (R s' RTC_CTRL) 7) s"
proof -
  note t = time_reg_plain
  have c: "RTC_CTRL \<in> plain" by (simp add: plain_def RTC_CTRL_def)
  show ?thesis
    unfolding set_time_eq wp_chk wp_bind wp_return
    apply (rule wp_update)
    apply (clarsimp, rule wp_poll)
    apply (rule wp_bulk_write, simp)
    apply (clarsimp, rule wp_update)
    apply (clarsimp, rule wp_poll)
    apply (auto simp: t c RTC_SET_SECONDS_def start_bits bit_or_iff)
    done
qed

text \<open>The time as the registers hold it.\<close>

lemma read_time_regs:
  assumes "bcd_ok api"
  shows "wp (rockchip_rtc_read_time api) (\<lambda>(r, t) s'. (\<forall>b \<in> plain. R s' b = R s b) \<and>
     (r = 0 \<longrightarrow> t = Some (decode_time (\<lambda>i. R s (4 * of_nat i))))) s"
  unfolding rockchip_rtc_read_time_def wp_bind
  apply (rule wp_bulk_read, simp only: prod.case, rule wp_ifI, simp add: wp, simp only: wp_bind)
  apply (rule wp_bulk_read, simp only: prod.case, rule wp_ifI, simp add: wp, simp only: wp_bind)
  apply (rule wp_bulk_read, simp only: prod.case, rule wp_ifI, simp add: wp)
  apply (simp add: wp Let_def field_byte [OF assms] decode_time_def RTC_SET_SECONDS_def NUM_TIME_REGS_def
      time_reg_all mask_bytes)
  done

text \<open>The alarm, set and read.\<close>

lemma start_alarm_regs:
  "wp (rockchip_rtc_start_alarm api) (\<lambda>r s'. (\<forall>b \<in> plain. b \<noteq> RTC_INT0_EN \<longrightarrow> R s' b = R s b) \<and>
     (r = 0 \<longrightarrow> R s' RTC_INT0_EN = 0xFF)) s"
proof -
  have p: "RTC_INT0_EN \<in> plain" "RTC_STATUS0 \<notin> plain" by (simp_all add: plain_def rtc_consts)
  have e: "ucast ENABLE_ALARM_INT = (0xFF :: u8)" by (simp add: ENABLE_ALARM_INT_def)
  show ?thesis
    unfolding rockchip_rtc_start_alarm_def wp_bind
    by (rule wp_rtc_write, rule wp_rtc_write, rule wp_rtc_write) (use p e in auto)
qed

lemma setalarm_regs:
  "wp (rockchip_rtc_setalarm api alrm) (\<lambda>r s'. r = 0 \<longrightarrow>
     (\<forall>i < 7. R s' (0x20 + 4 * of_nat i) = ucast (time_regs api (alarm_time alrm) ! i)) \<and>
     bit (R s' RTC_INT0_EN) 7 = alarm_enabled alrm) s"
proof -
  let ?d = "take 7 (time_regs api (alarm_time alrm))"
  have n: "?d ! i = time_regs api (alarm_time alrm) ! i" if "i < 7" for i using that by simp
  have p: "RTC_INT0_EN \<in> plain" by (simp add: plain_def rtc_consts)
  show ?thesis
    unfolding setalarm_eq rockchip_rtc_stop_alarm_def wp_chk
    apply (rule wp_rtc_write, rule if_goalI, simp)
    apply (rule wp_bulk_write, simp, rule if_goalI, simp, rule wp_ifI)
     apply (simp only: wp_chk, rule wp_mono, rule start_alarm_regs)
     apply (auto simp: wp n p alarm_reg_plain RTC_ALARM_SECONDS_def)
    done
qed

lemma readalarm_regs:
  assumes "bcd_ok api"
  shows "wp (rockchip_rtc_readalarm api a0) (\<lambda>(r, a) s'. r = 0 \<longrightarrow>
     a = \<lparr>alarm_enabled = bit (R s RTC_INT0_EN) 7,
          alarm_time = (decode_time (\<lambda>i. R s (0x20 + 4 * of_nat i)))\<lparr>tm_wday := tm_wday (alarm_time a0)\<rparr>\<rparr>) s"
proof -
  have p: "RTC_INT0_EN \<in> plain" by (simp add: plain_def rtc_consts)
  show ?thesis
    unfolding rockchip_rtc_readalarm_def wp_bind
    apply (rule wp_bulk_read, simp only: prod.case, rule wp_ifI, simp add: wp, simp only: Let_def wp_bind)
    apply (rule wp_read, simp only: prod.case, rule wp_ifI, simp add: wp)
    apply (auto simp: wp field_byte [OF assms] decode_time_def RTC_ALARM_SECONDS_def NUM_ALARM_REGS_def
        alarm_reg_all mask_bytes p alarm_en_bit)
    done
qed

lemma set_time_stopped:
  assumes "\<And>w. fst (regmap_bulk_write api RTC_SET_SECONDS (time_regs api tm) w) \<noteq> 0"
    and "\<And>a v w. fst (regmap_write api a v w) = 0"
  shows "wp (rockchip_rtc_set_time api tm) (\<lambda>r s'. r \<noteq> 0 \<and> \<not> bit (R s' RTC_CTRL) 0) s"
proof -
  have c: "RTC_CTRL \<in> plain" "\<And>i. i < 8 \<Longrightarrow> RTC_CTRL \<noteq> 4 * of_nat i"
    using time_reg_plain(2) by (fastforce simp: plain_def RTC_CTRL_def)+
  have ok: "wp (rockchip_rtc_update_bits api a m b) (\<lambda>r s'. r = 0) s" for a m b s
    using assms(2) by (simp add: rockchip_rtc_update_bits_def wp wp_def lift_on_def split_beta)
  have upd: "wp (rockchip_rtc_update_bits api RTC_CTRL RTC_CTRL_REG_START_RTC 0)
      (\<lambda>r s'. r = 0 \<and> \<not> bit (R s' RTC_CTRL) 0) s"
  proof -
    have "wp (rockchip_rtc_update_bits api RTC_CTRL RTC_CTRL_REG_START_RTC 0)
      (\<lambda>r s'. r = 0 \<longrightarrow> \<not> bit (R s' RTC_CTRL) 0) s"
      by (rule wp_update) (use c in \<open>auto simp: RTC_CTRL_REG_START_RTC_def bit_and_iff bit_not_iff\<close>)
    with ok [of RTC_CTRL RTC_CTRL_REG_START_RTC 0 s] show ?thesis
      by (auto simp: wp_def split: prod.splits)
  qed
  have blk: "wp (on_bus (regmap_bulk_write api RTC_SET_SECONDS (time_regs api tm)))
      (\<lambda>r s'. r \<noteq> 0 \<and> R s' RTC_CTRL = R s RTC_CTRL) s" for s
    using assms(1) [of "bus s"] bulk_write_frame [of RTC_CTRL "time_regs api tm" RTC_SET_SECONDS "bus s"] c
    by (auto simp: wp RTC_SET_SECONDS_def split: prod.splits)
  show ?thesis
    unfolding set_time_eq wp_chk wp_bind
    apply (rule wp_mono, rule upd, simp)
    apply (rule wp_poll, rule wp_mono, rule blk)
    using c(1) by auto
qed

end

section \<open>Time and alarm\<close>

definition faultless :: "'w rtc_api \<Rightarrow> bool" where
  "faultless api \<longleftrightarrow> (\<forall>a w. fst (fst (regmap_read api a w)) = 0) \<and>
     (\<forall>a v w. fst (regmap_write api a v w) = 0) \<and>
     (\<forall>a n w. fst (fst (regmap_bulk_read api a n w)) = 0) \<and>
     (\<forall>a vs w. fst (regmap_bulk_write api a vs w) = 0)"

lemma faultless_set_time: "faultless api \<Longrightarrow> wp (rockchip_rtc_set_time api tm) (\<lambda>r s'. r = 0) s"
  by (simp add: faultless_def set_time_eq rockchip_rtc_update_bits_def wp split_beta)

lemma faultless_read_time: "faultless api \<Longrightarrow> wp (rockchip_rtc_read_time api) (\<lambda>(r, t) s'. r = 0) s"
  by (simp add: faultless_def rockchip_rtc_read_time_def wp split_beta Let_def)

text \<open>C3 (rtc_time_roundtrip): setting the clock and reading it back. For every date from 2000 to 11999, if
  both calls return success the time read is the time set, weekday included, the counter not having
  ticked in between; and on a bus that does not fail both calls do return success.\<close>

theorem rtc_time_roundtrip:
  assumes "rtc_bus api reg" and "bcd_ok api" and "tm_ok tm"
    and "run_state (rockchip_rtc_set_time api tm) s = (r1, s1)"
    and "run_state (rockchip_rtc_read_time api) s1 = ((r2, t), s2)"
  shows "(r1 = 0 \<and> r2 = 0 \<longrightarrow> t = Some tm) \<and> (faultless api \<longrightarrow> r1 = 0 \<and> r2 = 0)"
proof -
  have "t = Some tm" if "r1 = 0" "r2 = 0"
  proof -
    have "\<forall>i < 8. reg (4 * of_nat i) (bus s1) = ucast (time_regs api tm ! i)"
      using wpD [OF rtc_bus.set_time_regs [OF assms(1)] assms(4)] that by simp
    then have "decode_time (\<lambda>i. reg (4 * of_nat i) (bus s1)) = tm"
      by (rule decode_time_regs [OF assms(2,3)])
    then show ?thesis
      using wpD [OF rtc_bus.read_time_regs [OF assms(1,2)] assms(5)] that by simp
  qed
  moreover have "faultless api \<longrightarrow> r1 = 0 \<and> r2 = 0"
    using wpD [OF faultless_set_time assms(4)] wpD [OF faultless_read_time assms(5)] by blast
  ultimately show ?thesis by blast
qed

text \<open>C27 (rtc_alarm_roundtrip): setting an alarm and reading it back gives the same time and the same
  enable flag, when both calls return success; the weekday is not stored and stays the caller's.\<close>

theorem rtc_alarm_roundtrip:
  assumes "rtc_bus api reg" and "bcd_ok api" and "tm_ok (alarm_time alrm)"
    and "run_state (rockchip_rtc_setalarm api alrm) s = (0, s1)"
    and "run_state (rockchip_rtc_readalarm api a0) s1 = ((0, a), s2)"
  shows "a = alrm\<lparr>alarm_time := (alarm_time alrm)\<lparr>tm_wday := tm_wday (alarm_time a0)\<rparr>\<rparr>"
proof -
  let ?b = "\<lambda>i. reg (0x20 + 4 * of_nat i) (bus s1)"
  have b: "\<forall>i < 7. ?b i = ucast (time_regs api (alarm_time alrm) ! i)"
    and e: "bit (reg RTC_INT0_EN (bus s1)) 7 = alarm_enabled alrm"
    using wpD [OF rtc_bus.setalarm_regs [OF assms(1)] assms(4)] by blast+
  have a: "a = \<lparr>alarm_enabled = alarm_enabled alrm,
      alarm_time = (decode_time ?b)\<lparr>tm_wday := tm_wday (alarm_time a0)\<rparr>\<rparr>"
    using wpD [OF rtc_bus.readalarm_regs [OF assms(1,2)] assms(5)] e by simp
  let ?c = "?b(7 := ucast (time_regs api (alarm_time alrm) ! 7))"
  have "decode_time ?c = alarm_time alrm"
  proof (rule decode_time_regs [OF assms(2,3)], intro allI impI)
    fix i :: nat
    assume "i < 8"
    then have "i = 7 \<or> i < 7" by auto
    with b show "?c i = ucast (time_regs api (alarm_time alrm) ! i)" by auto
  qed
  moreover have "(decode_time ?c)\<lparr>tm_wday := w\<rparr> = (decode_time ?b)\<lparr>tm_wday := w\<rparr>" for w
    by (simp add: decode_time_def)
  ultimately show ?thesis using a by (cases alrm) simp
qed

text \<open>C28 (rtc_set_time_running): after a successful \<^verbatim>\<open>set_time\<close> the counter runs and the shadow registers
  are selected; but if the time registers cannot be written the call returns the error with the
  counter stopped, and leaves it so.\<close>

theorem rtc_set_time_running:
  assumes "rtc_bus api reg" and "run_state (rockchip_rtc_set_time api tm) s = (r, s')"
  shows "(r = 0 \<longrightarrow> bit (reg RTC_CTRL (bus s')) 0 \<and> bit (reg RTC_CTRL (bus s')) 7) \<and>
    ((\<forall>vs w. fst (regmap_bulk_write api RTC_SET_SECONDS vs w) \<noteq> 0) \<and>
     (\<forall>a v w. fst (regmap_write api a v w) = 0) \<longrightarrow> r \<noteq> 0 \<and> \<not> bit (reg RTC_CTRL (bus s')) 0)"
proof (intro conjI impI)
  show "r = 0 \<Longrightarrow> bit (reg RTC_CTRL (bus s')) 0" "r = 0 \<Longrightarrow> bit (reg RTC_CTRL (bus s')) 7"
    using wpD [OF rtc_bus.set_time_regs [OF assms(1)] assms(2)] by simp_all
next
  assume fail: "(\<forall>vs w. fst (regmap_bulk_write api RTC_SET_SECONDS vs w) \<noteq> 0) \<and>
     (\<forall>a v w. fst (regmap_write api a v w) = 0)"
  have "wp (rockchip_rtc_set_time api tm) (\<lambda>r s'. r \<noteq> 0 \<and> \<not> bit (reg RTC_CTRL (bus s')) 0) s"
    using fail by (intro rtc_bus.set_time_stopped [OF assms(1)]) simp_all
  from wpD [OF this assms(2)] show "r \<noteq> 0" "\<not> bit (reg RTC_CTRL (bus s')) 0" by simp_all
qed

end
