(* ===== verification/Rtc_Device.thy ===== *)
theory Rtc_Device
  imports Rtc
begin

unbundle bit_operations_syntax

text \<open>
  The rest of the RTC driver's properties: the arithmetic of the clock compensation, the balance of
  clocks and wake-ups through probe, suspend and resume; and a register-level device, with a
  schedule of bus faults, on which the laws of the register map hold.
\<close>

section \<open>Clock compensation\<close>

text \<open>The kernel's rounded division, where its sum does not overflow.\<close>

definition round_ok :: "'w rtc_api \<Rightarrow> bool" where
  "round_ok api \<longleftrightarrow> (\<forall>x. unat x + 16384 < 2 ^ 32 \<longrightarrow>
     unat (DIV_ROUND_CLOSEST api x 32768) = (unat x + 16384) div 32768)"

lemma g_ref_value: "g_ref = 48000000"
  by (simp add: g_ref_def CLK32K_TEST_REF_CLK_def CLK32K_TEST_LEN_def)

text \<open>The amount for a 32-bit product \<open>x\<close>: nothing overflows any more, and it is at most 322122.\<close>

lemma camp_of_product:
  "unat (ucast (36 * ucast (x :: u32) div ucast (g_ref div 100) :: u64) :: u32) = 36 * unat x div 480000"
proof -
  have x: "unat x < 2 ^ 32" using unsigned_less [of x] by simp
  have "unat (36 * ucast x :: u64) = 36 * unat x"
    using x by (simp add: unat_word_ariths unsigned_ucast_eq take_bit_nat_eq_self)
  moreover have "unat (ucast (g_ref div 100) :: u64) = 480000"
    by (simp add: g_ref_value)
  ultimately have "unat (36 * ucast x div ucast (g_ref div 100) :: u64) = 36 * unat x div 480000"
    by (simp add: unat_div_distrib)
  moreover have "36 * unat x div 480000 < 2 ^ 32" using x by simp
  ultimately show ?thesis by (simp add: unsigned_ucast_eq take_bit_nat_eq_self)
qed

lemma comp_camp_product:
  "unat (comp_camp counts) = 36 * unat (32768 * (if counts > g_ref then counts - g_ref else g_ref - counts)) div 480000"
  by (cases "g_ref < counts") (simp_all only: comp_camp_def Let_def if_True if_False camp_of_product)

lemma comp_camp_bound: "unat (comp_camp counts) \<le> 322122"
proof -
  have b: "36 * unat (x :: u32) div 480000 \<le> 322122" for x
    using unsigned_less [of x, where 'a = nat] by simp
  show ?thesis unfolding comp_camp_product by (rule b)
qed

lemma comp_amounts:
  assumes "round_ok api" and "unat t \<le> 322122"
  shows "comp_hour api t = int ((unat t + 16384) div 32768)"
    and "comp_day api t = int ((24 * unat t + 16384) div 32768)"
    and "comp_mon api t = int ((720 * unat t + 16384) div 32768)"
proof -
  have m: "unat (24 * t) = 24 * unat t" "unat (30 * 24 * t) = 720 * unat t"
    using assms(2) by (simp_all add: unat_word_ariths)
  have r: "sint (DIV_ROUND_CLOSEST api x 32768) = int ((unat x + 16384) div 32768)"
    if "unat x \<le> 720 * 322122" for x
    using assms(1) that by (subst sint_small) (auto simp: round_ok_def)
  show "comp_hour api t = int ((unat t + 16384) div 32768)"
    unfolding comp_hour_def using assms(2) by (subst r) simp_all
  show "comp_day api t = int ((24 * unat t + 16384) div 32768)"
    unfolding comp_day_def using assms(2) m by (subst r) simp_all
  show "comp_mon api t = int ((720 * unat t + 16384) div 32768)"
    unfolding comp_mon_def using assms(2) m by (subst r) simp_all
qed

text \<open>The compensation amount. For a measured count up to 131071 away from the reference,
  in either direction, it is the exact 36 * 32768 * difference / (reference / 100) rounded down; one
  count further the 32-bit product wraps to zero and no compensation is computed at all.\<close>

theorem rtc_comp_camp:
  "(\<forall>d < 131072. unat (comp_camp (g_ref + of_nat d)) = 36 * (32768 * d) div 480000 \<and>
      unat (comp_camp (g_ref - of_nat d)) = 36 * (32768 * d) div 480000) \<and>
   comp_camp (g_ref + 131072) = 0 \<and> comp_camp (g_ref - 131072) = 0"
proof -
  have p: "unat (32768 * of_nat d :: u32) = 32768 * d" if "d < 131072" for d
    using that by (simp add: unat_word_ariths unat_of_nat take_bit_nat_eq_self)
  have n: "unat (of_nat d :: u32) = d" if "d < 131072" for d
    using that by (simp add: unat_of_nat take_bit_nat_eq_self)
  have up: "g_ref < g_ref + of_nat d" if "0 < d" "d < 131072" for d
    using that n [of d] by (simp add: word_less_nat_alt g_ref_value unat_word_ariths)
  have dn: "\<not> g_ref < g_ref - of_nat d" if "d < 131072" for d
    using that n [of d] by (simp add: word_less_nat_alt g_ref_value unat_sub word_le_nat_alt)
  have "unat (comp_camp (g_ref + of_nat d)) = 36 * (32768 * d) div 480000" if "d < 131072" for d
    using that up [of d] p [of d] by (cases "d = 0") (simp_all add: comp_camp_product)
  moreover have "unat (comp_camp (g_ref - of_nat d)) = 36 * (32768 * d) div 480000" if "d < 131072" for d
    using that dn [of d] p [of d] by (simp add: comp_camp_product)
  moreover have "comp_camp (g_ref + 131072) = 0" "comp_camp (g_ref - 131072) = 0"
    by (simp_all add: comp_camp_def g_ref_value Let_def)
  ultimately show ?thesis by simp
qed

theorem rtc_comp_camp_witness: "unat (comp_camp (g_ref - 20000)) = 49152"
  using rtc_comp_camp [THEN conjunct1, rule_format, of 20000] by simp

text \<open>C31 (rtc_comp_bounds): whatever the counter reads, the hourly, daily and monthly amounts are small
  enough for two BCD digits below 80, so that the direction flag in bit 7 of the compensation
  registers is never disturbed by the amount.\<close>

theorem rtc_comp_bounds:
  assumes "round_ok api" and "tcamp = comp_camp counts"
    and "c_hour = comp_hour api tcamp" and "c_day = comp_day api tcamp" and "c_mon = comp_mon api tcamp"
  shows "0 \<le> c_hour \<and> c_hour \<le> 10 \<and>
    0 \<le> fst (comp_det_day c_hour c_day) \<and> fst (comp_det_day c_hour c_day) \<le> 22 \<and>
    0 \<le> fst (comp_det_mon c_hour c_day c_mon) \<and> fst (comp_det_mon c_hour c_day c_mon) \<le> 37"
proof -
  define T where "T = int (unat tcamp)"
  have "T \<le> int 322122"
    using comp_camp_bound [of counts] unfolding T_def assms(2) of_nat_le_iff .
  then have T: "0 \<le> T" "T \<le> 322122" by (simp_all add: T_def)
  have "c_hour = (T + 16384) div 32768" "c_day = (24 * T + 16384) div 32768"
    "c_mon = (720 * T + 16384) div 32768"
    using comp_amounts [OF assms(1), of tcamp] comp_camp_bound [of counts] assms(2-5)
    by (simp_all add: T_def zdiv_int)
  then have h: "32768 * c_hour \<le> T + 16384" "T + 16384 < 32768 * c_hour + 32768"
    and d: "32768 * c_day \<le> 24 * T + 16384" "24 * T + 16384 < 32768 * c_day + 32768"
    and m: "32768 * c_mon \<le> 720 * T + 16384" "720 * T + 16384 < 32768 * c_mon + 32768"
    by auto
  have "0 \<le> c_hour" "c_hour \<le> 10" using h T by auto
  moreover have "0 \<le> fst (comp_det_day c_hour c_day)" "fst (comp_det_day c_hour c_day) \<le> 22"
    using h d T by (auto simp: comp_det_day_def)
  moreover have "0 \<le> fst (comp_det_mon c_hour c_day c_mon)" "fst (comp_det_mon c_hour c_day c_mon) \<le> 37"
    using h d m T by (auto simp: comp_det_mon_def)
  ultimately show ?thesis by simp
qed

text \<open>How the daily and monthly amounts are split over the registers. What the day register
  adds to 23 hourly corrections makes up the daily amount when it is to be added; when it is to be
  subtracted the result is short by one hourly correction. The month register makes up the monthly
  amount exactly both ways. The short case is real: at a count of 47980000, which asks for 2 per
  hour and 36 per day, the two registers give 34.\<close>

theorem rtc_comp_split:
  assumes "round_ok api"
  shows "(\<forall>h d. if d > 23 * h then 23 * h + fst (comp_det_day h d) = d
            else 23 * h - fst (comp_det_day h d) = d - h) \<and>
    (\<forall>h d m. if m > 29 * d + 23 * h then 29 * d + 23 * h + fst (comp_det_mon h d m) = m
            else 29 * d + 23 * h - fst (comp_det_mon h d m) = m) \<and>
    (let h = comp_hour api (comp_camp 47980000); d = comp_day api (comp_camp 47980000)
     in h = 2 \<and> d = 36 \<and> comp_det_day h d = (12, 0))"
proof -
  have c: "unat (comp_camp 47980000) = 49152"
    by (simp add: comp_camp_def g_ref_value)
  have "comp_hour api (comp_camp 47980000) = 2" "comp_day api (comp_camp 47980000) = 36"
    using comp_amounts [OF assms, of "comp_camp 47980000"] by (simp_all add: c)
  then show ?thesis by (simp add: comp_det_day_def comp_det_mon_def)
qed

section \<open>Suspend and resume\<close>

lemma wp_is_trimed [wp]:
  "wp (rockchip_rtc_is_trimed api) Q s =
     (case regmap_read api RTC_CTRL (bus s) of ((r, v), w) \<Rightarrow>
        Q (r = 0 \<and> v AND CLK32K_COMP_EN = CLK32K_COMP_EN) (s\<lparr>bus := w\<rparr>))"
  by (auto simp: rockchip_rtc_is_trimed_def wp split: prod.splits)

text \<open>The reference counts a call may move; everything else of the state it leaves alone.\<close>

lemma trim_counts:
  "wp (rockchip_rtc_trim_start api) (\<lambda>_ s'. clk_on s' = clk_on s \<and> irq_wake s' = irq_wake s \<and>
     rtc s' = rtc s \<and> may_wakeup s' = may_wakeup s \<and> clk_action s' = clk_action s) s"
  "wp (rockchip_rtc_trim_close api) (\<lambda>_ s'. clk_on s' = clk_on s \<and> irq_wake s' = irq_wake s \<and>
     rtc s' = rtc s \<and> may_wakeup s' = may_wakeup s \<and> clk_action s' = clk_action s) s"
  by (auto simp: rockchip_rtc_trim_start_def rockchip_rtc_trim_close_def wp split: prod.splits)

lemma clamp_counts:
  "wp (grf_clamp api on) (\<lambda>r s'. r = (if mode (rtc s) = ROCKCHIP_RV1106_RTC then 0 else - EINVAL) \<and>
     clk_on s' = clk_on s \<and> irq_wake s' = irq_wake s \<and> rtc s' = rtc s \<and> may_wakeup s' = may_wakeup s \<and>
     clk_action s' = clk_action s) s"
  by (auto simp: grf_clamp_def wp split: prod.splits)

lemma EINVAL_neq [simp]: "EINVAL \<noteq> 0"
  by (simp add: EINVAL_def)

lemma wake_moves:
  "(if may_wakeup s then s\<lparr>irq_wake := irq_wake s + 1\<rparr> else s) =
     s\<lparr>irq_wake := irq_wake s + of_bool (may_wakeup s)\<rparr>"
  "(if may_wakeup s then s\<lparr>irq_wake := irq_wake s - 1\<rparr> else s) =
     s\<lparr>irq_wake := irq_wake s - of_bool (may_wakeup s)\<rparr>"
  by simp_all

lemma suspend_counts:
  "wp (rockchip_rtc_suspend api) (\<lambda>r s'. rtc s' = rtc s \<and> may_wakeup s' = may_wakeup s \<and>
     (if suspend_bypass (rtc s) then r = 0 \<and> s' = s
      else irq_wake s' = irq_wake s + of_bool (may_wakeup s) \<and>
        (if has_grf (rtc s) \<and> mode (rtc s) \<noteq> ROCKCHIP_RV1106_RTC
         then r = - EINVAL \<and> clk_on s' = clk_on s
         else r = 0 \<and> clk_on s' = clk_on s - 1))) s"
  unfolding rockchip_rtc_suspend_def wp_bind wp_gets wake_moves
  apply (rule wp_ifI, simp add: wp, simp only: wp_bind wp_modify)
  apply (rule wp_mono, rule trim_counts(2))
  apply (simp only: wp_bind wp_gets wp_chk, rule wp_ifI)
   apply (rule wp_mono, rule clamp_counts)
   apply (auto simp: wp rockchip_rtc_clk_disable_def)
  done

lemma resume_counts:
  "wp (rockchip_rtc_resume api) (\<lambda>r s'. rtc s' = rtc s \<and> may_wakeup s' = may_wakeup s \<and>
     (if suspend_bypass (rtc s) then r = 0 \<and> s' = s
      else irq_wake s' = irq_wake s - of_bool (may_wakeup s) \<and>
        (if has_grf (rtc s) \<and> mode (rtc s) \<noteq> ROCKCHIP_RV1106_RTC
         then r = - EINVAL \<and> clk_on s' = clk_on s
         else clk_on s' = clk_on s + (if r = 0 then 1 else 0)))) s"
  unfolding rockchip_rtc_resume_def clk_enable_def wp_bind wp_gets wake_moves
  apply (rule wp_ifI, simp add: wp, simp only: wp_bind wp_modify wp_gets wp_chk)
  apply (rule wp_ifI)
   apply (rule wp_mono, rule clamp_counts)
   apply (auto simp: wp rockchip_rtc_trim_start_def split: prod.splits if_splits)
  done

text \<open>C30 (rtc_suspend_resume): suspend and resume are balanced. A bypassed device is left alone; otherwise
  suspend takes one clock reference away and, on a wake-up source, adds one wake-up enable, and a
  resume gives both back (the clock only if it can be enabled, in which case it returns 0). With an
  unknown SoC mode behind a GRF, suspend fails after it has enabled the wake-up interrupt, and the
  enable stays.\<close>

theorem rtc_suspend_resume:
  assumes "run_state (rockchip_rtc_suspend api) s = (r1, s1)"
    and "run_state (rockchip_rtc_resume api) s1 = (r2, s2)"
  shows "(suspend_bypass (rtc s) \<longrightarrow> r1 = 0 \<and> r2 = 0 \<and> s2 = s) \<and>
    (\<not> suspend_bypass (rtc s) \<and> (has_grf (rtc s) \<longrightarrow> mode (rtc s) = ROCKCHIP_RV1106_RTC) \<longrightarrow>
       r1 = 0 \<and> clk_on s1 = clk_on s - 1 \<and> irq_wake s1 = irq_wake s + of_bool (may_wakeup s) \<and>
       irq_wake s2 = irq_wake s \<and> clk_on s2 = (if r2 = 0 then clk_on s else clk_on s - 1)) \<and>
    (\<not> suspend_bypass (rtc s) \<and> has_grf (rtc s) \<and> mode (rtc s) \<noteq> ROCKCHIP_RV1106_RTC \<longrightarrow>
       r1 = - EINVAL \<and> clk_on s1 = clk_on s \<and> irq_wake s1 = irq_wake s + of_bool (may_wakeup s))"
  using wpD [OF suspend_counts assms(1)] wpD [OF resume_counts assms(2)]
  by (auto split: if_splits)

section \<open>Probe\<close>

text \<open>The clock is on exactly when its release is in the hands of the driver core.\<close>

definition clk_owned :: "'w rtc_sys \<Rightarrow> bool" where
  "clk_owned s \<longleftrightarrow> clk_on s = of_bool (clk_action s)"

text \<open>Computations that only talk to the registers.\<close>

definition bus_only :: "('w rtc_sys, 'a) state \<Rightarrow> bool" where
  "bus_only m \<longleftrightarrow> (\<forall>s. wp m (\<lambda>_ s'. \<exists>w. s' = s\<lparr>bus := w\<rparr>) s)"

named_theorems bus_only_intro \<open>computations that only talk to the registers\<close>

lemma bus_only_return [bus_only_intro]: "bus_only (returnS a)"
  unfolding bus_only_def wp_return by (metis rtc_sys.surjective rtc_sys.update_convs(1))

lemma bus_only_on_bus [bus_only_intro]: "bus_only (on_bus f)"
  by (auto simp: bus_only_def wp split: prod.splits)

lemma bus_only_bind [bus_only_intro]:
  assumes "bus_only m" and "\<And>a. bus_only (f a)"
  shows "bus_only (State_Monad.bind m f)"
  unfolding bus_only_def wp_bind
proof (intro allI, rule wp_mono)
  fix s
  show "wp m (\<lambda>_ s'. \<exists>w. s' = s\<lparr>bus := w\<rparr>) s" using assms(1) by (simp add: bus_only_def)
  fix a s'
  assume "\<exists>w. s' = s\<lparr>bus := w\<rparr>"
  then obtain w where s': "s' = s\<lparr>bus := w\<rparr>" by blast
  have "wp (f a) (\<lambda>_ t. \<exists>w. t = s'\<lparr>bus := w\<rparr>) s'" using assms(2) by (simp add: bus_only_def)
  then show "wp (f a) (\<lambda>_ t. \<exists>w. t = s\<lparr>bus := w\<rparr>) s'"
    by (rule wp_mono) (auto simp: s')
qed

lemma bus_only_if [bus_only_intro]: "bus_only m \<Longrightarrow> bus_only n \<Longrightarrow> bus_only (if b then m else n)"
  by simp

lemma bus_only_case [bus_only_intro]:
  "(\<And>a b. bus_only (f a b)) \<Longrightarrow> bus_only (case x of (a, b) \<Rightarrow> f a b)"
  by (cases x) simp

lemma bus_only_chk [bus_only_intro]: "bus_only m \<Longrightarrow> bus_only k \<Longrightarrow> bus_only (chk m k)"
  unfolding chk_def by (intro bus_only_intro)

lemma bus_only_ignore [bus_only_intro]: "bus_only m \<Longrightarrow> bus_only (ignore m)"
  unfolding ignore_def by (intro bus_only_intro)

lemma bus_only_write [bus_only_intro]: "bus_only (rockchip_rtc_write api a v)"
  unfolding rockchip_rtc_write_def by (intro bus_only_intro)

lemma bus_only_update [bus_only_intro]: "bus_only (rockchip_rtc_update_bits api a m b)"
  unfolding rockchip_rtc_update_bits_def
  by (intro bus_only_intro)

lemma bus_only_set_time [bus_only_intro]: "bus_only (rockchip_rtc_set_time api tm)"
  unfolding set_time_eq by (intro bus_only_intro)

lemma bus_only_read_time [bus_only_intro]: "bus_only (rockchip_rtc_read_time api)"
  unfolding rockchip_rtc_read_time_def Let_def
  by (intro bus_only_intro)

lemma bus_only_analog [bus_only_intro]: "bus_only (probe_analog api)"
  unfolding probe_analog_def by (intro bus_only_intro)

lemma bus_only_probe_time [bus_only_intro]: "bus_only (probe_time api junk)"
  unfolding probe_time_def
  by (intro bus_only_intro)

lemma bus_onlyD: "bus_only m \<Longrightarrow> (\<And>a w. Q a (s\<lparr>bus := w\<rparr>)) \<Longrightarrow> wp m Q s"
  unfolding bus_only_def by (erule allE [of _ s], erule wp_mono) auto

text \<open>The probe after the clock is on, and the whole of it: what every path ends with.\<close>

definition probe_post :: "int \<Rightarrow> 'w rtc_sys \<Rightarrow> bool" where
  "probe_post r s \<longleftrightarrow> clk_owned s \<and>
     (r = 0 \<longrightarrow> clk_on s = 1 \<and> may_wakeup s \<and> 1 \<le> num_clks (rtc s) \<and> 0 \<le> irq (rtc s))"

lemma probe_register_post:
  assumes "clk_on s = 1" and "clk_action s" and "1 \<le> num_clks (rtc s)" and "may_wakeup s"
  shows "wp (probe_register api pf) probe_post s"
  using assms
  by (auto simp: probe_register_def probe_post_def clk_owned_def wp rockchip_rtc_trim_start_def
      split: prod.splits)

lemma probe_clocked_post:
  assumes "clk_on s = 1" and "\<not> clk_action s" and "1 \<le> num_clks (rtc s)"
  shows "wp (probe_clocked api pf junk) probe_post s"
proof (cases "add_action pf = 0")
  case False
  with assms show ?thesis
    by (simp add: probe_clocked_def add_clk_action_def wp rockchip_rtc_clk_disable_def probe_post_def
        clk_owned_def)
next
  case True
  then show ?thesis
    unfolding probe_clocked_def wp_chk add_clk_action_def
    apply (simp only: not_True_eq_False if_False simp_thms wp_bind wp_modify wp_return)
    apply (rule bus_onlyD [OF bus_only_analog], rule if_goalI)
     apply (simp add: probe_post_def clk_owned_def assms)
    apply (rule bus_onlyD [OF bus_only_probe_time], rule probe_register_post)
    using assms by simp_all
qed

lemma probe_clk_post:
  assumes "clk_on s = 0" and "\<not> clk_action s" and "1 \<le> num_clks (rtc s)"
  shows "wp (chk (clk_enable api) (probe_clocked api pf junk)) probe_post s"
  using assms
  by (auto simp: clk_enable_def wp probe_post_def [of _ "s\<lparr>bus := _\<rparr>"] clk_owned_def split: prod.splits
      intro: probe_clocked_post)


section \<open>A register-level device\<close>

text \<open>
  An RTC behind a bus whose operations fail by a schedule: the head of \<open>dev_faults\<close> is the result of
  the next operation, 0 once it is empty. \<^verbatim>\<open>STATUS0\<close> is write-1-clear, \<^verbatim>\<open>STATUS1\<close> follows the
  start bit, and the counter does not tick.
\<close>

record rtc_dev =
  dev_regs :: "u32 \<Rightarrow> u8"
  dev_faults :: "int list"

definition dev_pop :: "rtc_dev \<Rightarrow> int \<times> rtc_dev" where
  "dev_pop w = (case dev_faults w of [] \<Rightarrow> (0, w) | f # fs \<Rightarrow> (f, w\<lparr>dev_faults := fs\<rparr>))"

definition dev_load :: "rtc_dev \<Rightarrow> u32 \<Rightarrow> u32" where
  "dev_load w a = ucast (if a = RTC_STATUS1 then dev_regs w RTC_CTRL else dev_regs w a)"

definition dev_store :: "u32 \<Rightarrow> u32 \<Rightarrow> rtc_dev \<Rightarrow> rtc_dev" where
  "dev_store a v w = w\<lparr>dev_regs := (dev_regs w)
     (a := if a = RTC_STATUS0 then dev_regs w a AND NOT (ucast v) else ucast v)\<rparr>"

definition dev_read :: "u32 \<Rightarrow> rtc_dev \<Rightarrow> (int \<times> u32) \<times> rtc_dev" where
  "dev_read a w = (let (f, w') = dev_pop w in ((f, if f = 0 then dev_load w' a else 0), w'))"

definition dev_write :: "u32 \<Rightarrow> u32 \<Rightarrow> rtc_dev \<Rightarrow> int \<times> rtc_dev" where
  "dev_write a v w = (let (f, w') = dev_pop w in (f, if f = 0 then dev_store a v w' else w'))"

definition dev_bulk_read :: "u32 \<Rightarrow> nat \<Rightarrow> rtc_dev \<Rightarrow> (int \<times> u32 list) \<times> rtc_dev" where
  "dev_bulk_read a n w = (let (f, w') = dev_pop w
     in ((f, if f = 0 then map (\<lambda>i. dev_load w' (a + 4 * of_nat i)) [0..<n] else replicate n 0), w'))"

fun dev_store_all :: "u32 \<Rightarrow> u32 list \<Rightarrow> rtc_dev \<Rightarrow> rtc_dev" where
  "dev_store_all a [] w = w"
| "dev_store_all a (v # vs) w = dev_store_all (a + 4) vs (dev_store a v w)"

definition dev_bulk_write :: "u32 \<Rightarrow> u32 list \<Rightarrow> rtc_dev \<Rightarrow> int \<times> rtc_dev" where
  "dev_bulk_write a vs w = (let (f, w') = dev_pop w
     in (f, if f = 0 then dev_store_all a vs w' else w'))"

definition dev_poll :: "u32 \<Rightarrow> (u32 \<Rightarrow> bool) \<Rightarrow> nat \<Rightarrow> nat \<Rightarrow> rtc_dev \<Rightarrow> (int \<times> u32) \<times> rtc_dev" where
  "dev_poll a p t u w = ((if p (dev_load w a) then 0 else - 110, dev_load w a), w)"

definition dev_api :: "rtc_dev rtc_api" where
  "dev_api = \<lparr>regmap_read = dev_read, regmap_write = dev_write, regmap_bulk_read = dev_bulk_read,
     regmap_bulk_write = dev_bulk_write, read_poll = dev_poll, grf_write = (\<lambda>_ _ w. (0, w)),
     clk_bulk_prepare_enable = (\<lambda>w. (0, w)),
     bin2bcd = (\<lambda>n. of_nat (unat n div 10 * 16 + unat n mod 10)),
     bcd2bin = (\<lambda>b. of_nat (unat b mod 16 + unat b div 16 * 10)),
     DIV_ROUND_CLOSEST = (\<lambda>x d. (x + d div 2) div d),
     rtc_valid_tm = (\<lambda>t. if tm_ok t then 0 else - EINVAL)\<rparr>"

lemma dev_pop_regs: "dev_pop w = (f, w') \<Longrightarrow> dev_regs w' = dev_regs w"
  by (auto simp: dev_pop_def split: list.splits)

lemma store_all_other:
  "(\<And>i. i < length vs \<Longrightarrow> b \<noteq> a + 4 * of_nat i) \<Longrightarrow>
     dev_regs (dev_store_all a vs w) b = dev_regs w b"
proof (induction vs arbitrary: a w)
  case Nil
  then show ?case by simp
next
  case (Cons v vs)
  have "b \<noteq> a" using Cons.prems [of 0] by simp
  moreover have "b \<noteq> (a + 4) + 4 * of_nat i" if "i < length vs" for i
    using Cons.prems [of "Suc i"] that by (simp add: algebra_simps)
  ultimately show ?case by (simp add: Cons.IH dev_store_def)
qed

lemma no_alias: "j < 8 \<Longrightarrow> a \<noteq> (a + 4) + 4 * of_nat j" for a :: u32
  by (auto simp: less_eight)

lemma store_all_at:
  "length vs \<le> 8 \<Longrightarrow> i < length vs \<Longrightarrow> a + 4 * of_nat i \<noteq> RTC_STATUS0 \<Longrightarrow>
     dev_regs (dev_store_all a vs w) (a + 4 * of_nat i) = ucast (vs ! i)"
proof (induction vs arbitrary: a w i)
  case Nil
  then show ?case by simp
next
  case (Cons v vs)
  show ?case
  proof (cases i)
    case 0
    have "dev_regs (dev_store_all (a + 4) vs (dev_store a v w)) a = dev_regs (dev_store a v w) a"
      using Cons.prems(1) by (intro store_all_other no_alias) simp
    with 0 Cons.prems(3) show ?thesis by (simp add: dev_store_def)
  next
    case (Suc j)
    have "(a + 4) + 4 * of_nat j = a + 4 * of_nat i" using Suc by (simp add: algebra_simps)
    with Cons.IH [of j "a + 4" "dev_store a v w"] Cons.prems Suc show ?thesis by simp
  qed
qed

lemma plain_not_status: "b \<in> plain \<Longrightarrow> b \<noteq> RTC_STATUS0 \<and> b \<noteq> RTC_STATUS1"
  by (auto simp: plain_def rtc_consts)

lemma dev_load_plain: "b \<in> plain \<Longrightarrow> ucast (dev_load w b) = dev_regs w b"
  by (simp add: dev_load_def plain_not_status)

interpretation dev: rtc_bus dev_api "\<lambda>b w. dev_regs w b"
proof (unfold_locales, goal_cases)
  case (1 b a w)
  then show ?case by (auto simp: dev_api_def dev_read_def dev_pop_regs split: prod.splits)
next
  case (2 a w v w')
  then show ?case
    by (auto simp: dev_api_def dev_read_def dev_load_plain dest: dev_pop_regs split: prod.splits)
next
  case (3 b a v w r w')
  then show ?case
    by (auto simp: dev_api_def dev_write_def dev_store_def plain_not_status dest: dev_pop_regs
        split: prod.splits)
next
  case (4 b a n w)
  then show ?case by (auto simp: dev_api_def dev_bulk_read_def dev_pop_regs split: prod.splits)
next
  case (5 a n w vs w' i)
  then show ?case
    by (auto simp: dev_api_def dev_bulk_read_def dev_load_plain dest: dev_pop_regs split: prod.splits)
next
  case (6 b vs a w)
  then show ?case
    by (auto simp: dev_api_def dev_bulk_write_def dev_pop_regs store_all_other split: prod.splits)
next
  case (7 a vs w w' i)
  then show ?case
    by (auto simp: dev_api_def dev_bulk_write_def store_all_at plain_not_status split: prod.splits)
next
  case (8 b a p t u w)
  then show ?case by (simp add: dev_api_def dev_poll_def)
qed

lemma dev_bcd: "bcd_ok dev_api"
proof -
  have "unat (of_nat n :: u32) = n" if "n \<le> 99" for n
    using that by (simp add: unat_of_nat take_bit_nat_eq_self)
  then show ?thesis by (simp add: bcd_ok_def dev_api_def)
qed

lemma dev_round: "round_ok dev_api"
proof -
  have "unat ((x + 16384) div 32768 :: u32) = (unat x + 16384) div 32768"
    if "unat x + 16384 < 2 ^ 32" for x :: u32
    using that by (simp add: unat_div_distrib unat_word_ariths)
  then show ?thesis by (simp add: round_ok_def dev_api_def)
qed

section \<open>Witnesses\<close>

definition dev_sys :: "int list \<Rightarrow> rtc_dev rtc_sys" where
  "dev_sys fs = \<lparr>bus = \<lparr>dev_regs = (\<lambda>_. 0), dev_faults = fs\<rparr>,
     rtc = \<lparr>has_grf = True, num_clks = 1, irq = 5, mode = 1, suspend_bypass = False\<rparr>,
     clk_on = 0, irq_wake = 0, may_wakeup = True, trim_queued = False, alarms = 0, clk_action = False\<rparr>"

text \<open>With an empty schedule nothing fails.\<close>

lemma dev_store_faults [simp]: "dev_faults (dev_store a v w) = dev_faults w"
  by (simp add: dev_store_def)

lemma dev_store_all_faults [simp]: "dev_faults (dev_store_all a vs w) = dev_faults w"
  by (induction vs arbitrary: a w) simp_all

lemma dev_quiet:
  assumes "dev_faults w = []"
  shows "dev_read a w = ((0, dev_load w a), w)" and "dev_write a v w = (0, dev_store a v w)"
    and "dev_bulk_read a n w = ((0, map (\<lambda>i. dev_load w (a + 4 * of_nat i)) [0..<n]), w)"
    and "dev_bulk_write a vs w = (0, dev_store_all a vs w)"
  using assms by (simp_all add: dev_read_def dev_write_def dev_bulk_read_def dev_bulk_write_def dev_pop_def)

lemmas dev_run = dev_api_def dev_quiet dev_poll_def rockchip_rtc_update_bits_def rockchip_rtc_write_def

lemma dev_set_time:
  "dev_faults (bus s) = [] \<Longrightarrow>
     wp (rockchip_rtc_set_time dev_api tm) (\<lambda>r s'. r = 0 \<and> dev_faults (bus s') = []) s"
  unfolding set_time_eq by (simp add: wp dev_run del: dev_store_all.simps)

lemma dev_read_time:
  "dev_faults (bus s) = [] \<Longrightarrow> wp (rockchip_rtc_read_time dev_api) (\<lambda>(r, t) s'. r = 0) s"
  unfolding rockchip_rtc_read_time_def Let_def by (simp add: wp dev_run)

lemma dev_setalarm:
  "dev_faults (bus s) = [] \<Longrightarrow>
     wp (rockchip_rtc_setalarm dev_api alrm) (\<lambda>r s'. r = 0 \<and> dev_faults (bus s') = []) s"
  unfolding setalarm_eq rockchip_rtc_stop_alarm_def rockchip_rtc_start_alarm_def
  by (simp add: wp dev_run del: dev_store_all.simps)

lemma dev_readalarm:
  "dev_faults (bus s) = [] \<Longrightarrow> wp (rockchip_rtc_readalarm dev_api a0) (\<lambda>(r, a) s'. r = 0) s"
  unfolding rockchip_rtc_readalarm_def Let_def by (simp add: wp dev_run)

lemma dev_sys_quiet: "dev_faults (bus (dev_sys [])) = []"
  by (simp add: dev_sys_def)

lemma default_tm_ok: "tm_ok default_tm"
  by (simp add: tm_ok_def default_tm_def)

theorem rtc_time_roundtrip_witness:
  "snd (fst (run_state (rockchip_rtc_read_time dev_api)
     (snd (run_state (rockchip_rtc_set_time dev_api default_tm) (dev_sys []))))) = Some default_tm"
proof -
  obtain r1 s1 where w: "run_state (rockchip_rtc_set_time dev_api default_tm) (dev_sys []) = (r1, s1)"
    by fastforce
  obtain r2 t s2 where r: "run_state (rockchip_rtc_read_time dev_api) s1 = ((r2, t), s2)"
    by (metis prod.exhaust)
  have "r1 = 0" "dev_faults (bus s1) = []"
    using wpD [OF dev_set_time [OF dev_sys_quiet] w] by simp_all
  moreover have "r2 = 0"
    using wpD [OF dev_read_time [OF calculation(2)] r] by simp
  ultimately show ?thesis
    using rtc_time_roundtrip [OF dev.rtc_bus_axioms dev_bcd default_tm_ok w r] w r by simp
qed

definition demo_alarm :: rtc_wkalrm where
  "demo_alarm = \<lparr>alarm_enabled = True, alarm_time = default_tm\<rparr>"

theorem rtc_alarm_roundtrip_witness:
  "snd (fst (run_state (rockchip_rtc_readalarm dev_api demo_alarm)
     (snd (run_state (rockchip_rtc_setalarm dev_api demo_alarm) (dev_sys []))))) = demo_alarm"
proof -
  obtain r1 s1 where w: "run_state (rockchip_rtc_setalarm dev_api demo_alarm) (dev_sys []) = (r1, s1)"
    by fastforce
  obtain r2 a s2 where r: "run_state (rockchip_rtc_readalarm dev_api demo_alarm) s1 = ((r2, a), s2)"
    by (metis prod.exhaust)
  have "r1 = 0" "dev_faults (bus s1) = []"
    using wpD [OF dev_setalarm [OF dev_sys_quiet] w] by simp_all
  moreover have "r2 = 0"
    using wpD [OF dev_readalarm [OF calculation(2)] r] by simp
  moreover have "tm_ok (alarm_time demo_alarm)" by (simp add: demo_alarm_def default_tm_ok)
  ultimately show ?thesis
    using rtc_alarm_roundtrip [OF dev.rtc_bus_axioms dev_bcd, of demo_alarm "dev_sys []" s1 demo_alarm a s2] w r
    by (simp add: demo_alarm_def)
qed

theorem rtc_set_time_running_witness:
  "bit (dev_regs (bus (snd (run_state (rockchip_rtc_set_time dev_api default_tm) (dev_sys [])))) RTC_CTRL) 0"
proof -
  obtain r1 s1 where w: "run_state (rockchip_rtc_set_time dev_api default_tm) (dev_sys []) = (r1, s1)"
    by fastforce
  have "r1 = 0" using wpD [OF dev_set_time [OF dev_sys_quiet] w] by simp
  with rtc_set_time_running [OF dev.rtc_bus_axioms w] w show ?thesis by simp
qed

theorem rtc_comp_bounds_witness:
  "fst (comp_det_day (comp_hour dev_api (comp_camp 47980000)) (comp_day dev_api (comp_camp 47980000))) \<le> 22"
  using rtc_comp_bounds [OF dev_round refl refl refl refl] by blast

theorem rtc_comp_split_witness: "comp_hour dev_api (comp_camp 47980000) = 2"
  using rtc_comp_split [OF dev_round] by (simp add: Let_def)

theorem rtc_suspend_resume_witness:
  "irq_wake (snd (run_state (rockchip_rtc_resume dev_api)
     (snd (run_state (rockchip_rtc_suspend dev_api) (dev_sys []))))) = 0"
proof -
  obtain r1 s1 where s1: "run_state (rockchip_rtc_suspend dev_api) (dev_sys []) = (r1, s1)" by fastforce
  obtain r2 s2 where s2: "run_state (rockchip_rtc_resume dev_api) s1 = (r2, s2)" by fastforce
  from rtc_suspend_resume [OF s1 s2] s1 s2 show ?thesis
    by (simp add: dev_sys_def ROCKCHIP_RV1106_RTC_def)
qed

definition dev_platform :: rtc_platform where
  "dev_platform = \<lparr>kzalloc_ok = True, node_regmap = 0, match_data = 1, grf_lookup = 0, bulk_get_all = 1,
     add_action = 0, allocate_device = 0, get_irq = 5, request_irq = - 22, bypass_property = False,
     register_device = 0\<rparr>"


end
