(* ===== verification/Npu_Version.thy ===== *)
theory Npu_Version
  imports Kernel_Monad
begin

text \<open>
  The NPU smoke test, \<^verbatim>\<open>kernel/rv1106-enablement/npu/rknpu_version_test.c\<close>: which DRM node it settles on,
  what it prints, what it returns, and which descriptors it leaves open. The system calls are
  parameters on an operating-system state \<open>'w\<close>; the version macros are those of the driver's UAPI header in
  \<^verbatim>\<open>patches/45-npu-rknpu.patch\<close>.
\<close>

section \<open>The program\<close>

text \<open>\<open>open\<close> gives a descriptor or a negative number; \<open>ioctl\<close> its result, the value left in the action and \<open>errno\<close>.\<close>

record 'w npu_os =
  os_open :: "string \<Rightarrow> 'w \<Rightarrow> int \<times> 'w"
  os_ioctl :: "int \<Rightarrow> u32 \<Rightarrow> 'w \<Rightarrow> (int \<times> u32 \<times> int) \<times> 'w"
  os_close :: "int \<Rightarrow> 'w \<Rightarrow> unit \<times> 'w"

datatype line = Open_failed string | Not_rknpu string | Fail_none | Opened string int
  | Drv_version u32 u32 u32 u32 | Fail_hw int | Hw_version u32 | Pass string

record 'w npu_state =
  os :: 'w
  fds :: "int list"
  printed :: "line list"

definition candidates :: "string list" where
  "candidates = [''/dev/dri/card0'', ''/dev/dri/card1'', ''/dev/dri/renderD128'']"

definition RKNPU_GET_HW_VERSION :: u32 where "RKNPU_GET_HW_VERSION = 0"
definition RKNPU_GET_DRV_VERSION :: u32 where "RKNPU_GET_DRV_VERSION = 1"
definition RKNPU_GET_DRV_VERSION_MAJOR :: "u32 \<Rightarrow> u32" where
  "RKNPU_GET_DRV_VERSION_MAJOR v = v div 10000"
definition RKNPU_GET_DRV_VERSION_MINOR :: "u32 \<Rightarrow> u32" where
  "RKNPU_GET_DRV_VERSION_MINOR v = (v mod 10000) div 100"
definition RKNPU_GET_DRV_VERSION_PATCHLEVEL :: "u32 \<Rightarrow> u32" where
  "RKNPU_GET_DRV_VERSION_PATCHLEVEL v = v mod 100"

abbreviation on_os :: "('w \<Rightarrow> 'a \<times> 'w) \<Rightarrow> ('w npu_state, 'a) state" where
  "on_os f \<equiv> lift_on os (\<lambda>w s. s\<lparr>os := w\<rparr>) f"

definition print :: "line \<Rightarrow> ('w npu_state, unit) state" where
  "print l = modify (\<lambda>s. s\<lparr>printed := printed s @ [l]\<rparr>)"

text \<open>Descriptors are entered when \<open>open\<close> returns one and struck out by \<open>close\<close>.\<close>

definition open_node :: "'w npu_os \<Rightarrow> string \<Rightarrow> ('w npu_state, int) state" where
  "open_node env p = do {
     f \<leftarrow> on_os (os_open env p);
     modify (\<lambda>s. if f < 0 then s else s\<lparr>fds := f # fds s\<rparr>);
     returnS f
   }"

definition close_node :: "'w npu_os \<Rightarrow> int \<Rightarrow> ('w npu_state, unit) state" where
  "close_node env f = do {
     _ \<leftarrow> on_os (os_close env f);
     modify (\<lambda>s. s\<lparr>fds := remove1 f (fds s)\<rparr>)
   }"

definition do_action :: "'w npu_os \<Rightarrow> int \<Rightarrow> u32 \<Rightarrow> u32 \<Rightarrow> ('w npu_state, int \<times> u32) state" where
  "do_action env fd flags v0 = do {
     (r, v, errno) \<leftarrow> on_os (os_ioctl env fd flags);
     if r < 0 then returnS (- errno, v0) else returnS (0, v)
   }"

text \<open>The candidate loop: the first node that answers, with its driver version, or none.\<close>

fun find_node ::
  "'w npu_os \<Rightarrow> string list \<Rightarrow> ('w npu_state, (int \<times> string \<times> u32) option) state" where
  "find_node env [] = returnS None"
| "find_node env (p # ps) = do {
     f \<leftarrow> open_node env p;
     if f < 0 then do { print (Open_failed p); find_node env ps }
     else do {
       (r, drv_version) \<leftarrow> do_action env f RKNPU_GET_DRV_VERSION 0;
       if r = 0 then returnS (Some (f, p, drv_version))
       else do { print (Not_rknpu p); close_node env f; find_node env ps }
     }
   }"

definition main :: "'w npu_os \<Rightarrow> ('w npu_state, int) state" where
  "main env = do {
     found \<leftarrow> find_node env candidates;
     case found of
       None \<Rightarrow> do { print Fail_none; returnS 1 }
     | Some (fd, path, drv_version) \<Rightarrow> do {
         print (Opened path fd);
         print (Drv_version (RKNPU_GET_DRV_VERSION_MAJOR drv_version)
                  (RKNPU_GET_DRV_VERSION_MINOR drv_version)
                  (RKNPU_GET_DRV_VERSION_PATCHLEVEL drv_version) drv_version);
         (ret, hw_version) \<leftarrow> do_action env fd RKNPU_GET_HW_VERSION 0;
         if ret \<noteq> 0 then do { print (Fail_hw (- ret)); close_node env fd; returnS 1 }
         else do {
           print (Hw_version hw_version);
           print (Pass path);
           close_node env fd;
           returnS 0
         }
       }
   }"

section \<open>Which node, and nothing left open\<close>

text \<open>What the loop prints for the nodes it passes over: one line each, in order.\<close>

definition passed_over :: "string list \<Rightarrow> line list \<Rightarrow> bool" where
  "passed_over ps ls \<longleftrightarrow> list_all2 (\<lambda>p l. l = Open_failed p \<or> l = Not_rknpu p) ps ls"

lemma passed_over_simps [simp]:
  "passed_over [] []"
  "passed_over (p # ps) (Open_failed p # ls) = passed_over ps ls"
  "passed_over (p # ps) (Not_rknpu p # ls) = passed_over ps ls"
  by (auto simp: passed_over_def)

lemma wp_option [wp]:
  "wp (case x of None \<Rightarrow> m | Some y \<Rightarrow> f y) Q s = (case x of None \<Rightarrow> wp m Q s | Some y \<Rightarrow> wp (f y) Q s)"
  by (cases x) simp_all

lemma find_node_result:
  "wp (find_node env ps) (\<lambda>found s'.
     (case found of
        None \<Rightarrow> \<exists>ls. passed_over ps ls \<and> printed s' = printed s @ ls \<and> fds s' = fds s
      | Some (f, p, v) \<Rightarrow> \<exists>qs rs ls. ps = qs @ p # rs \<and> passed_over qs ls \<and>
          printed s' = printed s @ ls \<and> fds s' = f # fds s \<and> 0 \<le> f)) s"
proof (induction ps arbitrary: s)
  case Nil
  then show ?case by (auto simp: wp passed_over_def)
next
  case (Cons p ps)
  have step: "wp (find_node env ps) (\<lambda>found s'.
     (case found of
        None \<Rightarrow> \<exists>ls. passed_over (p # ps) ls \<and> printed s' = printed s @ ls \<and> fds s' = fds s
      | Some (f, q, v) \<Rightarrow> \<exists>qs rs ls. p # ps = qs @ q # rs \<and> passed_over qs ls \<and>
          printed s' = printed s @ ls \<and> fds s' = f # fds s \<and> 0 \<le> f)) s1"
    if "printed s1 = printed s @ [l]" "l = Open_failed p \<or> l = Not_rknpu p" "fds s1 = fds s" for s1 l
  proof (rule wp_mono [OF Cons.IH], goal_cases)
    case (1 found s')
    then show ?case
    proof (cases found)
      case None
      with 1 that obtain ls where "passed_over ps ls" "printed s' = printed s @ (l # ls)" "fds s' = fds s"
        by auto
      moreover have "passed_over (p # ps) (l # ls)" using calculation(1) that(2) by auto
      ultimately show ?thesis using None by auto
    next
      case (Some x)
      obtain f q v where x: "x = (f, q, v)" by (cases x)
      with 1 that Some obtain qs rs ls where "ps = qs @ q # rs" "passed_over qs ls"
        "printed s' = printed s @ (l # ls)" "fds s' = f # fds s" "0 \<le> f"
        by auto
      moreover have "passed_over (p # qs) (l # ls)" using calculation(2) that(2) by auto
      ultimately have "p # ps = (p # qs) @ q # rs \<and> passed_over (p # qs) (l # ls) \<and>
          printed s' = printed s @ (l # ls) \<and> fds s' = f # fds s \<and> 0 \<le> f" by simp
      then show ?thesis unfolding Some x by (simp only: option.case prod.case) blast
    qed
  qed
  show ?case
    apply (simp add: wp open_node_def do_action_def close_node_def print_def split: prod.splits)
    apply (intro allI impI conjI)
      apply (auto intro: step [where l = "Open_failed p"] step [where l = "Not_rknpu p"] exI [where x = "[]"])
    done
qed

text \<open>What is printed and closed once a node is found.\<close>

lemma report_node:
  "wp (do {
     print (Opened path fd);
     print (Drv_version (RKNPU_GET_DRV_VERSION_MAJOR v) (RKNPU_GET_DRV_VERSION_MINOR v)
              (RKNPU_GET_DRV_VERSION_PATCHLEVEL v) v);
     (ret, hw_version) \<leftarrow> do_action env fd RKNPU_GET_HW_VERSION 0;
     if ret \<noteq> 0 then do { print (Fail_hw (- ret)); close_node env fd; returnS 1 }
     else do { print (Hw_version hw_version); print (Pass path); close_node env fd; returnS 0 }
   }) (\<lambda>r s'. fds s' = remove1 fd (fds s) \<and>
     (\<exists>tl. printed s' = printed s @ [Opened path fd, Drv_version (RKNPU_GET_DRV_VERSION_MAJOR v)
        (RKNPU_GET_DRV_VERSION_MINOR v) (RKNPU_GET_DRV_VERSION_PATCHLEVEL v) v] @ tl \<and>
        (r = 0 \<and> (\<exists>hw. tl = [Hw_version hw, Pass path]) \<or> r = 1 \<and> (\<exists>e. tl = [Fail_hw e])))) s"
  by (simp add: wp print_def do_action_def close_node_def split: prod.splits)


section \<open>The version code\<close>

text \<open>The three numbers printed are the code's decimal fields: they give it back, the minor
  and patch numbers are below 100, and 902 is 0.9.2.\<close>

theorem npu_version_code:
  "unat (RKNPU_GET_DRV_VERSION_MAJOR v) * 10000 + unat (RKNPU_GET_DRV_VERSION_MINOR v) * 100 +
     unat (RKNPU_GET_DRV_VERSION_PATCHLEVEL v) = unat v \<and>
   unat (RKNPU_GET_DRV_VERSION_MINOR v) < 100 \<and> unat (RKNPU_GET_DRV_VERSION_PATCHLEVEL v) < 100 \<and>
   (RKNPU_GET_DRV_VERSION_MAJOR 902, RKNPU_GET_DRV_VERSION_MINOR 902,
    RKNPU_GET_DRV_VERSION_PATCHLEVEL 902) = (0, 9, 2)"
proof -
  have m: "unat v mod 10000 mod 100 = unat v mod 100" by (rule mod_mod_cancel) simp
  have "unat v div 10000 * 10000 + unat v mod 10000 div 100 * 100 + unat v mod 100 = unat v"
    using div_mult_mod_eq [of "unat v" 10000] div_mult_mod_eq [of "unat v mod 10000" 100] m by linarith
  then show ?thesis
    by (simp add: RKNPU_GET_DRV_VERSION_MAJOR_def RKNPU_GET_DRV_VERSION_MINOR_def
        RKNPU_GET_DRV_VERSION_PATCHLEVEL_def unat_div_distrib unat_mod_distrib)
qed

end
