(* ===== verification/Clk_Ids.thy ===== *)
theory Clk_Ids
  imports Warden_Prelude
begin

text \<open>
  The clock and reset numbers of \<^verbatim>\<open>kernel/rv1106-enablement/clk/rv1106-cru.h\<close>, the binding the device tree
  and the clock driver share. Every macro is an input abbreviation; the lists of a section of the header hold its
  numbers in the header's order, and the resets are grouped by the register the section comments name.
\<close>

section \<open>Clock numbers\<close>

abbreviation (input) PLL_APLL :: int where "PLL_APLL \<equiv> 1"
abbreviation (input) PLL_DPLL :: int where "PLL_DPLL \<equiv> 2"
abbreviation (input) PLL_CPLL :: int where "PLL_CPLL \<equiv> 3"
abbreviation (input) PLL_GPLL :: int where "PLL_GPLL \<equiv> 4"
abbreviation (input) ARMCLK :: int where "ARMCLK \<equiv> 5"
abbreviation (input) PCLK_DDRPHY :: int where "PCLK_DDRPHY \<equiv> 11"
abbreviation (input) PCLK_DDR_ROOT :: int where "PCLK_DDR_ROOT \<equiv> 12"
abbreviation (input) PCLK_DDRMON :: int where "PCLK_DDRMON \<equiv> 13"
abbreviation (input) CLK_TIMER_DDRMON :: int where "CLK_TIMER_DDRMON \<equiv> 14"
abbreviation (input) PCLK_DDRC :: int where "PCLK_DDRC \<equiv> 15"
abbreviation (input) PCLK_DFICTRL :: int where "PCLK_DFICTRL \<equiv> 16"
abbreviation (input) ACLK_DDR_ROOT :: int where "ACLK_DDR_ROOT \<equiv> 17"
abbreviation (input) ACLK_SYS_SHRM :: int where "ACLK_SYS_SHRM \<equiv> 18"
abbreviation (input) HCLK_NPU_ROOT :: int where "HCLK_NPU_ROOT \<equiv> 19"
abbreviation (input) ACLK_NPU_ROOT :: int where "ACLK_NPU_ROOT \<equiv> 20"
abbreviation (input) PCLK_NPU_ROOT :: int where "PCLK_NPU_ROOT \<equiv> 21"
abbreviation (input) HCLK_RKNN :: int where "HCLK_RKNN \<equiv> 22"
abbreviation (input) ACLK_RKNN :: int where "ACLK_RKNN \<equiv> 23"
abbreviation (input) PCLK_ACODEC :: int where "PCLK_ACODEC \<equiv> 24"
abbreviation (input) MCLK_ACODEC_TX :: int where "MCLK_ACODEC_TX \<equiv> 25"
abbreviation (input) CLK_CORE_CRYPTO :: int where "CLK_CORE_CRYPTO \<equiv> 27"
abbreviation (input) CLK_PKA_CRYPTO :: int where "CLK_PKA_CRYPTO \<equiv> 28"
abbreviation (input) ACLK_CRYPTO :: int where "ACLK_CRYPTO \<equiv> 29"
abbreviation (input) HCLK_CRYPTO :: int where "HCLK_CRYPTO \<equiv> 30"
abbreviation (input) ACLK_DECOM :: int where "ACLK_DECOM \<equiv> 31"
abbreviation (input) PCLK_DECOM :: int where "PCLK_DECOM \<equiv> 32"
abbreviation (input) DCLK_DECOM :: int where "DCLK_DECOM \<equiv> 33"
abbreviation (input) ACLK_DMAC :: int where "ACLK_DMAC \<equiv> 34"
abbreviation (input) PCLK_DSM :: int where "PCLK_DSM \<equiv> 35"
abbreviation (input) MCLK_DSM :: int where "MCLK_DSM \<equiv> 36"
abbreviation (input) CCLK_SRC_EMMC :: int where "CCLK_SRC_EMMC \<equiv> 37"
abbreviation (input) HCLK_EMMC :: int where "HCLK_EMMC \<equiv> 38"
abbreviation (input) PCLK_GPIO4 :: int where "PCLK_GPIO4 \<equiv> 39"
abbreviation (input) DBCLK_GPIO4 :: int where "DBCLK_GPIO4 \<equiv> 40"
abbreviation (input) PCLK_I2C0 :: int where "PCLK_I2C0 \<equiv> 41"
abbreviation (input) CLK_I2C0 :: int where "CLK_I2C0 \<equiv> 42"
abbreviation (input) PCLK_I2C2 :: int where "PCLK_I2C2 \<equiv> 43"
abbreviation (input) CLK_I2C2 :: int where "CLK_I2C2 \<equiv> 44"
abbreviation (input) PCLK_I2C3 :: int where "PCLK_I2C3 \<equiv> 45"
abbreviation (input) CLK_I2C3 :: int where "CLK_I2C3 \<equiv> 46"
abbreviation (input) PCLK_I2C4 :: int where "PCLK_I2C4 \<equiv> 47"
abbreviation (input) CLK_I2C4 :: int where "CLK_I2C4 \<equiv> 48"
abbreviation (input) HCLK_I2S0 :: int where "HCLK_I2S0 \<equiv> 49"
abbreviation (input) PCLK_DFT2APB :: int where "PCLK_DFT2APB \<equiv> 50"
abbreviation (input) HCLK_IVE :: int where "HCLK_IVE \<equiv> 51"
abbreviation (input) ACLK_IVE :: int where "ACLK_IVE \<equiv> 52"
abbreviation (input) PCLK_PWM0_PERI :: int where "PCLK_PWM0_PERI \<equiv> 53"
abbreviation (input) CLK_PWM0_PERI :: int where "CLK_PWM0_PERI \<equiv> 54"
abbreviation (input) CLK_CAPTURE_PWM0_PERI :: int where "CLK_CAPTURE_PWM0_PERI \<equiv> 55"
abbreviation (input) PCLK_PERI_ROOT :: int where "PCLK_PERI_ROOT \<equiv> 56"
abbreviation (input) ACLK_PERI_ROOT :: int where "ACLK_PERI_ROOT \<equiv> 57"
abbreviation (input) HCLK_PERI_ROOT :: int where "HCLK_PERI_ROOT \<equiv> 58"
abbreviation (input) CLK_TIMER_ROOT :: int where "CLK_TIMER_ROOT \<equiv> 59"
abbreviation (input) ACLK_BUS_ROOT :: int where "ACLK_BUS_ROOT \<equiv> 60"
abbreviation (input) HCLK_SFC :: int where "HCLK_SFC \<equiv> 61"
abbreviation (input) SCLK_SFC :: int where "SCLK_SFC \<equiv> 62"
abbreviation (input) PCLK_UART0 :: int where "PCLK_UART0 \<equiv> 63"
abbreviation (input) CLK_PVTM_CORE :: int where "CLK_PVTM_CORE \<equiv> 64"
abbreviation (input) PCLK_UART1 :: int where "PCLK_UART1 \<equiv> 65"
abbreviation (input) CLK_CORE_MCU_RTC :: int where "CLK_CORE_MCU_RTC \<equiv> 66"
abbreviation (input) PCLK_PWM1_PERI :: int where "PCLK_PWM1_PERI \<equiv> 67"
abbreviation (input) CLK_PWM1_PERI :: int where "CLK_PWM1_PERI \<equiv> 68"
abbreviation (input) CLK_CAPTURE_PWM1_PERI :: int where "CLK_CAPTURE_PWM1_PERI \<equiv> 69"
abbreviation (input) PCLK_PWM2_PERI :: int where "PCLK_PWM2_PERI \<equiv> 70"
abbreviation (input) CLK_PWM2_PERI :: int where "CLK_PWM2_PERI \<equiv> 71"
abbreviation (input) CLK_CAPTURE_PWM2_PERI :: int where "CLK_CAPTURE_PWM2_PERI \<equiv> 72"
abbreviation (input) HCLK_BOOTROM :: int where "HCLK_BOOTROM \<equiv> 73"
abbreviation (input) HCLK_SAI :: int where "HCLK_SAI \<equiv> 74"
abbreviation (input) MCLK_SAI :: int where "MCLK_SAI \<equiv> 75"
abbreviation (input) PCLK_SARADC :: int where "PCLK_SARADC \<equiv> 76"
abbreviation (input) CLK_SARADC :: int where "CLK_SARADC \<equiv> 77"
abbreviation (input) PCLK_SPI1 :: int where "PCLK_SPI1 \<equiv> 78"
abbreviation (input) CLK_SPI1 :: int where "CLK_SPI1 \<equiv> 79"
abbreviation (input) PCLK_STIMER :: int where "PCLK_STIMER \<equiv> 80"
abbreviation (input) CLK_STIMER0 :: int where "CLK_STIMER0 \<equiv> 81"
abbreviation (input) CLK_STIMER1 :: int where "CLK_STIMER1 \<equiv> 82"
abbreviation (input) PCLK_TIMER :: int where "PCLK_TIMER \<equiv> 83"
abbreviation (input) CLK_TIMER0 :: int where "CLK_TIMER0 \<equiv> 84"
abbreviation (input) CLK_TIMER1 :: int where "CLK_TIMER1 \<equiv> 85"
abbreviation (input) CLK_TIMER2 :: int where "CLK_TIMER2 \<equiv> 86"
abbreviation (input) CLK_TIMER3 :: int where "CLK_TIMER3 \<equiv> 87"
abbreviation (input) CLK_TIMER4 :: int where "CLK_TIMER4 \<equiv> 88"
abbreviation (input) CLK_TIMER5 :: int where "CLK_TIMER5 \<equiv> 89"
abbreviation (input) HCLK_TRNG_NS :: int where "HCLK_TRNG_NS \<equiv> 90"
abbreviation (input) HCLK_TRNG_S :: int where "HCLK_TRNG_S \<equiv> 91"
abbreviation (input) PCLK_UART2 :: int where "PCLK_UART2 \<equiv> 92"
abbreviation (input) HCLK_CPU :: int where "HCLK_CPU \<equiv> 93"
abbreviation (input) PCLK_UART3 :: int where "PCLK_UART3 \<equiv> 94"
abbreviation (input) CLK_CORE_MCU :: int where "CLK_CORE_MCU \<equiv> 95"
abbreviation (input) PCLK_UART4 :: int where "PCLK_UART4 \<equiv> 96"
abbreviation (input) PCLK_DDR_HWLP :: int where "PCLK_DDR_HWLP \<equiv> 97"
abbreviation (input) PCLK_UART5 :: int where "PCLK_UART5 \<equiv> 98"
abbreviation (input) ACLK_USBOTG :: int where "ACLK_USBOTG \<equiv> 100"
abbreviation (input) CLK_REF_USBOTG :: int where "CLK_REF_USBOTG \<equiv> 101"
abbreviation (input) CLK_UTMI_USBOTG :: int where "CLK_UTMI_USBOTG \<equiv> 102"
abbreviation (input) PCLK_USBPHY :: int where "PCLK_USBPHY \<equiv> 103"
abbreviation (input) CLK_REF_USBPHY :: int where "CLK_REF_USBPHY \<equiv> 104"
abbreviation (input) PCLK_WDT_NS :: int where "PCLK_WDT_NS \<equiv> 105"
abbreviation (input) TCLK_WDT_NS :: int where "TCLK_WDT_NS \<equiv> 106"
abbreviation (input) PCLK_WDT_S :: int where "PCLK_WDT_S \<equiv> 107"
abbreviation (input) TCLK_WDT_S :: int where "TCLK_WDT_S \<equiv> 108"
abbreviation (input) CLK_DDR_FAIL_SAFE :: int where "CLK_DDR_FAIL_SAFE \<equiv> 109"
abbreviation (input) XIN_OSC0_DIV :: int where "XIN_OSC0_DIV \<equiv> 110"
abbreviation (input) CLK_DEEPSLOW :: int where "CLK_DEEPSLOW \<equiv> 111"
abbreviation (input) PCLK_PMU_GPIO0 :: int where "PCLK_PMU_GPIO0 \<equiv> 112"
abbreviation (input) DBCLK_PMU_GPIO0 :: int where "DBCLK_PMU_GPIO0 \<equiv> 113"
abbreviation (input) CLK_PMU :: int where "CLK_PMU \<equiv> 114"
abbreviation (input) PCLK_PMU :: int where "PCLK_PMU \<equiv> 115"
abbreviation (input) PCLK_PMU_HP_TIMER :: int where "PCLK_PMU_HP_TIMER \<equiv> 116"
abbreviation (input) CLK_PMU_HP_TIMER :: int where "CLK_PMU_HP_TIMER \<equiv> 117"
abbreviation (input) CLK_PMU_32K_HP_TIMER :: int where "CLK_PMU_32K_HP_TIMER \<equiv> 118"
abbreviation (input) PCLK_I2C1 :: int where "PCLK_I2C1 \<equiv> 119"
abbreviation (input) CLK_I2C1 :: int where "CLK_I2C1 \<equiv> 120"
abbreviation (input) PCLK_PMU_IOC :: int where "PCLK_PMU_IOC \<equiv> 121"
abbreviation (input) PCLK_PMU_MAILBOX :: int where "PCLK_PMU_MAILBOX \<equiv> 122"
abbreviation (input) CLK_PMU_MCU :: int where "CLK_PMU_MCU \<equiv> 123"
abbreviation (input) CLK_PMU_MCU_RTC :: int where "CLK_PMU_MCU_RTC \<equiv> 124"
abbreviation (input) CLK_PMU_MCU_JTAG :: int where "CLK_PMU_MCU_JTAG \<equiv> 125"
abbreviation (input) CLK_PVTM_PMU :: int where "CLK_PVTM_PMU \<equiv> 126"
abbreviation (input) PCLK_PVTM_PMU :: int where "PCLK_PVTM_PMU \<equiv> 127"
abbreviation (input) CLK_REFOUT :: int where "CLK_REFOUT \<equiv> 128"
abbreviation (input) CLK_100M_PMU :: int where "CLK_100M_PMU \<equiv> 129"
abbreviation (input) PCLK_PMU_ROOT :: int where "PCLK_PMU_ROOT \<equiv> 130"
abbreviation (input) HCLK_PMU_ROOT :: int where "HCLK_PMU_ROOT \<equiv> 131"
abbreviation (input) HCLK_PMU_SRAM :: int where "HCLK_PMU_SRAM \<equiv> 132"
abbreviation (input) PCLK_PMU_WDT :: int where "PCLK_PMU_WDT \<equiv> 133"
abbreviation (input) TCLK_PMU_WDT :: int where "TCLK_PMU_WDT \<equiv> 134"
abbreviation (input) CLK_DFICTRL :: int where "CLK_DFICTRL \<equiv> 135"
abbreviation (input) CLK_DDRMON :: int where "CLK_DDRMON \<equiv> 136"
abbreviation (input) CLK_DDR_PHY :: int where "CLK_DDR_PHY \<equiv> 137"
abbreviation (input) ACLK_DDRC :: int where "ACLK_DDRC \<equiv> 138"
abbreviation (input) CLK_CORE_DDRC_SRC :: int where "CLK_CORE_DDRC_SRC \<equiv> 139"
abbreviation (input) CLK_CORE_DDRC :: int where "CLK_CORE_DDRC \<equiv> 140"
abbreviation (input) CLK_50M_SRC :: int where "CLK_50M_SRC \<equiv> 141"
abbreviation (input) CLK_100M_SRC :: int where "CLK_100M_SRC \<equiv> 142"
abbreviation (input) CLK_150M_SRC :: int where "CLK_150M_SRC \<equiv> 143"
abbreviation (input) CLK_200M_SRC :: int where "CLK_200M_SRC \<equiv> 144"
abbreviation (input) CLK_250M_SRC :: int where "CLK_250M_SRC \<equiv> 145"
abbreviation (input) CLK_300M_SRC :: int where "CLK_300M_SRC \<equiv> 146"
abbreviation (input) CLK_339M_SRC :: int where "CLK_339M_SRC \<equiv> 147"
abbreviation (input) CLK_400M_SRC :: int where "CLK_400M_SRC \<equiv> 148"
abbreviation (input) CLK_450M_SRC :: int where "CLK_450M_SRC \<equiv> 149"
abbreviation (input) CLK_500M_SRC :: int where "CLK_500M_SRC \<equiv> 150"
abbreviation (input) CLK_I2S0_8CH_TX_SRC :: int where "CLK_I2S0_8CH_TX_SRC \<equiv> 151"
abbreviation (input) CLK_I2S0_8CH_TX_FRAC :: int where "CLK_I2S0_8CH_TX_FRAC \<equiv> 152"
abbreviation (input) CLK_I2S0_8CH_TX :: int where "CLK_I2S0_8CH_TX \<equiv> 153"
abbreviation (input) CLK_I2S0_8CH_RX_SRC :: int where "CLK_I2S0_8CH_RX_SRC \<equiv> 154"
abbreviation (input) CLK_I2S0_8CH_RX_FRAC :: int where "CLK_I2S0_8CH_RX_FRAC \<equiv> 155"
abbreviation (input) CLK_I2S0_8CH_RX :: int where "CLK_I2S0_8CH_RX \<equiv> 156"
abbreviation (input) I2S0_8CH_MCLKOUT :: int where "I2S0_8CH_MCLKOUT \<equiv> 157"
abbreviation (input) MCLK_I2S0_8CH_RX :: int where "MCLK_I2S0_8CH_RX \<equiv> 158"
abbreviation (input) MCLK_I2S0_8CH_TX :: int where "MCLK_I2S0_8CH_TX \<equiv> 159"
abbreviation (input) CLK_REF_MIPI0_SRC :: int where "CLK_REF_MIPI0_SRC \<equiv> 160"
abbreviation (input) CLK_REF_MIPI0_FRAC :: int where "CLK_REF_MIPI0_FRAC \<equiv> 161"
abbreviation (input) CLK_REF_MIPI0_OUT :: int where "CLK_REF_MIPI0_OUT \<equiv> 162"
abbreviation (input) CLK_REF_MIPI1_SRC :: int where "CLK_REF_MIPI1_SRC \<equiv> 163"
abbreviation (input) CLK_REF_MIPI1_FRAC :: int where "CLK_REF_MIPI1_FRAC \<equiv> 164"
abbreviation (input) MCLK_REF_MIPI0 :: int where "MCLK_REF_MIPI0 \<equiv> 165"
abbreviation (input) MCLK_REF_MIPI1 :: int where "MCLK_REF_MIPI1 \<equiv> 166"
abbreviation (input) CLK_REF_MIPI0 :: int where "CLK_REF_MIPI0 \<equiv> 167"
abbreviation (input) CLK_REF_MIPI1 :: int where "CLK_REF_MIPI1 \<equiv> 168"
abbreviation (input) CLK_UART0_SRC :: int where "CLK_UART0_SRC \<equiv> 169"
abbreviation (input) CLK_UART0_FRAC :: int where "CLK_UART0_FRAC \<equiv> 170"
abbreviation (input) CLK_UART0 :: int where "CLK_UART0 \<equiv> 171"
abbreviation (input) SCLK_UART0 :: int where "SCLK_UART0 \<equiv> 172"
abbreviation (input) CLK_UART1_SRC :: int where "CLK_UART1_SRC \<equiv> 173"
abbreviation (input) CLK_UART1_FRAC :: int where "CLK_UART1_FRAC \<equiv> 174"
abbreviation (input) CLK_UART1 :: int where "CLK_UART1 \<equiv> 175"
abbreviation (input) SCLK_UART1 :: int where "SCLK_UART1 \<equiv> 176"
abbreviation (input) CLK_UART2_SRC :: int where "CLK_UART2_SRC \<equiv> 177"
abbreviation (input) CLK_UART2_FRAC :: int where "CLK_UART2_FRAC \<equiv> 178"
abbreviation (input) CLK_UART2 :: int where "CLK_UART2 \<equiv> 179"
abbreviation (input) SCLK_UART2 :: int where "SCLK_UART2 \<equiv> 180"
abbreviation (input) CLK_UART3_SRC :: int where "CLK_UART3_SRC \<equiv> 181"
abbreviation (input) CLK_UART3_FRAC :: int where "CLK_UART3_FRAC \<equiv> 182"
abbreviation (input) CLK_UART3 :: int where "CLK_UART3 \<equiv> 183"
abbreviation (input) SCLK_UART3 :: int where "SCLK_UART3 \<equiv> 184"
abbreviation (input) CLK_UART4_SRC :: int where "CLK_UART4_SRC \<equiv> 185"
abbreviation (input) CLK_UART4_FRAC :: int where "CLK_UART4_FRAC \<equiv> 186"
abbreviation (input) CLK_UART4 :: int where "CLK_UART4 \<equiv> 187"
abbreviation (input) SCLK_UART4 :: int where "SCLK_UART4 \<equiv> 188"
abbreviation (input) CLK_UART5_SRC :: int where "CLK_UART5_SRC \<equiv> 189"
abbreviation (input) CLK_UART5_FRAC :: int where "CLK_UART5_FRAC \<equiv> 190"
abbreviation (input) CLK_UART5 :: int where "CLK_UART5 \<equiv> 191"
abbreviation (input) SCLK_UART5 :: int where "SCLK_UART5 \<equiv> 192"
abbreviation (input) CLK_VICAP_M0_SRC :: int where "CLK_VICAP_M0_SRC \<equiv> 193"
abbreviation (input) CLK_VICAP_M0_FRAC :: int where "CLK_VICAP_M0_FRAC \<equiv> 194"
abbreviation (input) CLK_VICAP_M0 :: int where "CLK_VICAP_M0 \<equiv> 195"
abbreviation (input) SCLK_VICAP_M0 :: int where "SCLK_VICAP_M0 \<equiv> 196"
abbreviation (input) CLK_VICAP_M1_SRC :: int where "CLK_VICAP_M1_SRC \<equiv> 197"
abbreviation (input) CLK_VICAP_M1_FRAC :: int where "CLK_VICAP_M1_FRAC \<equiv> 198"
abbreviation (input) CLK_VICAP_M1 :: int where "CLK_VICAP_M1 \<equiv> 199"
abbreviation (input) SCLK_VICAP_M1 :: int where "SCLK_VICAP_M1 \<equiv> 200"
abbreviation (input) DCLK_VOP_SRC :: int where "DCLK_VOP_SRC \<equiv> 201"
abbreviation (input) PCLK_CRU :: int where "PCLK_CRU \<equiv> 202"
abbreviation (input) PCLK_TOP_ROOT :: int where "PCLK_TOP_ROOT \<equiv> 203"
abbreviation (input) PCLK_SPI0 :: int where "PCLK_SPI0 \<equiv> 204"
abbreviation (input) CLK_SPI0 :: int where "CLK_SPI0 \<equiv> 205"
abbreviation (input) SCLK_IN_SPI0 :: int where "SCLK_IN_SPI0 \<equiv> 206"
abbreviation (input) CLK_UART_DETN_FLT :: int where "CLK_UART_DETN_FLT \<equiv> 207"
abbreviation (input) HCLK_VEPU :: int where "HCLK_VEPU \<equiv> 208"
abbreviation (input) ACLK_VEPU :: int where "ACLK_VEPU \<equiv> 209"
abbreviation (input) CLK_CORE_VEPU :: int where "CLK_CORE_VEPU \<equiv> 210"
abbreviation (input) CLK_CORE_VEPU_DVBM :: int where "CLK_CORE_VEPU_DVBM \<equiv> 211"
abbreviation (input) PCLK_GPIO1 :: int where "PCLK_GPIO1 \<equiv> 212"
abbreviation (input) DBCLK_GPIO1 :: int where "DBCLK_GPIO1 \<equiv> 213"
abbreviation (input) HCLK_VEPU_PP :: int where "HCLK_VEPU_PP \<equiv> 214"
abbreviation (input) ACLK_VEPU_PP :: int where "ACLK_VEPU_PP \<equiv> 215"
abbreviation (input) HCLK_VEPU_ROOT :: int where "HCLK_VEPU_ROOT \<equiv> 216"
abbreviation (input) ACLK_VEPU_COM_ROOT :: int where "ACLK_VEPU_COM_ROOT \<equiv> 217"
abbreviation (input) ACLK_VEPU_ROOT :: int where "ACLK_VEPU_ROOT \<equiv> 218"
abbreviation (input) PCLK_VEPU_ROOT :: int where "PCLK_VEPU_ROOT \<equiv> 219"
abbreviation (input) PCLK_VICAP_VEPU :: int where "PCLK_VICAP_VEPU \<equiv> 220"
abbreviation (input) PCLK_CSIHOST0 :: int where "PCLK_CSIHOST0 \<equiv> 221"
abbreviation (input) CLK_RXBYTECLKHS_0 :: int where "CLK_RXBYTECLKHS_0 \<equiv> 222"
abbreviation (input) PCLK_CSIHOST1 :: int where "PCLK_CSIHOST1 \<equiv> 223"
abbreviation (input) CLK_RXBYTECLKHS_1 :: int where "CLK_RXBYTECLKHS_1 \<equiv> 224"
abbreviation (input) PCLK_GPIO3 :: int where "PCLK_GPIO3 \<equiv> 225"
abbreviation (input) DBCLK_GPIO3 :: int where "DBCLK_GPIO3 \<equiv> 226"
abbreviation (input) HCLK_ISP3P2 :: int where "HCLK_ISP3P2 \<equiv> 227"
abbreviation (input) ACLK_ISP3P2 :: int where "ACLK_ISP3P2 \<equiv> 228"
abbreviation (input) CLK_CORE_ISP3P2 :: int where "CLK_CORE_ISP3P2 \<equiv> 229"
abbreviation (input) PCLK_MIPICSIPHY :: int where "PCLK_MIPICSIPHY \<equiv> 230"
abbreviation (input) CCLK_SRC_SDMMC :: int where "CCLK_SRC_SDMMC \<equiv> 231"
abbreviation (input) HCLK_SDMMC :: int where "HCLK_SDMMC \<equiv> 232"
abbreviation (input) CLK_SDMMC_DETN_FLT :: int where "CLK_SDMMC_DETN_FLT \<equiv> 233"
abbreviation (input) HCLK_VI_ROOT :: int where "HCLK_VI_ROOT \<equiv> 234"
abbreviation (input) ACLK_VI_ROOT :: int where "ACLK_VI_ROOT \<equiv> 235"
abbreviation (input) PCLK_VI_ROOT :: int where "PCLK_VI_ROOT \<equiv> 236"
abbreviation (input) PCLK_VI_RTC_ROOT :: int where "PCLK_VI_RTC_ROOT \<equiv> 237"
abbreviation (input) PCLK_VI_RTC_TEST :: int where "PCLK_VI_RTC_TEST \<equiv> 238"
abbreviation (input) PCLK_VI_RTC_PHY :: int where "PCLK_VI_RTC_PHY \<equiv> 239"
abbreviation (input) DCLK_VICAP :: int where "DCLK_VICAP \<equiv> 240"
abbreviation (input) PCLK_VICAP :: int where "PCLK_VICAP \<equiv> 241"
abbreviation (input) ACLK_VICAP :: int where "ACLK_VICAP \<equiv> 242"
abbreviation (input) HCLK_VICAP :: int where "HCLK_VICAP \<equiv> 243"
abbreviation (input) I0CLK_VICAP :: int where "I0CLK_VICAP \<equiv> 244"
abbreviation (input) I1CLK_VICAP :: int where "I1CLK_VICAP \<equiv> 245"
abbreviation (input) RX0PCLK_VICAP :: int where "RX0PCLK_VICAP \<equiv> 246"
abbreviation (input) RX1PCLK_VICAP :: int where "RX1PCLK_VICAP \<equiv> 247"
abbreviation (input) ISP0CLK_VICAP :: int where "ISP0CLK_VICAP \<equiv> 248"
abbreviation (input) PCLK_GPIO2 :: int where "PCLK_GPIO2 \<equiv> 249"
abbreviation (input) DBCLK_GPIO2 :: int where "DBCLK_GPIO2 \<equiv> 250"
abbreviation (input) ACLK_MAC :: int where "ACLK_MAC \<equiv> 251"
abbreviation (input) PCLK_MAC :: int where "PCLK_MAC \<equiv> 252"
abbreviation (input) CLK_GMAC0_50M_O :: int where "CLK_GMAC0_50M_O \<equiv> 253"
abbreviation (input) CLK_GMAC0_TX_50M_O :: int where "CLK_GMAC0_TX_50M_O \<equiv> 254"
abbreviation (input) CLK_GMAC0_REF_50M :: int where "CLK_GMAC0_REF_50M \<equiv> 255"
abbreviation (input) CLK_GMAC0_TX_50M :: int where "CLK_GMAC0_TX_50M \<equiv> 256"
abbreviation (input) CLK_GMAC0_RX_50M :: int where "CLK_GMAC0_RX_50M \<equiv> 257"
abbreviation (input) ACLK_MAC_ROOT :: int where "ACLK_MAC_ROOT \<equiv> 258"
abbreviation (input) CLK_MACPHY :: int where "CLK_MACPHY \<equiv> 259"
abbreviation (input) CLK_OTPC_ARB :: int where "CLK_OTPC_ARB \<equiv> 260"
abbreviation (input) PCLK_OTPC_NS :: int where "PCLK_OTPC_NS \<equiv> 261"
abbreviation (input) CLK_SBPI_OTPC_NS :: int where "CLK_SBPI_OTPC_NS \<equiv> 262"
abbreviation (input) CLK_USER_OTPC_NS :: int where "CLK_USER_OTPC_NS \<equiv> 263"
abbreviation (input) PCLK_OTPC_S :: int where "PCLK_OTPC_S \<equiv> 264"
abbreviation (input) CLK_SBPI_OTPC_S :: int where "CLK_SBPI_OTPC_S \<equiv> 265"
abbreviation (input) CLK_USER_OTPC_S :: int where "CLK_USER_OTPC_S \<equiv> 266"
abbreviation (input) PCLK_OTP_MASK :: int where "PCLK_OTP_MASK \<equiv> 267"
abbreviation (input) CLK_PMC_OTP :: int where "CLK_PMC_OTP \<equiv> 268"
abbreviation (input) HCLK_RGA2E :: int where "HCLK_RGA2E \<equiv> 269"
abbreviation (input) ACLK_RGA2E :: int where "ACLK_RGA2E \<equiv> 270"
abbreviation (input) CLK_CORE_RGA2E :: int where "CLK_CORE_RGA2E \<equiv> 271"
abbreviation (input) CCLK_SRC_SDIO :: int where "CCLK_SRC_SDIO \<equiv> 272"
abbreviation (input) HCLK_SDIO :: int where "HCLK_SDIO \<equiv> 273"
abbreviation (input) PCLK_TSADC :: int where "PCLK_TSADC \<equiv> 274"
abbreviation (input) CLK_TSADC :: int where "CLK_TSADC \<equiv> 275"
abbreviation (input) CLK_TSADC_TSEN :: int where "CLK_TSADC_TSEN \<equiv> 276"
abbreviation (input) ACLK_VO_ROOT :: int where "ACLK_VO_ROOT \<equiv> 277"
abbreviation (input) HCLK_VO_ROOT :: int where "HCLK_VO_ROOT \<equiv> 278"
abbreviation (input) PCLK_VO_ROOT :: int where "PCLK_VO_ROOT \<equiv> 279"
abbreviation (input) ACLK_VOP_ROOT :: int where "ACLK_VOP_ROOT \<equiv> 280"
abbreviation (input) HCLK_VOP :: int where "HCLK_VOP \<equiv> 281"
abbreviation (input) DCLK_VOP :: int where "DCLK_VOP \<equiv> 282"
abbreviation (input) ACLK_VOP :: int where "ACLK_VOP \<equiv> 283"
abbreviation (input) CLK_RTC_32K :: int where "CLK_RTC_32K \<equiv> 284"
abbreviation (input) PCLK_MAILBOX :: int where "PCLK_MAILBOX \<equiv> 291"
abbreviation (input) CLK_NR_CLKS :: int where "CLK_NR_CLKS \<equiv> PCLK_MAILBOX + 1"
abbreviation (input) SCLK_EMMC_DRV :: int where "SCLK_EMMC_DRV \<equiv> 1"
abbreviation (input) SCLK_EMMC_SAMPLE :: int where "SCLK_EMMC_SAMPLE \<equiv> 2"
abbreviation (input) SCLK_SDMMC_DRV :: int where "SCLK_SDMMC_DRV \<equiv> 3"
abbreviation (input) SCLK_SDMMC_SAMPLE :: int where "SCLK_SDMMC_SAMPLE \<equiv> 4"
abbreviation (input) SCLK_SDIO_DRV :: int where "SCLK_SDIO_DRV \<equiv> 5"
abbreviation (input) SCLK_SDIO_SAMPLE :: int where "SCLK_SDIO_SAMPLE \<equiv> 6"
abbreviation (input) CLK_NR_GRF_CLKS :: int where "CLK_NR_GRF_CLKS \<equiv> SCLK_SDIO_SAMPLE + 1"

section \<open>Reset numbers\<close>

abbreviation (input) SRST_P_I2C1 :: int where "SRST_P_I2C1 \<equiv> 3"
abbreviation (input) SRST_I2C1 :: int where "SRST_I2C1 \<equiv> 4"
abbreviation (input) SRST_H_PMU_BIU :: int where "SRST_H_PMU_BIU \<equiv> 6"
abbreviation (input) SRST_P_PMU_BIU :: int where "SRST_P_PMU_BIU \<equiv> 7"
abbreviation (input) SRST_H_PMU_SRAM :: int where "SRST_H_PMU_SRAM \<equiv> 8"
abbreviation (input) SRST_PMU_MCU :: int where "SRST_PMU_MCU \<equiv> 9"
abbreviation (input) SRST_PMU_MCU_PWRUP :: int where "SRST_PMU_MCU_PWRUP \<equiv> 10"
abbreviation (input) SRST_PMU_MCU_CPU :: int where "SRST_PMU_MCU_CPU \<equiv> 11"
abbreviation (input) SRST_T_PMU_MCU_CPU :: int where "SRST_T_PMU_MCU_CPU \<equiv> 12"
abbreviation (input) SRST_P_PMU_GPIO0 :: int where "SRST_P_PMU_GPIO0 \<equiv> 18"
abbreviation (input) SRST_PMU_GPIO0 :: int where "SRST_PMU_GPIO0 \<equiv> 19"
abbreviation (input) SRST_PVTM_PMU :: int where "SRST_PVTM_PMU \<equiv> 20"
abbreviation (input) SRST_P_PVTM_PMU :: int where "SRST_P_PVTM_PMU \<equiv> 21"
abbreviation (input) SRST_DDR_FAIL_SAFE :: int where "SRST_DDR_FAIL_SAFE \<equiv> 31"
abbreviation (input) SRST_P_PMU_HP_TIMER :: int where "SRST_P_PMU_HP_TIMER \<equiv> 32"
abbreviation (input) SRST_PMU_HP_TIMER :: int where "SRST_PMU_HP_TIMER \<equiv> 33"
abbreviation (input) SRST_PMU_32K_HP_TIMER :: int where "SRST_PMU_32K_HP_TIMER \<equiv> 34"
abbreviation (input) SRST_P_PMU_IOC :: int where "SRST_P_PMU_IOC \<equiv> 35"
abbreviation (input) SRST_P_PMU_CRU :: int where "SRST_P_PMU_CRU \<equiv> 36"
abbreviation (input) SRST_P_PMU_GRF :: int where "SRST_P_PMU_GRF \<equiv> 37"
abbreviation (input) SRST_P_PMU_SGRF :: int where "SRST_P_PMU_SGRF \<equiv> 38"
abbreviation (input) SRST_P_PMU_SGRF_REMAP :: int where "SRST_P_PMU_SGRF_REMAP \<equiv> 39"
abbreviation (input) SRST_P_PMU_WDT :: int where "SRST_P_PMU_WDT \<equiv> 40"
abbreviation (input) SRST_T_PMU_WDT :: int where "SRST_T_PMU_WDT \<equiv> 41"
abbreviation (input) SRST_P_PMU_MAILBOX :: int where "SRST_P_PMU_MAILBOX \<equiv> 42"
abbreviation (input) SRST_WRITE_ENABLE :: int where "SRST_WRITE_ENABLE \<equiv> 48"
abbreviation (input) SRST_REF_PVTPLL_0 :: int where "SRST_REF_PVTPLL_0 \<equiv> 262183"
abbreviation (input) SRST_REF_PVTPLL_1 :: int where "SRST_REF_PVTPLL_1 \<equiv> 262184"
abbreviation (input) SRST_P_CRU :: int where "SRST_P_CRU \<equiv> 262186"
abbreviation (input) SRST_P_CRU_BIU :: int where "SRST_P_CRU_BIU \<equiv> 262187"
abbreviation (input) SRST_P_PERI_BIU :: int where "SRST_P_PERI_BIU \<equiv> 294916"
abbreviation (input) SRST_A_PERI_BIU :: int where "SRST_A_PERI_BIU \<equiv> 294917"
abbreviation (input) SRST_H_PERI_BIU :: int where "SRST_H_PERI_BIU \<equiv> 294918"
abbreviation (input) SRST_H_BOOTROM :: int where "SRST_H_BOOTROM \<equiv> 294919"
abbreviation (input) SRST_P_TIMER :: int where "SRST_P_TIMER \<equiv> 294920"
abbreviation (input) SRST_TIMER0 :: int where "SRST_TIMER0 \<equiv> 294921"
abbreviation (input) SRST_TIMER1 :: int where "SRST_TIMER1 \<equiv> 294922"
abbreviation (input) SRST_TIMER2 :: int where "SRST_TIMER2 \<equiv> 294923"
abbreviation (input) SRST_TIMER3 :: int where "SRST_TIMER3 \<equiv> 294924"
abbreviation (input) SRST_TIMER4 :: int where "SRST_TIMER4 \<equiv> 294925"
abbreviation (input) SRST_TIMER5 :: int where "SRST_TIMER5 \<equiv> 294926"
abbreviation (input) SRST_P_STIMER :: int where "SRST_P_STIMER \<equiv> 294927"
abbreviation (input) SRST_STIMER0 :: int where "SRST_STIMER0 \<equiv> 294928"
abbreviation (input) SRST_STIMER1 :: int where "SRST_STIMER1 \<equiv> 294929"
abbreviation (input) SRST_P_WDT_NS :: int where "SRST_P_WDT_NS \<equiv> 294930"
abbreviation (input) SRST_T_WDT_NS :: int where "SRST_T_WDT_NS \<equiv> 294931"
abbreviation (input) SRST_P_WDT_S :: int where "SRST_P_WDT_S \<equiv> 294932"
abbreviation (input) SRST_T_WDT_S :: int where "SRST_T_WDT_S \<equiv> 294933"
abbreviation (input) SRST_P_I2C0 :: int where "SRST_P_I2C0 \<equiv> 294934"
abbreviation (input) SRST_I2C0 :: int where "SRST_I2C0 \<equiv> 294935"
abbreviation (input) SRST_P_I2C2 :: int where "SRST_P_I2C2 \<equiv> 294938"
abbreviation (input) SRST_I2C2 :: int where "SRST_I2C2 \<equiv> 294939"
abbreviation (input) SRST_P_I2C3 :: int where "SRST_P_I2C3 \<equiv> 294940"
abbreviation (input) SRST_I2C3 :: int where "SRST_I2C3 \<equiv> 294941"
abbreviation (input) SRST_P_I2C4 :: int where "SRST_P_I2C4 \<equiv> 294942"
abbreviation (input) SRST_I2C4 :: int where "SRST_I2C4 \<equiv> 294943"
abbreviation (input) SRST_P_GPIO4 :: int where "SRST_P_GPIO4 \<equiv> 294944"
abbreviation (input) SRST_GPIO4 :: int where "SRST_GPIO4 \<equiv> 294945"
abbreviation (input) SRST_P_PERI_IOC :: int where "SRST_P_PERI_IOC \<equiv> 294946"
abbreviation (input) SRST_P_UART2 :: int where "SRST_P_UART2 \<equiv> 294947"
abbreviation (input) SRST_S_UART2 :: int where "SRST_S_UART2 \<equiv> 294950"
abbreviation (input) SRST_P_UART3 :: int where "SRST_P_UART3 \<equiv> 294951"
abbreviation (input) SRST_S_UART3 :: int where "SRST_S_UART3 \<equiv> 294954"
abbreviation (input) SRST_P_UART4 :: int where "SRST_P_UART4 \<equiv> 294955"
abbreviation (input) SRST_S_UART4 :: int where "SRST_S_UART4 \<equiv> 294958"
abbreviation (input) SRST_P_UART5 :: int where "SRST_P_UART5 \<equiv> 294959"
abbreviation (input) SRST_S_UART5 :: int where "SRST_S_UART5 \<equiv> 294962"
abbreviation (input) SRST_P_SARADC :: int where "SRST_P_SARADC \<equiv> 294963"
abbreviation (input) SRST_SARADC :: int where "SRST_SARADC \<equiv> 294964"
abbreviation (input) SRST_SARADC_PHY :: int where "SRST_SARADC_PHY \<equiv> 294965"
abbreviation (input) SRST_P_SPI1 :: int where "SRST_P_SPI1 \<equiv> 294966"
abbreviation (input) SRST_SPI1 :: int where "SRST_SPI1 \<equiv> 294967"
abbreviation (input) SRST_H_TRNG_NS :: int where "SRST_H_TRNG_NS \<equiv> 294969"
abbreviation (input) SRST_H_TRNG_S :: int where "SRST_H_TRNG_S \<equiv> 294970"
abbreviation (input) SRST_CORE_CRYPTO :: int where "SRST_CORE_CRYPTO \<equiv> 294971"
abbreviation (input) SRST_PKA_CRYPTO :: int where "SRST_PKA_CRYPTO \<equiv> 294972"
abbreviation (input) SRST_A_CRYPTO :: int where "SRST_A_CRYPTO \<equiv> 294973"
abbreviation (input) SRST_H_CRYPTO :: int where "SRST_H_CRYPTO \<equiv> 294974"
abbreviation (input) SRST_P_PWM1_PERI :: int where "SRST_P_PWM1_PERI \<equiv> 294975"
abbreviation (input) SRST_PWM1_PERI :: int where "SRST_PWM1_PERI \<equiv> 294976"
abbreviation (input) SRST_P_PWM2_PERI :: int where "SRST_P_PWM2_PERI \<equiv> 294978"
abbreviation (input) SRST_PWM2_PERI :: int where "SRST_PWM2_PERI \<equiv> 294979"
abbreviation (input) SRST_P_PERI_GRF :: int where "SRST_P_PERI_GRF \<equiv> 294981"
abbreviation (input) SRST_P_PERI_CRU :: int where "SRST_P_PERI_CRU \<equiv> 294982"
abbreviation (input) SRST_A_USBOTG :: int where "SRST_A_USBOTG \<equiv> 294983"
abbreviation (input) SRST_A_BUS_BIU :: int where "SRST_A_BUS_BIU \<equiv> 294986"
abbreviation (input) SRST_H_EMMC :: int where "SRST_H_EMMC \<equiv> 294989"
abbreviation (input) SRST_H_SFC :: int where "SRST_H_SFC \<equiv> 294990"
abbreviation (input) SRST_S_SFC :: int where "SRST_S_SFC \<equiv> 294992"
abbreviation (input) SRST_P_USBPHY :: int where "SRST_P_USBPHY \<equiv> 294993"
abbreviation (input) SRST_USBPHY_POR :: int where "SRST_USBPHY_POR \<equiv> 294994"
abbreviation (input) SRST_USBPHY_OTG :: int where "SRST_USBPHY_OTG \<equiv> 294995"
abbreviation (input) SRST_A_DMAC :: int where "SRST_A_DMAC \<equiv> 295000"
abbreviation (input) SRST_A_DECOM :: int where "SRST_A_DECOM \<equiv> 295001"
abbreviation (input) SRST_P_DECOM :: int where "SRST_P_DECOM \<equiv> 295002"
abbreviation (input) SRST_D_DECOM :: int where "SRST_D_DECOM \<equiv> 295003"
abbreviation (input) SRST_P_PERI_SGRF :: int where "SRST_P_PERI_SGRF \<equiv> 295004"
abbreviation (input) SRST_H_SAI :: int where "SRST_H_SAI \<equiv> 295005"
abbreviation (input) SRST_M_SAI :: int where "SRST_M_SAI \<equiv> 295006"
abbreviation (input) SRST_M_I2S0_8CH_TX :: int where "SRST_M_I2S0_8CH_TX \<equiv> 295007"
abbreviation (input) SRST_H_I2S0 :: int where "SRST_H_I2S0 \<equiv> 295008"
abbreviation (input) SRST_M_DSM :: int where "SRST_M_DSM \<equiv> 295009"
abbreviation (input) SRST_P_DSM :: int where "SRST_P_DSM \<equiv> 295010"
abbreviation (input) SRST_P_ACODEC :: int where "SRST_P_ACODEC \<equiv> 295011"
abbreviation (input) SRST_M_I2S0_8CH_RX :: int where "SRST_M_I2S0_8CH_RX \<equiv> 295014"
abbreviation (input) SRST_P_DFT2APB :: int where "SRST_P_DFT2APB \<equiv> 295015"
abbreviation (input) SRST_H_IVE :: int where "SRST_H_IVE \<equiv> 295017"
abbreviation (input) SRST_A_IVE :: int where "SRST_A_IVE \<equiv> 295018"
abbreviation (input) SRST_P_UART0 :: int where "SRST_P_UART0 \<equiv> 295019"
abbreviation (input) SRST_S_UART0 :: int where "SRST_S_UART0 \<equiv> 295022"
abbreviation (input) SRST_P_UART1 :: int where "SRST_P_UART1 \<equiv> 295023"
abbreviation (input) SRST_S_UART1 :: int where "SRST_S_UART1 \<equiv> 295026"
abbreviation (input) SRST_P_PWM0_PERI :: int where "SRST_P_PWM0_PERI \<equiv> 295027"
abbreviation (input) SRST_PWM0_PERI :: int where "SRST_PWM0_PERI \<equiv> 295028"
abbreviation (input) SRST_H_VI_BIU :: int where "SRST_H_VI_BIU \<equiv> 327684"
abbreviation (input) SRST_A_VI_BIU :: int where "SRST_A_VI_BIU \<equiv> 327685"
abbreviation (input) SRST_P_VI_BIU :: int where "SRST_P_VI_BIU \<equiv> 327686"
abbreviation (input) SRST_CORE_ISP3P2 :: int where "SRST_CORE_ISP3P2 \<equiv> 327689"
abbreviation (input) SRST_D_VICAP :: int where "SRST_D_VICAP \<equiv> 327690"
abbreviation (input) SRST_P_VICAP :: int where "SRST_P_VICAP \<equiv> 327691"
abbreviation (input) SRST_A_VICAP :: int where "SRST_A_VICAP \<equiv> 327692"
abbreviation (input) SRST_H_VICAP :: int where "SRST_H_VICAP \<equiv> 327693"
abbreviation (input) SRST_VICAP_I0 :: int where "SRST_VICAP_I0 \<equiv> 327694"
abbreviation (input) SRST_VICAP_I1 :: int where "SRST_VICAP_I1 \<equiv> 327695"
abbreviation (input) SRST_VICAP_RX0 :: int where "SRST_VICAP_RX0 \<equiv> 327696"
abbreviation (input) SRST_VICAP_RX1 :: int where "SRST_VICAP_RX1 \<equiv> 327697"
abbreviation (input) SRST_VICAP_ISP0 :: int where "SRST_VICAP_ISP0 \<equiv> 327698"
abbreviation (input) SRST_P_CSIHOST0 :: int where "SRST_P_CSIHOST0 \<equiv> 327700"
abbreviation (input) SRST_P_CSIHOST1 :: int where "SRST_P_CSIHOST1 \<equiv> 327702"
abbreviation (input) SRST_H_SDMMC :: int where "SRST_H_SDMMC \<equiv> 327708"
abbreviation (input) SRST_SDMMC_DETN_FLT :: int where "SRST_SDMMC_DETN_FLT \<equiv> 327709"
abbreviation (input) SRST_P_MIPICSIPHY :: int where "SRST_P_MIPICSIPHY \<equiv> 327710"
abbreviation (input) SRST_P_GPIO3 :: int where "SRST_P_GPIO3 \<equiv> 327711"
abbreviation (input) SRST_GPIO3 :: int where "SRST_GPIO3 \<equiv> 327712"
abbreviation (input) SRST_P_VI_IOC :: int where "SRST_P_VI_IOC \<equiv> 327713"
abbreviation (input) SRST_P_VI_GRF :: int where "SRST_P_VI_GRF \<equiv> 327714"
abbreviation (input) SRST_P_VI_SGRF :: int where "SRST_P_VI_SGRF \<equiv> 327715"
abbreviation (input) SRST_P_VI_CRU :: int where "SRST_P_VI_CRU \<equiv> 327716"
abbreviation (input) SRST_P_VI_RTC_TEST :: int where "SRST_P_VI_RTC_TEST \<equiv> 327717"
abbreviation (input) SRST_P_VI_RTC_NIU :: int where "SRST_P_VI_RTC_NIU \<equiv> 327719"
abbreviation (input) SRST_H_NPU_BIU :: int where "SRST_H_NPU_BIU \<equiv> 360451"
abbreviation (input) SRST_A_NPU_BIU :: int where "SRST_A_NPU_BIU \<equiv> 360452"
abbreviation (input) SRST_P_NPU_BIU :: int where "SRST_P_NPU_BIU \<equiv> 360453"
abbreviation (input) SRST_P_NPU_CRU :: int where "SRST_P_NPU_CRU \<equiv> 360454"
abbreviation (input) SRST_P_NPU_SGRF :: int where "SRST_P_NPU_SGRF \<equiv> 360455"
abbreviation (input) SRST_P_NPU_GRF :: int where "SRST_P_NPU_GRF \<equiv> 360456"
abbreviation (input) SRST_H_RKNN :: int where "SRST_H_RKNN \<equiv> 360457"
abbreviation (input) SRST_A_RKNN :: int where "SRST_A_RKNN \<equiv> 360458"
abbreviation (input) SRST_NCOREPORESET :: int where "SRST_NCOREPORESET \<equiv> 393217"
abbreviation (input) SRST_NCORESET :: int where "SRST_NCORESET \<equiv> 393218"
abbreviation (input) SRST_NDBGRESET :: int where "SRST_NDBGRESET \<equiv> 393219"
abbreviation (input) SRST_NL2RESET :: int where "SRST_NL2RESET \<equiv> 393220"
abbreviation (input) SRST_A_M_CORE_BIU :: int where "SRST_A_M_CORE_BIU \<equiv> 393221"
abbreviation (input) SRST_P_DBG :: int where "SRST_P_DBG \<equiv> 393222"
abbreviation (input) SRST_POT_DBG :: int where "SRST_POT_DBG \<equiv> 393223"
abbreviation (input) SRST_NT_DBG :: int where "SRST_NT_DBG \<equiv> 393224"
abbreviation (input) SRST_P_CORE_GRF :: int where "SRST_P_CORE_GRF \<equiv> 393227"
abbreviation (input) SRST_H_CPU_BIU :: int where "SRST_H_CPU_BIU \<equiv> 393228"
abbreviation (input) SRST_P_CPU_BIU :: int where "SRST_P_CPU_BIU \<equiv> 393229"
abbreviation (input) SRST_PVTM_CORE :: int where "SRST_PVTM_CORE \<equiv> 393230"
abbreviation (input) SRST_P_PVTM_CORE :: int where "SRST_P_PVTM_CORE \<equiv> 393231"
abbreviation (input) SRST_REF_PVTPLL_CORE :: int where "SRST_REF_PVTPLL_CORE \<equiv> 393232"
abbreviation (input) SRST_CORE_MCU :: int where "SRST_CORE_MCU \<equiv> 393233"
abbreviation (input) SRST_CORE_MCU_PWRUP :: int where "SRST_CORE_MCU_PWRUP \<equiv> 393234"
abbreviation (input) SRST_CORE_MCU_CPU :: int where "SRST_CORE_MCU_CPU \<equiv> 393235"
abbreviation (input) SRST_T_CORE_MCU_CPU :: int where "SRST_T_CORE_MCU_CPU \<equiv> 393236"
abbreviation (input) SRST_MCU_BIU :: int where "SRST_MCU_BIU \<equiv> 393237"
abbreviation (input) SRST_P_MAILBOX :: int where "SRST_P_MAILBOX \<equiv> 393240"
abbreviation (input) SRST_P_INTMUX :: int where "SRST_P_INTMUX \<equiv> 393241"
abbreviation (input) SRST_P_CORE_CRU :: int where "SRST_P_CORE_CRU \<equiv> 393242"
abbreviation (input) SRST_P_CORE_SGRF :: int where "SRST_P_CORE_SGRF \<equiv> 393243"
abbreviation (input) SRST_H_CACHE :: int where "SRST_H_CACHE \<equiv> 393244"
abbreviation (input) SRST_H_VEPU_BIU :: int where "SRST_H_VEPU_BIU \<equiv> 425988"
abbreviation (input) SRST_A_VEPU_BIU :: int where "SRST_A_VEPU_BIU \<equiv> 425989"
abbreviation (input) SRST_A_VEPU_COM_BIU :: int where "SRST_A_VEPU_COM_BIU \<equiv> 425990"
abbreviation (input) SRST_P_VEPU_BIU :: int where "SRST_P_VEPU_BIU \<equiv> 425991"
abbreviation (input) SRST_H_VEPU :: int where "SRST_H_VEPU \<equiv> 425992"
abbreviation (input) SRST_A_VEPU :: int where "SRST_A_VEPU \<equiv> 425993"
abbreviation (input) SRST_CORE_VEPU :: int where "SRST_CORE_VEPU \<equiv> 425994"
abbreviation (input) SRST_H_VEPU_PP :: int where "SRST_H_VEPU_PP \<equiv> 425995"
abbreviation (input) SRST_A_VEPU_PP :: int where "SRST_A_VEPU_PP \<equiv> 425996"
abbreviation (input) SRST_CORE_VEPU_DVBM :: int where "SRST_CORE_VEPU_DVBM \<equiv> 425997"
abbreviation (input) SRST_P_VICAP_VEPU :: int where "SRST_P_VICAP_VEPU \<equiv> 425998"
abbreviation (input) SRST_P_GPIO1 :: int where "SRST_P_GPIO1 \<equiv> 425999"
abbreviation (input) SRST_GPIO1 :: int where "SRST_GPIO1 \<equiv> 426000"
abbreviation (input) SRST_P_VEPU_IOC :: int where "SRST_P_VEPU_IOC \<equiv> 426001"
abbreviation (input) SRST_P_SPI0 :: int where "SRST_P_SPI0 \<equiv> 426002"
abbreviation (input) SRST_SPI0 :: int where "SRST_SPI0 \<equiv> 426003"
abbreviation (input) SRST_P_VEPU_CRU :: int where "SRST_P_VEPU_CRU \<equiv> 426005"
abbreviation (input) SRST_P_VEPU_SGRF :: int where "SRST_P_VEPU_SGRF \<equiv> 426006"
abbreviation (input) SRST_P_VEPU_GRF :: int where "SRST_P_VEPU_GRF \<equiv> 426007"
abbreviation (input) SRST_UART_DETN_FLT :: int where "SRST_UART_DETN_FLT \<equiv> 426008"
abbreviation (input) SRST_A_VO_BIU :: int where "SRST_A_VO_BIU \<equiv> 458755"
abbreviation (input) SRST_H_VO_BIU :: int where "SRST_H_VO_BIU \<equiv> 458756"
abbreviation (input) SRST_H_RGA2E :: int where "SRST_H_RGA2E \<equiv> 458759"
abbreviation (input) SRST_A_RGA2E :: int where "SRST_A_RGA2E \<equiv> 458760"
abbreviation (input) SRST_CORE_RGA2E :: int where "SRST_CORE_RGA2E \<equiv> 458761"
abbreviation (input) SRST_P_VO_GRF :: int where "SRST_P_VO_GRF \<equiv> 458762"
abbreviation (input) SRST_A_VOP_BIU :: int where "SRST_A_VOP_BIU \<equiv> 458764"
abbreviation (input) SRST_H_VOP :: int where "SRST_H_VOP \<equiv> 458765"
abbreviation (input) SRST_D_VOP :: int where "SRST_D_VOP \<equiv> 458766"
abbreviation (input) SRST_A_VOP :: int where "SRST_A_VOP \<equiv> 458767"
abbreviation (input) SRST_P_MAC_BIU :: int where "SRST_P_MAC_BIU \<equiv> 458774"
abbreviation (input) SRST_A_MAC_BIU :: int where "SRST_A_MAC_BIU \<equiv> 458775"
abbreviation (input) SRST_A_MAC :: int where "SRST_A_MAC \<equiv> 458776"
abbreviation (input) SRST_P_VO_SGRF :: int where "SRST_P_VO_SGRF \<equiv> 458780"
abbreviation (input) SRST_P_VO_CRU :: int where "SRST_P_VO_CRU \<equiv> 458781"
abbreviation (input) SRST_H_SDIO :: int where "SRST_H_SDIO \<equiv> 458783"
abbreviation (input) SRST_P_TSADC :: int where "SRST_P_TSADC \<equiv> 458784"
abbreviation (input) SRST_TSADC :: int where "SRST_TSADC \<equiv> 458785"
abbreviation (input) SRST_P_OTPC_NS :: int where "SRST_P_OTPC_NS \<equiv> 458787"
abbreviation (input) SRST_SBPI_OTPC_NS :: int where "SRST_SBPI_OTPC_NS \<equiv> 458789"
abbreviation (input) SRST_USER_OTPC_NS :: int where "SRST_USER_OTPC_NS \<equiv> 458790"
abbreviation (input) SRST_P_OTPC_S :: int where "SRST_P_OTPC_S \<equiv> 458791"
abbreviation (input) SRST_SBPI_OTPC_S :: int where "SRST_SBPI_OTPC_S \<equiv> 458793"
abbreviation (input) SRST_USER_OTPC_S :: int where "SRST_USER_OTPC_S \<equiv> 458794"
abbreviation (input) SRST_OTPC_ARB :: int where "SRST_OTPC_ARB \<equiv> 458795"
abbreviation (input) SRST_MACPHY :: int where "SRST_MACPHY \<equiv> 458797"
abbreviation (input) SRST_P_OTP_MASK :: int where "SRST_P_OTP_MASK \<equiv> 458798"
abbreviation (input) SRST_PMC_OTP :: int where "SRST_PMC_OTP \<equiv> 458799"
abbreviation (input) SRST_P_GPIO2 :: int where "SRST_P_GPIO2 \<equiv> 458800"
abbreviation (input) SRST_GPIO2 :: int where "SRST_GPIO2 \<equiv> 458801"
abbreviation (input) SRST_P_VO_IOC :: int where "SRST_P_VO_IOC \<equiv> 458802"
abbreviation (input) SRST_P_DDR_BIU :: int where "SRST_P_DDR_BIU \<equiv> 491522"
abbreviation (input) SRST_P_DDRC :: int where "SRST_P_DDRC \<equiv> 491525"
abbreviation (input) SRST_P_DDRMON :: int where "SRST_P_DDRMON \<equiv> 491527"
abbreviation (input) SRST_TIMER_DDRMON :: int where "SRST_TIMER_DDRMON \<equiv> 491528"
abbreviation (input) SRST_P_DFICTRL :: int where "SRST_P_DFICTRL \<equiv> 491531"
abbreviation (input) SRST_A_SYS_SHRM :: int where "SRST_A_SYS_SHRM \<equiv> 491533"
abbreviation (input) SRST_A_SHRM_NIU :: int where "SRST_A_SHRM_NIU \<equiv> 491534"
abbreviation (input) SRST_P_DDR_GRF :: int where "SRST_P_DDR_GRF \<equiv> 491535"
abbreviation (input) SRST_P_DDR_CRU :: int where "SRST_P_DDR_CRU \<equiv> 491536"
abbreviation (input) SRST_P_DDR_HWLP :: int where "SRST_P_DDR_HWLP \<equiv> 491538"
abbreviation (input) SRST_P_DDRPHY :: int where "SRST_P_DDRPHY \<equiv> 491539"
abbreviation (input) SRST_MSCH_BIU :: int where "SRST_MSCH_BIU \<equiv> 507904"
abbreviation (input) SRST_A_DDRC :: int where "SRST_A_DDRC \<equiv> 507905"
abbreviation (input) SRST_CORE_DDRC :: int where "SRST_CORE_DDRC \<equiv> 507907"
abbreviation (input) SRST_DDRMON :: int where "SRST_DDRMON \<equiv> 507908"
abbreviation (input) SRST_DFICTRL :: int where "SRST_DFICTRL \<equiv> 507909"
abbreviation (input) SRST_DDR_PHY :: int where "SRST_DDR_PHY \<equiv> 507910"

section \<open>The sections of the header\<close>

definition pll_ids :: "int list" where
  "pll_ids = [
    PLL_APLL, PLL_DPLL, PLL_CPLL, PLL_GPLL, ARMCLK]"

definition clk_ids_1 :: "int list" where
  "clk_ids_1 = [
    PCLK_DDRPHY, PCLK_DDR_ROOT, PCLK_DDRMON, CLK_TIMER_DDRMON, PCLK_DDRC, PCLK_DFICTRL, ACLK_DDR_ROOT,
    ACLK_SYS_SHRM, HCLK_NPU_ROOT, ACLK_NPU_ROOT, PCLK_NPU_ROOT, HCLK_RKNN, ACLK_RKNN, PCLK_ACODEC,
    MCLK_ACODEC_TX, CLK_CORE_CRYPTO, CLK_PKA_CRYPTO, ACLK_CRYPTO, HCLK_CRYPTO, ACLK_DECOM, PCLK_DECOM,
    DCLK_DECOM, ACLK_DMAC, PCLK_DSM, MCLK_DSM, CCLK_SRC_EMMC, HCLK_EMMC, PCLK_GPIO4, DBCLK_GPIO4,
    PCLK_I2C0, CLK_I2C0, PCLK_I2C2, CLK_I2C2, PCLK_I2C3, CLK_I2C3, PCLK_I2C4, CLK_I2C4, HCLK_I2S0,
    PCLK_DFT2APB, HCLK_IVE, ACLK_IVE, PCLK_PWM0_PERI, CLK_PWM0_PERI, CLK_CAPTURE_PWM0_PERI, PCLK_PERI_ROOT,
    ACLK_PERI_ROOT, HCLK_PERI_ROOT, CLK_TIMER_ROOT, ACLK_BUS_ROOT, HCLK_SFC, SCLK_SFC, PCLK_UART0,
    CLK_PVTM_CORE, PCLK_UART1, CLK_CORE_MCU_RTC, PCLK_PWM1_PERI, CLK_PWM1_PERI, CLK_CAPTURE_PWM1_PERI,
    PCLK_PWM2_PERI, CLK_PWM2_PERI, CLK_CAPTURE_PWM2_PERI, HCLK_BOOTROM, HCLK_SAI, MCLK_SAI, PCLK_SARADC,
    CLK_SARADC, PCLK_SPI1, CLK_SPI1, PCLK_STIMER, CLK_STIMER0, CLK_STIMER1, PCLK_TIMER, CLK_TIMER0,
    CLK_TIMER1, CLK_TIMER2, CLK_TIMER3, CLK_TIMER4, CLK_TIMER5, HCLK_TRNG_NS, HCLK_TRNG_S, PCLK_UART2,
    HCLK_CPU, PCLK_UART3, CLK_CORE_MCU, PCLK_UART4, PCLK_DDR_HWLP, PCLK_UART5, ACLK_USBOTG, CLK_REF_USBOTG,
    CLK_UTMI_USBOTG, PCLK_USBPHY, CLK_REF_USBPHY, PCLK_WDT_NS, TCLK_WDT_NS, PCLK_WDT_S, TCLK_WDT_S,
    CLK_DDR_FAIL_SAFE, XIN_OSC0_DIV, CLK_DEEPSLOW, PCLK_PMU_GPIO0, DBCLK_PMU_GPIO0, CLK_PMU, PCLK_PMU,
    PCLK_PMU_HP_TIMER, CLK_PMU_HP_TIMER, CLK_PMU_32K_HP_TIMER, PCLK_I2C1, CLK_I2C1, PCLK_PMU_IOC,
    PCLK_PMU_MAILBOX, CLK_PMU_MCU, CLK_PMU_MCU_RTC, CLK_PMU_MCU_JTAG, CLK_PVTM_PMU, PCLK_PVTM_PMU,
    CLK_REFOUT, CLK_100M_PMU, PCLK_PMU_ROOT, HCLK_PMU_ROOT, HCLK_PMU_SRAM, PCLK_PMU_WDT, TCLK_PMU_WDT,
    CLK_DFICTRL, CLK_DDRMON, CLK_DDR_PHY, ACLK_DDRC, CLK_CORE_DDRC_SRC, CLK_CORE_DDRC, CLK_50M_SRC,
    CLK_100M_SRC, CLK_150M_SRC, CLK_200M_SRC, CLK_250M_SRC]"

definition clk_ids_2 :: "int list" where
  "clk_ids_2 = [
    CLK_300M_SRC, CLK_339M_SRC, CLK_400M_SRC, CLK_450M_SRC, CLK_500M_SRC, CLK_I2S0_8CH_TX_SRC,
    CLK_I2S0_8CH_TX_FRAC, CLK_I2S0_8CH_TX, CLK_I2S0_8CH_RX_SRC, CLK_I2S0_8CH_RX_FRAC, CLK_I2S0_8CH_RX,
    I2S0_8CH_MCLKOUT, MCLK_I2S0_8CH_RX, MCLK_I2S0_8CH_TX, CLK_REF_MIPI0_SRC, CLK_REF_MIPI0_FRAC,
    CLK_REF_MIPI0_OUT, CLK_REF_MIPI1_SRC, CLK_REF_MIPI1_FRAC, MCLK_REF_MIPI0, MCLK_REF_MIPI1,
    CLK_REF_MIPI0, CLK_REF_MIPI1, CLK_UART0_SRC, CLK_UART0_FRAC, CLK_UART0, SCLK_UART0, CLK_UART1_SRC,
    CLK_UART1_FRAC, CLK_UART1, SCLK_UART1, CLK_UART2_SRC, CLK_UART2_FRAC, CLK_UART2, SCLK_UART2,
    CLK_UART3_SRC, CLK_UART3_FRAC, CLK_UART3, SCLK_UART3, CLK_UART4_SRC, CLK_UART4_FRAC, CLK_UART4,
    SCLK_UART4, CLK_UART5_SRC, CLK_UART5_FRAC, CLK_UART5, SCLK_UART5, CLK_VICAP_M0_SRC, CLK_VICAP_M0_FRAC,
    CLK_VICAP_M0, SCLK_VICAP_M0, CLK_VICAP_M1_SRC, CLK_VICAP_M1_FRAC, CLK_VICAP_M1, SCLK_VICAP_M1,
    DCLK_VOP_SRC, PCLK_CRU, PCLK_TOP_ROOT, PCLK_SPI0, CLK_SPI0, SCLK_IN_SPI0, CLK_UART_DETN_FLT, HCLK_VEPU,
    ACLK_VEPU, CLK_CORE_VEPU, CLK_CORE_VEPU_DVBM, PCLK_GPIO1, DBCLK_GPIO1, HCLK_VEPU_PP, ACLK_VEPU_PP,
    HCLK_VEPU_ROOT, ACLK_VEPU_COM_ROOT, ACLK_VEPU_ROOT, PCLK_VEPU_ROOT, PCLK_VICAP_VEPU, PCLK_CSIHOST0,
    CLK_RXBYTECLKHS_0, PCLK_CSIHOST1, CLK_RXBYTECLKHS_1, PCLK_GPIO3, DBCLK_GPIO3, HCLK_ISP3P2, ACLK_ISP3P2,
    CLK_CORE_ISP3P2, PCLK_MIPICSIPHY, CCLK_SRC_SDMMC, HCLK_SDMMC, CLK_SDMMC_DETN_FLT, HCLK_VI_ROOT,
    ACLK_VI_ROOT, PCLK_VI_ROOT, PCLK_VI_RTC_ROOT, PCLK_VI_RTC_TEST, PCLK_VI_RTC_PHY, DCLK_VICAP,
    PCLK_VICAP, ACLK_VICAP, HCLK_VICAP, I0CLK_VICAP, I1CLK_VICAP, RX0PCLK_VICAP, RX1PCLK_VICAP,
    ISP0CLK_VICAP, PCLK_GPIO2, DBCLK_GPIO2, ACLK_MAC, PCLK_MAC, CLK_GMAC0_50M_O, CLK_GMAC0_TX_50M_O,
    CLK_GMAC0_REF_50M, CLK_GMAC0_TX_50M, CLK_GMAC0_RX_50M, ACLK_MAC_ROOT, CLK_MACPHY, CLK_OTPC_ARB,
    PCLK_OTPC_NS, CLK_SBPI_OTPC_NS, CLK_USER_OTPC_NS, PCLK_OTPC_S, CLK_SBPI_OTPC_S, CLK_USER_OTPC_S,
    PCLK_OTP_MASK, CLK_PMC_OTP, HCLK_RGA2E, ACLK_RGA2E, CLK_CORE_RGA2E, CCLK_SRC_SDIO, HCLK_SDIO,
    PCLK_TSADC, CLK_TSADC, CLK_TSADC_TSEN, ACLK_VO_ROOT, HCLK_VO_ROOT, PCLK_VO_ROOT, ACLK_VOP_ROOT,
    HCLK_VOP, DCLK_VOP, ACLK_VOP, CLK_RTC_32K, PCLK_MAILBOX]"

definition grf_clk_ids :: "int list" where
  "grf_clk_ids = [
    SCLK_EMMC_DRV, SCLK_EMMC_SAMPLE, SCLK_SDMMC_DRV, SCLK_SDMMC_SAMPLE, SCLK_SDIO_DRV, SCLK_SDIO_SAMPLE]"

definition rv1106_cru_ids :: "int list" where
  "rv1106_cru_ids = pll_ids @ clk_ids_1 @ clk_ids_2"

text \<open>A group of resets: the register offset its section comment names, and the numbers.\<close>

definition srst_regs_1 :: "(int \<times> int list) list" where
  "srst_regs_1 = [
    (0xA00, [
      SRST_P_I2C1, SRST_I2C1, SRST_H_PMU_BIU, SRST_P_PMU_BIU, SRST_H_PMU_SRAM, SRST_PMU_MCU,
      SRST_PMU_MCU_PWRUP, SRST_PMU_MCU_CPU, SRST_T_PMU_MCU_CPU]),
    (0xA04, [
      SRST_P_PMU_GPIO0, SRST_PMU_GPIO0, SRST_PVTM_PMU, SRST_P_PVTM_PMU, SRST_DDR_FAIL_SAFE]),
    (0xA08, [
      SRST_P_PMU_HP_TIMER, SRST_PMU_HP_TIMER, SRST_PMU_32K_HP_TIMER, SRST_P_PMU_IOC, SRST_P_PMU_CRU,
      SRST_P_PMU_GRF, SRST_P_PMU_SGRF, SRST_P_PMU_SGRF_REMAP, SRST_P_PMU_WDT, SRST_T_PMU_WDT,
      SRST_P_PMU_MAILBOX, SRST_WRITE_ENABLE]),
    (0x10A08, [
      SRST_REF_PVTPLL_0, SRST_REF_PVTPLL_1, SRST_P_CRU, SRST_P_CRU_BIU]),
    (0x12A00, [
      SRST_P_PERI_BIU, SRST_A_PERI_BIU, SRST_H_PERI_BIU, SRST_H_BOOTROM, SRST_P_TIMER, SRST_TIMER0,
      SRST_TIMER1, SRST_TIMER2, SRST_TIMER3, SRST_TIMER4, SRST_TIMER5, SRST_P_STIMER]),
    (0x12A04, [
      SRST_STIMER0, SRST_STIMER1, SRST_P_WDT_NS, SRST_T_WDT_NS, SRST_P_WDT_S, SRST_T_WDT_S, SRST_P_I2C0,
      SRST_I2C0, SRST_P_I2C2, SRST_I2C2, SRST_P_I2C3, SRST_I2C3, SRST_P_I2C4, SRST_I2C4]),
    (0x12A08, [
      SRST_P_GPIO4, SRST_GPIO4, SRST_P_PERI_IOC, SRST_P_UART2, SRST_S_UART2, SRST_P_UART3, SRST_S_UART3,
      SRST_P_UART4, SRST_S_UART4, SRST_P_UART5]),
    (0x12A0C, [
      SRST_S_UART5, SRST_P_SARADC, SRST_SARADC, SRST_SARADC_PHY, SRST_P_SPI1, SRST_SPI1, SRST_H_TRNG_NS,
      SRST_H_TRNG_S, SRST_CORE_CRYPTO, SRST_PKA_CRYPTO, SRST_A_CRYPTO, SRST_H_CRYPTO, SRST_P_PWM1_PERI]),
    (0x12A10, [
      SRST_PWM1_PERI, SRST_P_PWM2_PERI, SRST_PWM2_PERI, SRST_P_PERI_GRF, SRST_P_PERI_CRU, SRST_A_USBOTG,
      SRST_A_BUS_BIU, SRST_H_EMMC, SRST_H_SFC]),
    (0x12A14, [
      SRST_S_SFC, SRST_P_USBPHY, SRST_USBPHY_POR, SRST_USBPHY_OTG, SRST_A_DMAC, SRST_A_DECOM, SRST_P_DECOM,
      SRST_D_DECOM, SRST_P_PERI_SGRF, SRST_H_SAI, SRST_M_SAI, SRST_M_I2S0_8CH_TX]),
    (0x12A18, [
      SRST_H_I2S0, SRST_M_DSM, SRST_P_DSM, SRST_P_ACODEC, SRST_M_I2S0_8CH_RX, SRST_P_DFT2APB, SRST_H_IVE,
      SRST_A_IVE, SRST_P_UART0, SRST_S_UART0, SRST_P_UART1]),
    (0x12A1C, [
      SRST_S_UART1, SRST_P_PWM0_PERI, SRST_PWM0_PERI]),
    (0x14A00, [
      SRST_H_VI_BIU, SRST_A_VI_BIU, SRST_P_VI_BIU, SRST_CORE_ISP3P2, SRST_D_VICAP, SRST_P_VICAP,
      SRST_A_VICAP, SRST_H_VICAP, SRST_VICAP_I0, SRST_VICAP_I1])]"

definition srst_regs_2 :: "(int \<times> int list) list" where
  "srst_regs_2 = [
    (0x14A04, [
      SRST_VICAP_RX0, SRST_VICAP_RX1, SRST_VICAP_ISP0, SRST_P_CSIHOST0, SRST_P_CSIHOST1, SRST_H_SDMMC,
      SRST_SDMMC_DETN_FLT, SRST_P_MIPICSIPHY, SRST_P_GPIO3]),
    (0x14A08, [
      SRST_GPIO3, SRST_P_VI_IOC, SRST_P_VI_GRF, SRST_P_VI_SGRF, SRST_P_VI_CRU, SRST_P_VI_RTC_TEST,
      SRST_P_VI_RTC_NIU]),
    (0x16A00, [
      SRST_H_NPU_BIU, SRST_A_NPU_BIU, SRST_P_NPU_BIU, SRST_P_NPU_CRU, SRST_P_NPU_SGRF, SRST_P_NPU_GRF,
      SRST_H_RKNN, SRST_A_RKNN]),
    (0x18A00, [
      SRST_NCOREPORESET, SRST_NCORESET, SRST_NDBGRESET, SRST_NL2RESET, SRST_A_M_CORE_BIU, SRST_P_DBG,
      SRST_POT_DBG, SRST_NT_DBG, SRST_P_CORE_GRF, SRST_H_CPU_BIU, SRST_P_CPU_BIU, SRST_PVTM_CORE,
      SRST_P_PVTM_CORE]),
    (0x18A04, [
      SRST_REF_PVTPLL_CORE, SRST_CORE_MCU, SRST_CORE_MCU_PWRUP, SRST_CORE_MCU_CPU, SRST_T_CORE_MCU_CPU,
      SRST_MCU_BIU, SRST_P_MAILBOX, SRST_P_INTMUX, SRST_P_CORE_CRU, SRST_P_CORE_SGRF, SRST_H_CACHE]),
    (0x1AA00, [
      SRST_H_VEPU_BIU, SRST_A_VEPU_BIU, SRST_A_VEPU_COM_BIU, SRST_P_VEPU_BIU, SRST_H_VEPU, SRST_A_VEPU,
      SRST_CORE_VEPU, SRST_H_VEPU_PP, SRST_A_VEPU_PP, SRST_CORE_VEPU_DVBM, SRST_P_VICAP_VEPU, SRST_P_GPIO1]),
    (0x1AA04, [
      SRST_GPIO1, SRST_P_VEPU_IOC, SRST_P_SPI0, SRST_SPI0, SRST_P_VEPU_CRU, SRST_P_VEPU_SGRF,
      SRST_P_VEPU_GRF, SRST_UART_DETN_FLT]),
    (0x1CA00, [
      SRST_A_VO_BIU, SRST_H_VO_BIU, SRST_H_RGA2E, SRST_A_RGA2E, SRST_CORE_RGA2E, SRST_P_VO_GRF,
      SRST_A_VOP_BIU, SRST_H_VOP, SRST_D_VOP, SRST_A_VOP]),
    (0x1CA04, [
      SRST_P_MAC_BIU, SRST_A_MAC_BIU, SRST_A_MAC, SRST_P_VO_SGRF, SRST_P_VO_CRU, SRST_H_SDIO]),
    (0x1CA08, [
      SRST_P_TSADC, SRST_TSADC, SRST_P_OTPC_NS, SRST_SBPI_OTPC_NS, SRST_USER_OTPC_NS, SRST_P_OTPC_S,
      SRST_SBPI_OTPC_S, SRST_USER_OTPC_S, SRST_OTPC_ARB, SRST_MACPHY, SRST_P_OTP_MASK, SRST_PMC_OTP]),
    (0x1CA0C, [
      SRST_P_GPIO2, SRST_GPIO2, SRST_P_VO_IOC]),
    (0x1EA00, [
      SRST_P_DDR_BIU, SRST_P_DDRC, SRST_P_DDRMON, SRST_TIMER_DDRMON, SRST_P_DFICTRL, SRST_A_SYS_SHRM,
      SRST_A_SHRM_NIU, SRST_P_DDR_GRF]),
    (0x1EA04, [
      SRST_P_DDR_CRU, SRST_P_DDR_HWLP, SRST_P_DDRPHY]),
    (0x1FA00, [
      SRST_MSCH_BIU, SRST_A_DDRC, SRST_CORE_DDRC, SRST_DDRMON, SRST_DFICTRL, SRST_DDR_PHY])]"

definition srst_regs :: "(int \<times> int list) list" where
  "srst_regs = srst_regs_1 @ srst_regs_2"

end
