(* ===== verification/Hiword.thy ===== *)
theory Hiword
  imports Warden_Prelude
begin

text \<open>
  Registers with a write mask, as the clock controller and the GRF have them: the upper half of a written word says
  which of the lower sixteen bits change. \<open>HIWORD_UPDATE\<close>, a macro of the clock framework, makes such a
  word from a value, a field mask and a shift; it is a parameter of the drivers' models, and \<open>hiword_spec\<close> is its
  documented result.
\<close>

unbundle bit_operations_syntax

type_synonym hiword = "u32 \<Rightarrow> u32 \<Rightarrow> nat \<Rightarrow> u32"

definition hiword_spec :: "hiword \<Rightarrow> bool" where
  "hiword_spec hw = (\<forall>v m s. hw v m s = push_bit s v OR push_bit (s + 16) m)"

definition hiword_or :: hiword where
  "hiword_or v m s = push_bit s v OR push_bit (s + 16) m"

lemma hiword_spec_or: "hiword_spec hiword_or"
  by (simp add: hiword_spec_def hiword_or_def)

lemma hiword_specD: "hiword_spec hw \<Longrightarrow> hw = hiword_or"
  by (auto simp: hiword_spec_def hiword_or_def fun_eq_iff)

definition hiword_write :: "u32 \<Rightarrow> u32 \<Rightarrow> u32" where
  "hiword_write w old = (old AND NOT (drop_bit 16 w)) OR (w AND drop_bit 16 w)"

definition hiword_field :: "nat \<Rightarrow> nat \<Rightarrow> u32 \<Rightarrow> u32" where
  "hiword_field s k r = take_bit k (drop_bit s r)"

lemma hiword_write_bit:
  assumes "take_bit k v = v" and "s + k \<le> 16" and "n < 16"
  shows "bit (hiword_write (hiword_or v (mask k) s) old) n =
    (if s \<le> n \<and> n < s + k then bit v (n - s) else bit old n)"
proof -
  have v: "bit v j \<Longrightarrow> j < k" for j
    using assms(1) by (metis bit_take_bit_iff)
  show ?thesis
    using assms(2,3) v [of "n - s"] v [of "n + 16 - s"]
    by (auto simp: hiword_write_def hiword_or_def bit_simps add.commute)
qed

text \<open>The written field holds the value; a field apart from it is unchanged.\<close>

lemma hiword_field_write:
  assumes "take_bit k v = v" and "s + k \<le> 16"
  shows "hiword_field s k (hiword_write (hiword_or v (mask k) s) old) = v"
proof (rule bit_word_eqI)
  fix n :: nat
  have v: "bit v n \<Longrightarrow> n < k"
    using assms(1) by (metis bit_take_bit_iff)
  show "bit (hiword_field s k (hiword_write (hiword_or v (mask k) s) old)) n = bit v n"
    using v assms hiword_write_bit [OF assms, of "s + n" old]
    by (auto simp: hiword_field_def bit_simps)
qed

lemma hiword_field_other:
  assumes "take_bit k v = v" and "s + k \<le> 16" and "t + l \<le> 16" and "t + l \<le> s \<or> s + k \<le> t"
  shows "hiword_field t l (hiword_write (hiword_or v (mask k) s) old) = hiword_field t l old"
proof (rule bit_word_eqI)
  fix n :: nat
  show "bit (hiword_field t l (hiword_write (hiword_or v (mask k) s) old)) n = bit (hiword_field t l old) n"
    using assms(3,4) hiword_write_bit [OF assms(1,2), of "t + n" old]
    by (auto simp: hiword_field_def bit_simps)
qed

end
