(* ===== verification/Clk_Table.thy ===== *)
theory Clk_Table
  imports Clk_Ids Hiword
begin

text \<open>
  The tables of the clock driver, \<^verbatim>\<open>kernel/rv1106-enablement/clk/clk-rv1106.c\<close>: PLL rates, CPU clock
  rates, parent lists, PLLs, fractional multiplexers and the clock branches by power domain. A table macro of the
  Rockchip clock framework is a constructor with the macro's arguments in their order. Register addresses are the
  macros the port adds to \<^verbatim>\<open>clk.h\<close> in \<^verbatim>\<open>patches/10-clk-rv1106.patch\<close>. The framework's flags
  keep their names: an or of flags is their list, 0 the empty list.
\<close>

section \<open>The register map\<close>

definition RV1106_TOPCRU_BASE :: int where "RV1106_TOPCRU_BASE = 0x10000"
definition RV1106_PERICRU_BASE :: int where "RV1106_PERICRU_BASE = 0x12000"
definition RV1106_VICRU_BASE :: int where "RV1106_VICRU_BASE = 0x14000"
definition RV1106_NPUCRU_BASE :: int where "RV1106_NPUCRU_BASE = 0x16000"
definition RV1106_CORECRU_BASE :: int where "RV1106_CORECRU_BASE = 0x18000"
definition RV1106_VEPUCRU_BASE :: int where "RV1106_VEPUCRU_BASE = 0x1A000"
definition RV1106_VOCRU_BASE :: int where "RV1106_VOCRU_BASE = 0x1C000"
definition RV1106_DDRCRU_BASE :: int where "RV1106_DDRCRU_BASE = 0x1E000"
definition RV1106_SUBDDRCRU_BASE :: int where "RV1106_SUBDDRCRU_BASE = 0x1F000"
definition RV1106_VI_GRF_BASE :: int where "RV1106_VI_GRF_BASE = 0x50000"
definition RV1106_VO_GRF_BASE :: int where "RV1106_VO_GRF_BASE = 0x60000"
definition RV1106_PMUCLKSEL_CON :: "int \<Rightarrow> int" where "RV1106_PMUCLKSEL_CON x = x * 0x4 + 0x300"
definition RV1106_PMUCLKGATE_CON :: "int \<Rightarrow> int" where "RV1106_PMUCLKGATE_CON x = x * 0x4 + 0x800"
definition RV1106_PMUSOFTRST_CON :: "int \<Rightarrow> int" where "RV1106_PMUSOFTRST_CON x = x * 0x4 + 0xa00"
definition RV1106_PLL_CON :: "int \<Rightarrow> int" where "RV1106_PLL_CON x = x * 0x4 + RV1106_TOPCRU_BASE"
definition RV1106_MODE_CON :: int where "RV1106_MODE_CON = 0x280 + RV1106_TOPCRU_BASE"
definition RV1106_CLKSEL_CON :: "int \<Rightarrow> int" where "RV1106_CLKSEL_CON x = x * 0x4 + 0x300 + RV1106_TOPCRU_BASE"
definition RV1106_CLKGATE_CON :: "int \<Rightarrow> int" where "RV1106_CLKGATE_CON x = x * 0x4 + 0x800 + RV1106_TOPCRU_BASE"
definition RV1106_SOFTRST_CON :: "int \<Rightarrow> int" where "RV1106_SOFTRST_CON x = x * 0x4 + 0xa00 + RV1106_TOPCRU_BASE"
definition RV1106_GLB_SRST_FST :: int where "RV1106_GLB_SRST_FST = 0xc08 + RV1106_TOPCRU_BASE"
definition RV1106_GLB_SRST_SND :: int where "RV1106_GLB_SRST_SND = 0xc0c + RV1106_TOPCRU_BASE"
definition RV1106_SDIO_CON0 :: int where "RV1106_SDIO_CON0 = 0x1c + RV1106_VO_GRF_BASE"
definition RV1106_SDIO_CON1 :: int where "RV1106_SDIO_CON1 = 0x20 + RV1106_VO_GRF_BASE"
definition RV1106_SDMMC_CON0 :: int where "RV1106_SDMMC_CON0 = 0x4 + RV1106_VI_GRF_BASE"
definition RV1106_SDMMC_CON1 :: int where "RV1106_SDMMC_CON1 = 0x8 + RV1106_VI_GRF_BASE"
definition RV1106_EMMC_CON0 :: int where "RV1106_EMMC_CON0 = 0x20"
definition RV1106_EMMC_CON1 :: int where "RV1106_EMMC_CON1 = 0x24"
definition RV1106_PERICLKSEL_CON :: "int \<Rightarrow> int" where "RV1106_PERICLKSEL_CON x = x * 0x4 + 0x300 + RV1106_PERICRU_BASE"
definition RV1106_PERICLKGATE_CON :: "int \<Rightarrow> int" where "RV1106_PERICLKGATE_CON x = x * 0x4 + 0x800 + RV1106_PERICRU_BASE"
definition RV1106_PERISOFTRST_CON :: "int \<Rightarrow> int" where "RV1106_PERISOFTRST_CON x = x * 0x4 + 0xa00 + RV1106_PERICRU_BASE"
definition RV1106_VICLKSEL_CON :: "int \<Rightarrow> int" where "RV1106_VICLKSEL_CON x = x * 0x4 + 0x300 + RV1106_VICRU_BASE"
definition RV1106_VICLKGATE_CON :: "int \<Rightarrow> int" where "RV1106_VICLKGATE_CON x = x * 0x4 + 0x800 + RV1106_VICRU_BASE"
definition RV1106_VISOFTRST_CON :: "int \<Rightarrow> int" where "RV1106_VISOFTRST_CON x = x * 0x4 + 0xa00 + RV1106_VICRU_BASE"
definition RV1106_NPUCLKSEL_CON :: "int \<Rightarrow> int" where "RV1106_NPUCLKSEL_CON x = x * 0x4 + 0x300 + RV1106_NPUCRU_BASE"
definition RV1106_NPUCLKGATE_CON :: "int \<Rightarrow> int" where "RV1106_NPUCLKGATE_CON x = x * 0x4 + 0x800 + RV1106_NPUCRU_BASE"
definition RV1106_NPUSOFTRST_CON :: "int \<Rightarrow> int" where "RV1106_NPUSOFTRST_CON x = x * 0x4 + 0xa00 + RV1106_NPUCRU_BASE"
definition RV1106_CORECLKSEL_CON :: "int \<Rightarrow> int" where "RV1106_CORECLKSEL_CON x = x * 0x4 + 0x300 + RV1106_CORECRU_BASE"
definition RV1106_CORECLKGATE_CON :: "int \<Rightarrow> int" where "RV1106_CORECLKGATE_CON x = x * 0x4 + 0x800 + RV1106_CORECRU_BASE"
definition RV1106_CORESOFTRST_CON :: "int \<Rightarrow> int" where "RV1106_CORESOFTRST_CON x = x * 0x4 + 0xa00 + RV1106_CORECRU_BASE"
definition RV1106_VEPUCLKSEL_CON :: "int \<Rightarrow> int" where "RV1106_VEPUCLKSEL_CON x = x * 0x4 + 0x300 + RV1106_VEPUCRU_BASE"
definition RV1106_VEPUCLKGATE_CON :: "int \<Rightarrow> int" where "RV1106_VEPUCLKGATE_CON x = x * 0x4 + 0x800 + RV1106_VEPUCRU_BASE"
definition RV1106_VEPUSOFTRST_CON :: "int \<Rightarrow> int" where "RV1106_VEPUSOFTRST_CON x = x * 0x4 + 0xa00 + RV1106_VEPUCRU_BASE"
definition RV1106_VOCLKSEL_CON :: "int \<Rightarrow> int" where "RV1106_VOCLKSEL_CON x = x * 0x4 + 0x300 + RV1106_VOCRU_BASE"
definition RV1106_VOCLKGATE_CON :: "int \<Rightarrow> int" where "RV1106_VOCLKGATE_CON x = x * 0x4 + 0x800 + RV1106_VOCRU_BASE"
definition RV1106_VOSOFTRST_CON :: "int \<Rightarrow> int" where "RV1106_VOSOFTRST_CON x = x * 0x4 + 0xa00 + RV1106_VOCRU_BASE"
definition RV1106_DDRCLKSEL_CON :: "int \<Rightarrow> int" where "RV1106_DDRCLKSEL_CON x = x * 0x4 + 0x300 + RV1106_DDRCRU_BASE"
definition RV1106_DDRCLKGATE_CON :: "int \<Rightarrow> int" where "RV1106_DDRCLKGATE_CON x = x * 0x4 + 0x800 + RV1106_DDRCRU_BASE"
definition RV1106_DDRSOFTRST_CON :: "int \<Rightarrow> int" where "RV1106_DDRSOFTRST_CON x = x * 0x4 + 0xa00 + RV1106_DDRCRU_BASE"
definition RV1106_SUBDDRCLKSEL_CON :: "int \<Rightarrow> int" where "RV1106_SUBDDRCLKSEL_CON x = x * 0x4 + 0x300 + RV1106_SUBDDRCRU_BASE"
definition RV1106_SUBDDRCLKGATE_CON :: "int \<Rightarrow> int" where "RV1106_SUBDDRCLKGATE_CON x = x * 0x4 + 0x800 + RV1106_SUBDDRCRU_BASE"
definition RV1106_SUBDDRSOFTRST_CON :: "int \<Rightarrow> int" where "RV1106_SUBDDRSOFTRST_CON x = x * 0x4 + 0xa00 + RV1106_SUBDDRCRU_BASE"
definition RV1106_SUBDDRMODE_CON :: int where "RV1106_SUBDDRMODE_CON = 0x280 + RV1106_SUBDDRCRU_BASE"

section \<open>Data types of the tables\<close>

datatype flag = CLK_IS_CRITICAL | CLK_IGNORE_UNUSED | CLK_SET_RATE_PARENT | CLK_SET_RATE_NO_REPARENT
  | CLK_MUX_HIWORD_MASK | CLK_DIVIDER_HIWORD_MASK | CLK_DIVIDER_READ_ONLY | CLK_GATE_HIWORD_MASK
  | CLK_GATE_SET_TO_DISABLE

definition CLK_FRAC_DIVIDER_NO_LIMIT :: "flag list" where "CLK_FRAC_DIVIDER_NO_LIMIT = []"
definition MFLAGS :: "flag list" where "MFLAGS = [CLK_MUX_HIWORD_MASK]"
definition DFLAGS :: "flag list" where "DFLAGS = [CLK_DIVIDER_HIWORD_MASK]"
definition GFLAGS :: "flag list" where "GFLAGS = [CLK_GATE_HIWORD_MASK, CLK_GATE_SET_TO_DISABLE]"

text \<open>Identifier, name, parent or parents and flags come first, then registers, shifts and widths.\<close>

datatype rockchip_clk_branch =
    FACTOR int string string "flag list" int int
  | GATE int string string "flag list" int int "flag list"
  | MUX int string "string list" "flag list" int int int "flag list"
  | DIV int string string "flag list" int int int "flag list"
  | COMPOSITE int string "string list" "flag list" int int int "flag list" int int "flag list" int int "flag list"
  | COMPOSITE_HALFDIV int string "string list" "flag list" int int int "flag list" int int "flag list" int int "flag list"
  | COMPOSITE_NOMUX int string string "flag list" int int int "flag list" int int "flag list"
  | COMPOSITE_NODIV int string "string list" "flag list" int int int "flag list" int int "flag list"
  | COMPOSITE_FRACMUX int string string "flag list" int "flag list" int int "flag list" rockchip_clk_branch
  | MMC int string string int int

record rockchip_pll_rate_table =
  rate :: int
  refdiv :: int
  fbdiv :: int
  postdiv1 :: int
  postdiv2 :: int
  dsmpd :: int
  frac :: int

definition RK3036_PLL_RATE :: "int \<Rightarrow> int \<Rightarrow> int \<Rightarrow> int \<Rightarrow> int \<Rightarrow> int \<Rightarrow> int \<Rightarrow> rockchip_pll_rate_table" where
  "RK3036_PLL_RATE r ref fb p1 p2 ds fr = \<lparr>rate = r, refdiv = ref, fbdiv = fb, postdiv1 = p1, postdiv2 = p2, dsmpd = ds, frac = fr\<rparr>"

datatype rv1106_plls = apll | dpll | cpll | gpll

datatype pll_type = pll_rk3328

text \<open>A PLL: type, identifier, name, parents, flags, control register, mode register, mode shift, lock shift, flags,
  rate table.\<close>

datatype rockchip_pll_clock =
  PLL pll_type int string "string list" "flag list" int int int int "flag list" "rockchip_pll_rate_table list option"

section \<open>PLL rates\<close>

definition rv1106_pll_rates :: "rockchip_pll_rate_table list" where
  "rv1106_pll_rates = [
    RK3036_PLL_RATE 1608000000 1 67 1 1 1 0,
    RK3036_PLL_RATE 1600000000 3 200 1 1 1 0,
    RK3036_PLL_RATE 1584000000 1 132 2 1 1 0,
    RK3036_PLL_RATE 1560000000 1 130 2 1 1 0,
    RK3036_PLL_RATE 1536000000 1 128 2 1 1 0,
    RK3036_PLL_RATE 1512000000 1 126 2 1 1 0,
    RK3036_PLL_RATE 1488000000 1 124 2 1 1 0,
    RK3036_PLL_RATE 1464000000 1 122 2 1 1 0,
    RK3036_PLL_RATE 1440000000 1 120 2 1 1 0,
    RK3036_PLL_RATE 1416000000 1 118 2 1 1 0,
    RK3036_PLL_RATE 1400000000 3 350 2 1 1 0,
    RK3036_PLL_RATE 1392000000 1 116 2 1 1 0,
    RK3036_PLL_RATE 1368000000 1 114 2 1 1 0,
    RK3036_PLL_RATE 1344000000 1 112 2 1 1 0,
    RK3036_PLL_RATE 1320000000 1 110 2 1 1 0,
    RK3036_PLL_RATE 1296000000 1 108 2 1 1 0,
    RK3036_PLL_RATE 1272000000 1 106 2 1 1 0,
    RK3036_PLL_RATE 1248000000 1 104 2 1 1 0,
    RK3036_PLL_RATE 1200000000 1 100 2 1 1 0,
    RK3036_PLL_RATE 1188000000 1 99 2 1 1 0,
    RK3036_PLL_RATE 1104000000 1 92 2 1 1 0,
    RK3036_PLL_RATE 1100000000 3 275 2 1 1 0,
    RK3036_PLL_RATE 1008000000 1 84 2 1 1 0,
    RK3036_PLL_RATE 1000000000 3 250 2 1 1 0,
    RK3036_PLL_RATE 993484800 1 124 3 1 0 3113851,
    RK3036_PLL_RATE 984000000 1 82 2 1 1 0,
    RK3036_PLL_RATE 983040000 1 81 2 1 0 15435038,
    RK3036_PLL_RATE 960000000 1 80 2 1 1 0,
    RK3036_PLL_RATE 936000000 1 78 2 1 1 0,
    RK3036_PLL_RATE 912000000 1 76 2 1 1 0,
    RK3036_PLL_RATE 900000000 1 75 2 1 1 0,
    RK3036_PLL_RATE 888000000 1 74 2 1 1 0,
    RK3036_PLL_RATE 864000000 1 72 2 1 1 0,
    RK3036_PLL_RATE 840000000 1 70 2 1 1 0,
    RK3036_PLL_RATE 816000000 1 68 2 1 1 0,
    RK3036_PLL_RATE 800000000 3 200 2 1 1 0,
    RK3036_PLL_RATE 700000000 3 350 4 1 1 0,
    RK3036_PLL_RATE 696000000 1 116 4 1 1 0,
    RK3036_PLL_RATE 624000000 1 104 4 1 1 0,
    RK3036_PLL_RATE 600000000 1 100 4 1 1 0,
    RK3036_PLL_RATE 594000000 1 99 4 1 1 0,
    RK3036_PLL_RATE 504000000 1 84 4 1 1 0,
    RK3036_PLL_RATE 500000000 1 125 6 1 1 0,
    RK3036_PLL_RATE 496742400 1 124 6 1 0 3113851,
    RK3036_PLL_RATE 491520000 1 40 2 1 0 16106127,
    RK3036_PLL_RATE 408000000 1 68 2 2 1 0,
    RK3036_PLL_RATE 312000000 1 78 6 1 1 0,
    RK3036_PLL_RATE 216000000 1 72 4 2 1 0,
    RK3036_PLL_RATE 96000000 1 96 6 4 1 0,
    RK3036_PLL_RATE 0 0 0 0 0 0 0]"

section \<open>CPU clock rates\<close>

definition RV1106_DIV_ACLK_CORE_MASK :: u32 where "RV1106_DIV_ACLK_CORE_MASK = 0x1f"
definition RV1106_DIV_ACLK_CORE_SHIFT :: nat where "RV1106_DIV_ACLK_CORE_SHIFT = 7"
definition RV1106_DIV_PCLK_DBG_MASK :: u32 where "RV1106_DIV_PCLK_DBG_MASK = 0x1f"
definition RV1106_DIV_PCLK_DBG_SHIFT :: nat where "RV1106_DIV_PCLK_DBG_SHIFT = 0"
definition RV1106_CORE_SEL_MASK :: u32 where "RV1106_CORE_SEL_MASK = 0x3"
definition RV1106_CORE_SEL_SHIFT :: nat where "RV1106_CORE_SEL_SHIFT = 5"
definition RV1106_ALT_DIV_MASK :: u32 where "RV1106_ALT_DIV_MASK = 0x1f"
definition RV1106_ALT_DIV_SHIFT :: nat where "RV1106_ALT_DIV_SHIFT = 0"

text \<open>A register and the value written to it. \<open>HIWORD_UPDATE\<close> is a macro of the framework, a parameter here.\<close>

record rockchip_cpuclk_clksel =
  clksel_reg :: int
  clksel_val :: u32

definition RV1106_CLKSEL0 :: "hiword \<Rightarrow> u32 \<Rightarrow> rockchip_cpuclk_clksel" where
  "RV1106_CLKSEL0 HIWORD_UPDATE v = \<lparr>clksel_reg = RV1106_CORECLKSEL_CON 0,
     clksel_val = HIWORD_UPDATE v RV1106_DIV_ACLK_CORE_MASK RV1106_DIV_ACLK_CORE_SHIFT\<rparr>"

definition RV1106_CLKSEL1 :: "hiword \<Rightarrow> u32 \<Rightarrow> rockchip_cpuclk_clksel" where
  "RV1106_CLKSEL1 HIWORD_UPDATE v = \<lparr>clksel_reg = RV1106_CORECLKSEL_CON 1,
     clksel_val = HIWORD_UPDATE v RV1106_DIV_PCLK_DBG_MASK RV1106_DIV_PCLK_DBG_SHIFT\<rparr>"

definition RV1106_CLKSEL2 :: "hiword \<Rightarrow> u32 \<Rightarrow> rockchip_cpuclk_clksel" where
  "RV1106_CLKSEL2 HIWORD_UPDATE v = \<lparr>clksel_reg = RV1106_CORECLKSEL_CON 0,
     clksel_val = HIWORD_UPDATE v RV1106_CORE_SEL_MASK RV1106_CORE_SEL_SHIFT\<rparr>"

definition RV1106_CLKSEL3 :: "hiword \<Rightarrow> u32 \<Rightarrow> rockchip_cpuclk_clksel" where
  "RV1106_CLKSEL3 HIWORD_UPDATE v = \<lparr>clksel_reg = RV1106_CORECLKSEL_CON 0,
     clksel_val = HIWORD_UPDATE v RV1106_ALT_DIV_MASK RV1106_ALT_DIV_SHIFT\<rparr>"

record rockchip_cpuclk_rate_table =
  prate :: int
  divs :: "rockchip_cpuclk_clksel list"
  pre_muxs :: "rockchip_cpuclk_clksel list"
  post_muxs :: "rockchip_cpuclk_clksel list"

definition RV1106_CPUCLK_RATE :: "hiword \<Rightarrow> int \<Rightarrow> u32 \<Rightarrow> u32 \<Rightarrow> u32 \<Rightarrow> rockchip_cpuclk_rate_table" where
  "RV1106_CPUCLK_RATE hw r aclk_core pclk_dbg is_pvtpll = \<lparr>prate = r,
     divs = [RV1106_CLKSEL0 hw aclk_core, RV1106_CLKSEL1 hw pclk_dbg],
     pre_muxs = [RV1106_CLKSEL3 hw 1, RV1106_CLKSEL2 hw 2],
     post_muxs = [RV1106_CLKSEL2 hw is_pvtpll, RV1106_CLKSEL3 hw 0]\<rparr>"

definition rv1106_cpuclk_rates :: "hiword \<Rightarrow> rockchip_cpuclk_rate_table list" where
  "rv1106_cpuclk_rates hw = [
    RV1106_CPUCLK_RATE hw 1608000000 3 7 1,
    RV1106_CPUCLK_RATE hw 1584000000 3 7 1,
    RV1106_CPUCLK_RATE hw 1560000000 3 7 1,
    RV1106_CPUCLK_RATE hw 1536000000 3 7 1,
    RV1106_CPUCLK_RATE hw 1512000000 3 7 1,
    RV1106_CPUCLK_RATE hw 1488000000 2 5 1,
    RV1106_CPUCLK_RATE hw 1464000000 2 5 1,
    RV1106_CPUCLK_RATE hw 1440000000 2 5 1,
    RV1106_CPUCLK_RATE hw 1416000000 2 5 1,
    RV1106_CPUCLK_RATE hw 1392000000 2 5 1,
    RV1106_CPUCLK_RATE hw 1368000000 2 5 1,
    RV1106_CPUCLK_RATE hw 1344000000 2 5 1,
    RV1106_CPUCLK_RATE hw 1320000000 2 5 1,
    RV1106_CPUCLK_RATE hw 1296000000 2 5 1,
    RV1106_CPUCLK_RATE hw 1272000000 2 5 1,
    RV1106_CPUCLK_RATE hw 1248000000 2 5 1,
    RV1106_CPUCLK_RATE hw 1224000000 2 5 1,
    RV1106_CPUCLK_RATE hw 1200000000 2 5 1,
    RV1106_CPUCLK_RATE hw 1104000000 2 5 1,
    RV1106_CPUCLK_RATE hw 1096000000 2 5 1,
    RV1106_CPUCLK_RATE hw 1008000000 1 5 1,
    RV1106_CPUCLK_RATE hw 912000000 1 5 1,
    RV1106_CPUCLK_RATE hw 816000000 1 3 1,
    RV1106_CPUCLK_RATE hw 696000000 1 3 0,
    RV1106_CPUCLK_RATE hw 600000000 1 3 0,
    RV1106_CPUCLK_RATE hw 408000000 1 1 0,
    RV1106_CPUCLK_RATE hw 312000000 1 1 0,
    RV1106_CPUCLK_RATE hw 216000000 1 1 0,
    RV1106_CPUCLK_RATE hw 96000000 1 1 0]"

record rockchip_cpuclk_reg_data =
  core_reg :: "int list"
  div_core_shift :: "nat list"
  div_core_mask :: "u32 list"
  num_cores :: nat
  mux_core_alt :: u32
  mux_core_main :: u32
  mux_core_shift :: nat
  mux_core_mask :: u32

definition rv1106_cpuclk_data :: rockchip_cpuclk_reg_data where
  "rv1106_cpuclk_data = \<lparr>core_reg = [RV1106_CORECLKSEL_CON 0], div_core_shift = [0], div_core_mask = [0x1f],
     num_cores = 1, mux_core_alt = 2, mux_core_main = 2, mux_core_shift = 5, mux_core_mask = 0x3\<rparr>"

section \<open>Parents\<close>

definition mux_pll_p :: "string list" where "mux_pll_p = [''xin24m'']"
definition mux_24m_32k_p :: "string list" where "mux_24m_32k_p = [''xin24m'', ''clk_rtc_32k'']"
definition mux_gpll_cpll_p :: "string list" where "mux_gpll_cpll_p = [''gpll'', ''cpll'']"
definition mux_gpll_24m_p :: "string list" where "mux_gpll_24m_p = [''gpll'', ''xin24m'']"
definition mux_armclk_p :: "string list" where "mux_armclk_p = [''gpll'', ''cpll'', ''apll'']"
definition mux_100m_50m_24m_p :: "string list" where "mux_100m_50m_24m_p = [''clk_100m_src'', ''clk_50m_src'', ''xin24m'']"
definition mux_150m_100m_50m_24m_p :: "string list" where "mux_150m_100m_50m_24m_p = [''clk_150m_src'', ''clk_100m_src'', ''clk_50m_src'', ''xin24m'']"
definition mux_500m_300m_100m_24m_p :: "string list" where "mux_500m_300m_100m_24m_p = [''clk_500m_src'', ''clk_300m_src'', ''clk_100m_src'', ''xin24m'']"
definition mux_400m_300m_pvtpll0_pvtpll1_p :: "string list" where "mux_400m_300m_pvtpll0_pvtpll1_p = [''clk_400m_src'', ''clk_300m_src'', ''clk_pvtpll_0'', ''clk_pvtpll_1'']"
definition mux_500m_300m_pvtpll0_pvtpll1_p :: "string list" where "mux_500m_300m_pvtpll0_pvtpll1_p = [''clk_500m_src'', ''clk_300m_src'', ''clk_pvtpll_0'', ''clk_pvtpll_1'']"
definition mux_339m_200m_pvtpll0_pvtpll1_p :: "string list" where "mux_339m_200m_pvtpll0_pvtpll1_p = [''clk_339m_src'', ''clk_200m_src'', ''clk_pvtpll_0'', ''clk_pvtpll_1'']"
definition mux_400m_200m_100m_24m_p :: "string list" where "mux_400m_200m_100m_24m_p = [''clk_400m_src'', ''clk_200m_src'', ''clk_100m_src'', ''xin24m'']"
definition mux_200m_100m_50m_24m_p :: "string list" where "mux_200m_100m_50m_24m_p = [''clk_200m_src'', ''clk_100m_src'', ''clk_50m_src'', ''xin24m'']"
definition mux_300m_200m_100m_24m_p :: "string list" where "mux_300m_200m_100m_24m_p = [''clk_300m_src'', ''clk_200m_src'', ''clk_100m_src'', ''xin24m'']"
definition mux_500m_300m_200m_24m_p :: "string list" where "mux_500m_300m_200m_24m_p = [''clk_500m_src'', ''clk_300m_src'', ''clk_200m_src'', ''xin24m'']"
definition mux_50m_24m_p :: "string list" where "mux_50m_24m_p = [''clk_50m_src'', ''xin24m'']"
definition mux_400m_24m_p :: "string list" where "mux_400m_24m_p = [''clk_400m_src'', ''xin24m'']"
definition clk_rtc32k_pmu_p :: "string list" where "clk_rtc32k_pmu_p = [''clk_rtc32k_frac'', ''xin32k'', ''clk_pvtm_32k'']"
definition mux_200m_100m_24m_32k_p :: "string list" where "mux_200m_100m_24m_32k_p = [''clk_200m_src'', ''clk_100m_src'', ''xin24m'', ''clk_rtc_32k'']"
definition mux_100m_pmu_24m_p :: "string list" where "mux_100m_pmu_24m_p = [''clk_100m_pmu'', ''xin24m'']"
definition mux_200m_100m_24m_p :: "string list" where "mux_200m_100m_24m_p = [''clk_200m_src'', ''clk_100m_pmu'', ''xin24m'']"
definition mux_339m_200m_100m_24m_p :: "string list" where "mux_339m_200m_100m_24m_p = [''clk_339m_src'', ''clk_200m_src'', ''clk_100m_pmu'', ''xin24m'']"
definition mux_dpll_300m_p :: "string list" where "mux_dpll_300m_p = [''dpll'', ''clk_300m_src'']"
definition clk_i2s0_8ch_tx_p :: "string list" where "clk_i2s0_8ch_tx_p = [''clk_i2s0_8ch_tx_src'', ''clk_i2s0_8ch_tx_frac'', ''i2s0_mclkin'', ''xin_osc0_half'']"
definition clk_i2s0_8ch_rx_p :: "string list" where "clk_i2s0_8ch_rx_p = [''clk_i2s0_8ch_rx_src'', ''clk_i2s0_8ch_rx_frac'', ''i2s0_mclkin'', ''xin_osc0_half'']"
definition i2s0_8ch_mclkout_p :: "string list" where "i2s0_8ch_mclkout_p = [''mclk_i2s0_8ch_tx'', ''mclk_i2s0_8ch_rx'', ''xin_osc0_half'']"
definition clk_ref_mipi0_p :: "string list" where "clk_ref_mipi0_p = [''clk_ref_mipi0_src'', ''clk_ref_mipi0_frac'', ''xin24m'']"
definition clk_ref_mipi1_p :: "string list" where "clk_ref_mipi1_p = [''clk_ref_mipi1_src'', ''clk_ref_mipi1_frac'', ''xin24m'']"
definition clk_uart0_p :: "string list" where "clk_uart0_p = [''clk_uart0_src'', ''clk_uart0_frac'', ''xin24m'']"
definition clk_uart1_p :: "string list" where "clk_uart1_p = [''clk_uart1_src'', ''clk_uart1_frac'', ''xin24m'']"
definition clk_uart2_p :: "string list" where "clk_uart2_p = [''clk_uart2_src'', ''clk_uart2_frac'', ''xin24m'']"
definition clk_uart3_p :: "string list" where "clk_uart3_p = [''clk_uart3_src'', ''clk_uart3_frac'', ''xin24m'']"
definition clk_uart4_p :: "string list" where "clk_uart4_p = [''clk_uart4_src'', ''clk_uart4_frac'', ''xin24m'']"
definition clk_uart5_p :: "string list" where "clk_uart5_p = [''clk_uart5_src'', ''clk_uart5_frac'', ''xin24m'']"
definition clk_vicap_m0_p :: "string list" where "clk_vicap_m0_p = [''clk_vicap_m0_src'', ''clk_vicap_m0_frac'', ''xin24m'']"
definition clk_vicap_m1_p :: "string list" where "clk_vicap_m1_p = [''clk_vicap_m1_src'', ''clk_vicap_m1_frac'', ''xin24m'']"

section \<open>PLLs\<close>

text \<open>The array is indexed by \<open>rv1106_plls\<close>, in the order of that enumeration.\<close>

definition rv1106_pll_clks :: "rockchip_pll_clock list" where
  "rv1106_pll_clks = [
    PLL pll_rk3328 PLL_APLL ''apll'' mux_pll_p [CLK_IGNORE_UNUSED] (RV1106_PLL_CON 0) RV1106_MODE_CON 0 10 [] (Some rv1106_pll_rates),
    PLL pll_rk3328 PLL_DPLL ''dpll'' mux_pll_p [CLK_IGNORE_UNUSED] (RV1106_PLL_CON 16) RV1106_SUBDDRMODE_CON 0 10 [] None,
    PLL pll_rk3328 PLL_CPLL ''cpll'' mux_pll_p [] (RV1106_PLL_CON 8) RV1106_MODE_CON 2 10 [] (Some rv1106_pll_rates),
    PLL pll_rk3328 PLL_GPLL ''gpll'' mux_pll_p [] (RV1106_PLL_CON 24) RV1106_MODE_CON 4 10 [] (Some rv1106_pll_rates)]"

section \<open>Fractional multiplexers\<close>

definition rv1106_rtc32k_pmu_fracmux :: rockchip_clk_branch where
  "rv1106_rtc32k_pmu_fracmux =
    MUX CLK_RTC_32K ''clk_rtc_32k'' clk_rtc32k_pmu_p [CLK_SET_RATE_PARENT, CLK_SET_RATE_NO_REPARENT]
      (RV1106_PMUCLKSEL_CON 0) 6 2 MFLAGS"

definition rv1106_i2s0_8ch_tx_fracmux :: rockchip_clk_branch where
  "rv1106_i2s0_8ch_tx_fracmux =
    MUX CLK_I2S0_8CH_TX ''clk_i2s0_8ch_tx'' clk_i2s0_8ch_tx_p [CLK_SET_RATE_PARENT]
      (RV1106_CLKSEL_CON 19) 0 2 MFLAGS"

definition rv1106_i2s0_8ch_rx_fracmux :: rockchip_clk_branch where
  "rv1106_i2s0_8ch_rx_fracmux =
    MUX CLK_I2S0_8CH_RX ''clk_i2s0_8ch_rx'' clk_i2s0_8ch_rx_p [CLK_SET_RATE_PARENT]
      (RV1106_CLKSEL_CON 21) 0 2 MFLAGS"

definition rv1106_clk_ref_mipi0_fracmux :: rockchip_clk_branch where
  "rv1106_clk_ref_mipi0_fracmux =
    MUX CLK_REF_MIPI0 ''clk_ref_mipi0'' clk_ref_mipi0_p [CLK_SET_RATE_PARENT]
      (RV1106_CLKSEL_CON 27) 0 2 MFLAGS"

definition rv1106_clk_ref_mipi1_fracmux :: rockchip_clk_branch where
  "rv1106_clk_ref_mipi1_fracmux =
    MUX CLK_REF_MIPI1 ''clk_ref_mipi1'' clk_ref_mipi1_p [CLK_SET_RATE_PARENT]
      (RV1106_CLKSEL_CON 29) 0 2 MFLAGS"

definition rv1106_clk_uart0_fracmux :: rockchip_clk_branch where
  "rv1106_clk_uart0_fracmux =
    MUX CLK_UART0 ''clk_uart0'' clk_uart0_p [CLK_SET_RATE_PARENT] (RV1106_CLKSEL_CON 7) 0 2 MFLAGS"

definition rv1106_clk_uart1_fracmux :: rockchip_clk_branch where
  "rv1106_clk_uart1_fracmux =
    MUX CLK_UART1 ''clk_uart1'' clk_uart1_p [CLK_SET_RATE_PARENT] (RV1106_CLKSEL_CON 9) 0 2 MFLAGS"

definition rv1106_clk_uart2_fracmux :: rockchip_clk_branch where
  "rv1106_clk_uart2_fracmux =
    MUX CLK_UART2 ''clk_uart2'' clk_uart2_p [CLK_SET_RATE_PARENT] (RV1106_CLKSEL_CON 11) 0 2 MFLAGS"

definition rv1106_clk_uart3_fracmux :: rockchip_clk_branch where
  "rv1106_clk_uart3_fracmux =
    MUX CLK_UART3 ''clk_uart3'' clk_uart3_p [CLK_SET_RATE_PARENT] (RV1106_CLKSEL_CON 13) 0 2 MFLAGS"

definition rv1106_clk_uart4_fracmux :: rockchip_clk_branch where
  "rv1106_clk_uart4_fracmux =
    MUX CLK_UART4 ''clk_uart4'' clk_uart4_p [CLK_SET_RATE_PARENT] (RV1106_CLKSEL_CON 15) 0 2 MFLAGS"

definition rv1106_clk_uart5_fracmux :: rockchip_clk_branch where
  "rv1106_clk_uart5_fracmux =
    MUX CLK_UART5 ''clk_uart5'' clk_uart5_p [CLK_SET_RATE_PARENT] (RV1106_CLKSEL_CON 17) 0 2 MFLAGS"

definition rv1106_clk_vicap_m0_fracmux :: rockchip_clk_branch where
  "rv1106_clk_vicap_m0_fracmux =
    MUX CLK_VICAP_M0 ''clk_vicap_m0'' clk_vicap_m0_p [CLK_SET_RATE_PARENT] (RV1106_CLKSEL_CON 31) 0 2 MFLAGS"

definition rv1106_clk_vicap_m1_fracmux :: rockchip_clk_branch where
  "rv1106_clk_vicap_m1_fracmux =
    MUX CLK_VICAP_M1 ''clk_vicap_m1'' clk_vicap_m1_p [CLK_SET_RATE_PARENT] (RV1106_CLKSEL_CON 33) 0 2 MFLAGS"

section \<open>Clock branches\<close>

definition branches_factor :: "rockchip_clk_branch list" where
  "branches_factor = [
    FACTOR 0 ''xin_osc0_half'' ''xin24m'' [] 1 2]"

definition branches_core :: "rockchip_clk_branch list" where
  "branches_core = [
    GATE CLK_PVTM_CORE ''clk_pvtm_core'' ''xin24m'' [] (RV1106_CORECLKGATE_CON 0) 14 GFLAGS,
    GATE CLK_CORE_MCU_RTC ''clk_core_mcu_rtc'' ''xin24m'' [] (RV1106_CORECLKGATE_CON 1) 6 GFLAGS,
    COMPOSITE HCLK_CPU ''hclk_cpu'' mux_gpll_24m_p [CLK_IS_CRITICAL]
      (RV1106_CORECLKSEL_CON 2) 5 1 MFLAGS 0 5 DFLAGS (RV1106_CORECLKGATE_CON 0) 12 GFLAGS,
    COMPOSITE CLK_CORE_MCU ''clk_core_mcu'' mux_gpll_24m_p []
      (RV1106_CORECLKSEL_CON 3) 11 1 MFLAGS 6 5 DFLAGS (RV1106_CORECLKGATE_CON 1) 1 GFLAGS,
    COMPOSITE_NOMUX 0 ''pclk_dbg'' ''armclk'' [CLK_IS_CRITICAL]
      (RV1106_CORECLKSEL_CON 1) 0 5 (DFLAGS @ [CLK_DIVIDER_READ_ONLY]) (RV1106_CORECLKGATE_CON 0) 6 GFLAGS,
    GATE 0 ''pclk_cpu_root'' ''pclk_dbg'' [CLK_IS_CRITICAL] (RV1106_CORECLKGATE_CON 0) 10 GFLAGS,
    GATE PCLK_MAILBOX ''pclk_mailbox'' ''pclk_cpu_root'' [] (RV1106_CORECLKGATE_CON 1) 8 GFLAGS]"

definition branches_top_1 :: "rockchip_clk_branch list" where
  "branches_top_1 = [
    COMPOSITE CLK_50M_SRC ''clk_50m_src'' mux_gpll_cpll_p [CLK_IS_CRITICAL]
      (RV1106_CLKSEL_CON 0) 5 1 MFLAGS 0 5 DFLAGS (RV1106_CLKGATE_CON 0) 1 GFLAGS,
    COMPOSITE CLK_100M_SRC ''clk_100m_src'' mux_gpll_cpll_p [CLK_IS_CRITICAL]
      (RV1106_CLKSEL_CON 0) 11 1 MFLAGS 6 5 DFLAGS (RV1106_CLKGATE_CON 0) 2 GFLAGS,
    COMPOSITE CLK_150M_SRC ''clk_150m_src'' mux_gpll_cpll_p [CLK_IS_CRITICAL]
      (RV1106_CLKSEL_CON 1) 5 1 MFLAGS 0 5 DFLAGS (RV1106_CLKGATE_CON 0) 3 GFLAGS,
    COMPOSITE CLK_200M_SRC ''clk_200m_src'' mux_gpll_cpll_p [CLK_IS_CRITICAL]
      (RV1106_CLKSEL_CON 1) 11 1 MFLAGS 6 5 DFLAGS (RV1106_CLKGATE_CON 0) 4 GFLAGS,
    COMPOSITE CLK_250M_SRC ''clk_250m_src'' mux_gpll_cpll_p [CLK_IS_CRITICAL]
      (RV1106_CLKSEL_CON 2) 5 1 MFLAGS 0 5 DFLAGS (RV1106_CLKGATE_CON 0) 5 GFLAGS,
    COMPOSITE CLK_300M_SRC ''clk_300m_src'' mux_gpll_cpll_p [CLK_IS_CRITICAL]
      (RV1106_CLKSEL_CON 2) 11 1 MFLAGS 6 5 DFLAGS (RV1106_CLKGATE_CON 0) 6 GFLAGS,
    COMPOSITE_HALFDIV CLK_339M_SRC ''clk_339m_src'' mux_gpll_cpll_p [CLK_IS_CRITICAL]
      (RV1106_CLKSEL_CON 3) 5 1 MFLAGS 0 5 DFLAGS (RV1106_CLKGATE_CON 0) 7 GFLAGS,
    COMPOSITE CLK_400M_SRC ''clk_400m_src'' mux_gpll_cpll_p [CLK_IS_CRITICAL]
      (RV1106_CLKSEL_CON 3) 11 1 MFLAGS 6 5 DFLAGS (RV1106_CLKGATE_CON 0) 8 GFLAGS,
    COMPOSITE_HALFDIV CLK_450M_SRC ''clk_450m_src'' mux_gpll_cpll_p [CLK_IS_CRITICAL]
      (RV1106_CLKSEL_CON 4) 5 1 MFLAGS 0 5 DFLAGS (RV1106_CLKGATE_CON 0) 9 GFLAGS,
    COMPOSITE CLK_500M_SRC ''clk_500m_src'' mux_gpll_cpll_p [CLK_IS_CRITICAL]
      (RV1106_CLKSEL_CON 4) 11 1 MFLAGS 6 5 DFLAGS (RV1106_CLKGATE_CON 0) 10 GFLAGS,
    COMPOSITE_NODIV PCLK_TOP_ROOT ''pclk_top_root'' mux_100m_50m_24m_p [CLK_IS_CRITICAL]
      (RV1106_CLKSEL_CON 24) 5 2 MFLAGS (RV1106_CLKGATE_CON 2) 9 GFLAGS,
    COMPOSITE CLK_I2S0_8CH_TX_SRC ''clk_i2s0_8ch_tx_src'' mux_gpll_cpll_p []
      (RV1106_CLKSEL_CON 17) 7 1 MFLAGS 2 5 DFLAGS (RV1106_CLKGATE_CON 1) 13 GFLAGS,
    COMPOSITE_FRACMUX CLK_I2S0_8CH_TX_FRAC ''clk_i2s0_8ch_tx_frac'' ''clk_i2s0_8ch_tx_src'' [CLK_SET_RATE_PARENT]
      (RV1106_CLKSEL_CON 18) [] (RV1106_CLKGATE_CON 1) 14 GFLAGS rv1106_i2s0_8ch_tx_fracmux,
    GATE MCLK_I2S0_8CH_TX ''mclk_i2s0_8ch_tx'' ''clk_i2s0_8ch_tx'' [] (RV1106_CLKGATE_CON 1) 15 GFLAGS,
    COMPOSITE CLK_I2S0_8CH_RX_SRC ''clk_i2s0_8ch_rx_src'' mux_gpll_cpll_p []
      (RV1106_CLKSEL_CON 19) 7 1 MFLAGS 2 5 DFLAGS (RV1106_CLKGATE_CON 2) 0 GFLAGS,
    COMPOSITE_FRACMUX CLK_I2S0_8CH_RX_FRAC ''clk_i2s0_8ch_rx_frac'' ''clk_i2s0_8ch_rx_src'' [CLK_SET_RATE_PARENT]
      (RV1106_CLKSEL_CON 20) [] (RV1106_CLKGATE_CON 2) 1 GFLAGS rv1106_i2s0_8ch_rx_fracmux,
    GATE MCLK_I2S0_8CH_RX ''mclk_i2s0_8ch_rx'' ''clk_i2s0_8ch_rx'' [] (RV1106_CLKGATE_CON 2) 2 GFLAGS,
    MUX I2S0_8CH_MCLKOUT ''i2s0_8ch_mclkout'' i2s0_8ch_mclkout_p [CLK_SET_RATE_PARENT]
      (RV1106_CLKSEL_CON 21) 2 2 MFLAGS,
    COMPOSITE CLK_REF_MIPI0_SRC ''clk_ref_mipi0_src'' mux_gpll_cpll_p []
      (RV1106_CLKSEL_CON 25) 7 1 MFLAGS 2 5 DFLAGS (RV1106_CLKGATE_CON 3) 4 GFLAGS,
    COMPOSITE_FRACMUX CLK_REF_MIPI0_FRAC ''clk_ref_mipi0_frac'' ''clk_ref_mipi0_src'' [CLK_SET_RATE_PARENT]
      (RV1106_CLKSEL_CON 26) [] (RV1106_CLKGATE_CON 3) 5 GFLAGS rv1106_clk_ref_mipi0_fracmux,
    GATE MCLK_REF_MIPI0 ''mclk_ref_mipi0'' ''clk_ref_mipi0'' [] (RV1106_CLKGATE_CON 3) 6 GFLAGS,
    COMPOSITE CLK_REF_MIPI1_SRC ''clk_ref_mipi1_src'' mux_gpll_cpll_p []
      (RV1106_CLKSEL_CON 27) 7 1 MFLAGS 2 5 DFLAGS (RV1106_CLKGATE_CON 3) 7 GFLAGS,
    COMPOSITE_FRACMUX CLK_REF_MIPI1_FRAC ''clk_ref_mipi1_frac'' ''clk_ref_mipi1_src'' [CLK_SET_RATE_PARENT]
      (RV1106_CLKSEL_CON 28) [] (RV1106_CLKGATE_CON 3) 8 GFLAGS rv1106_clk_ref_mipi1_fracmux,
    GATE MCLK_REF_MIPI1 ''mclk_ref_mipi1'' ''clk_ref_mipi1'' [] (RV1106_CLKGATE_CON 3) 9 GFLAGS]"

definition branches_top_2 :: "rockchip_clk_branch list" where
  "branches_top_2 = [
    COMPOSITE CLK_UART0_SRC ''clk_uart0_src'' mux_gpll_cpll_p []
      (RV1106_CLKSEL_CON 5) 5 1 MFLAGS 0 5 DFLAGS (RV1106_CLKGATE_CON 0) 11 GFLAGS,
    COMPOSITE_FRACMUX CLK_UART0_FRAC ''clk_uart0_frac'' ''clk_uart0_src'' [CLK_SET_RATE_PARENT]
      (RV1106_CLKSEL_CON 6) CLK_FRAC_DIVIDER_NO_LIMIT (RV1106_CLKGATE_CON 0) 12 GFLAGS rv1106_clk_uart0_fracmux,
    GATE SCLK_UART0 ''sclk_uart0'' ''clk_uart0'' [] (RV1106_CLKGATE_CON 0) 13 GFLAGS,
    COMPOSITE CLK_UART1_SRC ''clk_uart1_src'' mux_gpll_cpll_p []
      (RV1106_CLKSEL_CON 7) 7 1 MFLAGS 2 5 DFLAGS (RV1106_CLKGATE_CON 0) 14 GFLAGS,
    COMPOSITE_FRACMUX CLK_UART1_FRAC ''clk_uart1_frac'' ''clk_uart1_src'' [CLK_SET_RATE_PARENT]
      (RV1106_CLKSEL_CON 8) CLK_FRAC_DIVIDER_NO_LIMIT (RV1106_CLKGATE_CON 0) 15 GFLAGS rv1106_clk_uart1_fracmux,
    GATE SCLK_UART1 ''sclk_uart1'' ''clk_uart1'' [] (RV1106_CLKGATE_CON 1) 0 GFLAGS,
    COMPOSITE CLK_UART2_SRC ''clk_uart2_src'' mux_gpll_cpll_p []
      (RV1106_CLKSEL_CON 9) 7 1 MFLAGS 2 5 DFLAGS (RV1106_CLKGATE_CON 1) 1 GFLAGS,
    COMPOSITE_FRACMUX CLK_UART2_FRAC ''clk_uart2_frac'' ''clk_uart2_src'' [CLK_SET_RATE_PARENT]
      (RV1106_CLKSEL_CON 10) CLK_FRAC_DIVIDER_NO_LIMIT (RV1106_CLKGATE_CON 1) 2 GFLAGS rv1106_clk_uart2_fracmux,
    GATE SCLK_UART2 ''sclk_uart2'' ''clk_uart2'' [] (RV1106_CLKGATE_CON 1) 3 GFLAGS,
    COMPOSITE CLK_UART3_SRC ''clk_uart3_src'' mux_gpll_cpll_p []
      (RV1106_CLKSEL_CON 11) 7 1 MFLAGS 2 5 DFLAGS (RV1106_CLKGATE_CON 1) 4 GFLAGS,
    COMPOSITE_FRACMUX CLK_UART3_FRAC ''clk_uart3_frac'' ''clk_uart3_src'' [CLK_SET_RATE_PARENT]
      (RV1106_CLKSEL_CON 12) CLK_FRAC_DIVIDER_NO_LIMIT (RV1106_CLKGATE_CON 1) 5 GFLAGS rv1106_clk_uart3_fracmux,
    GATE SCLK_UART3 ''sclk_uart3'' ''clk_uart3'' [] (RV1106_CLKGATE_CON 1) 6 GFLAGS,
    COMPOSITE CLK_UART4_SRC ''clk_uart4_src'' mux_gpll_cpll_p []
      (RV1106_CLKSEL_CON 13) 7 1 MFLAGS 2 5 DFLAGS (RV1106_CLKGATE_CON 1) 7 GFLAGS,
    COMPOSITE_FRACMUX CLK_UART4_FRAC ''clk_uart4_frac'' ''clk_uart4_src'' [CLK_SET_RATE_PARENT]
      (RV1106_CLKSEL_CON 14) CLK_FRAC_DIVIDER_NO_LIMIT (RV1106_CLKGATE_CON 1) 8 GFLAGS rv1106_clk_uart4_fracmux,
    GATE SCLK_UART4 ''sclk_uart4'' ''clk_uart4'' [] (RV1106_CLKGATE_CON 1) 9 GFLAGS,
    COMPOSITE CLK_UART5_SRC ''clk_uart5_src'' mux_gpll_cpll_p []
      (RV1106_CLKSEL_CON 15) 7 1 MFLAGS 2 5 DFLAGS (RV1106_CLKGATE_CON 1) 10 GFLAGS,
    COMPOSITE_FRACMUX CLK_UART5_FRAC ''clk_uart5_frac'' ''clk_uart5_src'' [CLK_SET_RATE_PARENT]
      (RV1106_CLKSEL_CON 16) CLK_FRAC_DIVIDER_NO_LIMIT (RV1106_CLKGATE_CON 1) 11 GFLAGS rv1106_clk_uart5_fracmux,
    GATE SCLK_UART5 ''sclk_uart5'' ''clk_uart5'' [] (RV1106_CLKGATE_CON 1) 12 GFLAGS,
    COMPOSITE CLK_VICAP_M0_SRC ''clk_vicap_m0_src'' mux_gpll_cpll_p []
      (RV1106_CLKSEL_CON 29) 7 1 MFLAGS 2 5 DFLAGS (RV1106_CLKGATE_CON 3) 10 GFLAGS,
    COMPOSITE_FRACMUX CLK_VICAP_M0_FRAC ''clk_vicap_m0_frac'' ''clk_vicap_m0_src'' [CLK_SET_RATE_PARENT]
      (RV1106_CLKSEL_CON 30) [] (RV1106_CLKGATE_CON 3) 11 GFLAGS rv1106_clk_vicap_m0_fracmux,
    GATE SCLK_VICAP_M0 ''sclk_vicap_m0'' ''clk_vicap_m0'' [] (RV1106_CLKGATE_CON 3) 12 GFLAGS,
    COMPOSITE CLK_VICAP_M1_SRC ''clk_vicap_m1_src'' mux_gpll_cpll_p []
      (RV1106_CLKSEL_CON 31) 7 1 MFLAGS 2 5 DFLAGS (RV1106_CLKGATE_CON 3) 13 GFLAGS,
    COMPOSITE_FRACMUX CLK_VICAP_M1_FRAC ''clk_vicap_m1_frac'' ''clk_vicap_m1_src'' []
      (RV1106_CLKSEL_CON 32) [] (RV1106_CLKGATE_CON 3) 14 GFLAGS rv1106_clk_vicap_m1_fracmux,
    GATE SCLK_VICAP_M1 ''sclk_vicap_m1'' ''clk_vicap_m1'' [] (RV1106_CLKGATE_CON 3) 15 GFLAGS,
    COMPOSITE DCLK_VOP_SRC ''dclk_vop_src'' mux_gpll_cpll_p []
      (RV1106_CLKSEL_CON 23) 8 1 MFLAGS 3 5 DFLAGS (RV1106_CLKGATE_CON 2) 6 GFLAGS]"

definition branches_ddr :: "rockchip_clk_branch list" where
  "branches_ddr = [
    COMPOSITE_NODIV PCLK_DDR_ROOT ''pclk_ddr_root'' mux_100m_50m_24m_p [CLK_IS_CRITICAL]
      (RV1106_DDRCLKSEL_CON 0) 0 2 MFLAGS (RV1106_DDRCLKGATE_CON 0) 0 GFLAGS,
    COMPOSITE_NODIV ACLK_DDR_ROOT ''aclk_ddr_root'' mux_500m_300m_100m_24m_p [CLK_IS_CRITICAL]
      (RV1106_DDRCLKSEL_CON 0) 8 2 MFLAGS (RV1106_DDRCLKGATE_CON 0) 12 GFLAGS,
    GATE PCLK_DDRPHY ''pclk_ddrphy'' ''pclk_ddr_root'' [CLK_IGNORE_UNUSED] (RV1106_DDRCLKGATE_CON 1) 3 GFLAGS,
    GATE PCLK_DDR_HWLP ''pclk_ddr_hwlp'' ''pclk_ddr_root'' [CLK_IGNORE_UNUSED]
      (RV1106_DDRCLKGATE_CON 1) 2 GFLAGS,
    GATE PCLK_DDRMON ''pclk_ddrmon'' ''pclk_ddr_root'' [] (RV1106_DDRCLKGATE_CON 0) 7 GFLAGS,
    GATE CLK_TIMER_DDRMON ''clk_timer_ddrmon'' ''xin24m'' [] (RV1106_DDRCLKGATE_CON 0) 8 GFLAGS,
    GATE PCLK_DDRC ''pclk_ddrc'' ''pclk_ddr_root'' [CLK_IGNORE_UNUSED] (RV1106_DDRCLKGATE_CON 0) 5 GFLAGS,
    GATE PCLK_DFICTRL ''pclk_dfictrl'' ''pclk_ddr_root'' [CLK_IS_CRITICAL] (RV1106_DDRCLKGATE_CON 0) 11 GFLAGS,
    GATE ACLK_SYS_SHRM ''aclk_sys_shrm'' ''aclk_ddr_root'' [CLK_IS_CRITICAL]
      (RV1106_DDRCLKGATE_CON 0) 13 GFLAGS]"

definition branches_npu :: "rockchip_clk_branch list" where
  "branches_npu = [
    COMPOSITE_NODIV HCLK_NPU_ROOT ''hclk_npu_root'' mux_150m_100m_50m_24m_p [CLK_IS_CRITICAL]
      (RV1106_NPUCLKSEL_CON 0) 0 2 MFLAGS (RV1106_NPUCLKGATE_CON 0) 0 GFLAGS,
    COMPOSITE_NODIV ACLK_NPU_ROOT ''aclk_npu_root'' mux_500m_300m_pvtpll0_pvtpll1_p [CLK_IS_CRITICAL]
      (RV1106_NPUCLKSEL_CON 0) 2 2 MFLAGS (RV1106_NPUCLKGATE_CON 0) 1 GFLAGS,
    COMPOSITE_NODIV PCLK_NPU_ROOT ''pclk_npu_root'' mux_100m_50m_24m_p [CLK_IS_CRITICAL]
      (RV1106_NPUCLKSEL_CON 0) 4 2 MFLAGS (RV1106_NPUCLKGATE_CON 0) 2 GFLAGS,
    GATE HCLK_RKNN ''hclk_rknn'' ''hclk_npu_root'' [] (RV1106_NPUCLKGATE_CON 0) 9 GFLAGS,
    GATE ACLK_RKNN ''aclk_rknn'' ''aclk_npu_root'' [] (RV1106_NPUCLKGATE_CON 0) 10 GFLAGS]"

definition branches_peri_1 :: "rockchip_clk_branch list" where
  "branches_peri_1 = [
    COMPOSITE_NODIV PCLK_PERI_ROOT ''pclk_peri_root'' mux_100m_50m_24m_p [CLK_IS_CRITICAL]
      (RV1106_PERICLKSEL_CON 1) 0 2 MFLAGS (RV1106_PERICLKGATE_CON 0) 0 GFLAGS,
    COMPOSITE_NODIV ACLK_PERI_ROOT ''aclk_peri_root'' mux_400m_200m_100m_24m_p [CLK_IS_CRITICAL]
      (RV1106_PERICLKSEL_CON 1) 2 2 MFLAGS (RV1106_PERICLKGATE_CON 0) 1 GFLAGS,
    COMPOSITE_NODIV HCLK_PERI_ROOT ''hclk_peri_root'' mux_200m_100m_50m_24m_p [CLK_IS_CRITICAL]
      (RV1106_PERICLKSEL_CON 1) 4 2 MFLAGS (RV1106_PERICLKGATE_CON 0) 2 GFLAGS,
    COMPOSITE_NODIV ACLK_BUS_ROOT ''aclk_bus_root'' mux_300m_200m_100m_24m_p [CLK_IS_CRITICAL]
      (RV1106_PERICLKSEL_CON 9) 0 2 MFLAGS (RV1106_PERICLKGATE_CON 6) 8 GFLAGS,
    GATE PCLK_ACODEC ''pclk_acodec'' ''pclk_peri_root'' [] (RV1106_PERICLKGATE_CON 6) 3 GFLAGS,
    COMPOSITE_NOMUX MCLK_ACODEC_TX ''mclk_acodec_tx'' ''mclk_i2s0_8ch_tx'' []
      (RV1106_PERICLKSEL_CON 8) 0 8 DFLAGS (RV1106_PERICLKGATE_CON 6) 4 GFLAGS,
    COMPOSITE_NODIV CLK_CORE_CRYPTO ''clk_core_crypto'' mux_300m_200m_100m_24m_p []
      (RV1106_PERICLKSEL_CON 6) 5 2 MFLAGS (RV1106_PERICLKGATE_CON 3) 11 GFLAGS,
    COMPOSITE_NODIV CLK_PKA_CRYPTO ''clk_pka_crypto'' mux_300m_200m_100m_24m_p []
      (RV1106_PERICLKSEL_CON 6) 7 2 MFLAGS (RV1106_PERICLKGATE_CON 3) 12 GFLAGS,
    GATE ACLK_CRYPTO ''aclk_crypto'' ''aclk_bus_root'' [] (RV1106_PERICLKGATE_CON 3) 13 GFLAGS,
    GATE HCLK_CRYPTO ''hclk_crypto'' ''hclk_peri_root'' [] (RV1106_PERICLKGATE_CON 3) 14 GFLAGS,
    GATE ACLK_DECOM ''aclk_decom'' ''aclk_peri_root'' [] (RV1106_PERICLKGATE_CON 5) 9 GFLAGS,
    GATE PCLK_DECOM ''pclk_decom'' ''pclk_peri_root'' [] (RV1106_PERICLKGATE_CON 5) 10 GFLAGS,
    COMPOSITE_NODIV DCLK_DECOM ''dclk_decom'' mux_400m_200m_100m_24m_p []
      (RV1106_PERICLKSEL_CON 7) 14 2 MFLAGS (RV1106_PERICLKGATE_CON 5) 11 GFLAGS,
    GATE ACLK_DMAC ''aclk_dmac'' ''aclk_bus_root'' [] (RV1106_PERICLKGATE_CON 5) 8 GFLAGS,
    GATE PCLK_DSM ''pclk_dsm'' ''pclk_peri_root'' [] (RV1106_PERICLKGATE_CON 6) 2 GFLAGS,
    GATE MCLK_DSM ''mclk_dsm'' ''mclk_i2s0_8ch_tx'' [] (RV1106_PERICLKGATE_CON 6) 1 GFLAGS,
    COMPOSITE CCLK_SRC_EMMC ''cclk_src_emmc'' mux_400m_24m_p []
      (RV1106_PERICLKSEL_CON 7) 6 1 MFLAGS 0 6 DFLAGS (RV1106_PERICLKGATE_CON 4) 12 GFLAGS,
    GATE HCLK_EMMC ''hclk_emmc'' ''hclk_peri_root'' [] (RV1106_PERICLKGATE_CON 4) 13 GFLAGS,
    GATE PCLK_GPIO4 ''pclk_gpio4'' ''pclk_peri_root'' [] (RV1106_PERICLKGATE_CON 2) 0 GFLAGS,
    GATE DBCLK_GPIO4 ''dbclk_gpio4'' ''xin24m'' [] (RV1106_PERICLKGATE_CON 2) 1 GFLAGS,
    GATE PCLK_I2C0 ''pclk_i2c0'' ''pclk_peri_root'' [] (RV1106_PERICLKGATE_CON 1) 6 GFLAGS,
    COMPOSITE_NODIV CLK_I2C0 ''clk_i2c0'' mux_200m_100m_50m_24m_p []
      (RV1106_PERICLKSEL_CON 1) 8 2 MFLAGS (RV1106_PERICLKGATE_CON 1) 7 GFLAGS,
    GATE PCLK_I2C2 ''pclk_i2c2'' ''pclk_peri_root'' [] (RV1106_PERICLKGATE_CON 1) 10 GFLAGS,
    COMPOSITE_NODIV CLK_I2C2 ''clk_i2c2'' mux_200m_100m_50m_24m_p []
      (RV1106_PERICLKSEL_CON 1) 12 2 MFLAGS (RV1106_PERICLKGATE_CON 1) 11 GFLAGS,
    GATE PCLK_I2C3 ''pclk_i2c3'' ''pclk_peri_root'' [] (RV1106_PERICLKGATE_CON 1) 12 GFLAGS,
    COMPOSITE_NODIV CLK_I2C3 ''clk_i2c3'' mux_200m_100m_50m_24m_p []
      (RV1106_PERICLKSEL_CON 1) 14 2 MFLAGS (RV1106_PERICLKGATE_CON 1) 13 GFLAGS,
    GATE PCLK_I2C4 ''pclk_i2c4'' ''pclk_peri_root'' [] (RV1106_PERICLKGATE_CON 1) 14 GFLAGS,
    COMPOSITE_NODIV CLK_I2C4 ''clk_i2c4'' mux_200m_100m_50m_24m_p []
      (RV1106_PERICLKSEL_CON 2) 0 2 MFLAGS (RV1106_PERICLKGATE_CON 1) 15 GFLAGS,
    GATE HCLK_I2S0 ''hclk_i2s0'' ''hclk_peri_root'' [] (RV1106_PERICLKGATE_CON 6) 0 GFLAGS,
    GATE PCLK_DFT2APB ''pclk_dft2apb'' ''pclk_peri_root'' [CLK_IGNORE_UNUSED]
      (RV1106_PERICLKGATE_CON 6) 7 GFLAGS,
    GATE HCLK_IVE ''hclk_ive'' ''hclk_peri_root'' [] (RV1106_PERICLKGATE_CON 6) 9 GFLAGS,
    GATE ACLK_IVE ''aclk_ive'' ''aclk_peri_root'' [] (RV1106_PERICLKGATE_CON 6) 10 GFLAGS,
    GATE PCLK_PWM0_PERI ''pclk_pwm0_peri'' ''pclk_peri_root'' [] (RV1106_PERICLKGATE_CON 7) 3 GFLAGS,
    COMPOSITE_NODIV CLK_PWM0_PERI ''clk_pwm0_peri'' mux_100m_50m_24m_p []
      (RV1106_PERICLKSEL_CON 11) 0 2 MFLAGS (RV1106_PERICLKGATE_CON 7) 4 GFLAGS,
    GATE CLK_CAPTURE_PWM0_PERI ''clk_capture_pwm0_peri'' ''xin24m'' [] (RV1106_PERICLKGATE_CON 7) 5 GFLAGS,
    GATE CLK_TIMER_ROOT ''clk_timer_root'' ''xin24m'' [] (RV1106_PERICLKGATE_CON 0) 3 GFLAGS,
    GATE HCLK_SFC ''hclk_sfc'' ''hclk_peri_root'' [] (RV1106_PERICLKGATE_CON 4) 14 GFLAGS]"

definition branches_peri_2 :: "rockchip_clk_branch list" where
  "branches_peri_2 = [
    COMPOSITE SCLK_SFC ''sclk_sfc'' mux_500m_300m_200m_24m_p []
      (RV1106_PERICLKSEL_CON 7) 12 2 MFLAGS 7 5 DFLAGS (RV1106_PERICLKGATE_CON 5) 0 GFLAGS,
    GATE PCLK_UART0 ''pclk_uart0'' ''pclk_peri_root'' [] (RV1106_PERICLKGATE_CON 6) 11 GFLAGS,
    GATE PCLK_UART1 ''pclk_uart1'' ''pclk_peri_root'' [] (RV1106_PERICLKGATE_CON 6) 15 GFLAGS,
    GATE PCLK_PWM1_PERI ''pclk_pwm1_peri'' ''pclk_peri_root'' [] (RV1106_PERICLKGATE_CON 3) 15 GFLAGS,
    COMPOSITE_NODIV CLK_PWM1_PERI ''clk_pwm1_peri'' mux_100m_50m_24m_p []
      (RV1106_PERICLKSEL_CON 6) 9 2 MFLAGS (RV1106_PERICLKGATE_CON 4) 0 GFLAGS,
    GATE CLK_CAPTURE_PWM1_PERI ''clk_capture_pwm1_peri'' ''xin24m'' [] (RV1106_PERICLKGATE_CON 4) 1 GFLAGS,
    GATE PCLK_PWM2_PERI ''pclk_pwm2_peri'' ''pclk_peri_root'' [] (RV1106_PERICLKGATE_CON 4) 2 GFLAGS,
    COMPOSITE_NODIV CLK_PWM2_PERI ''clk_pwm2_peri'' mux_100m_50m_24m_p []
      (RV1106_PERICLKSEL_CON 6) 11 2 MFLAGS (RV1106_PERICLKGATE_CON 4) 3 GFLAGS,
    GATE CLK_CAPTURE_PWM2_PERI ''clk_capture_pwm2_peri'' ''xin24m'' [] (RV1106_PERICLKGATE_CON 4) 4 GFLAGS,
    GATE HCLK_BOOTROM ''hclk_bootrom'' ''hclk_peri_root'' [] (RV1106_PERICLKGATE_CON 0) 7 GFLAGS,
    GATE HCLK_SAI ''hclk_sai'' ''hclk_peri_root'' [] (RV1106_PERICLKGATE_CON 5) 13 GFLAGS,
    GATE MCLK_SAI ''mclk_sai'' ''mclk_i2s0_8ch_tx'' [] (RV1106_PERICLKGATE_CON 5) 14 GFLAGS,
    GATE PCLK_SARADC ''pclk_saradc'' ''pclk_peri_root'' [] (RV1106_PERICLKGATE_CON 3) 3 GFLAGS,
    COMPOSITE_NOMUX CLK_SARADC ''clk_saradc'' ''xin24m'' []
      (RV1106_PERICLKSEL_CON 6) 0 3 DFLAGS (RV1106_PERICLKGATE_CON 3) 4 GFLAGS,
    GATE PCLK_SPI1 ''pclk_spi1'' ''pclk_peri_root'' [] (RV1106_PERICLKGATE_CON 3) 6 GFLAGS,
    COMPOSITE_NODIV CLK_SPI1 ''clk_spi1'' mux_200m_100m_50m_24m_p []
      (RV1106_PERICLKSEL_CON 6) 3 2 MFLAGS (RV1106_PERICLKGATE_CON 3) 7 GFLAGS,
    GATE PCLK_STIMER ''pclk_stimer'' ''pclk_peri_root'' [] (RV1106_PERICLKGATE_CON 0) 15 GFLAGS,
    GATE CLK_STIMER0 ''clk_stimer0'' ''clk_timer_root'' [] (RV1106_PERICLKGATE_CON 1) 0 GFLAGS,
    GATE CLK_STIMER1 ''clk_stimer1'' ''clk_timer_root'' [] (RV1106_PERICLKGATE_CON 1) 1 GFLAGS,
    GATE PCLK_TIMER ''pclk_timer'' ''pclk_peri_root'' [] (RV1106_PERICLKGATE_CON 0) 8 GFLAGS,
    GATE CLK_TIMER0 ''clk_timer0'' ''clk_timer_root'' [] (RV1106_PERICLKGATE_CON 0) 9 GFLAGS,
    GATE CLK_TIMER1 ''clk_timer1'' ''clk_timer_root'' [] (RV1106_PERICLKGATE_CON 0) 10 GFLAGS,
    GATE CLK_TIMER2 ''clk_timer2'' ''clk_timer_root'' [] (RV1106_PERICLKGATE_CON 0) 11 GFLAGS,
    GATE CLK_TIMER3 ''clk_timer3'' ''clk_timer_root'' [] (RV1106_PERICLKGATE_CON 0) 12 GFLAGS,
    GATE CLK_TIMER4 ''clk_timer4'' ''clk_timer_root'' [] (RV1106_PERICLKGATE_CON 0) 13 GFLAGS,
    GATE CLK_TIMER5 ''clk_timer5'' ''clk_timer_root'' [] (RV1106_PERICLKGATE_CON 0) 14 GFLAGS,
    GATE HCLK_TRNG_NS ''hclk_trng_ns'' ''hclk_peri_root'' [] (RV1106_PERICLKGATE_CON 3) 9 GFLAGS,
    GATE HCLK_TRNG_S ''hclk_trng_s'' ''hclk_peri_root'' [] (RV1106_PERICLKGATE_CON 3) 10 GFLAGS,
    GATE PCLK_UART2 ''pclk_uart2'' ''pclk_peri_root'' [] (RV1106_PERICLKGATE_CON 2) 3 GFLAGS,
    GATE PCLK_UART3 ''pclk_uart3'' ''pclk_peri_root'' [] (RV1106_PERICLKGATE_CON 2) 7 GFLAGS,
    GATE PCLK_UART4 ''pclk_uart4'' ''pclk_peri_root'' [] (RV1106_PERICLKGATE_CON 2) 11 GFLAGS,
    GATE PCLK_UART5 ''pclk_uart5'' ''pclk_peri_root'' [] (RV1106_PERICLKGATE_CON 2) 15 GFLAGS,
    GATE ACLK_USBOTG ''aclk_usbotg'' ''aclk_bus_root'' [] (RV1106_PERICLKGATE_CON 4) 7 GFLAGS,
    GATE CLK_REF_USBOTG ''clk_ref_usbotg'' ''xin24m'' [] (RV1106_PERICLKGATE_CON 4) 8 GFLAGS,
    GATE PCLK_USBPHY ''pclk_usbphy'' ''pclk_peri_root'' [] (RV1106_PERICLKGATE_CON 5) 1 GFLAGS,
    GATE CLK_REF_USBPHY ''clk_ref_usbphy'' ''xin24m'' [] (RV1106_PERICLKGATE_CON 5) 2 GFLAGS,
    GATE PCLK_WDT_NS ''pclk_wdt_ns'' ''pclk_peri_root'' [] (RV1106_PERICLKGATE_CON 1) 2 GFLAGS,
    GATE TCLK_WDT_NS ''tclk_wdt_ns'' ''xin24m'' [] (RV1106_PERICLKGATE_CON 1) 3 GFLAGS,
    GATE PCLK_WDT_S ''pclk_wdt_s'' ''pclk_peri_root'' [] (RV1106_PERICLKGATE_CON 1) 4 GFLAGS,
    GATE TCLK_WDT_S ''tclk_wdt_s'' ''xin24m'' [] (RV1106_PERICLKGATE_CON 1) 5 GFLAGS]"

definition branches_pmu :: "rockchip_clk_branch list" where
  "branches_pmu = [
    COMPOSITE_FRACMUX 0 ''clk_rtc32k_frac'' ''xin24m'' [CLK_IGNORE_UNUSED]
      (RV1106_PMUCLKSEL_CON 6) [] (RV1106_PMUCLKGATE_CON 1) 14 GFLAGS rv1106_rtc32k_pmu_fracmux,
    DIV CLK_100M_PMU ''clk_100m_pmu'' ''clk_200m_src'' [] (RV1106_PMUCLKSEL_CON 0) 0 3 DFLAGS,
    COMPOSITE_NODIV PCLK_PMU_ROOT ''pclk_pmu_root'' mux_100m_pmu_24m_p [CLK_IS_CRITICAL]
      (RV1106_PMUCLKSEL_CON 0) 3 1 MFLAGS (RV1106_PMUCLKGATE_CON 0) 1 GFLAGS,
    COMPOSITE_NODIV HCLK_PMU_ROOT ''hclk_pmu_root'' mux_200m_100m_24m_p [CLK_IS_CRITICAL]
      (RV1106_PMUCLKSEL_CON 0) 4 2 MFLAGS (RV1106_PMUCLKGATE_CON 0) 2 GFLAGS,
    GATE CLK_PMU ''clk_pmu'' ''xin24m'' [CLK_IS_CRITICAL] (RV1106_PMUCLKGATE_CON 1) 0 GFLAGS,
    GATE PCLK_PMU ''pclk_pmu'' ''pclk_pmu_root'' [CLK_IS_CRITICAL] (RV1106_PMUCLKGATE_CON 1) 1 GFLAGS,
    GATE CLK_DDR_FAIL_SAFE ''clk_ddr_fail_safe'' ''clk_pmu'' [] (RV1106_PMUCLKGATE_CON 1) 15 GFLAGS,
    GATE PCLK_PMU_GPIO0 ''pclk_pmu_gpio0'' ''pclk_pmu_root'' [] (RV1106_PMUCLKGATE_CON 1) 2 GFLAGS,
    COMPOSITE_NODIV DBCLK_PMU_GPIO0 ''dbclk_pmu_gpio0'' mux_24m_32k_p []
      (RV1106_PMUCLKSEL_CON 0) 15 1 MFLAGS (RV1106_PMUCLKGATE_CON 1) 3 GFLAGS,
    GATE PCLK_I2C1 ''pclk_i2c1'' ''pclk_pmu_root'' [] (RV1106_PMUCLKGATE_CON 0) 3 GFLAGS,
    COMPOSITE_NODIV CLK_I2C1 ''clk_i2c1'' mux_200m_100m_24m_32k_p []
      (RV1106_PMUCLKSEL_CON 0) 6 2 MFLAGS (RV1106_PMUCLKGATE_CON 0) 4 GFLAGS,
    GATE PCLK_PMU_MAILBOX ''pclk_pmu_mailbox'' ''pclk_pmu_root'' [] (RV1106_PMUCLKGATE_CON 2) 10 GFLAGS,
    GATE CLK_PMU_MCU ''clk_pmu_mcu'' ''hclk_pmu_root'' [] (RV1106_PMUCLKGATE_CON 0) 9 GFLAGS,
    GATE CLK_PMU_MCU_RTC ''clk_pmu_mcu_rtc'' ''xin24m'' [] (RV1106_PMUCLKGATE_CON 0) 13 GFLAGS,
    COMPOSITE_NOMUX CLK_PVTM_PMU ''clk_pvtm_pmu'' ''xin24m'' []
      (RV1106_PMUCLKSEL_CON 1) 0 5 DFLAGS (RV1106_PMUCLKGATE_CON 1) 4 GFLAGS,
    GATE PCLK_PVTM_PMU ''pclk_pvtm_pmu'' ''pclk_pmu_root'' [] (RV1106_PMUCLKGATE_CON 1) 5 GFLAGS,
    GATE CLK_REFOUT ''clk_refout'' ''xin24m'' [] (RV1106_PMUCLKGATE_CON 2) 13 GFLAGS,
    GATE HCLK_PMU_SRAM ''hclk_pmu_sram'' ''hclk_pmu_root'' [CLK_IGNORE_UNUSED]
      (RV1106_PMUCLKGATE_CON 0) 8 GFLAGS,
    GATE PCLK_PMU_WDT ''pclk_pmu_wdt'' ''pclk_pmu_root'' [] (RV1106_PMUCLKGATE_CON 2) 8 GFLAGS,
    COMPOSITE_NODIV TCLK_PMU_WDT ''tclk_pmu_wdt'' mux_24m_32k_p []
      (RV1106_PMUCLKSEL_CON 7) 2 1 MFLAGS (RV1106_PMUCLKGATE_CON 2) 9 GFLAGS]"

definition branches_subddr :: "rockchip_clk_branch list" where
  "branches_subddr = [
    COMPOSITE CLK_CORE_DDRC_SRC ''clk_core_ddrc_src'' mux_dpll_300m_p [CLK_IGNORE_UNUSED]
      (RV1106_SUBDDRCLKSEL_CON 0) 5 1 MFLAGS 0 5 DFLAGS (RV1106_SUBDDRCLKGATE_CON 0) 2 GFLAGS,
    GATE CLK_DFICTRL ''clk_dfictrl'' ''clk_core_ddrc_src'' [CLK_IGNORE_UNUSED]
      (RV1106_SUBDDRCLKGATE_CON 0) 5 GFLAGS,
    GATE CLK_DDRMON ''clk_ddrmon'' ''clk_core_ddrc_src'' [CLK_IGNORE_UNUSED]
      (RV1106_SUBDDRCLKGATE_CON 0) 4 GFLAGS,
    GATE CLK_DDR_PHY ''clk_ddr_phy'' ''clk_core_ddrc_src'' [CLK_IGNORE_UNUSED]
      (RV1106_SUBDDRCLKGATE_CON 0) 6 GFLAGS,
    GATE ACLK_DDRC ''aclk_ddrc'' ''clk_core_ddrc_src'' [CLK_IS_CRITICAL] (RV1106_SUBDDRCLKGATE_CON 0) 1 GFLAGS,
    GATE CLK_CORE_DDRC ''clk_core_ddrc'' ''clk_core_ddrc_src'' [CLK_IS_CRITICAL]
      (RV1106_SUBDDRCLKGATE_CON 0) 3 GFLAGS]"

definition branches_vepu :: "rockchip_clk_branch list" where
  "branches_vepu = [
    COMPOSITE_NODIV HCLK_VEPU_ROOT ''hclk_vepu_root'' mux_200m_100m_50m_24m_p [CLK_IS_CRITICAL]
      (RV1106_VEPUCLKSEL_CON 0) 0 2 MFLAGS (RV1106_VEPUCLKGATE_CON 0) 0 GFLAGS,
    COMPOSITE_NODIV ACLK_VEPU_COM_ROOT ''aclk_vepu_com_root'' mux_400m_200m_100m_24m_p [CLK_IS_CRITICAL]
      (RV1106_VEPUCLKSEL_CON 0) 2 2 MFLAGS (RV1106_VEPUCLKGATE_CON 0) 1 GFLAGS,
    COMPOSITE_NODIV ACLK_VEPU_ROOT ''aclk_vepu_root'' mux_300m_200m_100m_24m_p [CLK_IS_CRITICAL]
      (RV1106_VEPUCLKSEL_CON 0) 4 2 MFLAGS (RV1106_VEPUCLKGATE_CON 0) 2 GFLAGS,
    COMPOSITE_NODIV PCLK_VEPU_ROOT ''pclk_vepu_root'' mux_100m_50m_24m_p [CLK_IS_CRITICAL]
      (RV1106_VEPUCLKSEL_CON 0) 6 2 MFLAGS (RV1106_VEPUCLKGATE_CON 0) 3 GFLAGS,
    GATE PCLK_SPI0 ''pclk_spi0'' ''pclk_vepu_root'' [] (RV1106_VEPUCLKGATE_CON 1) 2 GFLAGS,
    COMPOSITE_NODIV CLK_SPI0 ''clk_spi0'' mux_200m_100m_50m_24m_p []
      (RV1106_VEPUCLKSEL_CON 0) 12 2 MFLAGS (RV1106_VEPUCLKGATE_CON 1) 3 GFLAGS,
    GATE CLK_UART_DETN_FLT ''clk_uart_detn_flt'' ''xin24m'' [] (RV1106_VEPUCLKGATE_CON 1) 8 GFLAGS,
    GATE HCLK_VEPU ''hclk_vepu'' ''hclk_vepu_root'' [] (RV1106_VEPUCLKGATE_CON 0) 8 GFLAGS,
    GATE ACLK_VEPU ''aclk_vepu'' ''aclk_vepu_root'' [] (RV1106_VEPUCLKGATE_CON 0) 9 GFLAGS,
    COMPOSITE_NODIV CLK_CORE_VEPU ''clk_core_vepu'' mux_400m_300m_pvtpll0_pvtpll1_p []
      (RV1106_VEPUCLKSEL_CON 0) 8 2 MFLAGS (RV1106_VEPUCLKGATE_CON 0) 10 GFLAGS,
    COMPOSITE_NODIV CLK_CORE_VEPU_DVBM ''clk_core_vepu_dvbm'' mux_200m_100m_50m_24m_p []
      (RV1106_VEPUCLKSEL_CON 0) 10 2 MFLAGS (RV1106_VEPUCLKGATE_CON 0) 13 GFLAGS,
    GATE PCLK_GPIO1 ''pclk_gpio1'' ''pclk_vepu_root'' [] (RV1106_VEPUCLKGATE_CON 0) 15 GFLAGS,
    GATE DBCLK_GPIO1 ''dbclk_gpio1'' ''xin24m'' [] (RV1106_VEPUCLKGATE_CON 1) 0 GFLAGS,
    GATE HCLK_VEPU_PP ''hclk_vepu_pp'' ''hclk_vepu_root'' [] (RV1106_VEPUCLKGATE_CON 0) 11 GFLAGS,
    GATE ACLK_VEPU_PP ''aclk_vepu_pp'' ''aclk_vepu_root'' [] (RV1106_VEPUCLKGATE_CON 0) 12 GFLAGS]"

definition branches_vi :: "rockchip_clk_branch list" where
  "branches_vi = [
    COMPOSITE_NODIV HCLK_VI_ROOT ''hclk_vi_root'' mux_150m_100m_50m_24m_p [CLK_IS_CRITICAL]
      (RV1106_VICLKSEL_CON 0) 0 2 MFLAGS (RV1106_VICLKGATE_CON 0) 0 GFLAGS,
    COMPOSITE_NODIV ACLK_VI_ROOT ''aclk_vi_root'' mux_339m_200m_100m_24m_p [CLK_IS_CRITICAL]
      (RV1106_VICLKSEL_CON 0) 2 2 MFLAGS (RV1106_VICLKGATE_CON 0) 1 GFLAGS,
    COMPOSITE_NODIV PCLK_VI_ROOT ''pclk_vi_root'' mux_150m_100m_50m_24m_p [CLK_IS_CRITICAL]
      (RV1106_VICLKSEL_CON 0) 4 2 MFLAGS (RV1106_VICLKGATE_CON 0) 2 GFLAGS,
    COMPOSITE_NODIV PCLK_VI_RTC_ROOT ''pclk_vi_rtc_root'' mux_50m_24m_p []
      (RV1106_VICLKSEL_CON 0) 6 1 MFLAGS (RV1106_VICLKGATE_CON 0) 3 GFLAGS,
    GATE PCLK_CSIHOST0 ''pclk_csihost0'' ''pclk_vi_root'' [] (RV1106_VICLKGATE_CON 1) 3 GFLAGS,
    GATE PCLK_CSIHOST1 ''pclk_csihost1'' ''pclk_vi_root'' [] (RV1106_VICLKGATE_CON 1) 5 GFLAGS,
    GATE PCLK_GPIO3 ''pclk_gpio3'' ''pclk_vi_root'' [] (RV1106_VICLKGATE_CON 1) 15 GFLAGS,
    GATE DBCLK_GPIO3 ''dbclk_gpio3'' ''xin24m'' [] (RV1106_VICLKGATE_CON 2) 0 GFLAGS,
    GATE HCLK_ISP3P2 ''hclk_isp3p2'' ''hclk_vi_root'' [] (RV1106_VICLKGATE_CON 0) 7 GFLAGS,
    GATE ACLK_ISP3P2 ''aclk_isp3p2'' ''aclk_vi_root'' [] (RV1106_VICLKGATE_CON 0) 8 GFLAGS,
    COMPOSITE_NODIV CLK_CORE_ISP3P2 ''clk_core_isp3p2'' mux_339m_200m_pvtpll0_pvtpll1_p []
      (RV1106_VICLKSEL_CON 0) 7 2 MFLAGS (RV1106_VICLKGATE_CON 0) 9 GFLAGS,
    GATE PCLK_MIPICSIPHY ''pclk_mipicsiphy'' ''pclk_vi_root'' [] (RV1106_VICLKGATE_CON 1) 14 GFLAGS,
    COMPOSITE CCLK_SRC_SDMMC ''cclk_src_sdmmc'' mux_400m_24m_p []
      (RV1106_VICLKSEL_CON 1) 14 1 MFLAGS 8 6 DFLAGS (RV1106_VICLKGATE_CON 1) 11 GFLAGS,
    GATE HCLK_SDMMC ''hclk_sdmmc'' ''hclk_vi_root'' [] (RV1106_VICLKGATE_CON 1) 12 GFLAGS,
    GATE CLK_SDMMC_DETN_FLT ''clk_sdmmc_detn_flt'' ''xin24m'' [] (RV1106_VICLKGATE_CON 1) 13 GFLAGS,
    GATE PCLK_VI_RTC_TEST ''pclk_vi_rtc_test'' ''pclk_vi_rtc_root'' [] (RV1106_VICLKGATE_CON 2) 5 GFLAGS,
    GATE PCLK_VI_RTC_PHY ''pclk_vi_rtc_phy'' ''pclk_vi_rtc_root'' [] (RV1106_VICLKGATE_CON 2) 6 GFLAGS,
    COMPOSITE_NODIV DCLK_VICAP ''dclk_vicap'' mux_339m_200m_100m_24m_p []
      (RV1106_VICLKSEL_CON 0) 9 2 MFLAGS (RV1106_VICLKGATE_CON 0) 10 GFLAGS,
    GATE ACLK_VICAP ''aclk_vicap'' ''aclk_vi_root'' [] (RV1106_VICLKGATE_CON 0) 12 GFLAGS,
    GATE HCLK_VICAP ''hclk_vicap'' ''hclk_vi_root'' [] (RV1106_VICLKGATE_CON 0) 13 GFLAGS]"

definition branches_vo :: "rockchip_clk_branch list" where
  "branches_vo = [
    COMPOSITE_NODIV ACLK_MAC_ROOT ''aclk_mac_root'' mux_300m_200m_100m_24m_p []
      (RV1106_VOCLKSEL_CON 1) 12 2 MFLAGS (RV1106_VOCLKGATE_CON 1) 4 GFLAGS,
    COMPOSITE_NODIV ACLK_VO_ROOT ''aclk_vo_root'' mux_400m_200m_100m_24m_p [CLK_IS_CRITICAL]
      (RV1106_VOCLKSEL_CON 0) 0 2 MFLAGS (RV1106_VOCLKGATE_CON 0) 0 GFLAGS,
    COMPOSITE_NODIV HCLK_VO_ROOT ''hclk_vo_root'' mux_200m_100m_50m_24m_p [CLK_IS_CRITICAL]
      (RV1106_VOCLKSEL_CON 0) 2 2 MFLAGS (RV1106_VOCLKGATE_CON 0) 1 GFLAGS,
    COMPOSITE_NODIV PCLK_VO_ROOT ''pclk_vo_root'' mux_150m_100m_50m_24m_p [CLK_IS_CRITICAL]
      (RV1106_VOCLKSEL_CON 0) 4 2 MFLAGS (RV1106_VOCLKGATE_CON 0) 2 GFLAGS,
    COMPOSITE_NODIV ACLK_VOP_ROOT ''aclk_vop_root'' mux_300m_200m_100m_24m_p []
      (RV1106_VOCLKSEL_CON 1) 10 2 MFLAGS (RV1106_VOCLKGATE_CON 0) 11 GFLAGS,
    GATE PCLK_GPIO2 ''pclk_gpio2'' ''pclk_vo_root'' [] (RV1106_VOCLKGATE_CON 3) 0 GFLAGS,
    GATE DBCLK_GPIO2 ''dbclk_gpio2'' ''xin24m'' [] (RV1106_VOCLKGATE_CON 3) 1 GFLAGS,
    GATE ACLK_MAC ''aclk_mac'' ''aclk_mac_root'' [] (RV1106_VOCLKGATE_CON 1) 8 GFLAGS,
    GATE PCLK_MAC ''pclk_mac'' ''pclk_vo_root'' [] (RV1106_VOCLKGATE_CON 1) 9 GFLAGS,
    FACTOR CLK_GMAC0_50M_O ''clk_gmac0_50m_o'' ''clk_50m_src'' [] 1 1,
    FACTOR CLK_GMAC0_REF_50M ''clk_gmac0_ref_50m'' ''clk_gmac0_50m_o'' [] 1 1,
    DIV CLK_GMAC0_TX_50M_O ''clk_gmac0_tx_50m_o'' ''clk_gmac0_50m_o'' [] (RV1106_VOCLKSEL_CON 2) 1 6 DFLAGS,
    GATE CLK_MACPHY ''clk_macphy'' ''xin24m'' [] (RV1106_VOCLKGATE_CON 2) 13 GFLAGS,
    GATE CLK_OTPC_ARB ''clk_otpc_arb'' ''xin24m'' [] (RV1106_VOCLKGATE_CON 2) 11 GFLAGS,
    GATE PCLK_OTPC_NS ''pclk_otpc_ns'' ''pclk_vo_root'' [] (RV1106_VOCLKGATE_CON 2) 3 GFLAGS,
    GATE CLK_SBPI_OTPC_NS ''clk_sbpi_otpc_ns'' ''xin24m'' [] (RV1106_VOCLKGATE_CON 2) 5 GFLAGS,
    COMPOSITE_NOMUX CLK_USER_OTPC_NS ''clk_user_otpc_ns'' ''xin24m'' []
      (RV1106_VOCLKSEL_CON 3) 10 3 DFLAGS (RV1106_VOCLKGATE_CON 2) 6 GFLAGS,
    GATE PCLK_OTPC_S ''pclk_otpc_s'' ''pclk_vo_root'' [] (RV1106_VOCLKGATE_CON 2) 7 GFLAGS,
    GATE CLK_SBPI_OTPC_S ''clk_sbpi_otpc_s'' ''xin24m'' [] (RV1106_VOCLKGATE_CON 2) 9 GFLAGS,
    COMPOSITE_NOMUX CLK_USER_OTPC_S ''clk_user_otpc_s'' ''xin24m'' []
      (RV1106_VOCLKSEL_CON 3) 13 3 DFLAGS (RV1106_VOCLKGATE_CON 2) 10 GFLAGS,
    GATE PCLK_OTP_MASK ''pclk_otp_mask'' ''pclk_vo_root'' [] (RV1106_VOCLKGATE_CON 2) 14 GFLAGS,
    GATE CLK_PMC_OTP ''clk_pmc_otp'' ''clk_sbpi_otpc_s'' [] (RV1106_VOCLKGATE_CON 2) 15 GFLAGS,
    GATE HCLK_RGA2E ''hclk_rga2e'' ''hclk_vo_root'' [] (RV1106_VOCLKGATE_CON 0) 7 GFLAGS,
    GATE ACLK_RGA2E ''aclk_rga2e'' ''aclk_vo_root'' [] (RV1106_VOCLKGATE_CON 0) 8 GFLAGS,
    COMPOSITE_NODIV CLK_CORE_RGA2E ''clk_core_rga2e'' mux_400m_200m_100m_24m_p []
      (RV1106_VOCLKSEL_CON 1) 8 2 MFLAGS (RV1106_VOCLKGATE_CON 0) 9 GFLAGS,
    COMPOSITE CCLK_SRC_SDIO ''cclk_src_sdio'' mux_400m_24m_p []
      (RV1106_VOCLKSEL_CON 2) 13 1 MFLAGS 7 6 DFLAGS (RV1106_VOCLKGATE_CON 1) 14 GFLAGS,
    GATE HCLK_SDIO ''hclk_sdio'' ''hclk_vo_root'' [] (RV1106_VOCLKGATE_CON 1) 15 GFLAGS,
    GATE PCLK_TSADC ''pclk_tsadc'' ''pclk_vo_root'' [] (RV1106_VOCLKGATE_CON 2) 0 GFLAGS,
    COMPOSITE_NOMUX CLK_TSADC ''clk_tsadc'' ''xin24m'' []
      (RV1106_VOCLKSEL_CON 3) 0 5 DFLAGS (RV1106_VOCLKGATE_CON 2) 1 GFLAGS,
    COMPOSITE_NOMUX CLK_TSADC_TSEN ''clk_tsadc_tsen'' ''xin24m'' []
      (RV1106_VOCLKSEL_CON 3) 5 5 DFLAGS (RV1106_VOCLKGATE_CON 2) 2 GFLAGS,
    GATE HCLK_VOP ''hclk_vop'' ''hclk_vo_root'' [] (RV1106_VOCLKGATE_CON 0) 13 GFLAGS,
    GATE DCLK_VOP ''dclk_vop'' ''dclk_vop_src'' [] (RV1106_VOCLKGATE_CON 0) 14 GFLAGS,
    GATE ACLK_VOP ''aclk_vop'' ''aclk_vop_root'' [] (RV1106_VOCLKGATE_CON 0) 15 GFLAGS]"

definition branches_io :: "rockchip_clk_branch list" where
  "branches_io = [
    GATE RX0PCLK_VICAP ''rx0pclk_vicap'' ''rx0pclk_vicap_io'' [] (RV1106_VICLKGATE_CON 1) 0 GFLAGS,
    GATE RX1PCLK_VICAP ''rx1pclk_vicap'' ''rx1pclk_vicap_io'' [] (RV1106_VICLKGATE_CON 1) 1 GFLAGS,
    GATE ISP0CLK_VICAP ''isp0clk_vicap'' ''isp0clk_vicap_io'' [] (RV1106_VICLKGATE_CON 1) 2 GFLAGS,
    GATE I0CLK_VICAP ''i0clk_vicap'' ''i0clk_vicap_io'' [] (RV1106_VICLKGATE_CON 0) 14 GFLAGS,
    GATE I1CLK_VICAP ''i1clk_vicap'' ''i1clk_vicap_io'' [] (RV1106_VICLKGATE_CON 0) 15 GFLAGS,
    GATE PCLK_VICAP ''pclk_vicap'' ''pclk_vicap_io'' [] (RV1106_VICLKGATE_CON 0) 11 GFLAGS,
    GATE CLK_RXBYTECLKHS_0 ''clk_rxbyteclkhs_0'' ''clk_rxbyteclkhs_0_io'' [] (RV1106_VICLKGATE_CON 1) 4 GFLAGS,
    GATE CLK_RXBYTECLKHS_1 ''clk_rxbyteclkhs_1'' ''clk_rxbyteclkhs_1_io'' [] (RV1106_VICLKGATE_CON 1) 6 GFLAGS,
    GATE PCLK_VICAP_VEPU ''pclk_vicap_vepu'' ''pclk_vicap_vepu_io'' [] (RV1106_VEPUCLKGATE_CON 0) 14 GFLAGS,
    GATE SCLK_IN_SPI0 ''sclk_in_spi0'' ''sclk_in_spi0_io'' [] (RV1106_VEPUCLKGATE_CON 1) 4 GFLAGS,
    GATE CLK_UTMI_USBOTG ''clk_utmi_usbotg'' ''clk_utmi_usbotg_io'' [] (RV1106_PERICLKGATE_CON 4) 9 GFLAGS]"

definition rv1106_clk_branches :: "rockchip_clk_branch list" where
  "rv1106_clk_branches = branches_factor @ branches_core @ branches_top_1 @ branches_top_2 @ branches_ddr @ branches_npu @ branches_peri_1 @
     branches_peri_2 @ branches_pmu @ branches_subddr @ branches_vepu @ branches_vi @ branches_vo @ branches_io"

definition rv1106_grf_clk_branches :: "rockchip_clk_branch list" where
  "rv1106_grf_clk_branches = [
    MMC SCLK_EMMC_DRV ''emmc_drv'' ''cclk_src_emmc'' RV1106_EMMC_CON0 1,
    MMC SCLK_EMMC_SAMPLE ''emmc_sample'' ''cclk_src_emmc'' RV1106_EMMC_CON1 1,
    MMC SCLK_SDMMC_DRV ''sdmmc_drv'' ''cclk_src_sdmmc'' RV1106_SDMMC_CON0 1,
    MMC SCLK_SDMMC_SAMPLE ''sdmmc_sample'' ''cclk_src_sdmmc'' RV1106_SDMMC_CON1 1,
    MMC SCLK_SDIO_DRV ''sdio_drv'' ''cclk_src_sdio'' RV1106_SDIO_CON0 1,
    MMC SCLK_SDIO_SAMPLE ''sdio_sample'' ''cclk_src_sdio'' RV1106_SDIO_CON1 1]"

end
