(* ===== verification/Bit_Ranges.thy ===== *)
theory Bit_Ranges
  imports Warden_Prelude "HOL-Library.Multiset"
begin

text \<open>
  Ranges of bit addresses and the decision whether the ranges of a list are disjoint, shared by the integrity
  theorems of the clock tables.
\<close>

section \<open>Disjoint ranges, decided by a merge sort\<close>

text \<open>A range is an owner, a first bit and a width. The sort is there so that the check is evaluated in
  \<open>n log n\<close> steps.\<close>

type_synonym range = "int \<times> int \<times> int"

abbreviation owner :: "range \<Rightarrow> int" where "owner \<equiv> fst"
abbreviation start :: "range \<Rightarrow> int" where "start r \<equiv> fst (snd r)"
abbreviation width :: "range \<Rightarrow> int" where "width r \<equiv> snd (snd r)"

definition overlap :: "range \<Rightarrow> range \<Rightarrow> bool" where
  "overlap r q = (start r < start q + width q \<and> start q < start r + width r)"

fun merge :: "range list \<Rightarrow> range list \<Rightarrow> range list" where
  "merge [] ys = ys"
| "merge xs [] = xs"
| "merge (x # xs) (y # ys) = (if start x \<le> start y then x # merge xs (y # ys) else y # merge (x # xs) ys)"

fun merge_pairs :: "range list list \<Rightarrow> range list list" where
  "merge_pairs (a # b # xs) = merge a b # merge_pairs xs"
| "merge_pairs xs = xs"

lemma length_merge_pairs: "length (merge_pairs xs) \<le> length xs"
  by (induction xs rule: merge_pairs.induct) auto

function merge_all :: "range list list \<Rightarrow> range list" where
  "merge_all [] = []"
| "merge_all [a] = a"
| "merge_all (a # b # xs) = merge_all (merge_pairs (a # b # xs))"
  by pat_completeness auto
termination
  by (relation "measure length") (auto simp: less_Suc_eq_le length_merge_pairs)

definition msort :: "range list \<Rightarrow> range list" where
  "msort xs = merge_all (map (\<lambda>x. [x]) xs)"

fun sweep :: "range list \<Rightarrow> bool" where
  "sweep (x # y # zs) = (0 \<le> width x \<and> start x + width x \<le> start y \<and> sweep (y # zs))"
| "sweep [x] = (0 \<le> width x)"
| "sweep [] = True"

lemma mset_merge: "mset (merge xs ys) = mset xs + mset ys"
  by (induction xs ys rule: merge.induct) auto

lemma mset_merge_pairs: "sum_list (map mset (merge_pairs xss)) = sum_list (map mset xss)"
  by (induction xss rule: merge_pairs.induct) (auto simp: mset_merge)

lemma mset_merge_all: "mset (merge_all xss) = sum_list (map mset xss)"
  by (induction xss rule: merge_all.induct) (simp_all add: mset_merge_pairs mset_merge del: merge_pairs.simps)

lemma mset_msort: "mset (msort xs) = mset xs"
  unfolding msort_def mset_merge_all by (induction xs) auto

lemma sweep_after: "sweep (x # xs) \<Longrightarrow> y \<in> set xs \<Longrightarrow> start x + width x \<le> start y"
proof (induction xs arbitrary: x)
  case (Cons z zs)
  have z: "start x + width x \<le> start z" and s: "sweep (z # zs)"
    using Cons.prems(1) by auto
  have w: "0 \<le> width z"
    using s by (cases zs) auto
  from Cons.prems(2) consider "y = z" | "y \<in> set zs"
    by auto
  then show ?case
  proof cases
    case 2
    from Cons.IH [OF s 2] z w show ?thesis by linarith
  qed (use z in simp)
qed simp

lemma sweep_tl: "sweep (x # xs) \<Longrightarrow> sweep xs"
  by (cases xs) auto

lemma sweep_disjoint: "sweep xs \<Longrightarrow> sorted_wrt (\<lambda>r q. \<not> overlap r q) xs"
proof (induction xs)
  case (Cons x xs)
  have "\<not> overlap x y" if "y \<in> set xs" for y
    using sweep_after [OF Cons.prems that] by (simp add: overlap_def)
  with Cons.IH [OF sweep_tl [OF Cons.prems]] show ?case by simp
qed simp

lemma overlap_sym: "overlap r q = overlap q r"
  by (auto simp: overlap_def)

text \<open>A symmetric relation between all pairs of a list does not depend on the order of the list.\<close>

lemma sorted_wrt_sym_mset:
  assumes "\<And>x y. R x y = R y x" and "mset xs = mset ys" and "sorted_wrt R xs"
  shows "sorted_wrt R ys"
  using assms(2,3)
proof (induction xs arbitrary: ys)
  case (Cons x xs)
  have "x \<in> set ys"
    using Cons.prems(1) by (metis list.set_intros(1) set_mset_mset)
  then obtain us vs where ys: "ys = us @ x # vs"
    by (meson split_list)
  have m: "mset xs = mset (us @ vs)"
    using Cons.prems(1) ys by simp
  have "set xs = set (us @ vs)"
    using m by (metis set_mset_mset)
  then have x: "\<forall>y \<in> set us \<union> set vs. R x y"
    using Cons.prems(2) by auto
  have "sorted_wrt R (us @ vs)"
    using Cons.IH [OF m] Cons.prems(2) by simp
  then show ?case
    using x assms(1) unfolding ys by (auto simp: sorted_wrt_append)
qed simp

lemma sweep_msort: "sweep (msort xs) \<Longrightarrow> sorted_wrt (\<lambda>r q. \<not> overlap r q) xs"
  by (rule sorted_wrt_sym_mset [OF _ mset_msort]) (auto simp: overlap_sym dest: sweep_disjoint)

end
