(* ===== verification/Clk_Tree.thy ===== *)
theory Clk_Tree
  imports Clk_Table Bit_Ranges
begin

text \<open>
  Integrity of the clock tables. A clock's multiplexer, divider, fraction and gate are ranges of bit addresses of
  the register file (eight times the byte address plus the shift); the theorems say which ranges overlap, that
  every field fits the half register its write mask covers, that every clock has its own slot of the provider's
  array, and that reset numbers decode to the registers the header names.
\<close>

section \<open>What a branch occupies\<close>

definition field :: "int \<Rightarrow> int \<Rightarrow> int \<Rightarrow> int \<Rightarrow> range" where
  "field i reg shift w = (i, 8 * reg + shift, w)"

text \<open>Multiplexer, divider and gate of a branch; a fractional divider has its 32-bit register to itself, and
  registers the multiplexer it carries too. The delay lines of \<open>MMC\<close> live in another register file.\<close>

fun branch_fields :: "rockchip_clk_branch \<Rightarrow> range list" where
  "branch_fields (FACTOR i _ _ _ _ _) = []"
| "branch_fields (GATE i _ _ _ gr gb _) = [field i gr gb 1]"
| "branch_fields (MUX i _ _ _ r ms mw _) = [field i r ms mw]"
| "branch_fields (DIV i _ _ _ r ds dw _) = [field i r ds dw]"
| "branch_fields (COMPOSITE i _ _ _ r ms mw _ ds dw _ gr gb _) = [field i r ms mw, field i r ds dw, field i gr gb 1]"
| "branch_fields (COMPOSITE_HALFDIV i _ _ _ r ms mw _ ds dw _ gr gb _) =
     [field i r ms mw, field i r ds dw, field i gr gb 1]"
| "branch_fields (COMPOSITE_NOMUX i _ _ _ r ds dw _ gr gb _) = [field i r ds dw, field i gr gb 1]"
| "branch_fields (COMPOSITE_NODIV i _ _ _ r ms mw _ gr gb _) = [field i r ms mw, field i gr gb 1]"
| "branch_fields (COMPOSITE_FRACMUX i _ _ _ r _ gr gb _ c) = field i r 0 32 # field i gr gb 1 # branch_fields c"
| "branch_fields (MMC _ _ _ _ _) = []"

text \<open>A field lies in the low half of its register, whose upper half is the write mask, and a multiplexer field
  selects each of its parents.\<close>

definition low_half :: "int \<Rightarrow> int \<Rightarrow> bool" where
  "low_half shift w = (0 \<le> shift \<and> 0 < w \<and> shift + w \<le> 16)"

definition selects :: "int \<Rightarrow> string list \<Rightarrow> bool" where
  "selects w ps = (ps \<noteq> [] \<and> int (length ps) \<le> 2 ^ nat w)"

fun branch_fits :: "rockchip_clk_branch \<Rightarrow> bool" where
  "branch_fits (FACTOR _ _ _ _ n d) = (0 < n \<and> 0 < d)"
| "branch_fits (GATE _ _ _ _ _ gb _) = low_half gb 1"
| "branch_fits (MUX _ _ ps _ _ ms mw _) = (low_half ms mw \<and> selects mw ps)"
| "branch_fits (DIV _ _ _ _ _ ds dw _) = low_half ds dw"
| "branch_fits (COMPOSITE _ _ ps _ _ ms mw _ ds dw _ _ gb _) =
     (low_half ms mw \<and> selects mw ps \<and> low_half ds dw \<and> low_half gb 1)"
| "branch_fits (COMPOSITE_HALFDIV _ _ ps _ _ ms mw _ ds dw _ _ gb _) =
     (low_half ms mw \<and> selects mw ps \<and> low_half ds dw \<and> low_half gb 1)"
| "branch_fits (COMPOSITE_NOMUX _ _ _ _ _ ds dw _ _ gb _) = (low_half ds dw \<and> low_half gb 1)"
| "branch_fits (COMPOSITE_NODIV _ _ ps _ _ ms mw _ _ gb _) = (low_half ms mw \<and> selects mw ps \<and> low_half gb 1)"
| "branch_fits (COMPOSITE_FRACMUX _ _ _ _ _ _ _ gb _ c) = (low_half gb 1 \<and> branch_fits c)"
| "branch_fits (MMC _ _ _ _ _) = True"

text \<open>The numbers a branch registers.\<close>

fun branch_ids :: "rockchip_clk_branch \<Rightarrow> int list" where
  "branch_ids (FACTOR i _ _ _ _ _) = [i]"
| "branch_ids (GATE i _ _ _ _ _ _) = [i]"
| "branch_ids (MUX i _ _ _ _ _ _ _) = [i]"
| "branch_ids (DIV i _ _ _ _ _ _ _) = [i]"
| "branch_ids (COMPOSITE i _ _ _ _ _ _ _ _ _ _ _ _ _) = [i]"
| "branch_ids (COMPOSITE_HALFDIV i _ _ _ _ _ _ _ _ _ _ _ _ _) = [i]"
| "branch_ids (COMPOSITE_NOMUX i _ _ _ _ _ _ _ _ _ _) = [i]"
| "branch_ids (COMPOSITE_NODIV i _ _ _ _ _ _ _ _ _ _) = [i]"
| "branch_ids (COMPOSITE_FRACMUX i _ _ _ _ _ _ _ _ c) = i # branch_ids c"
| "branch_ids (MMC i _ _ _ _) = [i]"

fun pll_id :: "rockchip_pll_clock \<Rightarrow> int" where
  "pll_id (PLL _ i _ _ _ _ _ _ _ _ _) = i"

definition clk_fields :: "range list" where
  "clk_fields = concat (map branch_fields rv1106_clk_branches)"

text \<open>The slots of the provider's array that registration fills: PLLs, the CPU clock, branches with a number.\<close>

definition slots :: "rockchip_clk_branch list \<Rightarrow> int list" where
  "slots bs = filter (\<lambda>i. i \<noteq> 0) (concat (map branch_ids bs))"

definition cru_slots :: "int list" where
  "cru_slots = map pll_id rv1106_pll_clks @ ARMCLK # slots rv1106_clk_branches"

section \<open>Fields\<close>

text \<open>Every field of every branch lies within the sixteen data bits of its register, so that the
  write mask in the upper half covers it, every multiplexer field is wide enough to select each of the listed
  parents, and every fixed factor is a positive fraction.\<close>

theorem clk_fields_fit: "list_all branch_fits rv1106_clk_branches"
  by code_simp

lemma split_disjoint:
  assumes "sorted_wrt (\<lambda>r q. \<not> overlap r q) (us @ vs)"
    and "list_all (\<lambda>r. overlap r x \<longrightarrow> r = y) us" and "list_all (\<lambda>r. \<not> overlap x r) vs"
  shows "sorted_wrt (\<lambda>r q. overlap r q \<longrightarrow> r = y \<and> q = x) (us @ x # vs)"
  using assms by (auto simp: sorted_wrt_append list_all_iff elim!: sorted_wrt_mono_rel [rotated])

definition i2c1_mux :: range where
  "i2c1_mux = field CLK_I2C1 (RV1106_PMUCLKSEL_CON 0) 6 2"

definition rtc_32k_mux :: range where
  "rtc_32k_mux = field CLK_RTC_32K (RV1106_PMUCLKSEL_CON 0) 6 2"

definition fields_before :: "range list" where
  "fields_before = takeWhile (\<lambda>r. r \<noteq> i2c1_mux) clk_fields"

definition fields_after :: "range list" where
  "fields_after = tl (dropWhile (\<lambda>r. r \<noteq> i2c1_mux) clk_fields)"

lemma i2c1_mux_listed: "i2c1_mux \<in> set clk_fields"
proof -
  have "i2c1_mux \<in> set (concat (map branch_fields branches_pmu))"
    by code_simp
  then show ?thesis
    by (simp add: clk_fields_def rv1106_clk_branches_def)
qed

lemma clk_fields_split: "clk_fields = fields_before @ i2c1_mux # fields_after"
proof -
  obtain z zs where d: "dropWhile (\<lambda>r. r \<noteq> i2c1_mux) clk_fields = z # zs"
    using i2c1_mux_listed by (cases "dropWhile (\<lambda>r. r \<noteq> i2c1_mux) clk_fields") (auto simp: dropWhile_eq_Nil_conv)
  then have "z = i2c1_mux"
    using hd_dropWhile [of "\<lambda>r. r \<noteq> i2c1_mux" clk_fields] by force
  with d show ?thesis
    unfolding fields_before_def fields_after_def
    by (metis list.sel(3) takeWhile_dropWhile_id)
qed

lemma other_fields_disjoint: "sweep (msort (fields_before @ fields_after))"
  by code_simp

lemma before_i2c1_mux: "list_all (\<lambda>r. overlap r i2c1_mux \<longrightarrow> r = rtc_32k_mux) fields_before"
  by code_simp

lemma after_i2c1_mux: "list_all (\<lambda>r. \<not> overlap i2c1_mux r) fields_after"
  by code_simp

text \<open>C32 (clk_fields_disjoint): no two fields of the clock tables share a register bit, with one exception: the
  multiplexers of \<^verbatim>\<open>clk_rtc_32k\<close> and of \<^verbatim>\<open>clk_i2c1\<close> are both declared at bits 6 and 7 of
  \<^verbatim>\<open>PMUCLKSEL_CON(0)\<close>.\<close>

theorem clk_fields_disjoint:
  assumes "i < j" and "j < length clk_fields" and "overlap (clk_fields ! i) (clk_fields ! j)"
  shows "clk_fields ! i = rtc_32k_mux \<and> clk_fields ! j = i2c1_mux"
proof -
  have "sorted_wrt (\<lambda>r q. overlap r q \<longrightarrow> r = rtc_32k_mux \<and> q = i2c1_mux) clk_fields"
    unfolding clk_fields_split
    by (rule split_disjoint [OF sweep_msort [OF other_fields_disjoint] before_i2c1_mux after_i2c1_mux])
  with assms show ?thesis
    by (auto simp: sorted_wrt_iff_nth_less)
qed

theorem clk_fields_disjoint_witness: "clk_fields ! 251 = rtc_32k_mux \<and> clk_fields ! 264 = i2c1_mux"
proof (rule clk_fields_disjoint)
  show "264 < length clk_fields"
    by code_simp
  show "overlap (clk_fields ! 251) (clk_fields ! 264)"
    by code_simp
qed simp

section \<open>Numbers\<close>

definition unit_range :: "int \<Rightarrow> range" where
  "unit_range i = (i, i, 1)"

lemma distinct_unit_ranges:
  assumes "sweep (msort (map unit_range is))"
  shows "distinct is"
proof -
  have "sorted_wrt (\<lambda>i j. \<not> overlap (unit_range i) (unit_range j)) is"
    using sweep_msort [OF assms] by (simp add: sorted_wrt_map)
  then have "sorted_wrt (\<noteq>) is"
    by (rule sorted_wrt_mono_rel [rotated]) (auto simp: overlap_def unit_range_def)
  then show ?thesis
    by (simp add: distinct_conv_nth sorted_wrt_iff_nth_less) (metis linorder_neqE_nat)
qed

lemma cru_slots_swept: "sweep (msort (map unit_range cru_slots))"
  by code_simp

lemma grf_slots_swept: "sweep (msort (map unit_range (slots rv1106_grf_clk_branches)))"
  by code_simp

lemma cru_slots_bound: "list_all (\<lambda>i. 1 \<le> i \<and> i < CLK_NR_CLKS) cru_slots"
  by code_simp

lemma grf_slots_bound: "list_all (\<lambda>i. 1 \<le> i \<and> i < CLK_NR_GRF_CLKS) (slots rv1106_grf_clk_branches)"
  by code_simp

text \<open>Registration never writes one slot of a provider's array twice and never writes past
  the end of it: the numbers of the PLLs, the CPU clock and the branches are distinct and below
  \<^verbatim>\<open>CLK_NR_CLKS\<close>, those of the GRF branches distinct and below \<^verbatim>\<open>CLK_NR_GRF_CLKS\<close>.\<close>

theorem clk_slots_distinct:
  "distinct cru_slots \<and> set cru_slots \<subseteq> {1..<CLK_NR_CLKS} \<and>
   distinct (slots rv1106_grf_clk_branches) \<and> set (slots rv1106_grf_clk_branches) \<subseteq> {1..<CLK_NR_GRF_CLKS}"
  using distinct_unit_ranges [OF cru_slots_swept] distinct_unit_ranges [OF grf_slots_swept]
    cru_slots_bound grf_slots_bound
  by (auto simp: list_all_iff)

text \<open>A reset number addresses bit \<open>i mod 16\<close> of the register \<open>i div 16\<close> words above the first; the driver
  registers 31745 such registers.\<close>

definition softrst_reg :: "int \<Rightarrow> int" where
  "softrst_reg i = RV1106_PMUSOFTRST_CON 0 + 4 * (i div 16)"

definition softrst_regs :: int where
  "softrst_regs = 31745"

definition srst_listed :: "(int \<times> int) list" where
  "srst_listed = concat (map (\<lambda>(off, is). map (Pair off) is) srst_regs)"

lemma srst_checked:
  "list_all (\<lambda>(off, i). 0 \<le> i \<and> i < 16 * softrst_regs \<and> (i \<noteq> SRST_WRITE_ENABLE \<longrightarrow> softrst_reg i = off)) srst_listed"
  by code_simp

lemma srst_swept: "sweep (msort (map unit_range (map snd srst_listed)))"
  by code_simp

lemma srst_distinct: "distinct (map snd srst_listed)"
  by (rule distinct_unit_ranges [OF srst_swept])

text \<open>Every reset number of the binding is below the number of resets the driver registers, no two
  resets share a bit, and the register a number decodes to is the one its section of the header names; only
  \<^verbatim>\<open>SRST_WRITE_ENABLE\<close>, listed under \<^verbatim>\<open>PMUSOFTRST_CON02\<close>, decodes to the register after.\<close>

theorem srst_decode:
  "(off, i) \<in> set srst_listed \<Longrightarrow>
   0 \<le> i \<and> i < 16 * softrst_regs \<and> distinct (map snd srst_listed) \<and>
   softrst_reg i = (if i = SRST_WRITE_ENABLE then RV1106_PMUSOFTRST_CON 3 else off)"
  using srst_checked srst_distinct
  by (auto simp: list_all_iff softrst_reg_def RV1106_PMUSOFTRST_CON_def)

theorem srst_decode_witness: "softrst_reg SRST_REF_PVTPLL_0 = 0x10A08"
proof -
  have "(0x10A08, SRST_REF_PVTPLL_0) \<in> set srst_listed"
    by (simp add: srst_listed_def srst_regs_def srst_regs_1_def)
  from srst_decode [OF this] show ?thesis
    by simp
qed

end
