(* ===== verification/Clk_Parents.thy ===== *)
theory Clk_Parents
  imports Clk_Table
begin

text \<open>
  The order of the clock tables: registration looks a parent up by its name, so the tables list PLLs, the CPU clock
  and the branches such that every parent is either an input of the clock controller or registered earlier.
\<close>

section \<open>Names and parents\<close>

fun branch_outputs :: "rockchip_clk_branch \<Rightarrow> (string \<times> string list) list" where
  "branch_outputs (FACTOR _ n p _ _ _) = [(n, [p])]"
| "branch_outputs (GATE _ n p _ _ _ _) = [(n, [p])]"
| "branch_outputs (MUX _ n ps _ _ _ _ _) = [(n, ps)]"
| "branch_outputs (DIV _ n p _ _ _ _ _) = [(n, [p])]"
| "branch_outputs (COMPOSITE _ n ps _ _ _ _ _ _ _ _ _ _ _) = [(n, ps)]"
| "branch_outputs (COMPOSITE_HALFDIV _ n ps _ _ _ _ _ _ _ _ _ _ _) = [(n, ps)]"
| "branch_outputs (COMPOSITE_NOMUX _ n p _ _ _ _ _ _ _ _) = [(n, [p])]"
| "branch_outputs (COMPOSITE_NODIV _ n ps _ _ _ _ _ _ _ _) = [(n, ps)]"
| "branch_outputs (COMPOSITE_FRACMUX _ n p _ _ _ _ _ _ c) = (n, [p]) # branch_outputs c"
| "branch_outputs (MMC _ n p _ _) = [(n, [p])]"

fun pll_output :: "rockchip_pll_clock \<Rightarrow> string \<times> string list" where
  "pll_output (PLL _ _ n ps _ _ _ _ _ _ _) = (n, ps)"

definition clk_outputs :: "(string \<times> string list) list" where
  "clk_outputs = map pll_output rv1106_pll_clks @ [Pair ''armclk'' mux_armclk_p] @
     concat (map branch_outputs rv1106_clk_branches)"

text \<open>Clocks the tables name as parents and the driver does not register: the oscillators, pads and ring
  oscillators.\<close>

definition clk_inputs :: "string list" where
  "clk_inputs = [''xin24m'', ''xin32k'', ''clk_pvtm_32k'', ''i2s0_mclkin'', ''clk_pvtpll_0'', ''clk_pvtpll_1'',
     ''rx0pclk_vicap_io'', ''rx1pclk_vicap_io'', ''isp0clk_vicap_io'', ''i0clk_vicap_io'', ''i1clk_vicap_io'',
     ''pclk_vicap_io'', ''clk_rxbyteclkhs_0_io'', ''clk_rxbyteclkhs_1_io'', ''pclk_vicap_vepu_io'',
     ''sclk_in_spi0_io'', ''clk_utmi_usbotg_io'']"

section \<open>Registration order\<close>

fun registered :: "string list \<Rightarrow> (string \<times> string list) list \<Rightarrow> bool" where
  "registered known [] = True"
| "registered known ((n, ps) # xs) = (list_all (List.member known) ps \<and> registered (n # known) xs)"

lemma registered_append:
  "registered K (xs @ ys) \<longleftrightarrow> registered K xs \<and> registered (rev (map fst xs) @ K) ys"
  by (induction K xs rule: registered.induct) auto

lemma registered_mono: "registered K xs \<Longrightarrow> set K \<subseteq> set K' \<Longrightarrow> registered K' xs"
proof (induction K xs arbitrary: K' rule: registered.induct)
  case (2 known n ps xs)
  have "registered (n # K') xs"
    by (rule "2.IH") (use "2.prems" in auto)
  with 2 show ?case
    by (auto simp: list_all_iff List.member_iff)
qed simp

lemma registered_nth:
  "registered K xs \<Longrightarrow> k < length xs \<Longrightarrow> p \<in> set (snd (xs ! k)) \<Longrightarrow> p \<in> set K \<union> set (map fst (take k xs))"
proof (induction K xs arbitrary: k rule: registered.induct)
  case (2 known n ps xs)
  show ?case
  proof (cases k)
    case (Suc j)
    with 2 have "p \<in> set (n # known) \<union> set (map fst (take j xs))"
      by auto
    with Suc show ?thesis by auto
  qed (use 2 in \<open>auto simp: list_all_iff List.member_iff\<close>)
qed simp

abbreviation outs :: "rockchip_clk_branch list \<Rightarrow> (string \<times> string list) list" where
  "outs bs \<equiv> concat (map branch_outputs bs)"

text \<open>What the domains need from outside: the sources of the top domain, the roots of the peripheral domain and the
  100 MHz clock of the power-management domain.\<close>

definition pll_outs :: "(string \<times> string list) list" where
  "pll_outs = map pll_output rv1106_pll_clks @ [Pair ''armclk'' mux_armclk_p]"

definition sources :: "string list" where
  "sources = [''clk_50m_src'', ''clk_100m_src'', ''clk_150m_src'', ''clk_200m_src'', ''clk_300m_src'', ''clk_339m_src'',
     ''clk_400m_src'', ''clk_500m_src'']"

definition board :: "string list" where
  "board = [''xin24m'', ''xin32k'', ''clk_pvtm_32k'', ''clk_pvtpll_0'', ''clk_pvtpll_1'']"

definition peri_roots :: "string list" where
  "peri_roots = [''pclk_peri_root'', ''hclk_peri_root'', ''aclk_peri_root'', ''aclk_bus_root'', ''clk_timer_root'']"

definition provides :: "(string \<times> string list) list \<Rightarrow> string list \<Rightarrow> bool" where
  "provides xs ns = list_all (List.member (map fst xs)) ns"

lemma providesD: "provides xs ns \<Longrightarrow> set ns \<subseteq> fst ` set xs"
  by (auto simp: provides_def list_all_iff List.member_iff)

lemma board_inputs: "set board \<subseteq> set clk_inputs"
  by (simp add: board_def clk_inputs_def)

lemma provided:
  "provides pll_outs [''gpll'', ''cpll'', ''dpll'', ''armclk'']"
  "provides (outs branches_factor) [''xin_osc0_half'']"
  "provides (outs branches_top_1) (''mclk_i2s0_8ch_tx'' # sources)"
  "provides (outs branches_top_2) [''dclk_vop_src'']"
  "provides (outs branches_peri_1) peri_roots"
  "provides (outs branches_pmu) [''clk_100m_pmu'']"
  by code_simp+

lemma registered_plls: "registered [''xin24m''] pll_outs"
  by code_simp

lemma registered_factor: "registered [''xin24m''] (outs branches_factor)"
  by code_simp

lemma registered_core: "registered [''gpll'', ''xin24m'', ''armclk''] (outs branches_core)"
  by code_simp

lemma registered_top_1: "registered [''gpll'', ''cpll'', ''xin24m'', ''i2s0_mclkin'', ''xin_osc0_half''] (outs branches_top_1)"
  by code_simp

lemma registered_top_2: "registered [''gpll'', ''cpll'', ''xin24m''] (outs branches_top_2)"
  by code_simp

lemma registered_ddr: "registered (sources @ board) (outs branches_ddr)"
  by code_simp

lemma registered_npu: "registered (sources @ board) (outs branches_npu)"
  by code_simp

lemma registered_peri_1: "registered (''mclk_i2s0_8ch_tx'' # sources @ board) (outs branches_peri_1)"
  by code_simp

lemma registered_peri_2: "registered (peri_roots @ ''xin24m'' # ''mclk_i2s0_8ch_tx'' # sources) (outs branches_peri_2)"
  by code_simp

lemma registered_pmu: "registered (sources @ board) (outs branches_pmu)"
  by code_simp

lemma registered_subddr: "registered (''dpll'' # sources @ board) (outs branches_subddr)"
  by code_simp

lemma registered_vepu: "registered (sources @ board) (outs branches_vepu)"
  by code_simp

lemma registered_vi: "registered (''clk_100m_pmu'' # sources @ board) (outs branches_vi)"
  by code_simp

lemma registered_vo: "registered (''dclk_vop_src'' # sources @ board) (outs branches_vo)"
  by code_simp

lemma registered_io: "registered clk_inputs (outs branches_io)"
  by code_simp

text \<open>A domain's table is in order after everything that provides what the domain needs.\<close>

lemmas needs_met = provided [THEN providesD] board_inputs

lemma xin24m_input: "''xin24m'' \<in> set clk_inputs" "''i2s0_mclkin'' \<in> set clk_inputs"
  by (simp_all add: clk_inputs_def)

lemmas registered_parts =
  registered_plls registered_factor registered_core registered_top_1 registered_top_2 registered_ddr registered_npu
  registered_peri_1 registered_peri_2 registered_pmu registered_subddr registered_vepu registered_vi registered_vo
  registered_io

lemma clk_outputs_parts:
  "clk_outputs = pll_outs @ outs branches_factor @ outs branches_core @ outs branches_top_1 @ outs branches_top_2 @
     outs branches_ddr @ outs branches_npu @ outs branches_peri_1 @ outs branches_peri_2 @ outs branches_pmu @
     outs branches_subddr @ outs branches_vepu @ outs branches_vi @ outs branches_vo @ outs branches_io"
  by (simp add: clk_outputs_def pll_outs_def rv1106_clk_branches_def)

lemma registered_outputs: "registered clk_inputs clk_outputs"
  unfolding clk_outputs_parts registered_append
  by (intro conjI registered_parts [THEN registered_mono])
    (use needs_met xin24m_input in \<open>auto simp del: map_concat\<close>)

text \<open>C33 (clk_parents_first): every parent named in the tables is an input of the clock controller or the name of a
  clock registered before its child, so that registration in table order always finds the parents, and the clock
  graph has no cycle.\<close>

theorem clk_parents_first:
  assumes "k < length clk_outputs" and "p \<in> set (snd (clk_outputs ! k))"
  shows "p \<in> set clk_inputs \<or> p \<in> fst ` set (take k clk_outputs)"
  using registered_nth [OF registered_outputs assms] by simp

theorem clk_parents_first_witness: "''gpll'' \<in> set clk_inputs \<or> ''gpll'' \<in> fst ` set (take 4 clk_outputs)"
proof (rule clk_parents_first)
  show "''gpll'' \<in> set (snd (clk_outputs ! 4))"
    by (simp add: clk_outputs_def rv1106_pll_clks_def mux_armclk_p_def)
  show "4 < length clk_outputs"
    by (simp add: clk_outputs_def rv1106_pll_clks_def)
qed

end
