(* ===== verification/Clk_Rates.thy ===== *)
theory Clk_Rates
  imports Clk_Table
begin

text \<open>
  The rate tables: what the PLL settings of an entry produce, and where the register writes of a CPU clock entry leave
  the core multiplexer. \<open>HIWORD_UPDATE\<close> is the framework's macro; the theorems about it assume its documented
  result, the shifted value below the shifted mask in the upper half word.
\<close>

unbundle bit_operations_syntax

section \<open>PLL settings\<close>

text \<open>The output of a PLL on the 24 MHz oscillator, as a fraction: fbdiv, with 24 fractional bits when
  the delta-sigma modulator is on, over the product of the dividers.\<close>

definition pll_num :: "rockchip_pll_rate_table \<Rightarrow> int" where
  "pll_num r = 24000000 * (fbdiv r * 2 ^ 24 + (if dsmpd r = 0 then frac r else 0))"

definition pll_den :: "rockchip_pll_rate_table \<Rightarrow> int" where
  "pll_den r = refdiv r * postdiv1 r * postdiv2 r * 2 ^ 24"

text \<open>The fields of the three control registers: 12 bits of feedback divider, 6 of reference divider, 3 of each post
  divider, 24 of fraction.\<close>

definition pll_encodable :: "rockchip_pll_rate_table \<Rightarrow> bool" where
  "pll_encodable r = (0 < fbdiv r \<and> fbdiv r < 2 ^ 12 \<and> 0 < refdiv r \<and> refdiv r < 2 ^ 6 \<and> 0 < postdiv1 r \<and>
     postdiv1 r < 2 ^ 3 \<and> 0 < postdiv2 r \<and> postdiv2 r < 2 ^ 3 \<and> 0 \<le> frac r \<and> frac r < 2 ^ 24)"

definition pll_exact :: "rockchip_pll_rate_table \<Rightarrow> bool" where
  "pll_exact r = (pll_encodable r \<and> pll_num r \<le> rate r * pll_den r \<and> rate r * pll_den r < pll_num r + pll_den r \<and>
     (dsmpd r = 1 \<longrightarrow> rate r * pll_den r = pll_num r))"

lemma pll_rates_checked: "list_all (\<lambda>r. rate r = 0 \<or> pll_exact r) rv1106_pll_rates"
  by code_simp

lemma pll_rates_descend: "sorted_wrt (>) (map rate rv1106_pll_rates)"
  by (simp add: rv1106_pll_rates_def RK3036_PLL_RATE_def)

text \<open>C34 (pll_rates_exact): every entry of the PLL table but the sentinel fits its register fields and produces its
  rate: exactly in integer mode, and less than 1 Hz below it in fractional mode. The rates are strictly
  descending, which the framework's search for the closest rate relies on, and the sentinel ends them.\<close>

theorem pll_rates_exact:
  assumes "r \<in> set rv1106_pll_rates" and "rate r \<noteq> 0"
  shows "pll_encodable r \<and> pll_num r \<le> rate r * pll_den r \<and> rate r * pll_den r < pll_num r + pll_den r \<and>
    (dsmpd r = 1 \<longrightarrow> rate r * pll_den r = pll_num r) \<and> sorted_wrt (>) (map rate rv1106_pll_rates) \<and>
    rate (last rv1106_pll_rates) = 0"
proof -
  have "pll_exact r"
    using pll_rates_checked assms by (auto simp: list_all_iff)
  moreover have "rate (last rv1106_pll_rates) = 0"
    by (simp add: rv1106_pll_rates_def RK3036_PLL_RATE_def)
  ultimately show ?thesis
    using pll_rates_descend by (simp add: pll_exact_def)
qed

theorem pll_rates_exact_witness:
  "pll_num (RK3036_PLL_RATE 983040000 1 81 2 1 0 15435038) <
     983040000 * pll_den (RK3036_PLL_RATE 983040000 1 81 2 1 0 15435038) \<and> rate (last rv1106_pll_rates) = 0"
proof -
  have "RK3036_PLL_RATE 983040000 1 81 2 1 0 15435038 \<in> set rv1106_pll_rates"
    by (simp add: rv1106_pll_rates_def)
  from pll_rates_exact [OF this] show ?thesis
    by (simp add: RK3036_PLL_RATE_def pll_num_def pll_den_def)
qed

section \<open>The CPU clock's multiplexer\<close>

definition write_clksel :: "rockchip_cpuclk_clksel \<Rightarrow> (int \<Rightarrow> u32) \<Rightarrow> (int \<Rightarrow> u32)" where
  "write_clksel c f = f(clksel_reg c := hiword_write (clksel_val c) (f (clksel_reg c)))"

definition write_clksels :: "rockchip_cpuclk_clksel list \<Rightarrow> (int \<Rightarrow> u32) \<Rightarrow> (int \<Rightarrow> u32)" where
  "write_clksels = fold write_clksel"

text \<open>The fields of the two core registers: multiplexer, divider of the alternate parent, bus and debug dividers.\<close>

definition core_sel :: "(int \<Rightarrow> u32) \<Rightarrow> u32" where
  "core_sel f = hiword_field RV1106_CORE_SEL_SHIFT 2 (f (RV1106_CORECLKSEL_CON 0))"

definition alt_div :: "(int \<Rightarrow> u32) \<Rightarrow> u32" where
  "alt_div f = hiword_field RV1106_ALT_DIV_SHIFT 5 (f (RV1106_CORECLKSEL_CON 0))"

definition aclk_core_div :: "(int \<Rightarrow> u32) \<Rightarrow> u32" where
  "aclk_core_div f = hiword_field RV1106_DIV_ACLK_CORE_SHIFT 5 (f (RV1106_CORECLKSEL_CON 0))"

definition pclk_dbg_div :: "(int \<Rightarrow> u32) \<Rightarrow> u32" where
  "pclk_dbg_div f = hiword_field RV1106_DIV_PCLK_DBG_SHIFT 5 (f (RV1106_CORECLKSEL_CON 1))"

lemmas core_field_defs = core_sel_def alt_div_def aclk_core_div_def pclk_dbg_div_def
  RV1106_CORE_SEL_SHIFT_def RV1106_ALT_DIV_SHIFT_def RV1106_DIV_ACLK_CORE_SHIFT_def RV1106_DIV_PCLK_DBG_SHIFT_def

lemma core_masks:
  "RV1106_CORE_SEL_MASK = mask 2" "RV1106_ALT_DIV_MASK = mask 5" "RV1106_DIV_ACLK_CORE_MASK = mask 5"
  "RV1106_DIV_PCLK_DBG_MASK = mask 5"
  by (simp_all add: RV1106_CORE_SEL_MASK_def RV1106_ALT_DIV_MASK_def RV1106_DIV_ACLK_CORE_MASK_def
      RV1106_DIV_PCLK_DBG_MASK_def mask_eq_exp_minus_1)

lemma core_regs_differ: "RV1106_CORECLKSEL_CON 0 \<noteq> RV1106_CORECLKSEL_CON 1"
  by (simp add: RV1106_CORECLKSEL_CON_def)

lemmas clksel_simps = write_clksels_def write_clksel_def RV1106_CLKSEL0_def RV1106_CLKSEL1_def RV1106_CLKSEL2_def
  RV1106_CLKSEL3_def core_masks core_regs_differ core_regs_differ [symmetric]

text \<open>What the writes of one entry do to the fields, from any contents of the registers.\<close>

lemma cpuclk_entry_pre:
  assumes "e = RV1106_CPUCLK_RATE hiword_or r a p i"
  shows "core_sel (write_clksels (pre_muxs e) f) = 2" and "alt_div (write_clksels (pre_muxs e) f) = 1"
  using assms
  by (simp_all add: RV1106_CPUCLK_RATE_def clksel_simps core_field_defs hiword_field_write hiword_field_other)

lemma cpuclk_entry_post:
  assumes "e = RV1106_CPUCLK_RATE hiword_or r a p i" and "take_bit 2 i = i"
  shows "core_sel (write_clksels (post_muxs e) f) = i" and "alt_div (write_clksels (post_muxs e) f) = 0"
  using assms
  by (simp_all add: RV1106_CPUCLK_RATE_def clksel_simps core_field_defs hiword_field_write hiword_field_other)

lemma cpuclk_entry_divs:
  assumes "e = RV1106_CPUCLK_RATE hiword_or r a p i" and "take_bit 5 a = a" and "take_bit 5 p = p"
  shows "aclk_core_div (write_clksels (divs e) f) = a" and "pclk_dbg_div (write_clksels (divs e) f) = p"
    and "core_sel (write_clksels (divs e) f) = core_sel f"
  using assms
  by (simp_all add: RV1106_CPUCLK_RATE_def clksel_simps core_field_defs hiword_field_write hiword_field_other)

definition pvtpll_rate :: int where
  "pvtpll_rate = 816000000"

text \<open>An entry of the table: dividers that fit their fields, and the ring oscillator selected from 816 MHz on.\<close>

definition is_entry :: "hiword \<Rightarrow> rockchip_cpuclk_rate_table \<Rightarrow> bool" where
  "is_entry hw e = (\<exists>r a p i. e = RV1106_CPUCLK_RATE hw r a p i \<and> take_bit 5 a = a \<and> take_bit 5 p = p \<and>
     i = (if pvtpll_rate \<le> r then 1 else 0))"

lemma is_entryI:
  "take_bit 5 a = a \<Longrightarrow> take_bit 5 p = p \<Longrightarrow> i = (if pvtpll_rate \<le> r then 1 else 0) \<Longrightarrow>
   is_entry hw (RV1106_CPUCLK_RATE hw r a p i)"
  unfolding is_entry_def by blast

lemma cpuclk_rates_entries: "list_all (is_entry hw) (rv1106_cpuclk_rates hw)"
  by (simp add: rv1106_cpuclk_rates_def is_entryI pvtpll_rate_def)

lemma armclk_parents: "mux_armclk_p ! 0 = ''gpll''" "mux_armclk_p ! Suc 0 = ''cpll''" "mux_armclk_p ! 2 = ''apll''"
  by (simp_all add: mux_armclk_p_def)

text \<open>Before the CPU rate changes, the writes of every table entry put the core on the
  alternate input, which the parent list names \<^verbatim>\<open>apll\<close>; the dividers leave that choice alone. After the
  change, the entry's last writes leave the core on the input the list names \<^verbatim>\<open>cpll\<close> from 816 MHz on
  and \<^verbatim>\<open>gpll\<close> below, never on the main input of \<^verbatim>\<open>rv1106_cpuclk_data\<close>.\<close>

theorem cpuclk_final_parent:
  assumes "hiword_spec hw" and "e \<in> set (rv1106_cpuclk_rates hw)"
  shows "core_sel (write_clksels (pre_muxs e) f) = mux_core_alt rv1106_cpuclk_data \<and>
    mux_armclk_p ! unat (core_sel (write_clksels (divs e) (write_clksels (pre_muxs e) f))) = ''apll'' \<and>
    mux_armclk_p ! unat (core_sel (write_clksels (post_muxs e) f)) =
      (if pvtpll_rate \<le> prate e then ''cpll'' else ''gpll'') \<and>
    core_sel (write_clksels (post_muxs e) f) \<noteq> mux_core_main rv1106_cpuclk_data"
proof -
  have hw: "hw = hiword_or"
    by (rule hiword_specD [OF assms(1)])
  have "is_entry hw e"
    using cpuclk_rates_entries [of hw] assms(2) by (auto simp: list_all_iff)
  then obtain r a p i where e: "e = RV1106_CPUCLK_RATE hiword_or r a p i" and a: "take_bit 5 a = a"
    and p: "take_bit 5 p = p" and i: "i = (if pvtpll_rate \<le> r then 1 else 0)"
    unfolding is_entry_def hw by blast
  have "take_bit 2 i = i" and "prate e = r"
    using i e by (auto simp: RV1106_CPUCLK_RATE_def)
  then show ?thesis
    by (simp add: cpuclk_entry_pre [OF e] cpuclk_entry_post [OF e] cpuclk_entry_divs [OF e a p] i armclk_parents
        rv1106_cpuclk_data_def)
qed

theorem cpuclk_final_parent_witness:
  "mux_armclk_p ! unat (core_sel (write_clksels (post_muxs (RV1106_CPUCLK_RATE hiword_or 1104000000 2 5 1)) (\<lambda>_. 0))) =
    ''cpll''"
proof -
  have "RV1106_CPUCLK_RATE hiword_or 1104000000 2 5 1 \<in> set (rv1106_cpuclk_rates hiword_or)"
    by (simp add: rv1106_cpuclk_rates_def)
  from cpuclk_final_parent [OF hiword_spec_or this] show ?thesis
    by (simp add: RV1106_CPUCLK_RATE_def pvtpll_rate_def)
qed

end
