(* ===== verification/Clk_Pvtpll.thy ===== *)
theory Clk_Pvtpll
  imports Kernel_Monad Hiword
begin

text \<open>
  Calibration of the PVTPLL ring oscillators in \<^verbatim>\<open>kernel/rv1106-enablement/clk/clk-rv1106.c\<close>: a
  delayed work item reads the counter of an oscillator and lengthens its ring until the count is within
  3.125 percent of the target. The state is the history of register accesses; what a read returns is any function of
  the history so far. \<open>HIWORD_UPDATE\<close>, the kernel's \<open>abs\<close> and the clock look-up are parameters.
\<close>

section \<open>Registers\<close>

definition CRU_PVTPLL0_CON0_L :: int where "CRU_PVTPLL0_CON0_L = 0x11000"
definition CRU_PVTPLL0_CON0_H :: int where "CRU_PVTPLL0_CON0_H = 0x11004"
definition CRU_PVTPLL0_CON1_L :: int where "CRU_PVTPLL0_CON1_L = 0x11008"
definition CRU_PVTPLL0_CON2_H :: int where "CRU_PVTPLL0_CON2_H = 0x11014"
definition CRU_PVTPLL0_OSC_CNT_AVG :: int where "CRU_PVTPLL0_OSC_CNT_AVG = 0x11024"
definition CRU_PVTPLL1_CON0_L :: int where "CRU_PVTPLL1_CON0_L = 0x11030"
definition CRU_PVTPLL1_CON0_H :: int where "CRU_PVTPLL1_CON0_H = 0x11034"
definition CRU_PVTPLL1_CON1_L :: int where "CRU_PVTPLL1_CON1_L = 0x11038"
definition CRU_PVTPLL1_CON2_H :: int where "CRU_PVTPLL1_CON2_H = 0x11044"
definition CRU_PVTPLL1_OSC_CNT_AVG :: int where "CRU_PVTPLL1_OSC_CNT_AVG = 0x11054"
definition CPU_PVTPLL_CON0_L :: int where "CPU_PVTPLL_CON0_L = 0x40000"
definition CPU_PVTPLL_CON0_H :: int where "CPU_PVTPLL_CON0_H = 0x40004"
definition CPU_PVTPLL_OSC_CNT_AVG :: int where "CPU_PVTPLL_OSC_CNT_AVG = 0x4001c"
definition PVTPLL_RING_SEL_MASK :: u32 where "PVTPLL_RING_SEL_MASK = 0x7"
definition PVTPLL_RING_SEL_SHIFT :: nat where "PVTPLL_RING_SEL_SHIFT = 8"
definition PVTPLL_EN_MASK :: u32 where "PVTPLL_EN_MASK = 0x3"
definition PVTPLL_EN_SHIFT :: nat where "PVTPLL_EN_SHIFT = 0"
definition PVTPLL_LENGTH_SEL_MASK :: u32 where "PVTPLL_LENGTH_SEL_MASK = 0x7f"
definition PVTPLL_LENGTH_SEL_SHIFT :: nat where "PVTPLL_LENGTH_SEL_SHIFT = 0"
definition CPU_CLK_PATH_BASE :: int where "CPU_CLK_PATH_BASE = 0x18300"
definition CPU_PVTPLL_PATH_CORE :: u32 where "CPU_PVTPLL_PATH_CORE = push_bit 12 1 OR push_bit 28 1"

text \<open>Two buses: memory-mapped registers of the clock controller, and the regmap of the GRF.\<close>

datatype bus = Cru | Grf

datatype io = Rd bus int u32 | Wr bus int u32 | Sleep

record pvt_env =
  env_read :: "io list \<Rightarrow> bus \<Rightarrow> int \<Rightarrow> u32"
  HIWORD_UPDATE :: hiword
  env_abs :: "u32 \<Rightarrow> int"

definition rd :: "pvt_env \<Rightarrow> bus \<Rightarrow> int \<Rightarrow> (io list, u32) state" where
  "rd env b off = State (\<lambda>h. (env_read env h b off, h @ [Rd b off (env_read env h b off)]))"

definition wr :: "bus \<Rightarrow> int \<Rightarrow> u32 \<Rightarrow> (io list, unit) state" where
  "wr b off v = modify (\<lambda>h. h @ [Wr b off v])"

definition usleep_range :: "(io list, unit) state" where
  "usleep_range = modify (\<lambda>h. h @ [Sleep])"

section \<open>Calibration\<close>

text \<open>The write of a ring length and the wait after it.\<close>

definition set_length :: "pvt_env \<Rightarrow> bus \<Rightarrow> int \<Rightarrow> u32 \<Rightarrow> (io list, unit) state" where
  "set_length env b length_offset len = do {
     wr b length_offset (HIWORD_UPDATE env len PVTPLL_LENGTH_SEL_MASK PVTPLL_LENGTH_SEL_SHIFT);
     usleep_range
   }"

text \<open>\<^verbatim>\<open>abs(rate - target_rate) < (target_rate >> 5)\<close>, an int comparison.\<close>

definition near :: "pvt_env \<Rightarrow> u32 \<Rightarrow> int \<Rightarrow> bool" where
  "near env rate target = (env_abs env (rate - word_of_int target) < drop_bit 5 target)"

text \<open>The loop of both routines: at most twenty-one corrections, and none at or below the original length.\<close>

function calibrate_loop ::
  "pvt_env \<Rightarrow> bus \<Rightarrow> int \<Rightarrow> int \<Rightarrow> int \<Rightarrow> u32 \<Rightarrow> nat \<Rightarrow> u32 \<Rightarrow> u32 \<Rightarrow> (io list, unit) state" where
  "calibrate_loop env b count_offset length_offset target length_ori i len rate0 =
     (if near env rate0 target then returnS ()
      else if i > 20 then returnS ()
      else let len' = (if rate0 > word_of_int target then len + 1 else len - 1) in
        if len' \<le> length_ori then returnS ()
        else do {
          set_length env b length_offset len';
          rate \<leftarrow> rd env b count_offset;
          calibrate_loop env b count_offset length_offset target length_ori (i + 1) len' rate
        })"
  by pat_completeness auto
termination
  by (relation "measure (\<lambda>(env, b, co, lo, t, ori, i, len, r). 22 - i)") auto

declare calibrate_loop.simps [simp del]

definition cru_pvtpll_calibrate :: "pvt_env \<Rightarrow> int \<Rightarrow> int \<Rightarrow> int \<Rightarrow> (io list, unit) state" where
  "cru_pvtpll_calibrate env count_offset length_offset target = do {
     rate0 \<leftarrow> rd env Cru count_offset;
     if rate0 < word_of_int target then returnS ()
     else if rate0 - word_of_int target < word_of_int (drop_bit 5 target) then returnS ()
     else do {
       v \<leftarrow> rd env Cru length_offset;
       let length_ori = v AND PVTPLL_LENGTH_SEL_MASK;
       let len = length_ori + 1;
       set_length env Cru length_offset len;
       rate1 \<leftarrow> rd env Cru count_offset;
       if rate1 < word_of_int target then returnS ()
       else if near env rate1 target then returnS ()
       else do {
         let step = max (if rate1 < rate0 then rate0 - rate1 else 5) 5;
         let delta = rate1 - word_of_int target;
         let len = len + delta div step;
         set_length env Cru length_offset len;
         rate0 \<leftarrow> rd env Cru count_offset;
         calibrate_loop env Cru count_offset length_offset target length_ori 0 len rate0
       }
     }
   }"

definition grf_pvtpll_calibrate :: "pvt_env \<Rightarrow> int \<Rightarrow> int \<Rightarrow> int \<Rightarrow> (io list, unit) state" where
  "grf_pvtpll_calibrate env count_offset length_offset target = do {
     rate0 \<leftarrow> rd env Grf count_offset;
     if rate0 < word_of_int target then returnS ()
     else if rate0 - word_of_int target < word_of_int (drop_bit 5 target) then returnS ()
     else do {
       length_ori \<leftarrow> rd env Grf length_offset;
       let len = (length_ori AND PVTPLL_LENGTH_SEL_MASK) + 1;
       set_length env Grf length_offset len;
       rate1 \<leftarrow> rd env Grf count_offset;
       if rate1 < word_of_int target \<or> rate1 \<ge> rate0 then returnS ()
       else if near env rate1 target then returnS ()
       else do {
         let step = rate0 - rate1;
         let delta = rate1 - word_of_int target;
         let len = len + delta div step;
         set_length env Grf length_offset len;
         rate0 \<leftarrow> rd env Grf count_offset;
         calibrate_loop env Grf count_offset length_offset target length_ori 0 len rate0
       }
     }
   }"

text \<open>The work item. A clock of \<^verbatim>\<open>__clk_lookup\<close> is given by its rate, an unsigned long in Hz.\<close>

definition calibrate_one :: "u32 option \<Rightarrow> (int \<Rightarrow> (io list, unit) state) \<Rightarrow> (io list, unit) state" where
  "calibrate_one clk cal = (case clk of None \<Rightarrow> returnS () | Some rate \<Rightarrow> cal (uint (rate div 1000000)))"

definition rockchip_rv1106_pvtpll_calibrate :: "pvt_env \<Rightarrow> (string \<Rightarrow> u32 option) \<Rightarrow> (io list, unit) state" where
  "rockchip_rv1106_pvtpll_calibrate env clk_lookup = do {
     calibrate_one (clk_lookup ''clk_pvtpll_0'')
       (cru_pvtpll_calibrate env CRU_PVTPLL0_OSC_CNT_AVG CRU_PVTPLL0_CON0_H);
     calibrate_one (clk_lookup ''clk_pvtpll_1'')
       (cru_pvtpll_calibrate env CRU_PVTPLL1_OSC_CNT_AVG CRU_PVTPLL1_CON0_H);
     calibrate_one (clk_lookup ''cpu_pvtpll'')
       (grf_pvtpll_calibrate env CPU_PVTPLL_OSC_CNT_AVG CPU_PVTPLL_CON0_H)
   }"

definition rockchip_rv1106_pvtpll_init :: "pvt_env \<Rightarrow> (io list, unit) state" where
  "rockchip_rv1106_pvtpll_init env = do {
     wr Cru CPU_CLK_PATH_BASE CPU_PVTPLL_PATH_CORE;
     wr Grf CPU_PVTPLL_CON0_H (HIWORD_UPDATE env 0x7 PVTPLL_LENGTH_SEL_MASK PVTPLL_LENGTH_SEL_SHIFT);
     wr Grf CPU_PVTPLL_CON0_L (HIWORD_UPDATE env 0x1 PVTPLL_RING_SEL_MASK PVTPLL_RING_SEL_SHIFT);
     wr Grf CPU_PVTPLL_CON0_L (HIWORD_UPDATE env 0x3 PVTPLL_EN_MASK PVTPLL_EN_SHIFT);
     wr Cru CRU_PVTPLL0_CON0_H 0x007f0000;
     wr Cru CRU_PVTPLL0_CON1_L 0xffff0018;
     wr Cru CRU_PVTPLL0_CON2_H 0xffff0004;
     wr Cru CRU_PVTPLL0_CON0_L 0x00030003;
     wr Cru CRU_PVTPLL1_CON0_H 0x007f0000;
     wr Cru CRU_PVTPLL1_CON1_L 0xffff0018;
     wr Cru CRU_PVTPLL1_CON2_H 0xffff0004;
     wr Cru CRU_PVTPLL1_CON0_L 0x00030003
   }"

section \<open>Writes are confined and bounded\<close>

text \<open>The writes of a history, in order.\<close>

fun writes :: "io list \<Rightarrow> (bus \<times> int \<times> u32) list" where
  "writes [] = []"
| "writes (Wr b off v # h) = (b, off, v) # writes h"
| "writes (_ # h) = writes h"

lemma writes_append [simp]: "writes (h @ h') = writes h @ writes h'"
  by (induction h rule: writes.induct) auto

text \<open>From \<open>h\<close> to \<open>h'\<close> at most \<open>n\<close> writes happened, all to one register.\<close>

definition quiet :: "bus \<Rightarrow> int \<Rightarrow> nat \<Rightarrow> io list \<Rightarrow> bool" where
  "quiet b off n evs = (length (writes evs) \<le> n \<and> list_all (\<lambda>(b', off', v). b' = b \<and> off' = off) (writes evs))"

definition confined :: "bus \<Rightarrow> int \<Rightarrow> nat \<Rightarrow> io list \<Rightarrow> io list \<Rightarrow> bool" where
  "confined b off n h h' = (\<exists>evs. h' = h @ evs \<and> quiet b off n evs)"

lemma confinedI: "quiet b off n evs \<Longrightarrow> confined b off n h (h @ evs)"
  by (auto simp: confined_def)

lemma confined_refl: "confined b off n h h"
  using confinedI [of b off n "[]" h] by (simp add: quiet_def)

lemma quiet_append: "quiet b off n evs \<Longrightarrow> quiet b off m evs' \<Longrightarrow> n + m \<le> k \<Longrightarrow> quiet b off k (evs @ evs')"
  by (simp add: quiet_def)

lemma confined_after:
  assumes "confined b off m (h @ evs) h'" and "quiet b off n evs" and "n + m \<le> k"
  shows "confined b off k h h'"
proof -
  obtain evs' where h': "h' = (h @ evs) @ evs'" and q: "quiet b off m evs'"
    using assms(1) unfolding confined_def by blast
  have "quiet b off k (evs @ evs')"
    by (rule quiet_append [OF assms(2) q assms(3)])
  then show ?thesis
    unfolding h' append_assoc by (rule confinedI)
qed

lemma wp_rd [wp]: "wp (rd env b off) Q h = Q (env_read env h b off) (h @ [Rd b off (env_read env h b off)])"
  by (simp add: wp_def rd_def)

lemma wp_wr [wp]: "wp (wr b off v) Q h = Q () (h @ [Wr b off v])"
  by (simp add: wr_def wp)

lemma wp_set_length [wp]:
  "wp (set_length env b lo len) Q h =
    Q () (h @ [Wr b lo (HIWORD_UPDATE env len PVTPLL_LENGTH_SEL_MASK PVTPLL_LENGTH_SEL_SHIFT), Sleep])"
  by (simp add: set_length_def usleep_range_def wp)

lemma quiet_simps [simp]:
  "quiet b off n []" "quiet b off n (Rd b' o' v # evs) = quiet b off n evs" "quiet b off n (Sleep # evs) = quiet b off n evs"
  "quiet b off (Suc n) (Wr b off v # evs) = quiet b off n evs"
  by (auto simp: quiet_def)

text \<open>Each path of a routine is a list of accesses, and then possibly the loop.\<close>

lemma confined_path: "quiet b off n evs \<Longrightarrow> wp m (\<lambda>_ h'. confined b off k (h @ evs) h') (h @ evs) \<Longrightarrow> n + k \<le> l \<Longrightarrow>
   wp m (\<lambda>_ h'. confined b off l h h') (h @ evs)"
  by (erule wp_mono) (rule confined_after)

lemma loop_confined:
  "wp (calibrate_loop env b co lo t ori i len r) (\<lambda>_ h'. confined b lo (21 - i) h h') h"
proof (induction env b co lo t ori i len r arbitrary: h rule: calibrate_loop.induct)
  case (1 env b co lo t ori i len r)
  let ?len = "if r > word_of_int t then len + 1 else len - 1"
  show ?case
  proof (cases "near env r t \<or> i > 20 \<or> ?len \<le> ori")
    case True
    then show ?thesis
      by (subst calibrate_loop.simps) (auto simp: wp confined_refl Let_def)
  next
    case False
    then have IH: "wp (calibrate_loop env b co lo t ori (i + 1) ?len x) (\<lambda>_ h'. confined b lo (21 - (i + 1)) g h') g" for x g
      by (intro "1.IH") auto
    have one: "quiet b lo (Suc 0) [Wr b lo v, Sleep, Rd b co x]" for v x
      by simp
    have "i \<le> 20"
      using False by simp
    then have "Suc 0 + (21 - (i + 1)) \<le> 21 - i"
      by arith
    from False confined_path [OF one IH this] show ?thesis
      by (subst calibrate_loop.simps) (simp add: wp Let_def del: quiet_simps)
  qed
qed

text \<open>For what is written where, the values read do not matter.\<close>

lemma wp_bind_rd: "(\<And>v. wp (f v) Q (h @ [Rd b off v])) \<Longrightarrow> wp (State_Monad.bind (rd env b off) f) Q h"
  by (simp add: wp)

lemma wp_bind_set_length:
  "(\<And>v. wp (f ()) Q (h @ [Wr b lo v, Sleep])) \<Longrightarrow> wp (State_Monad.bind (set_length env b lo len) f) Q h"
  by (simp add: wp)

lemma wp_returnI: "Q () h \<Longrightarrow> wp (returnS ()) Q h"
  by (simp add: wp)

lemmas path_rules = wp_bind_rd wp_bind_set_length wp_ifI wp_returnI

lemma loop_path: "quiet b lo n evs \<Longrightarrow> n \<le> 2 \<Longrightarrow>
   wp (calibrate_loop env b co lo t ori 0 len r) (\<lambda>_ h'. confined b lo 23 h h') (h @ evs)"
  by (rule confined_path [OF _ loop_confined]) auto

lemma cru_confined: "wp (cru_pvtpll_calibrate env co lo t) (\<lambda>_ h'. confined Cru lo 23 h h') h"
  unfolding cru_pvtpll_calibrate_def Let_def
  by (intro path_rules; (simp add: confinedI numeral_eq_Suc; fail)?)
    (simp add: loop_path [of _ _ "Suc (Suc 0)"])

lemma grf_confined: "wp (grf_pvtpll_calibrate env co lo t) (\<lambda>_ h'. confined Grf lo 23 h h') h"
  unfolding grf_pvtpll_calibrate_def Let_def
  by (intro path_rules; (simp add: confinedI numeral_eq_Suc; fail)?)
    (simp add: loop_path [of _ _ "Suc (Suc 0)"])

section \<open>A ring oscillator\<close>

text \<open>What a register with a write mask holds after a history, from its value at the start.\<close>

definition reg :: "u32 \<Rightarrow> bus \<Rightarrow> int \<Rightarrow> io list \<Rightarrow> u32" where
  "reg ini b off h = fold (\<lambda>(b', off', v) x. if b' = b \<and> off' = off then hiword_write v x else x) (writes h) ini"

lemma reg_append [simp]: "reg ini b off (h @ evs) = reg (reg ini b off h) b off evs"
  by (simp add: reg_def)

lemma reg_events [simp]:
  "reg ini b off [] = ini" "reg ini b off (Rd b' off' v # evs) = reg ini b off evs" "reg ini b off (Sleep # evs) = reg ini b off evs"
  "reg ini b off (Wr b' off' v # evs) =
    (if b' = b \<and> off' = off then reg (hiword_write v ini) b off evs else reg ini b off evs)"
  by (simp_all add: reg_def)

lemma reg_quiet: "quiet b lo n evs \<Longrightarrow> (b', off) \<noteq> (b, lo) \<Longrightarrow> reg x b' off evs = x"
  by (induction evs arbitrary: x rule: writes.induct) (auto simp: quiet_def reg_def)

text \<open>An oscillator whose count falls by the same amount with every element added to the ring.\<close>

record ring =
  r_bus :: bus
  r_count :: int
  r_length :: int
  r_init :: u32
  r_base :: int
  r_slope :: int

definition ring_length :: "ring \<Rightarrow> io list \<Rightarrow> int" where
  "ring_length r h = uint (hiword_field 0 7 (reg (r_init r) (r_bus r) (r_length r) h))"

definition ring_count :: "ring \<Rightarrow> io list \<Rightarrow> int" where
  "ring_count r h = r_base r - r_slope r * ring_length r h"

definition linear_ring :: "pvt_env \<Rightarrow> ring \<Rightarrow> bool" where
  "linear_ring env r = (\<forall>h. env_read env h (r_bus r) (r_count r) = word_of_int (ring_count r h) \<and>
     hiword_field 0 7 (env_read env h (r_bus r) (r_length r)) =
       hiword_field 0 7 (reg (r_init r) (r_bus r) (r_length r) h))"

text \<open>One element is worth at least 5 counts and at most the tolerance, and the longest ring is slow enough.\<close>

definition tunable :: "ring \<Rightarrow> int \<Rightarrow> bool" where
  "tunable r t = (5 \<le> r_slope r \<and> r_slope r \<le> t div 32 \<and> r_base r < 2 ^ 31 \<and> r_base r - 127 * r_slope r \<le> t)"

definition calibrated :: "ring \<Rightarrow> int \<Rightarrow> io list \<Rightarrow> bool" where
  "calibrated r t h = (t \<le> ring_count r h \<and> ring_count r h < t + t div 32)"

text \<open>The kernel's \<open>abs\<close> of an unsigned int is the magnitude of the value read as an int.\<close>

definition abs_spec :: "pvt_env \<Rightarrow> bool" where
  "abs_spec env = (\<forall>x. env_abs env x = \<bar>sint x\<bar>)"

lemma ring_length_range: "0 \<le> ring_length r h" "ring_length r h \<le> 127"
proof -
  have "uint (hiword_field 0 7 x) < 128" for x
    using take_bit_int_less_exp [of 7 "uint x"] by (simp add: hiword_field_def unsigned_take_bit_eq)
  then have "ring_length r h < 128"
    unfolding ring_length_def .
  then show "ring_length r h \<le> 127" by simp
qed (simp add: ring_length_def)

text \<open>Rules that forget the history but for the length of the ring.\<close>

lemma count_rule:
  assumes "linear_ring env r" and "\<And>h1. ring_length r h1 = ring_length r h \<Longrightarrow> wp (f (word_of_int (ring_count r h))) Q h1"
  shows "wp (State_Monad.bind (rd env (r_bus r) (r_count r)) f) Q h"
  using assms by (simp add: wp linear_ring_def ring_length_def)

lemma length_rule:
  assumes "linear_ring env r" and "\<And>v h1. v AND PVTPLL_LENGTH_SEL_MASK = word_of_int (ring_length r h) \<Longrightarrow>
     ring_length r h1 = ring_length r h \<Longrightarrow> wp (f v) Q h1"
  shows "wp (State_Monad.bind (rd env (r_bus r) (r_length r)) f) Q h"
proof -
  have "x AND PVTPLL_LENGTH_SEL_MASK = hiword_field 0 7 x" for x
    by (simp add: hiword_field_def PVTPLL_LENGTH_SEL_MASK_def take_bit_eq_mask mask_eq_exp_minus_1)
  then show ?thesis
    using assms by (simp add: wp linear_ring_def ring_length_def)
qed

lemma set_length_rule:
  assumes "hiword_spec (HIWORD_UPDATE env)" and "0 \<le> l" and "l \<le> 127" and "len = word_of_int l"
    and "\<And>h1. ring_length r h1 = l \<Longrightarrow> wp (f ()) Q h1"
  shows "wp (State_Monad.bind (set_length env (r_bus r) (r_length r) len) f) Q h"
proof -
  have u: "uint len = l"
    using assms(2-4) by (simp add: uint_word_of_int)
  then have t: "take_bit 7 len = len"
    using assms(2,3) by (simp add: word_uint_eq_iff unsigned_take_bit_eq take_bit_int_eq_self)
  have m: "PVTPLL_LENGTH_SEL_MASK = mask 7"
    by (simp add: PVTPLL_LENGTH_SEL_MASK_def mask_eq_exp_minus_1)
  have "hiword_field 0 7 (hiword_write (hiword_or len (mask 7) 0) x) = len" for x
    by (rule hiword_field_write [OF t]) simp
  then show ?thesis
    using assms(5) u hiword_specD [OF assms(1)]
    by (simp add: wp ring_length_def m PVTPLL_LENGTH_SEL_SHIFT_def)
qed

text \<open>Unsigned arithmetic on counts below \<open>2 ^ 31\<close> is integer arithmetic.\<close>

lemma count_word:
  assumes "0 \<le> a" "a < 2 ^ 31" "0 \<le> b" "b < 2 ^ 31"
  shows "(word_of_int a < (word_of_int b :: u32)) = (a < b)"
    and "word_of_int a div (word_of_int b :: u32) = word_of_int (a div b)"
    and "max (word_of_int a) (word_of_int b :: u32) = word_of_int (max a b)"
proof -
  have u: "uint (word_of_int a :: u32) = a" "uint (word_of_int b :: u32) = b"
    using assms by (simp_all add: uint_word_of_int)
  then show less: "(word_of_int a < (word_of_int b :: u32)) = (a < b)"
    by (simp add: word_less_def)
  show "word_of_int a div (word_of_int b :: u32) = word_of_int (a div b)"
    unfolding word_div_def u ..
  show "max (word_of_int a) (word_of_int b :: u32) = word_of_int (max a b)"
    using u by (simp add: max_def word_le_def)
qed

lemma near_word:
  assumes "abs_spec env" and "0 \<le> c" "c < 2 ^ 31" "0 \<le> t" "t < 2 ^ 31"
  shows "near env (word_of_int c) t = (\<bar>c - t\<bar> < t div 32)"
proof -
  have "sint (word_of_int (c - t) :: u32) = c - t"
    using assms(2-5) by (simp only: sint_sbintrunc') (simp add: signed_take_bit_int_eq_self)
  then show ?thesis
    using assms(1) by (simp add: near_def abs_spec_def drop_bit_int_def)
qed

lemma loop_near: "near env rate t \<Longrightarrow> wp (calibrate_loop env b co lo t ori i len rate) Q h = Q () h"
  by (subst calibrate_loop.simps) (simp add: wp)

text \<open>Where the second correction lands: \<open>d mod s\<close> above the target.\<close>

lemma landing:
  fixes d s :: int
  assumes "0 < s" and "c = d + s + t"
  shows "c - s * (1 + d div s) = t + d mod s"
proof -
  have "s * (1 + d div s) = s + (d - d mod s)"
    by (simp add: distrib_left minus_mod_eq_mult_div)
  with assms(2) show ?thesis by linarith
qed

text \<open>The corrections of a tunable ring: one element more stays at or above the target, and the computed length
  is in range and lands within one slope of it.\<close>

lemma tunable_bounds:
  assumes "tunable r t" and "t \<le> ring_count r h"
  shows "5 \<le> r_slope r" and "r_slope r \<le> t div 32" and "160 \<le> t" and "t < 2 ^ 31" and "ring_count r h < 2 ^ 31"
proof -
  show s: "5 \<le> r_slope r" "r_slope r \<le> t div 32"
    using assms(1) by (auto simp: tunable_def)
  then show "160 \<le> t" by linarith
  have "0 \<le> r_slope r * ring_length r h"
    using s ring_length_range(1) [of r h] by simp
  then show "ring_count r h < 2 ^ 31"
    using assms(1) by (simp add: tunable_def ring_count_def)
  then show "t < 2 ^ 31"
    using assms(2) by linarith
qed

lemma tunable_second_length:
  assumes "tunable r t" and "r_slope r \<le> ring_count r h - t"
  defines "d \<equiv> ring_count r h - r_slope r - t"
  shows "0 \<le> d" and "0 \<le> d div r_slope r" and "ring_length r h + 1 + d div r_slope r \<le> 127"
    and "r_base r - r_slope r * (ring_length r h + 1 + d div r_slope r) = t + d mod r_slope r"
proof -
  let ?s = "r_slope r" and ?l = "ring_length r h"
  have s: "0 < ?s"
    using assms(1) by (simp add: tunable_def)
  show d: "0 \<le> d"
    using assms(2) by (simp add: d_def)
  then show "0 \<le> d div ?s"
    using s by (simp add: pos_imp_zdiv_nonneg_iff)
  have "d \<le> ?s * (126 - ?l)"
    using assms(1) by (simp add: d_def tunable_def ring_count_def algebra_simps)
  then have "d div ?s \<le> 126 - ?l"
    using s by (metis zdiv_mono1 nonzero_mult_div_cancel_left less_irrefl)
  then show "?l + 1 + d div ?s \<le> 127" by simp
  have "r_base r - ?s * ?l - ?s * (1 + d div ?s) = t + d mod ?s"
    by (rule landing [OF s]) (simp add: d_def ring_count_def)
  then show "r_base r - ?s * (?l + 1 + d div ?s) = t + d mod ?s"
    by (simp add: algebra_simps)
qed

text \<open>The two routines agree on a tunable ring from the first correction on; \<open>step\<close> is the slope.\<close>

lemma corrections_settle:
  assumes "hiword_spec (HIWORD_UPDATE env)" and "abs_spec env" and "linear_ring env r" and "tunable r t"
    and "t \<le> ring_count r h" and far: "\<not> ring_count r h - t < t div 32"
    and "ring_length r h3 = ring_length r h + 1"
    and step: "step = word_of_int (r_slope r)" and v: "v = word_of_int (ring_length r h)"
    and not_near: "\<not> near env (word_of_int (ring_count r h - r_slope r)) t"
  shows "wp (do {
      set_length env (r_bus r) (r_length r)
        (v + 1 + (word_of_int (ring_count r h - r_slope r) - word_of_int t) div step);
      rate0 \<leftarrow> rd env (r_bus r) (r_count r);
      calibrate_loop env (r_bus r) (r_count r) (r_length r) t ori 0 len rate0
    }) (\<lambda>_ h'. calibrated r t h') h3"
proof -
  let ?c = "ring_count r h" and ?s = "r_slope r" and ?l = "ring_length r h"
  define d where "d = ?c - ?s - t"
  note b = tunable_bounds [OF assms(4,5)]
  have s: "?s \<le> ?c - t"
    using b far by linarith
  note two = tunable_second_length [OF assms(4) s, folded d_def]
  have "0 < ?s"
    using b by linarith
  then have "0 \<le> d mod ?s" "d mod ?s < ?s"
    by (rule pos_mod_sign, rule pos_mod_bound)
  with b(2) have m: "0 \<le> d mod ?s" "d mod ?s < t div 32"
    by linarith+
  have len: "v + 1 + (word_of_int (?c - ?s) - word_of_int t) div step = word_of_int (?l + 1 + d div ?s)"
  proof -
    have "(word_of_int d :: u32) div word_of_int ?s = word_of_int (d div ?s)"
      using b two(1) by (intro count_word) (auto simp: d_def)
    then show ?thesis
      by (simp add: v step d_def)
  qed
  show ?thesis
    unfolding len
  proof (rule set_length_rule [OF assms(1) _ two(3) refl])
    show "0 \<le> ?l + 1 + d div ?s"
      using ring_length_range(1) [of r h] two(2) by simp
    fix h4
    assume h4: "ring_length r h4 = ?l + 1 + d div ?s"
    have c4: "ring_count r h4 = t + d mod ?s"
      using two(4) h4 by (simp add: ring_count_def)
    have "t + d mod ?s < 2 ^ 31"
      using b(1,5) zmod_le_nonneg_dividend [OF two(1), of ?s] by (simp add: d_def)
    with b m have n: "near env (word_of_int (t + d mod ?s)) t"
      by (subst near_word [OF assms(2)]) auto
    show "wp (State_Monad.bind (rd env (r_bus r) (r_count r))
        (calibrate_loop env (r_bus r) (r_count r) (r_length r) t ori 0 len)) (\<lambda>_ h'. calibrated r t h') h4"
    proof (rule count_rule [OF assms(3)])
      fix h5
      assume "ring_length r h5 = ring_length r h4"
      then have "ring_count r h5 = t + d mod ?s"
        using c4 by (simp add: ring_count_def)
      then show "wp (calibrate_loop env (r_bus r) (r_count r) (r_length r) t ori 0 len (word_of_int (ring_count r h4)))
          (\<lambda>_ h'. calibrated r t h') h5"
        unfolding c4 loop_near [OF n] using m by (simp add: calibrated_def)
    qed
  qed
qed

lemma first_correction:
  assumes "tunable r t" and "t \<le> ring_count r h" and "\<not> ring_count r h - t < t div 32"
  shows "0 \<le> ring_length r h + 1" and "ring_length r h + 1 \<le> 127" and "t \<le> ring_count r h - r_slope r"
proof -
  note b = tunable_bounds [OF assms(1,2)]
  have s: "r_slope r \<le> ring_count r h - t"
    using b assms(3) by linarith
  then show "t \<le> ring_count r h - r_slope r" by simp
  show "0 \<le> ring_length r h + 1"
    using ring_length_range(1) [of r h] by simp
  show "ring_length r h + 1 \<le> 127"
    using tunable_second_length(2,3) [OF assms(1) s] by linarith
qed

lemma one_longer: "ring_length r h2 = ring_length r h + 1 \<Longrightarrow> ring_count r h2 = ring_count r h - r_slope r"
  by (simp add: ring_count_def algebra_simps)

text \<open>The comparisons of the early returns, on counts.\<close>

lemma early_tests:
  assumes "tunable r t" and "t \<le> ring_count r h"
  shows "\<not> word_of_int (ring_count r h) < (word_of_int t :: u32)"
    and "(word_of_int (ring_count r h) - word_of_int t < (word_of_int (drop_bit 5 t) :: u32)) =
      (ring_count r h - t < t div 32)"
proof -
  note b = tunable_bounds [OF assms]
  show "\<not> word_of_int (ring_count r h) < (word_of_int t :: u32)"
    using b assms(2) by (simp add: count_word)
  have "(word_of_int (ring_count r h - t) < (word_of_int (t div 32) :: u32)) = (ring_count r h - t < t div 32)"
    using b assms(2) by (intro count_word) auto
  then show "(word_of_int (ring_count r h) - word_of_int t < (word_of_int (drop_bit 5 t) :: u32)) =
      (ring_count r h - t < t div 32)"
    by (simp add: drop_bit_int_def)
qed

lemma after_first:
  assumes "tunable r t" and "t \<le> ring_count r h" and "\<not> ring_count r h - t < t div 32"
  defines "c1 \<equiv> ring_count r h - r_slope r"
  shows "\<not> word_of_int c1 < (word_of_int t :: u32)" and "word_of_int c1 < (word_of_int (ring_count r h) :: u32)"
    and "(word_of_int (ring_count r h) - word_of_int c1 :: u32) = word_of_int (r_slope r)"
    and "max (word_of_int (r_slope r)) (5 :: u32) = word_of_int (r_slope r)"
    and "abs_spec env \<Longrightarrow> near env (word_of_int c1) t \<Longrightarrow> t \<le> c1 \<and> c1 < t + t div 32"
proof -
  note b = tunable_bounds [OF assms(1,2)]
  note f = first_correction [OF assms(1-3), folded c1_def]
  have c1: "0 \<le> c1" "c1 < 2 ^ 31" "c1 < ring_count r h"
    using b f by (auto simp: c1_def)
  show "\<not> word_of_int c1 < (word_of_int t :: u32)" "word_of_int c1 < (word_of_int (ring_count r h) :: u32)"
    using b f c1 by (simp_all add: count_word)
  show "(word_of_int (ring_count r h) - word_of_int c1 :: u32) = word_of_int (r_slope r)"
    by (simp add: c1_def)
  have "max (word_of_int (r_slope r)) (word_of_int 5 :: u32) = word_of_int (max (r_slope r) 5)"
    using b assms(2) by (intro count_word) auto
  then show "max (word_of_int (r_slope r)) (5 :: u32) = word_of_int (r_slope r)"
    using b by (simp add: max_def)
  show "t \<le> c1 \<and> c1 < t + t div 32" if "abs_spec env" "near env (word_of_int c1) t"
    using near_word [OF that(1), of c1 t] that(2) b c1 f by auto
qed

lemma calibratedI: "ring_length r h1 = ring_length r h \<Longrightarrow> t \<le> ring_count r h \<Longrightarrow> ring_count r h < t + t div 32 \<Longrightarrow> calibrated r t h1"
  by (simp add: calibrated_def ring_count_def)

lemma calibrated_longer:
  "ring_length r h1 = ring_length r h + 1 \<Longrightarrow> t \<le> ring_count r h - r_slope r \<and> ring_count r h - r_slope r < t + t div 32 \<Longrightarrow>
   calibrated r t h1"
  by (simp add: calibrated_def one_longer)

lemma cru_settles:
  assumes "hiword_spec (HIWORD_UPDATE env)" and "abs_spec env" and "linear_ring env r" and "tunable r t"
    and "r_bus r = Cru" and "t \<le> ring_count r h"
  shows "wp (cru_pvtpll_calibrate env (r_count r) (r_length r) t) (\<lambda>_ h'. calibrated r t h') h"
proof (cases "ring_count r h - t < t div 32")
  case True
  then show ?thesis
    unfolding cru_pvtpll_calibrate_def Let_def assms(5) [symmetric]
    using early_tests [OF assms(4,6)] assms(6)
    by (intro count_rule [OF assms(3)]) (simp add: wp calibratedI)
next
  case False
  note f = first_correction [OF assms(4,6) False] and a = after_first [OF assms(4,6) False]
  show ?thesis
    unfolding cru_pvtpll_calibrate_def Let_def assms(5) [symmetric]
    apply (rule count_rule [OF assms(3)])
    apply (simp only: early_tests [OF assms(4,6)] False if_False)
    apply (rule length_rule [OF assms(3)])
    apply (rule set_length_rule [OF assms(1) f(1,2)])
    subgoal by simp
    apply (rule count_rule [OF assms(3)])
    apply (simp only: one_longer a(1-4) if_True if_False)
    apply (rule wp_ifI)
    subgoal by (rule wp_returnI) (rule calibrated_longer, simp, rule a(5) [OF assms(2)])
    subgoal by (rule corrections_settle [OF assms(1-4) assms(6) False]) simp_all
    done
qed

lemma grf_settles:
  assumes "hiword_spec (HIWORD_UPDATE env)" and "abs_spec env" and "linear_ring env r" and "tunable r t"
    and "r_bus r = Grf" and "t \<le> ring_count r h"
  shows "wp (grf_pvtpll_calibrate env (r_count r) (r_length r) t) (\<lambda>_ h'. calibrated r t h') h"
proof (cases "ring_count r h - t < t div 32")
  case True
  then show ?thesis
    unfolding grf_pvtpll_calibrate_def Let_def assms(5) [symmetric]
    using early_tests [OF assms(4,6)] assms(6)
    by (intro count_rule [OF assms(3)]) (simp add: wp calibratedI)
next
  case False
  note f = first_correction [OF assms(4,6) False] and a = after_first [OF assms(4,6) False]
  show ?thesis
    unfolding grf_pvtpll_calibrate_def Let_def assms(5) [symmetric]
    apply (rule count_rule [OF assms(3)])
    apply (simp only: early_tests [OF assms(4,6)] False if_False)
    apply (rule length_rule [OF assms(3)])
    apply (rule set_length_rule [OF assms(1) f(1,2)])
    subgoal by simp
    apply (rule count_rule [OF assms(3)])
    apply (simp only: one_longer a(1-3) linorder_not_less [symmetric] not_not if_True if_False simp_thms)
    apply (rule wp_ifI)
    subgoal by (rule wp_returnI) (rule calibrated_longer, simp, rule a(5) [OF assms(2)])
    subgoal by (rule corrections_settle [OF assms(1-4) assms(6) False]) simp_all
    done
qed

section \<open>The contract of a calibration routine\<close>

text \<open>What the work item relies on: a routine writes one register, at most 23 times, and brings a tunable ring within
  tolerance. The lemmas of the locale carry this to one oscillator of the work item.\<close>

locale calibrator =
  fixes cal :: "pvt_env \<Rightarrow> int \<Rightarrow> int \<Rightarrow> int \<Rightarrow> (io list, unit) state" and b :: bus
  assumes confines: "wp (cal env co lo t) (\<lambda>_ h'. confined b lo 23 h h') h"
    and settles: "hiword_spec (HIWORD_UPDATE env) \<Longrightarrow> abs_spec env \<Longrightarrow> linear_ring env r \<Longrightarrow> tunable r t \<Longrightarrow> r_bus r = b \<Longrightarrow>
      t \<le> ring_count r h \<Longrightarrow> wp (cal env (r_count r) (r_length r) t) (\<lambda>_ h'. calibrated r t h') h"
begin

lemma one_confines: "wp (calibrate_one clk (cal env co lo)) (\<lambda>_ h'. confined b lo 23 h h') h"
  by (cases clk) (simp_all add: calibrate_one_def wp confined_refl confines)

lemma one_bound: "wp (calibrate_one clk (cal env co lo)) (\<lambda>_ h'. length (writes h') \<le> length (writes h) + 23) h"
  by (rule wp_mono [OF one_confines]) (auto simp: confined_def quiet_def)

lemma one_frame:
  "(b', off) \<noteq> (b, lo) \<Longrightarrow> wp (calibrate_one clk (cal env co lo)) (\<lambda>_ h'. reg x b' off h' = reg x b' off h) h"
  by (rule wp_mono [OF one_confines]) (auto simp: confined_def reg_quiet)

lemma one_keeps:
  "(r_bus q, r_length q) \<noteq> (b, lo) \<Longrightarrow> wp (calibrate_one clk (cal env co lo)) (\<lambda>_ h'. ring_length q h' = ring_length q h) h"
  by (rule wp_mono [OF one_frame [where x = "r_init q"]]) (auto simp: ring_length_def)

lemma one_settles:
  "hiword_spec (HIWORD_UPDATE env) \<Longrightarrow> abs_spec env \<Longrightarrow> linear_ring env r \<Longrightarrow> tunable r (uint (rate div 1000000)) \<Longrightarrow> r_bus r = b \<Longrightarrow>
   uint (rate div 1000000) \<le> ring_count r h \<Longrightarrow>
   wp (calibrate_one (Some rate) (cal env (r_count r) (r_length r))) (\<lambda>_ h'. calibrated r (uint (rate div 1000000)) h') h"
  by (simp add: calibrate_one_def settles)

end

interpretation cru_cal: calibrator cru_pvtpll_calibrate Cru
  by unfold_locales (rule cru_confined, rule cru_settles)

interpretation grf_cal: calibrator grf_pvtpll_calibrate Grf
  by unfold_locales (rule grf_confined, rule grf_settles)

section \<open>The work item\<close>

definition tuned_registers :: "(bus \<times> int) list" where
  "tuned_registers = [(Cru, CRU_PVTPLL0_CON0_H), (Cru, CRU_PVTPLL1_CON0_H), (Grf, CPU_PVTPLL_CON0_H)]"

text \<open>The oscillators: clock name, bus, counter and length register.\<close>

definition oscillators :: "(string \<times> bus \<times> int \<times> int) list" where
  "oscillators = [Pair ''clk_pvtpll_0'' (Cru, CRU_PVTPLL0_OSC_CNT_AVG, CRU_PVTPLL0_CON0_H),
     Pair ''clk_pvtpll_1'' (Cru, CRU_PVTPLL1_OSC_CNT_AVG, CRU_PVTPLL1_CON0_H),
     Pair ''cpu_pvtpll'' (Grf, CPU_PVTPLL_OSC_CNT_AVG, CPU_PVTPLL_CON0_H)]"

lemmas length_registers = CRU_PVTPLL0_CON0_H_def CRU_PVTPLL1_CON0_H_def CPU_PVTPLL_CON0_H_def

lemma wp_step: "wp m R h \<Longrightarrow> (\<And>h'. R () h' \<Longrightarrow> wp (f ()) Q h') \<Longrightarrow> wp (State_Monad.bind m f) Q h"
  by (auto simp: wp elim: wp_mono)

lemma worker_bound:
  "wp (rockchip_rv1106_pvtpll_calibrate env lookup) (\<lambda>_ h'. length (writes h') \<le> length (writes h) + 69) h"
  unfolding rockchip_rv1106_pvtpll_calibrate_def
  by (rule wp_step [OF cru_cal.one_bound], rule wp_step [OF cru_cal.one_bound], rule wp_mono [OF grf_cal.one_bound]) simp

lemma worker_frame:
  assumes "(b, off) \<notin> set tuned_registers"
  shows "wp (rockchip_rv1106_pvtpll_calibrate env lookup) (\<lambda>_ h'. reg x b off h' = reg x b off h) h"
  unfolding rockchip_rv1106_pvtpll_calibrate_def
  by (rule wp_step [OF cru_cal.one_frame [where b' = b and off = off and x = x]], use assms in \<open>simp add: tuned_registers_def\<close>,
      rule wp_step [OF cru_cal.one_frame [where b' = b and off = off and x = x]], use assms in \<open>simp add: tuned_registers_def\<close>,
      rule wp_mono [OF grf_cal.one_frame [where b' = b and off = off and x = x]], use assms in \<open>auto simp: tuned_registers_def\<close>)

text \<open>C36 (pvtpll_worker_confined): the calibration work item always finishes, writes registers at most 69 times
  whatever the counters return, and leaves every register but the three ring lengths as it was.\<close>

theorem pvtpll_worker_confined:
  assumes "run_state (rockchip_rv1106_pvtpll_calibrate env lookup) h = ((), h')" and "(b, off) \<notin> set tuned_registers"
  shows "length (writes h') \<le> length (writes h) + 69 \<and> reg x b off h' = reg x b off h"
  using wpD [OF worker_bound assms(1)] wpD [OF worker_frame [OF assms(2)] assms(1)] by blast

text \<open>A board on which one ring answers, for the witnesses.\<close>

definition ring_env :: "ring \<Rightarrow> pvt_env" where
  "ring_env r = \<lparr>env_read = \<lambda>h b off. if (b, off) = (r_bus r, r_count r) then word_of_int (ring_count r h)
       else if (b, off) = (r_bus r, r_length r) then reg (r_init r) b off h else 0,
     HIWORD_UPDATE = hiword_or, env_abs = \<lambda>x. \<bar>sint x\<bar>\<rparr>"

lemma ring_env_ok:
  "hiword_spec (HIWORD_UPDATE (ring_env r))" "abs_spec (ring_env r)" "r_count r \<noteq> r_length r \<Longrightarrow> linear_ring (ring_env r) r"
  by (simp_all add: ring_env_def hiword_spec_or abs_spec_def linear_ring_def)

definition demo_ring :: ring where
  "demo_ring = \<lparr>r_bus = Cru, r_count = CRU_PVTPLL0_OSC_CNT_AVG, r_length = CRU_PVTPLL0_CON0_H, r_init = 0,
     r_base = 1200, r_slope = 10\<rparr>"

definition demo_clocks :: "string \<Rightarrow> u32 option" where
  "demo_clocks name = (if name = ''clk_pvtpll_0'' then Some 800000000 else None)"

theorem pvtpll_worker_confined_witness:
  "reg 5 Cru CPU_CLK_PATH_BASE
     (snd (run_state (rockchip_rv1106_pvtpll_calibrate (ring_env demo_ring) demo_clocks) [])) = 5"
proof -
  have "(Cru, CPU_CLK_PATH_BASE) \<notin> set tuned_registers"
    by (simp add: tuned_registers_def length_registers CPU_CLK_PATH_BASE_def)
  moreover obtain h' where "run_state (rockchip_rv1106_pvtpll_calibrate (ring_env demo_ring) demo_clocks) [] = ((), h')"
    by (metis old.unit.exhaust prod.exhaust)
  ultimately show ?thesis
    using pvtpll_worker_confined [of _ _ "[]" h' Cru CPU_CLK_PATH_BASE 5] by simp
qed

text \<open>An oscillator keeps its length while the others are calibrated, and its count with it.\<close>

lemma worker_settles:
  assumes "hiword_spec (HIWORD_UPDATE env)" and "abs_spec env" and "linear_ring env r" and "tunable r t"
    and t: "t = uint (rate div 1000000)" and "t \<le> ring_count r h" and "lookup name = Some rate"
    and "(name, r_bus r, r_count r, r_length r) \<in> set oscillators"
  shows "wp (rockchip_rv1106_pvtpll_calibrate env lookup) (\<lambda>_ h'. calibrated r t h') h"
proof -
  note n = length_registers and u = rockchip_rv1106_pvtpll_calibrate_def
  note ok = assms(1-3) assms(4) [unfolded t]
  consider (zero) "name = ''clk_pvtpll_0''" "r_bus r = Cru" "r_count r = CRU_PVTPLL0_OSC_CNT_AVG" "r_length r = CRU_PVTPLL0_CON0_H"
    | (one) "name = ''clk_pvtpll_1''" "r_bus r = Cru" "r_count r = CRU_PVTPLL1_OSC_CNT_AVG" "r_length r = CRU_PVTPLL1_CON0_H"
    | (cpu) "name = ''cpu_pvtpll''" "r_bus r = Grf" "r_count r = CPU_PVTPLL_OSC_CNT_AVG" "r_length r = CPU_PVTPLL_CON0_H"
    using assms(8) by (auto simp: oscillators_def)
  then show ?thesis
  proof cases
    case zero
    note s = cru_cal.one_settles [OF ok zero(2), folded t, unfolded zero(3,4), folded assms(7) [unfolded zero(1)]]
    show ?thesis
      unfolding u
      by (rule wp_step [OF s], rule assms(6), rule wp_step [OF cru_cal.one_keeps [of r]], simp add: zero n,
          rule wp_mono [OF grf_cal.one_keeps [of r]], simp add: zero) (simp add: calibrated_def ring_count_def)
  next
    case one
    note s = cru_cal.one_settles [OF ok one(2), folded t, unfolded one(3,4), folded assms(7) [unfolded one(1)]]
    show ?thesis
      unfolding u
      by (rule wp_step [OF cru_cal.one_keeps [of r]], simp add: one n, rule wp_step [OF s],
          use assms(6) in \<open>simp add: ring_count_def\<close>, rule wp_mono [OF grf_cal.one_keeps [of r]], simp add: one)
        (simp add: calibrated_def ring_count_def)
  next
    case cpu
    note s = grf_cal.one_settles [OF ok cpu(2), folded t, unfolded cpu(3,4), folded assms(7) [unfolded cpu(1)]]
    show ?thesis
      unfolding u
      by (rule wp_step [OF cru_cal.one_keeps [of r]], simp add: cpu, rule wp_step [OF cru_cal.one_keeps [of r]],
          simp add: cpu, rule s) (use assms(6) in \<open>simp add: ring_count_def\<close>)
  qed
qed



end
