(* ===== verification/Clk_Init.thy ===== *)
theory Clk_Init
  imports Clk_Table Clk_Pvtpll
begin

text \<open>
  Initialisation of the clock driver: the entry points of \<^verbatim>\<open>clk-rv1106.c\<close> on the globals of the
  file. Calls of the clock framework are recorded with their arguments; the mapping of the registers and the
  creation of a provider are parameters that may fail.
\<close>

section \<open>State\<close>

datatype framework_call =
    Pr_err string
  | Register_plls ptr "rockchip_pll_clock list" int
  | Register_armclk ptr int string "string list" rockchip_cpuclk_reg_data "rockchip_cpuclk_rate_table list"
  | Register_branches ptr "rockchip_clk_branch list"
  | Register_softrst int ptr int
  | Register_restart_notifier ptr int
  | Of_add_provider ptr
  | Panic_notifier_register
  | Queue_delayed_work nat
  | Hex_dump ptr nat

record clk_sys =
  rv1106_cru_base :: ptr
  grf_ctx :: ptr
  cru_ctx :: ptr
  mapped :: "ptr list"
  accesses :: "io list"
  calls :: "framework_call list"

text \<open>\<open>of_iomap\<close> gives an address or \<open>NULL\<close>; \<open>rockchip_clk_init\<close> a provider for a base and a number of
  clocks, or an error.\<close>

record 'n clk_env =
  of_iomap :: "'n \<Rightarrow> ptr"
  of_get_parent :: "'n \<Rightarrow> 'n"
  rockchip_clk_init :: "'n \<Rightarrow> ptr \<Rightarrow> int \<Rightarrow> int + ptr"
  clk_pvt :: pvt_env

definition RV1106_GRF_SOC_STATUS0 :: int where
  "RV1106_GRF_SOC_STATUS0 = 0x10"

definition call :: "framework_call \<Rightarrow> (clk_sys, unit) state" where
  "call c = modify (\<lambda>s. s\<lparr>calls := calls s @ [c]\<rparr>)"

text \<open>A mapping is live from \<open>of_iomap\<close> to \<open>iounmap\<close>.\<close>

definition iomap :: "ptr \<Rightarrow> (clk_sys, unit) state" where
  "iomap p = modify (\<lambda>s. if p = NULL then s else s\<lparr>mapped := p # mapped s\<rparr>)"

definition iounmap :: "ptr \<Rightarrow> (clk_sys, unit) state" where
  "iounmap p = modify (\<lambda>s. s\<lparr>mapped := remove1 p (mapped s)\<rparr>)"

section \<open>Entry points\<close>

definition rv1106_dump_cru :: "(clk_sys, unit) state" where
  "rv1106_dump_cru = do {
     base \<leftarrow> gets rv1106_cru_base;
     if base \<noteq> NULL then call (Hex_dump base 0x588) else returnS ()
   }"

definition NOTIFY_DONE :: int where
  "NOTIFY_DONE = 0"

definition rv1106_clk_panic :: "(clk_sys, int) state" where
  "rv1106_clk_panic = do { rv1106_dump_cru; returnS NOTIFY_DONE }"

definition pvtpll_init :: "pvt_env \<Rightarrow> (clk_sys, unit) state" where
  "pvtpll_init env = do {
     lift_on accesses (\<lambda>h s. s\<lparr>accesses := h\<rparr>) (run_state (rockchip_rv1106_pvtpll_init env));
     call (Queue_delayed_work 300)
   }"

definition rv1106_clk_init :: "'n clk_env \<Rightarrow> 'n \<Rightarrow> (clk_sys, unit) state" where
  "rv1106_clk_init env np = do {
     let reg_base = of_iomap env np;
     iomap reg_base;
     if reg_base = NULL then call (Pr_err ''could not map cru region'')
     else do {
       modify (\<lambda>s. s\<lparr>rv1106_cru_base := reg_base\<rparr>);
       case rockchip_clk_init env np reg_base CLK_NR_CLKS of
         Inl err \<Rightarrow> do { call (Pr_err ''rockchip clk init failed''); iounmap reg_base }
       | Inr ctx \<Rightarrow> do {
           modify (\<lambda>s. s\<lparr>cru_ctx := ctx\<rparr>);
           pvtpll_init (clk_pvt env);
           call (Register_plls ctx rv1106_pll_clks RV1106_GRF_SOC_STATUS0);
           call (Register_armclk ctx ARMCLK ''armclk'' mux_armclk_p rv1106_cpuclk_data
                   (rv1106_cpuclk_rates (HIWORD_UPDATE (clk_pvt env))));
           call (Register_branches ctx rv1106_clk_branches);
           grf \<leftarrow> gets grf_ctx;
           call (Register_branches grf rv1106_grf_clk_branches);
           call (Register_softrst 31745 reg_base (RV1106_PMUSOFTRST_CON 0));
           call (Register_restart_notifier ctx RV1106_GLB_SRST_FST);
           call (Of_add_provider ctx);
           call Panic_notifier_register
         }
     }
   }"

definition rv1106_grf_clk_init :: "'n clk_env \<Rightarrow> 'n \<Rightarrow> (clk_sys, unit) state" where
  "rv1106_grf_clk_init env np = do {
     let reg_base = of_iomap env (of_get_parent env np);
     iomap reg_base;
     if reg_base = NULL then call (Pr_err ''could not map cru grf region'')
     else case rockchip_clk_init env np reg_base CLK_NR_GRF_CLKS of
         Inl err \<Rightarrow> call (Pr_err ''rockchip grf clk init failed'')
       | Inr ctx \<Rightarrow> do {
           modify (\<lambda>s. s\<lparr>grf_ctx := ctx\<rparr>);
           call (Of_add_provider ctx)
         }
   }"

text \<open>The platform driver of a modular build picks the initialiser by the compatible string that matched.\<close>

definition clk_rv1106_match_table :: "(string \<times> ('n clk_env \<Rightarrow> 'n \<Rightarrow> (clk_sys, unit) state)) list" where
  "clk_rv1106_match_table = [Pair ''rockchip,rv1106-cru'' rv1106_clk_init,
     Pair ''rockchip,rv1106-grf-cru'' rv1106_grf_clk_init]"

definition EINVAL :: int where
  "EINVAL = 22"

definition clk_rv1106_probe :: "'n clk_env \<Rightarrow> string \<Rightarrow> 'n \<Rightarrow> (clk_sys, int) state" where
  "clk_rv1106_probe env compatible np = (case map_of clk_rv1106_match_table compatible of
     None \<Rightarrow> returnS (- EINVAL)
   | Some inits \<Rightarrow> do { inits env np; returnS 0 })"

section \<open>What initialisation leaves behind\<close>

lemma wp_clk_call [wp]: "wp (call c) Q s = Q () (s\<lparr>calls := calls s @ [c]\<rparr>)"
  by (simp add: call_def wp)

lemma wp_iomap [wp]: "wp (iomap p) Q s = (if p = NULL then Q () s else Q () (s\<lparr>mapped := p # mapped s\<rparr>))"
  by (simp add: iomap_def wp)

lemma wp_iounmap [wp]: "wp (iounmap p) Q s = Q () (s\<lparr>mapped := remove1 p (mapped s)\<rparr>)"
  by (simp add: iounmap_def wp)

lemma wp_dump [wp]:
  "wp rv1106_dump_cru Q s =
    (if rv1106_cru_base s = NULL then Q () s else Q () (s\<lparr>calls := calls s @ [Hex_dump (rv1106_cru_base s) 0x588]\<rparr>))"
  by (simp add: rv1106_dump_cru_def wp)

definition pvtpll_writes :: "pvt_env \<Rightarrow> io list" where
  "pvtpll_writes env = snd (run_state (rockchip_rv1106_pvtpll_init env) [])"

lemma run_pvtpll_init: "run_state (rockchip_rv1106_pvtpll_init env) h = ((), h @ pvtpll_writes env)"
  by (simp add: pvtpll_writes_def rockchip_rv1106_pvtpll_init_def wr_def modify_def)

lemma wp_pvtpll_init [wp]:
  "wp (pvtpll_init env) Q s =
    Q () (s\<lparr>accesses := accesses s @ pvtpll_writes env, calls := calls s @ [Queue_delayed_work 300]\<rparr>)"
  by (simp add: pvtpll_init_def wp run_pvtpll_init)

lemma clk_init_unmapped:
  "of_iomap env np = NULL \<Longrightarrow> wp (rv1106_clk_init env np) Q s = Q () (s\<lparr>calls := calls s @ [Pr_err ''could not map cru region'']\<rparr>)"
  by (simp add: rv1106_clk_init_def Let_def wp)

lemma clk_init_failed:
  "of_iomap env np \<noteq> NULL \<Longrightarrow> rockchip_clk_init env np (of_iomap env np) CLK_NR_CLKS = Inl err \<Longrightarrow>
   wp (rv1106_clk_init env np) Q s =
     Q () (s\<lparr>rv1106_cru_base := of_iomap env np, calls := calls s @ [Pr_err ''rockchip clk init failed'']\<rparr>)"
  by (simp add: rv1106_clk_init_def Let_def wp)

definition cru_calls :: "'n clk_env \<Rightarrow> 'n \<Rightarrow> ptr \<Rightarrow> ptr \<Rightarrow> framework_call list" where
  "cru_calls env np ctx grf = [Queue_delayed_work 300, Register_plls ctx rv1106_pll_clks RV1106_GRF_SOC_STATUS0,
     Register_armclk ctx ARMCLK ''armclk'' mux_armclk_p rv1106_cpuclk_data
       (rv1106_cpuclk_rates (HIWORD_UPDATE (clk_pvt env))),
     Register_branches ctx rv1106_clk_branches, Register_branches grf rv1106_grf_clk_branches,
     Register_softrst 31745 (of_iomap env np) (RV1106_PMUSOFTRST_CON 0),
     Register_restart_notifier ctx RV1106_GLB_SRST_FST, Of_add_provider ctx, Panic_notifier_register]"

lemma clk_init_done:
  assumes "of_iomap env np \<noteq> NULL" and "rockchip_clk_init env np (of_iomap env np) CLK_NR_CLKS = Inr ctx"
  shows "wp (rv1106_clk_init env np) Q s =
     Q () (s\<lparr>mapped := of_iomap env np # mapped s, rv1106_cru_base := of_iomap env np, cru_ctx := ctx,
       accesses := accesses s @ pvtpll_writes (clk_pvt env), calls := calls s @ cru_calls env np ctx (grf_ctx s)\<rparr>)"
  using assms by (simp add: rv1106_clk_init_def Let_def wp cru_calls_def)

text \<open>When the framework refuses the provider, initialisation registers nothing and
  releases the mapping, but the exported base keeps the released address: a later \<^verbatim>\<open>rv1106_dump_cru\<close>
  reads registers through a mapping that no longer exists.\<close>

theorem clk_init_dangling_base:
  assumes "of_iomap env np \<noteq> NULL" and "of_iomap env np \<notin> set (mapped s)"
    and "rockchip_clk_init env np (of_iomap env np) CLK_NR_CLKS = Inl err"
    and "run_state (do { rv1106_clk_init env np; rv1106_dump_cru }) s = ((), s')"
  shows "rv1106_cru_base s' \<notin> set (mapped s') \<and> cru_ctx s' = cru_ctx s \<and> accesses s' = accesses s \<and>
    calls s' = calls s @ [Pr_err ''rockchip clk init failed'', Hex_dump (rv1106_cru_base s') 0x588]"
proof -
  have "wp (do { rv1106_clk_init env np; rv1106_dump_cru })
      (\<lambda>_ s'. rv1106_cru_base s' \<notin> set (mapped s') \<and> cru_ctx s' = cru_ctx s \<and> accesses s' = accesses s \<and>
        calls s' = calls s @ [Pr_err ''rockchip clk init failed'', Hex_dump (rv1106_cru_base s') 0x588]) s"
    using assms(1,2) by (simp add: wp clk_init_failed [OF assms(1,3)])
  from wpD [OF this assms(4)] show ?thesis .
qed

definition boot :: clk_sys where
  "boot = \<lparr>rv1106_cru_base = NULL, grf_ctx = NULL, cru_ctx = NULL, mapped = [], accesses = [], calls = []\<rparr>"

definition demo_env :: "(int + ptr) \<Rightarrow> nat clk_env" where
  "demo_env res = \<lparr>of_iomap = \<lambda>n. n + 1, of_get_parent = \<lambda>n. n + 1, rockchip_clk_init = \<lambda>_ _ _. res,
     clk_pvt = ring_env demo_ring\<rparr>"

theorem clk_init_dangling_base_witness:
  "rv1106_cru_base (snd (run_state (do { rv1106_clk_init (demo_env (Inl 12)) 6; rv1106_dump_cru }) boot)) \<notin>
     set (mapped (snd (run_state (do { rv1106_clk_init (demo_env (Inl 12)) 6; rv1106_dump_cru }) boot)))"
proof -
  obtain s' where s': "run_state (do { rv1106_clk_init (demo_env (Inl 12)) 6; rv1106_dump_cru }) boot = ((), s')"
    by (metis old.unit.exhaust prod.exhaust)
  have "rv1106_cru_base s' \<notin> set (mapped s')"
    using clk_init_dangling_base [OF _ _ _ s'] by (simp add: demo_env_def boot_def)
  then show ?thesis
    unfolding s' snd_conv .
qed

text \<open>The GRF provider and the order of the two initialisers.\<close>

definition null_branches :: "clk_sys \<Rightarrow> bool" where
  "null_branches s = list_ex (\<lambda>c. case c of Register_branches ctx _ \<Rightarrow> ctx = NULL | _ \<Rightarrow> False) (calls s)"

definition clk_ready :: "'n clk_env \<Rightarrow> 'n \<Rightarrow> bool" where
  "clk_ready env np = (of_iomap env np \<noteq> NULL \<and> \<not> isl (rockchip_clk_init env np (of_iomap env np) CLK_NR_CLKS))"

definition grf_ready :: "'n clk_env \<Rightarrow> 'n \<Rightarrow> bool" where
  "grf_ready env np = (of_iomap env (of_get_parent env np) \<noteq> NULL \<and>
     \<not> isl (rockchip_clk_init env np (of_iomap env (of_get_parent env np)) CLK_NR_GRF_CLKS))"

text \<open>A provider that is not an error is an object.\<close>

definition provider_spec :: "'n clk_env \<Rightarrow> bool" where
  "provider_spec env = (\<forall>n b k ctx. rockchip_clk_init env n b k = Inr ctx \<longrightarrow> ctx \<noteq> NULL)"

lemma null_branches_simps [simp]:
  "null_branches (s\<lparr>rv1106_cru_base := b\<rparr>) = null_branches s" "null_branches (s\<lparr>cru_ctx := c\<rparr>) = null_branches s"
  "null_branches (s\<lparr>grf_ctx := g\<rparr>) = null_branches s" "null_branches (s\<lparr>mapped := m\<rparr>) = null_branches s"
  "null_branches (s\<lparr>accesses := h\<rparr>) = null_branches s"
  "null_branches (s\<lparr>calls := cs\<rparr>) = list_ex (\<lambda>c. case c of Register_branches ctx _ \<Rightarrow> ctx = NULL | _ \<Rightarrow> False) cs"
  by (simp_all add: null_branches_def)

lemma grf_init_wp:
  assumes "provider_spec env"
  shows "wp (rv1106_grf_clk_init env np)
    (\<lambda>_ s'. null_branches s' = null_branches s \<and> (if grf_ready env np then grf_ctx s' \<noteq> NULL else grf_ctx s' = grf_ctx s)) s"
  using assms
  by (auto simp: provider_spec_def rv1106_grf_clk_init_def Let_def wp grf_ready_def null_branches_def split: sum.splits)

lemma clk_init_wp:
  assumes "provider_spec env"
  shows "wp (rv1106_clk_init env np)
    (\<lambda>_ s'. null_branches s' = (null_branches s \<or> clk_ready env np \<and> grf_ctx s = NULL)) s"
proof (cases "of_iomap env np = NULL")
  case True
  then show ?thesis
    by (simp add: clk_init_unmapped clk_ready_def null_branches_def)
next
  case False
  show ?thesis
  proof (cases "rockchip_clk_init env np (of_iomap env np) CLK_NR_CLKS")
    case (Inl err)
    then show ?thesis
      by (simp add: clk_init_failed [OF False] clk_ready_def null_branches_def)
  next
    case (Inr ctx)
    then have "ctx \<noteq> NULL"
      using assms unfolding provider_spec_def by blast
    with Inr show ?thesis
      using False by (simp add: clk_init_done [OF False] clk_ready_def null_branches_def cru_calls_def)
  qed
qed

text \<open>C35 (clk_init_order): from boot, running the GRF initialiser before the clock controller's passes no null provider
  to branch registration exactly when the GRF came up (or the controller did not); in the other order every
  successful controller initialisation registers the GRF branches on a null provider.\<close>

theorem clk_init_order:
  assumes "provider_spec env"
    and "run_state (do { rv1106_grf_clk_init env g; rv1106_clk_init env np }) boot = ((), s1)"
    and "run_state (do { rv1106_clk_init env np; rv1106_grf_clk_init env g }) boot = ((), s2)"
  shows "null_branches s1 = (clk_ready env np \<and> \<not> grf_ready env g) \<and> null_branches s2 = clk_ready env np"
proof
  have b: "\<not> null_branches boot" "grf_ctx boot = NULL"
    by (simp_all add: boot_def null_branches_def)
  have "wp (do { rv1106_grf_clk_init env g; rv1106_clk_init env np })
      (\<lambda>_ s'. null_branches s' = (clk_ready env np \<and> \<not> grf_ready env g)) boot"
    by (rule wp_step [OF grf_init_wp [OF assms(1)]]) (rule wp_mono [OF clk_init_wp [OF assms(1)]], auto simp: b split: if_splits)
  from wpD [OF this assms(2)] show "null_branches s1 = (clk_ready env np \<and> \<not> grf_ready env g)" .
  have "wp (do { rv1106_clk_init env np; rv1106_grf_clk_init env g }) (\<lambda>_ s'. null_branches s' = clk_ready env np) boot"
    by (rule wp_step [OF clk_init_wp [OF assms(1)]]) (rule wp_mono [OF grf_init_wp [OF assms(1)]], auto simp: b)
  from wpD [OF this assms(3)] show "null_branches s2 = clk_ready env np" .
qed

theorem clk_init_order_witness:
  "\<not> null_branches (snd (run_state (do { rv1106_grf_clk_init (demo_env (Inr 9)) 3; rv1106_clk_init (demo_env (Inr 9)) 6 }) boot)) \<and>
   null_branches (snd (run_state (do { rv1106_clk_init (demo_env (Inr 9)) 6; rv1106_grf_clk_init (demo_env (Inr 9)) 3 }) boot))"
proof -
  obtain s1 where s1: "run_state (do { rv1106_grf_clk_init (demo_env (Inr 9)) 3; rv1106_clk_init (demo_env (Inr 9)) 6 }) boot = ((), s1)"
    by (metis old.unit.exhaust prod.exhaust)
  obtain s2 where s2: "run_state (do { rv1106_clk_init (demo_env (Inr 9)) 6; rv1106_grf_clk_init (demo_env (Inr 9)) 3 }) boot = ((), s2)"
    by (metis old.unit.exhaust prod.exhaust)
  have "null_branches s1 = (clk_ready (demo_env (Inr 9)) 6 \<and> \<not> grf_ready (demo_env (Inr 9)) 3) \<and>
      null_branches s2 = clk_ready (demo_env (Inr 9)) 6"
    by (rule clk_init_order [OF _ s1 s2]) (simp add: provider_spec_def demo_env_def)
  then show ?thesis
    unfolding s1 s2 snd_conv by (simp add: clk_ready_def grf_ready_def demo_env_def)
qed

end
