(* ===== verification/Vop_Regs.thy ===== *)
theory Vop_Regs
  imports Kernel_Monad
begin

text \<open>
  Registers of the display controller, \<^verbatim>\<open>kernel/rv1106-enablement/display/rockchip_drm_vop.c\<close>: the
  description of a register field, the shadow copy \<^verbatim>\<open>regsbak\<close>, and the interrupt registers. The state
  of a display controller holds the driver's own fields and the history of its accesses; a read returns any function of
  the history. The tables of register fields (\<^verbatim>\<open>struct vop_data\<close>) are a parameter.
\<close>

section \<open>Register descriptions\<close>

record vop_reg =
  mask :: u32
  offset :: u32
  shift :: nat
  write_mask :: bool

text \<open>The scaling registers of a window; an extended set exists on some controllers.\<close>

datatype ext_field = cbcr_vsd_mode | cbcr_vsu_mode | cbcr_hsd_mode | cbcr_ver_scl_mode | cbcr_hor_scl_mode
    | yrgb_vsd_mode | yrgb_vsu_mode | yrgb_hsd_mode | yrgb_ver_scl_mode | yrgb_hor_scl_mode | lb_mode
    | vsd_cbcr_gt2 | vsd_cbcr_gt4 | vsd_yrgb_gt2 | vsd_yrgb_gt4

datatype scl_field = scale_yrgb_x | scale_yrgb_y | scale_cbcr_x | scale_cbcr_y

record scl_regs =
  scl_reg :: "scl_field \<Rightarrow> vop_reg"
  scl_ext :: "(ext_field \<Rightarrow> vop_reg) option"

datatype win_field = enable | gate | format | fmt_10 | rb_swap | act_info | dsp_info | dsp_st | yrgb_mst
  | uv_mst | yrgb_vir | uv_vir | uv_swap | y_mir_en | x_mir_en | dst_alpha_ctl | src_alpha_ctl | alpha_pre_mul | alpha_mode | alpha_en | channel

datatype plane_type = DRM_PLANE_TYPE_OVERLAY | DRM_PLANE_TYPE_PRIMARY | DRM_PLANE_TYPE_CURSOR

record win_data =
  base :: u32
  phy :: "win_field \<Rightarrow> vop_reg"
  scl :: "scl_regs option"
  win_type :: plane_type

record yuv2yuv_data =
  y2r_base :: u32
  y2r_en :: vop_reg
  y2r_coefficients :: "vop_reg list"

datatype common_field = cfg_done | standby | dsp_blank | dsp_lut_en | update_gamma_lut | lut_buffer_index
    | dma_stop | pre_dither_down | dither_down_sel | dither_down_mode | dither_down_en | out_mode

datatype output_field = pin_pol | mipi_dual_channel_en | rgb_dclk_pol | rgb_pin_pol | rgb_en | edp_dclk_pol
    | edp_pin_pol | edp_en | hdmi_dclk_pol | hdmi_pin_pol | hdmi_en | mipi_dclk_pol | mipi_pin_pol | mipi_en
    | dp_dclk_pol | dp_pin_pol | dp_en

datatype modeset_field = htotal_pw | hact_st_end | hpost_st_end | vtotal_pw | vact_st_end | vpost_st_end

text \<open>Bit \<open>i\<close> of the interrupt registers stands for the interrupts of \<open>intrs ! i\<close>.\<close>

record intr_regs =
  intrs :: "u32 list"
  line_flag_num :: vop_reg
  intr_enable :: vop_reg
  intr_clear :: vop_reg
  intr_status :: vop_reg

datatype afbc_field = afbc_enable | afbc_format | hreg_block_split | win_sel | hdr_ptr | pic_size

record vop_data =
  version_major :: u32
  feature_output_rgb10 :: bool
  feature_internal_rgb :: bool
  max_output_width :: u32
  lut_size :: u32
  common :: "common_field \<Rightarrow> vop_reg"
  outputs :: "output_field \<Rightarrow> vop_reg"
  modeset :: "modeset_field \<Rightarrow> vop_reg"
  intr :: intr_regs
  global_regdone_en :: vop_reg
  wins :: "win_data list"
  win_yuv2yuv :: "yuv2yuv_data list option"
  afbc :: "(afbc_field \<Rightarrow> vop_reg) option"

section \<open>The state of a display controller\<close>

text \<open>What the driver does outside its own memory, in order: register accesses and calls with their results.\<close>

datatype clk = Hclk | Aclk | Dclk

datatype clk_op = Get | Enable | Disable | Prepare | Unprepare | Prepare_enable | Disable_unprepare

datatype pm_op = Resume_and_get | Get_if_in_use | Put | Pm_enable | Pm_disable

datatype vblank_op = Vblank_on | Vblank_off | Vblank_get | Vblank_put | Handle_vblank

datatype dev_op = Dma_attach | Dma_detach | Dma_init | Request_irq | Synchronize_irq | Rgb_init | Rgb_fini
  | Crtc_cleanup | Port_get | Port_put | Wait_dsp_hold | Complete_dsp_hold | Complete_line_flag

datatype mem_op = Alloc_vop | Alloc_regsbak | Map_regs | Map_lut | Get_irq | Alloc_state | Free_state
  | Flip_work_cleanup | Self_refresh_init | Self_refresh_cleanup | Start_crc | Stop_crc

text \<open>A plane of the device is that of a window of this controller, or of another controller.\<close>

datatype plane_id = Win nat | Foreign nat

datatype vcall = Clk clk_op clk | Clk_set_rate u32 | Pm pm_op | Vblank vblank_op | Dev dev_op
  | Send_event nat | Fb_get nat | Fb_put nat | Flip_commit "nat list" | Wait_line_flag nat
  | Reset_get string | Reset_pulse string | Plane_init nat | Plane_cleanup plane_id | Rotation_property nat u32
  | Crtc_init "nat option" "nat option" | Gamma_size u32 | Mem mem_op

datatype vio = Readl u32 u32 | Writel u32 u32 | Lut_write u32 u32 | Ret vcall int

text \<open>The outside: what reads and calls return after a history, how often a register is polled before the poll times
  out, the length of the register block, and the values of the macros and enumerators that the driver takes from headers
  outside the repository.\<close>

record vop_env =
  env_readl :: "vio list \<Rightarrow> u32 \<Rightarrow> u32"
  env_ret :: "vio list \<Rightarrow> vcall \<Rightarrow> int"
  env_polls :: "vio list \<Rightarrow> nat"
  vop_len :: nat
  hdr :: "string \<Rightarrow> u32"

text \<open>A display mode and the state of the CRTC, as far as the driver looks at them.\<close>

record display_mode =
  hdisplay :: int
  hsync_start :: int
  hsync_end :: int
  htotal :: int
  vdisplay :: int
  vsync_start :: int
  vsync_end :: int
  vtotal :: int
  clock :: int
  phsync :: bool
  pvsync :: bool

datatype connector = LVDS | EDP | HDMIA | DSI | DisplayPort | Other_connector int

record crtc_state =
  active :: bool
  self_refresh_active :: bool
  color_mgmt_changed :: bool
  active_changed :: bool
  state_event :: "nat option"
  gamma_lut :: "(u32 \<times> u32 \<times> u32) list option"
  adjusted_mode :: display_mode
  output_type :: connector
  output_mode :: u32
  output_bpc :: int
  output_dsi_dual :: bool
  enable_afbc :: bool

record vop =
  is_enabled :: bool
  loader_active :: bool
  win_enabled :: u32
  event :: "nat option"
  pending_fb_unref :: bool
  fb_unref_queue :: "nat list"
  regsbak :: "u32 \<Rightarrow> u32"
  lut_regs :: bool
  rgb :: bool
  plane_list :: "plane_id list"
  cstate :: crtc_state
  hist :: "vio list"

fun foreach :: "('a \<Rightarrow> ('s, unit) state) \<Rightarrow> 'a list \<Rightarrow> ('s, unit) state" where
  "foreach f [] = returnS ()"
| "foreach f (x # xs) = do { f x; foreach f xs }"

definition when_do :: "bool \<Rightarrow> ('s, unit) state \<Rightarrow> ('s, unit) state" where
  "when_do b m = (if b then m else returnS ())"

definition call :: "vop_env \<Rightarrow> vcall \<Rightarrow> (vop, int) state" where
  "call env c = State (\<lambda>s. (env_ret env (hist s) c, s\<lparr>hist := hist s @ [Ret c (env_ret env (hist s) c)]\<rparr>))"

definition invoke :: "vcall \<Rightarrow> (vop, unit) state" where
  "invoke c = modify (\<lambda>s. s\<lparr>hist := hist s @ [Ret c 0]\<rparr>)"

text \<open>The kernel's \<^verbatim>\<open>readx_poll_timeout\<close>: it evaluates \<open>op\<close> until \<open>cond\<close> holds of the value, and once more after the
  time is up.\<close>

definition ETIMEDOUT :: int where "ETIMEDOUT = 110"

fun poll :: "nat \<Rightarrow> ('s, 'a) state \<Rightarrow> ('a \<Rightarrow> bool) \<Rightarrow> ('s, int) state" where
  "poll 0 op cond = do { v \<leftarrow> op; returnS (if cond v then 0 else - ETIMEDOUT) }"
| "poll (Suc n) op cond = do { v \<leftarrow> op; if cond v then returnS 0 else poll n op cond }"

definition readx_poll_timeout :: "vop_env \<Rightarrow> (vop, 'a) state \<Rightarrow> ('a \<Rightarrow> bool) \<Rightarrow> (vop, int) state" where
  "readx_poll_timeout env op cond = do { n \<leftarrow> gets (\<lambda>s. env_polls env (hist s)); poll n op cond }"

section \<open>Access to registers\<close>

definition vop_readl :: "vop_env \<Rightarrow> u32 \<Rightarrow> (vop, u32) state" where
  "vop_readl env off = State (\<lambda>s. (env_readl env (hist s) off, s\<lparr>hist := hist s @ [Readl off (env_readl env (hist s) off)]\<rparr>))"

definition vop_read_reg :: "vop_env \<Rightarrow> u32 \<Rightarrow> vop_reg \<Rightarrow> (vop, u32) state" where
  "vop_read_reg env b reg = do {
     v \<leftarrow> vop_readl env (b + offset reg);
     returnS (drop_bit (shift reg) v AND mask reg)
   }"

definition writel :: "u32 \<Rightarrow> u32 \<Rightarrow> (vop, unit) state" where
  "writel v off = modify (\<lambda>s. s\<lparr>hist := hist s @ [Writel off v]\<rparr>)"

text \<open>A register with mask 0 does not exist on this controller. \<open>regsbak\<close> is indexed by the word of the offset. The
  relaxed and the ordered write are the same access of the device.\<close>

definition vop_reg_set :: "vop_reg \<Rightarrow> u32 \<Rightarrow> u32 \<Rightarrow> u32 \<Rightarrow> (vop, unit) state" where
  "vop_reg_set reg off' mask' v =
     (if mask reg = 0 then returnS ()
      else let off = offset reg + off'; m = mask reg AND mask' in
        if write_mask reg
        then writel ((push_bit (shift reg) v AND 0xffff) OR push_bit (shift reg + 16) m) off
        else do {
          cached \<leftarrow> gets (\<lambda>s. regsbak s (drop_bit 2 off));
          let v' = (cached AND NOT (push_bit (shift reg) m)) OR push_bit (shift reg) (v AND m);
          modify (\<lambda>s. s\<lparr>regsbak := (regsbak s)(drop_bit 2 off := v')\<rparr>);
          writel v' off
        })"

abbreviation VOP_REG_SET :: "vop_reg \<Rightarrow> u32 \<Rightarrow> (vop, unit) state" where
  "VOP_REG_SET reg v \<equiv> vop_reg_set reg 0 (- 1) v"

abbreviation VOP_WIN_SET :: "win_data \<Rightarrow> win_field \<Rightarrow> u32 \<Rightarrow> (vop, unit) state" where
  "VOP_WIN_SET win name v \<equiv> vop_reg_set (phy win name) (base win) (- 1) v"

abbreviation VOP_SCL_SET :: "win_data \<Rightarrow> scl_regs \<Rightarrow> scl_field \<Rightarrow> u32 \<Rightarrow> (vop, unit) state" where
  "VOP_SCL_SET win sc name v \<equiv> vop_reg_set (scl_reg sc name) (base win) (- 1) v"

abbreviation VOP_SCL_SET_EXT :: "win_data \<Rightarrow> (ext_field \<Rightarrow> vop_reg) \<Rightarrow> ext_field \<Rightarrow> u32 \<Rightarrow> (vop, unit) state" where
  "VOP_SCL_SET_EXT win ext name v \<equiv> vop_reg_set (ext name) (base win) (- 1) v"

definition VOP_AFBC_SET :: "vop_data \<Rightarrow> afbc_field \<Rightarrow> u32 \<Rightarrow> (vop, unit) state" where
  "VOP_AFBC_SET d name v = (case afbc d of None \<Rightarrow> returnS () | Some a \<Rightarrow> vop_reg_set (a name) 0 (- 1) v)"

definition has_reg :: "vop_reg \<Rightarrow> bool" where
  "has_reg reg = (mask reg \<noteq> 0)"

definition vop_cfg_done :: "vop_data \<Rightarrow> (vop, unit) state" where
  "vop_cfg_done d = VOP_REG_SET (common d cfg_done) 1"

section \<open>Interrupt registers\<close>

text \<open>The loop of \<^verbatim>\<open>VOP_INTR_SET_TYPE\<close>: the register value and the mask over the listed interrupts.\<close>

fun intr_bits :: "u32 list \<Rightarrow> nat \<Rightarrow> u32 \<Rightarrow> u32 \<Rightarrow> u32 \<times> u32 \<Rightarrow> u32 \<times> u32" where
  "intr_bits [] i type v acc = acc"
| "intr_bits (x # xs) i type v (reg, m) =
     intr_bits xs (i + 1) type v (if x AND type \<noteq> 0 then (reg OR push_bit i v, m OR push_bit i 1) else (reg, m))"

definition VOP_INTR_SET_TYPE :: "vop_data \<Rightarrow> (intr_regs \<Rightarrow> vop_reg) \<Rightarrow> u32 \<Rightarrow> u32 \<Rightarrow> (vop, unit) state" where
  "VOP_INTR_SET_TYPE d name type v =
     (let (reg, m) = intr_bits (intrs (intr d)) 0 type v (0, 0) in vop_reg_set (name (intr d)) 0 m reg)"

fun intr_type :: "u32 list \<Rightarrow> nat \<Rightarrow> u32 \<Rightarrow> u32 \<Rightarrow> u32 \<Rightarrow> u32" where
  "intr_type [] i type regs acc = acc"
| "intr_type (x # xs) i type regs acc =
     intr_type xs (i + 1) type regs (if type AND x \<noteq> 0 \<and> regs AND push_bit i 1 \<noteq> 0 then acc OR x else acc)"

definition vop_get_intr_type :: "vop_env \<Rightarrow> vop_data \<Rightarrow> vop_reg \<Rightarrow> u32 \<Rightarrow> (vop, u32) state" where
  "vop_get_intr_type env d reg type = do {
     regs \<leftarrow> vop_read_reg env 0 reg;
     returnS (intr_type (intrs (intr d)) 0 type regs 0)
   }"

end
