(* ===== verification/Vop_Crtc.thy ===== *)
theory Vop_Crtc
  imports Vop_Regs
begin

text \<open>
  The CRTC operations of the display controller driver: interrupts, clocks, enabling and disabling, the gamma table,
  mode setting, page flips and the interrupt handler. Spin locks and mutexes are not modelled: an operation is one step.
\<close>

section \<open>Interrupts\<close>

definition vop_dsp_hold_valid_irq_enable :: "vop_env \<Rightarrow> vop_data \<Rightarrow> (vop, unit) state" where
  "vop_dsp_hold_valid_irq_enable env d = do {
     on \<leftarrow> gets is_enabled;
     if \<not> on then returnS () else do {
       VOP_INTR_SET_TYPE d intr_clear (hdr env ''DSP_HOLD_VALID_INTR'') 1;
       VOP_INTR_SET_TYPE d intr_enable (hdr env ''DSP_HOLD_VALID_INTR'') 1
     }
   }"

definition vop_dsp_hold_valid_irq_disable :: "vop_env \<Rightarrow> vop_data \<Rightarrow> (vop, unit) state" where
  "vop_dsp_hold_valid_irq_disable env d = do {
     on \<leftarrow> gets is_enabled;
     if \<not> on then returnS () else VOP_INTR_SET_TYPE d intr_enable (hdr env ''DSP_HOLD_VALID_INTR'') 0
   }"

definition vop_line_flag_irq_is_enabled :: "vop_env \<Rightarrow> vop_data \<Rightarrow> (vop, bool) state" where
  "vop_line_flag_irq_is_enabled env d = do {
     line_flag_irq \<leftarrow> vop_get_intr_type env d (intr_enable (intr d)) (hdr env ''LINE_FLAG_INTR'');
     returnS (line_flag_irq \<noteq> 0)
   }"

definition vop_line_flag_irq_enable :: "vop_env \<Rightarrow> vop_data \<Rightarrow> (vop, unit) state" where
  "vop_line_flag_irq_enable env d = do {
     on \<leftarrow> gets is_enabled;
     if \<not> on then returnS () else do {
       VOP_INTR_SET_TYPE d intr_clear (hdr env ''LINE_FLAG_INTR'') 1;
       VOP_INTR_SET_TYPE d intr_enable (hdr env ''LINE_FLAG_INTR'') 1
     }
   }"

definition vop_line_flag_irq_disable :: "vop_env \<Rightarrow> vop_data \<Rightarrow> (vop, unit) state" where
  "vop_line_flag_irq_disable env d = do {
     on \<leftarrow> gets is_enabled;
     if \<not> on then returnS () else VOP_INTR_SET_TYPE d intr_enable (hdr env ''LINE_FLAG_INTR'') 0
   }"

section \<open>Clocks\<close>

definition vop_core_clks_enable :: "vop_env \<Rightarrow> (vop, int) state" where
  "vop_core_clks_enable env = do {
     ret \<leftarrow> call env (Clk Enable Hclk);
     if ret < 0 then returnS ret else do {
       ret \<leftarrow> call env (Clk Enable Aclk);
       if ret < 0 then do { invoke (Clk Disable Hclk); returnS ret } else returnS 0
     }
   }"

definition vop_core_clks_disable :: "(vop, unit) state" where
  "vop_core_clks_disable = do { invoke (Clk Disable Aclk); invoke (Clk Disable Hclk) }"

section \<open>Enable and disable\<close>

text \<open>Windows are numbered by their position in the table.\<close>

definition vop_win_disable :: "vop_env \<Rightarrow> nat \<times> win_data \<Rightarrow> (vop, unit) state" where
  "vop_win_disable env w = do {
     let (i, win) = w;
     (case scl win of
        None \<Rightarrow> returnS ()
      | Some sc \<Rightarrow> (case scl_ext sc of
          None \<Rightarrow> returnS ()
        | Some ext \<Rightarrow> do {
            VOP_SCL_SET_EXT win ext yrgb_hor_scl_mode (hdr env ''SCALE_NONE'');
            VOP_SCL_SET_EXT win ext yrgb_ver_scl_mode (hdr env ''SCALE_NONE'');
            VOP_SCL_SET_EXT win ext cbcr_hor_scl_mode (hdr env ''SCALE_NONE'');
            VOP_SCL_SET_EXT win ext cbcr_ver_scl_mode (hdr env ''SCALE_NONE'')
          }));
     VOP_WIN_SET win enable 0;
     modify (\<lambda>s. s\<lparr>win_enabled := win_enabled s AND NOT (push_bit i 1)\<rparr>)
   }"

definition restore_regs :: "vop_env \<Rightarrow> (vop, unit) state" where
  "restore_regs env = foreach (\<lambda>i. do {
     v \<leftarrow> gets (\<lambda>s. regsbak s (of_nat i));
     writel v (4 * of_nat i)
   }) [0..<(vop_len env + 3) div 4]"

text \<open>\<open>old\<close> is the self-refresh flag of the old CRTC state, if there is one.\<close>

definition vop_enable_regs :: "vop_env \<Rightarrow> vop_data \<Rightarrow> bool option \<Rightarrow> (vop, unit) state" where
  "vop_enable_regs env d old = do {
     restore_regs env;
     when_do (old \<noteq> Some True) (foreach (vop_win_disable env) (enumerate 0 (wins d)));
     when_do (afbc d \<noteq> None) (do {
       VOP_AFBC_SET d afbc_enable 0;
       modify (\<lambda>s. s\<lparr>cstate := (cstate s)\<lparr>enable_afbc := False\<rparr>\<rparr>)
     });
     vop_cfg_done d;
     modify (\<lambda>s. s\<lparr>is_enabled := True\<rparr>);
     VOP_REG_SET (common d standby) 1
   }"

definition drop_loader :: "(vop, unit) state" where
  "drop_loader = do {
     la \<leftarrow> gets loader_active;
     when_do la (do {
       modify (\<lambda>s. s\<lparr>loader_active := False\<rparr>);
       invoke (Clk Disable Dclk);
       vop_core_clks_disable;
       invoke (Pm Put)
     })
   }"

definition vop_enable :: "vop_env \<Rightarrow> vop_data \<Rightarrow> bool option \<Rightarrow> (vop, int) state" where
  "vop_enable env d old = do {
     ret \<leftarrow> call env (Pm Resume_and_get);
     if ret < 0 then returnS ret else do {
       ret \<leftarrow> vop_core_clks_enable env;
       if ret < 0 then do { invoke (Pm Put); returnS ret } else do {
         ret \<leftarrow> call env (Clk Enable Dclk);
         if ret < 0 then do { vop_core_clks_disable; invoke (Pm Put); returnS ret } else do {
           ret \<leftarrow> call env (Dev Dma_attach);
           if ret \<noteq> 0
           then do { invoke (Clk Disable Dclk); vop_core_clks_disable; invoke (Pm Put); returnS ret }
           else do {
             vop_enable_regs env d old;
             drop_loader;
             invoke (Vblank Vblank_on);
             returnS 0
           }
         }
       }
     }
   }"

definition rockchip_drm_set_win_enabled :: "vop_data \<Rightarrow> bool \<Rightarrow> (vop, unit) state" where
  "rockchip_drm_set_win_enabled d enabled = do {
     foreach (\<lambda>(i, win). do {
       we \<leftarrow> gets win_enabled;
       VOP_WIN_SET win enable (if enabled \<and> we AND push_bit i 1 \<noteq> 0 then 1 else 0)
     }) (enumerate 0 (wins d));
     vop_cfg_done d
   }"

definition send_disable_event :: "(vop, unit) state" where
  "send_disable_event = do {
     cs \<leftarrow> gets cstate;
     (case state_event cs of
        None \<Rightarrow> returnS ()
      | Some e \<Rightarrow> when_do (\<not> active cs) (do {
          invoke (Send_event e);
          modify (\<lambda>s. s\<lparr>cstate := (cstate s)\<lparr>state_event := None\<rparr>\<rparr>)
        }))
   }"

definition vop_crtc_atomic_disable :: "vop_env \<Rightarrow> vop_data \<Rightarrow> (vop, unit) state" where
  "vop_crtc_atomic_disable env d = do {
     cs \<leftarrow> gets cstate;
     (if self_refresh_active cs then rockchip_drm_set_win_enabled d False
      else do {
        invoke (Vblank Vblank_off);
        vop_dsp_hold_valid_irq_enable env d;
        VOP_REG_SET (common d standby) 1;
        _ \<leftarrow> call env (Dev Wait_dsp_hold);
        vop_dsp_hold_valid_irq_disable env d;
        modify (\<lambda>s. s\<lparr>is_enabled := False\<rparr>);
        invoke (Dev Dma_detach);
        invoke (Clk Disable Dclk);
        vop_core_clks_disable;
        invoke (Pm Put)
      });
     send_disable_event
   }"

section \<open>Vertical blanking and modes\<close>

definition EPERM :: int where "EPERM = 1"
definition EINVAL :: int where "EINVAL = 22"
definition ENODEV :: int where "ENODEV = 19"
definition ENOMEM :: int where "ENOMEM = 12"
definition ENOENT :: int where "ENOENT = 2"
definition EBUSY :: int where "EBUSY = 16"

definition vop_crtc_enable_vblank :: "vop_env \<Rightarrow> vop_data \<Rightarrow> (vop, int) state" where
  "vop_crtc_enable_vblank env d = do {
     on \<leftarrow> gets is_enabled;
     if \<not> on then returnS (- EPERM) else do {
       VOP_INTR_SET_TYPE d intr_clear (hdr env ''FS_INTR'') 1;
       VOP_INTR_SET_TYPE d intr_enable (hdr env ''FS_INTR'') 1;
       returnS 0
     }
   }"

definition vop_crtc_disable_vblank :: "vop_env \<Rightarrow> vop_data \<Rightarrow> (vop, unit) state" where
  "vop_crtc_disable_vblank env d = do {
     on \<leftarrow> gets is_enabled;
     if \<not> on then returnS () else VOP_INTR_SET_TYPE d intr_enable (hdr env ''FS_INTR'') 0
   }"

datatype mode_status = MODE_OK | MODE_BAD_HVALUE

definition vop_crtc_mode_valid :: "vop_data \<Rightarrow> display_mode \<Rightarrow> mode_status" where
  "vop_crtc_mode_valid d mode =
     (if max_output_width d \<noteq> 0 \<and> hdisplay mode > uint (max_output_width d) then MODE_BAD_HVALUE else MODE_OK)"

text \<open>\<open>clk_round_rate\<close>, in Hz, is a parameter; \<^verbatim>\<open>clock\<close> is in kHz. Rates are \<^verbatim>\<open>unsigned long\<close>, 32 bits wide.\<close>

definition DIV_ROUND_UP :: "u32 \<Rightarrow> u32 \<Rightarrow> u32" where
  "DIV_ROUND_UP n m = (n + m - 1) div m"

definition vop_crtc_mode_fixup :: "(u32 \<Rightarrow> u32) \<Rightarrow> display_mode \<Rightarrow> display_mode" where
  "vop_crtc_mode_fixup clk_round_rate mode =
     (let rate = clk_round_rate (word_of_int (clock mode * 1000));
          rate = (if rate div 1000 \<noteq> word_of_int (clock mode)
                  then clk_round_rate (word_of_int (clock mode * 1000 + 999)) else rate)
      in mode\<lparr>clock := sint (DIV_ROUND_UP rate 1000)\<rparr>)"

section \<open>Gamma\<close>

definition vop_dsp_lut_is_enabled :: "vop_env \<Rightarrow> vop_data \<Rightarrow> (vop, bool) state" where
  "vop_dsp_lut_is_enabled env d = do {
     v \<leftarrow> vop_read_reg env 0 (common d dsp_lut_en);
     returnS (v \<noteq> 0)
   }"

definition vop_lut_buffer_index :: "vop_env \<Rightarrow> vop_data \<Rightarrow> (vop, u32) state" where
  "vop_lut_buffer_index env d = vop_read_reg env 0 (common d lut_buffer_index)"

text \<open>\<open>drm_color_lut_extract\<close> is a parameter; \<open>bpc\<close> is the binary logarithm of the table size. \<^verbatim>\<open>gamma_size\<close> was set to
  \<open>lut_size\<close> when the CRTC was created; a table shorter than that is read past its end (\<open>lut ! i\<close> is then unspecified),
  which the check of the CRTC excludes.\<close>

definition ilog2 :: "u32 \<Rightarrow> nat" where
  "ilog2 n = (if n = 0 then 0 else length (takeWhile (\<lambda>k. 2 ^ Suc k \<le> unat n) [0..<32]))"

definition lut_word :: "(u32 \<Rightarrow> nat \<Rightarrow> u32) \<Rightarrow> nat \<Rightarrow> u32 \<times> u32 \<times> u32 \<Rightarrow> u32" where
  "lut_word extract bpc e = (case e of (red, green, blue) \<Rightarrow>
     push_bit (2 * bpc) (extract red bpc) OR push_bit bpc (extract green bpc) OR extract blue bpc)"

definition vop_crtc_write_gamma_lut ::
  "(u32 \<Rightarrow> nat \<Rightarrow> u32) \<Rightarrow> vop_data \<Rightarrow> (u32 \<times> u32 \<times> u32) list \<Rightarrow> (vop, unit) state" where
  "vop_crtc_write_gamma_lut extract d lut =
     foreach (\<lambda>i. modify (\<lambda>s. s\<lparr>hist := hist s @ [Lut_write (of_nat i * 4) (lut_word extract (ilog2 (lut_size d)) (lut ! i))]\<rparr>))
       [0..<unat (lut_size d)]"

definition gamma_load ::
  "vop_env \<Rightarrow> (u32 \<Rightarrow> nat \<Rightarrow> u32) \<Rightarrow> vop_data \<Rightarrow> (u32 \<times> u32 \<times> u32) list \<Rightarrow> u32 \<Rightarrow> (vop, unit) state" where
  "gamma_load env extract d lut old_idx = do {
     vop_crtc_write_gamma_lut extract d lut;
     VOP_REG_SET (common d dsp_lut_en) 1;
     VOP_REG_SET (common d update_gamma_lut) 1;
     vop_cfg_done d;
     when_do (has_reg (common d update_gamma_lut)) (do {
       ret \<leftarrow> readx_poll_timeout env (vop_lut_buffer_index env d) (\<lambda>lut_idx. lut_idx \<noteq> old_idx);
       if ret \<noteq> 0 then returnS () else VOP_REG_SET (common d update_gamma_lut) 0
     })
   }"

definition vop_crtc_gamma_set :: "vop_env \<Rightarrow> (u32 \<Rightarrow> nat \<Rightarrow> u32) \<Rightarrow> vop_data \<Rightarrow> (vop, unit) state" where
  "vop_crtc_gamma_set env extract d = do {
     has_lut \<leftarrow> gets lut_regs;
     if \<not> has_lut then returnS () else do {
       lut \<leftarrow> gets (gamma_lut \<circ> cstate);
       if lut = None \<or> \<not> has_reg (common d update_gamma_lut) then do {
         VOP_REG_SET (common d dsp_lut_en) 0;
         vop_cfg_done d;
         ret \<leftarrow> readx_poll_timeout env (vop_dsp_lut_is_enabled env d) (\<lambda>idle. \<not> idle);
         if ret \<noteq> 0 then returnS ()
         else (case lut of None \<Rightarrow> returnS () | Some l \<Rightarrow> gamma_load env extract d l 0)
       } else do {
         old_idx \<leftarrow> vop_lut_buffer_index env d;
         (case lut of None \<Rightarrow> returnS () | Some l \<Rightarrow> gamma_load env extract d l old_idx)
       }
     }
   }"

definition vop_crtc_atomic_begin :: "vop_env \<Rightarrow> (u32 \<Rightarrow> nat \<Rightarrow> u32) \<Rightarrow> vop_data \<Rightarrow> (vop, unit) state" where
  "vop_crtc_atomic_begin env extract d = do {
     cs \<leftarrow> gets cstate;
     when_do (color_mgmt_changed cs \<and> \<not> active_changed cs) (vop_crtc_gamma_set env extract d)
   }"

section \<open>Mode setting\<close>

text \<open>Timings are computed in \<open>u16\<close>; two of them make a register value.\<close>

definition pack_timing :: "u16 \<Rightarrow> u16 \<Rightarrow> u32" where
  "pack_timing hi lo = push_bit 16 (ucast hi) OR ucast lo"

definition pin_pol_of :: "vop_env \<Rightarrow> display_mode \<Rightarrow> u32" where
  "pin_pol_of env m = (if phsync m then push_bit (unat (hdr env ''HSYNC_POSITIVE'')) 1 else 0) OR
     (if pvsync m then push_bit (unat (hdr env ''VSYNC_POSITIVE'')) 1 else 0)"

definition set_output :: "vop_data \<Rightarrow> crtc_state \<Rightarrow> u32 \<Rightarrow> (vop, unit) state" where
  "set_output d cs pol = (case output_type cs of
     LVDS \<Rightarrow> do {
       VOP_REG_SET (outputs d rgb_dclk_pol) 0;
       VOP_REG_SET (outputs d rgb_pin_pol) pol;
       VOP_REG_SET (outputs d rgb_en) 1
     }
   | EDP \<Rightarrow> do {
       VOP_REG_SET (outputs d edp_dclk_pol) 1;
       VOP_REG_SET (outputs d edp_pin_pol) pol;
       VOP_REG_SET (outputs d edp_en) 1
     }
   | HDMIA \<Rightarrow> do {
       VOP_REG_SET (outputs d hdmi_dclk_pol) 1;
       VOP_REG_SET (outputs d hdmi_pin_pol) pol;
       VOP_REG_SET (outputs d hdmi_en) 1
     }
   | DSI \<Rightarrow> do {
       VOP_REG_SET (outputs d mipi_dclk_pol) 1;
       VOP_REG_SET (outputs d mipi_pin_pol) pol;
       VOP_REG_SET (outputs d mipi_en) 1;
       VOP_REG_SET (outputs d mipi_dual_channel_en) (if output_dsi_dual cs then 1 else 0)
     }
   | DisplayPort \<Rightarrow> do {
       VOP_REG_SET (outputs d dp_dclk_pol) 0;
       VOP_REG_SET (outputs d dp_pin_pol) pol;
       VOP_REG_SET (outputs d dp_en) 1
     }
   | Other_connector _ \<Rightarrow> returnS ())"

definition set_dither :: "vop_env \<Rightarrow> vop_data \<Rightarrow> u32 \<Rightarrow> int \<Rightarrow> (vop, unit) state" where
  "set_dither env d out dither_bpc = do {
     VOP_REG_SET (common d pre_dither_down)
       (if out = hdr env ''ROCKCHIP_OUT_MODE_AAAA'' \<and> dither_bpc \<le> 8 then 1 else 0);
     (if dither_bpc = 6 then do {
        VOP_REG_SET (common d dither_down_sel) (hdr env ''DITHER_DOWN_ALLEGRO'');
        VOP_REG_SET (common d dither_down_mode) (hdr env ''RGB888_TO_RGB666'');
        VOP_REG_SET (common d dither_down_en) 1
      } else VOP_REG_SET (common d dither_down_en) 0);
     VOP_REG_SET (common d out_mode) out
   }"

definition set_timings :: "vop_data \<Rightarrow> display_mode \<Rightarrow> (vop, unit) state" where
  "set_timings d m = do {
     let hsync_len = word_of_int (hsync_end m - hsync_start m);
     let hact_st = word_of_int (htotal m - hsync_start m);
     let hact_end = hact_st + word_of_int (hdisplay m);
     let vsync_len = word_of_int (vsync_end m - vsync_start m);
     let vact_st = word_of_int (vtotal m - vsync_start m);
     let vact_end = vact_st + word_of_int (vdisplay m);
     VOP_REG_SET (modeset d htotal_pw) (pack_timing (word_of_int (htotal m)) hsync_len);
     VOP_REG_SET (modeset d hact_st_end) (pack_timing hact_st hact_end);
     VOP_REG_SET (modeset d hpost_st_end) (pack_timing hact_st hact_end);
     VOP_REG_SET (modeset d vtotal_pw) (pack_timing (word_of_int (vtotal m)) vsync_len);
     VOP_REG_SET (modeset d vact_st_end) (pack_timing vact_st vact_end);
     VOP_REG_SET (modeset d vpost_st_end) (pack_timing vact_st vact_end);
     VOP_REG_SET (line_flag_num (intr d)) (ucast vact_end)
   }"

definition crtc_modeset :: "vop_env \<Rightarrow> (u32 \<Rightarrow> nat \<Rightarrow> u32) \<Rightarrow> vop_data \<Rightarrow> (vop, unit) state" where
  "crtc_modeset env extract d = do {
     cs \<leftarrow> gets cstate;
     let m = adjusted_mode cs;
     let pol = pin_pol_of env m;
     VOP_REG_SET (outputs d pin_pol) pol;
     VOP_REG_SET (outputs d mipi_dual_channel_en) 0;
     set_output d cs pol;
     let out = (if output_mode cs = hdr env ''ROCKCHIP_OUT_MODE_AAAA'' \<and> \<not> feature_output_rgb10 d
                then hdr env ''ROCKCHIP_OUT_MODE_P888'' else output_mode cs);
     modify (\<lambda>s. s\<lparr>cstate := (cstate s)\<lparr>output_mode := out\<rparr>\<rparr>);
     set_dither env d out (if output_bpc cs = 0 then 10 else output_bpc cs);
     set_timings d m;
     invoke (Clk_set_rate (word_of_int (clock m * 1000)));
     VOP_REG_SET (common d standby) 0;
     when_do (gamma_lut cs \<noteq> None) (vop_crtc_gamma_set env extract d)
   }"

definition vop_crtc_atomic_enable ::
  "vop_env \<Rightarrow> (u32 \<Rightarrow> nat \<Rightarrow> u32) \<Rightarrow> vop_data \<Rightarrow> bool option \<Rightarrow> (vop, unit) state" where
  "vop_crtc_atomic_enable env extract d old =
     (if old = Some True then do {
        invoke (Vblank Vblank_on);
        rockchip_drm_set_win_enabled d True
      } else do {
        ret \<leftarrow> vop_enable env d old;
        if ret \<noteq> 0 then returnS () else crtc_modeset env extract d
      })"

section \<open>Page flips\<close>

definition vop_fs_irq_is_pending :: "vop_env \<Rightarrow> vop_data \<Rightarrow> (vop, bool) state" where
  "vop_fs_irq_is_pending env d = do {
     t \<leftarrow> vop_get_intr_type env d (intr_status (intr d)) (hdr env ''FS_INTR'');
     returnS (t \<noteq> 0)
   }"

definition vop_wait_for_irq_handler :: "vop_env \<Rightarrow> vop_data \<Rightarrow> (vop, unit) state" where
  "vop_wait_for_irq_handler env d = do {
     _ \<leftarrow> readx_poll_timeout env (vop_fs_irq_is_pending env d) (\<lambda>pending. \<not> pending);
     invoke (Dev Synchronize_irq)
   }"

text \<open>The planes of the new state, each an error or the modifier of its framebuffer.\<close>

fun count_afbc :: "('m \<Rightarrow> bool) \<Rightarrow> (int + 'm) list \<Rightarrow> int + nat" where
  "count_afbc is_afbc [] = Inr 0"
| "count_afbc is_afbc (Inl err # ps) = Inl err"
| "count_afbc is_afbc (Inr modif # ps) =
     (case count_afbc is_afbc ps of Inl err \<Rightarrow> Inl err | Inr n \<Rightarrow> Inr (if is_afbc modif then Suc n else n))"

definition vop_crtc_atomic_check ::
  "('m \<Rightarrow> bool) \<Rightarrow> vop_data \<Rightarrow> bool \<Rightarrow> (int + 'm) list \<Rightarrow> crtc_state \<Rightarrow> int \<times> crtc_state" where
  "vop_crtc_atomic_check drm_is_afbc d lut planes cs =
     (if lut \<and> color_mgmt_changed cs \<and>
         (case gamma_lut cs of None \<Rightarrow> False | Some l \<Rightarrow> length l \<noteq> unat (lut_size d)) then (- EINVAL, cs)
      else case count_afbc drm_is_afbc planes of
        Inl err \<Rightarrow> (err, cs)
      | Inr n \<Rightarrow> if n > 1 then (- EINVAL, cs) else (0, cs\<lparr>enable_afbc := n > 0\<rparr>))"

text \<open>A framebuffer that may still be scanned out is kept until the next vertical blanking.\<close>

definition queue_unref :: "vop_env \<Rightarrow> nat \<Rightarrow> (vop, unit) state" where
  "queue_unref env fb = do {
     invoke (Fb_get fb);
     _ \<leftarrow> call env (Vblank Vblank_get);
     modify (\<lambda>s. s\<lparr>fb_unref_queue := fb_unref_queue s @ [fb], pending_fb_unref := True\<rparr>)
   }"

definition take_event :: "vop_env \<Rightarrow> (vop, unit) state" where
  "take_event env = do {
     e \<leftarrow> gets (state_event \<circ> cstate);
     when_do (e \<noteq> None) (do {
       _ \<leftarrow> call env (Vblank Vblank_get);
       modify (\<lambda>s. s\<lparr>event := e, cstate := (cstate s)\<lparr>state_event := None\<rparr>\<rparr>)
     })
   }"

definition vop_crtc_atomic_flush ::
  "vop_env \<Rightarrow> vop_data \<Rightarrow> (nat option \<times> nat option) list \<Rightarrow> (vop, unit) state" where
  "vop_crtc_atomic_flush env d planes = do {
     on \<leftarrow> gets is_enabled;
     if \<not> on then returnS () else do {
       afbc_on \<leftarrow> gets (enable_afbc \<circ> cstate);
       VOP_AFBC_SET d afbc_enable (if afbc_on then 1 else 0);
       vop_cfg_done d;
       when_do (has_reg (common d dma_stop)) (VOP_REG_SET (common d dma_stop) 0);
       vop_wait_for_irq_handler env d;
       take_event env;
       foreach (\<lambda>(old_fb, new_fb). case old_fb of
           None \<Rightarrow> returnS ()
         | Some fb \<Rightarrow> when_do (new_fb \<noteq> Some fb) (queue_unref env fb)) planes
     }
   }"

definition vop_fb_unref_worker :: "nat \<Rightarrow> (vop, unit) state" where
  "vop_fb_unref_worker fb = do { invoke (Vblank Vblank_put); invoke (Fb_put fb) }"

definition vop_handle_vblank :: "(vop, unit) state" where
  "vop_handle_vblank = do {
     e \<leftarrow> gets event;
     (case e of
        None \<Rightarrow> returnS ()
      | Some ev \<Rightarrow> do {
          invoke (Send_event ev);
          invoke (Vblank Vblank_put);
          modify (\<lambda>s. s\<lparr>event := None\<rparr>)
        });
     p \<leftarrow> gets pending_fb_unref;
     when_do p (do {
       q \<leftarrow> gets fb_unref_queue;
       modify (\<lambda>s. s\<lparr>pending_fb_unref := False, fb_unref_queue := []\<rparr>);
       invoke (Flip_commit q)
     })
   }"

section \<open>The interrupt handler\<close>

datatype irqreturn = IRQ_NONE | IRQ_HANDLED

definition isr_dispatch :: "vop_env \<Rightarrow> u32 \<Rightarrow> (vop, irqreturn) state" where
  "isr_dispatch env active_irqs = do {
     let hold = active_irqs AND hdr env ''DSP_HOLD_VALID_INTR'' \<noteq> 0;
     when_do hold (invoke (Dev Complete_dsp_hold));
     let irqs1 = (if hold then active_irqs AND NOT (hdr env ''DSP_HOLD_VALID_INTR'') else active_irqs);
     let line = irqs1 AND hdr env ''LINE_FLAG_INTR'' \<noteq> 0;
     when_do line (invoke (Dev Complete_line_flag));
     let irqs2 = (if line then irqs1 AND NOT (hdr env ''LINE_FLAG_INTR'') else irqs1);
     let fs = irqs2 AND hdr env ''FS_INTR'' \<noteq> 0;
     when_do fs (do { invoke (Vblank Handle_vblank); vop_handle_vblank });
     returnS (if hold \<or> line \<or> fs then IRQ_HANDLED else IRQ_NONE)
   }"

definition isr_serve :: "vop_env \<Rightarrow> vop_data \<Rightarrow> u32 \<Rightarrow> (vop, irqreturn) state" where
  "isr_serve env d active_irqs = do {
     when_do (active_irqs \<noteq> 0) (VOP_INTR_SET_TYPE d intr_clear active_irqs 1);
     res \<leftarrow> (if active_irqs = 0 then returnS IRQ_NONE else isr_dispatch env active_irqs);
     vop_core_clks_disable;
     invoke (Pm Put);
     returnS res
   }"

definition vop_isr :: "vop_env \<Rightarrow> vop_data \<Rightarrow> (vop, irqreturn) state" where
  "vop_isr env d = do {
     r \<leftarrow> call env (Pm Get_if_in_use);
     if r = 0 then returnS IRQ_NONE else do {
       ret \<leftarrow> vop_core_clks_enable env;
       if ret \<noteq> 0 then do { invoke (Pm Put); returnS IRQ_NONE } else do {
         active_irqs \<leftarrow> vop_get_intr_type env d (intr_status (intr d)) (hdr env ''INTR_MASK'');
         isr_serve env d active_irqs
       }
     }
   }"

end
