(* ===== verification/Vop_Plane.thy ===== *)
theory Vop_Plane
  imports Vop_Crtc
begin

text \<open>
  Planes of the display controller: pixel formats, scaling, and the check, update and asynchronous update of a plane. The
  scaling arithmetic and the plane-state helper come from headers and helpers outside the repository and are
  parameters, as are the codes of enumerators (\<open>hdr\<close>).
\<close>

section \<open>Pixel formats\<close>

datatype drm_format = DRM_FORMAT_XRGB8888 | DRM_FORMAT_ARGB8888 | DRM_FORMAT_XBGR8888 | DRM_FORMAT_ABGR8888
  | DRM_FORMAT_RGB888 | DRM_FORMAT_BGR888 | DRM_FORMAT_RGB565 | DRM_FORMAT_BGR565
  | DRM_FORMAT_NV12 | DRM_FORMAT_NV15 | DRM_FORMAT_NV21 | DRM_FORMAT_NV16 | DRM_FORMAT_NV20 | DRM_FORMAT_NV61
  | DRM_FORMAT_NV24 | DRM_FORMAT_NV30 | DRM_FORMAT_NV42 | Other_format u32

definition has_rb_swapped :: "u32 \<Rightarrow> drm_format \<Rightarrow> bool" where
  "has_rb_swapped major f = (case f of
     DRM_FORMAT_XBGR8888 \<Rightarrow> True
   | DRM_FORMAT_ABGR8888 \<Rightarrow> True
   | DRM_FORMAT_BGR565 \<Rightarrow> True
   | DRM_FORMAT_RGB888 \<Rightarrow> major = 3
   | DRM_FORMAT_BGR888 \<Rightarrow> major \<noteq> 3
   | _ \<Rightarrow> False)"

definition has_uv_swapped :: "drm_format \<Rightarrow> bool" where
  "has_uv_swapped f = (case f of
     DRM_FORMAT_NV21 \<Rightarrow> True
   | DRM_FORMAT_NV61 \<Rightarrow> True
   | DRM_FORMAT_NV42 \<Rightarrow> True
   | _ \<Rightarrow> False)"

definition is_fmt_10 :: "drm_format \<Rightarrow> bool" where
  "is_fmt_10 f = (case f of
     DRM_FORMAT_NV15 \<Rightarrow> True
   | DRM_FORMAT_NV20 \<Rightarrow> True
   | DRM_FORMAT_NV30 \<Rightarrow> True
   | _ \<Rightarrow> False)"

definition vop_convert_format :: "vop_env \<Rightarrow> drm_format \<Rightarrow> int" where
  "vop_convert_format env f = (case f of
     DRM_FORMAT_XRGB8888 \<Rightarrow> uint (hdr env ''VOP_FMT_ARGB8888'')
   | DRM_FORMAT_ARGB8888 \<Rightarrow> uint (hdr env ''VOP_FMT_ARGB8888'')
   | DRM_FORMAT_XBGR8888 \<Rightarrow> uint (hdr env ''VOP_FMT_ARGB8888'')
   | DRM_FORMAT_ABGR8888 \<Rightarrow> uint (hdr env ''VOP_FMT_ARGB8888'')
   | DRM_FORMAT_RGB888 \<Rightarrow> uint (hdr env ''VOP_FMT_RGB888'')
   | DRM_FORMAT_BGR888 \<Rightarrow> uint (hdr env ''VOP_FMT_RGB888'')
   | DRM_FORMAT_RGB565 \<Rightarrow> uint (hdr env ''VOP_FMT_RGB565'')
   | DRM_FORMAT_BGR565 \<Rightarrow> uint (hdr env ''VOP_FMT_RGB565'')
   | DRM_FORMAT_NV12 \<Rightarrow> uint (hdr env ''VOP_FMT_YUV420SP'')
   | DRM_FORMAT_NV15 \<Rightarrow> uint (hdr env ''VOP_FMT_YUV420SP'')
   | DRM_FORMAT_NV21 \<Rightarrow> uint (hdr env ''VOP_FMT_YUV420SP'')
   | DRM_FORMAT_NV16 \<Rightarrow> uint (hdr env ''VOP_FMT_YUV422SP'')
   | DRM_FORMAT_NV20 \<Rightarrow> uint (hdr env ''VOP_FMT_YUV422SP'')
   | DRM_FORMAT_NV61 \<Rightarrow> uint (hdr env ''VOP_FMT_YUV422SP'')
   | DRM_FORMAT_NV24 \<Rightarrow> uint (hdr env ''VOP_FMT_YUV444SP'')
   | DRM_FORMAT_NV30 \<Rightarrow> uint (hdr env ''VOP_FMT_YUV444SP'')
   | DRM_FORMAT_NV42 \<Rightarrow> uint (hdr env ''VOP_FMT_YUV444SP'')
   | Other_format _ \<Rightarrow> - EINVAL)"

definition AFBC_FMT_RGB565 :: int where "AFBC_FMT_RGB565 = 0x0"
definition AFBC_FMT_U8U8U8U8 :: int where "AFBC_FMT_U8U8U8U8 = 0x5"
definition AFBC_FMT_U8U8U8 :: int where "AFBC_FMT_U8U8U8 = 0x4"
definition AFBC_TILE_16x16 :: u32 where "AFBC_TILE_16x16 = push_bit 4 1"

definition vop_convert_afbc_format :: "drm_format \<Rightarrow> int" where
  "vop_convert_afbc_format f = (case f of
     DRM_FORMAT_XRGB8888 \<Rightarrow> AFBC_FMT_U8U8U8U8
   | DRM_FORMAT_ARGB8888 \<Rightarrow> AFBC_FMT_U8U8U8U8
   | DRM_FORMAT_XBGR8888 \<Rightarrow> AFBC_FMT_U8U8U8U8
   | DRM_FORMAT_ABGR8888 \<Rightarrow> AFBC_FMT_U8U8U8U8
   | DRM_FORMAT_RGB888 \<Rightarrow> AFBC_FMT_U8U8U8
   | DRM_FORMAT_BGR888 \<Rightarrow> AFBC_FMT_U8U8U8
   | DRM_FORMAT_RGB565 \<Rightarrow> AFBC_FMT_RGB565
   | DRM_FORMAT_BGR565 \<Rightarrow> AFBC_FMT_RGB565
   | _ \<Rightarrow> - EINVAL)"

definition bt601_yuv2rgb :: "u32 list" where
  "bt601_yuv2rgb = [0x4A8, 0x0, 0x662, 0x4A8, 0x1E6F, 0x1CBF, 0x4A8, 0x812, 0x0, 0x321168, 0x0877CF, 0x2EB127]"

section \<open>Plane state\<close>

record rect =
  x1 :: int
  y1 :: int
  x2 :: int
  y2 :: int

definition drm_rect_width :: "rect \<Rightarrow> int" where "drm_rect_width r = x2 r - x1 r"
definition drm_rect_height :: "rect \<Rightarrow> int" where "drm_rect_height r = y2 r - y1 r"

record framebuffer =
  fb_id :: nat
  fb_format :: drm_format
  is_yuv :: bool
  has_alpha :: bool
  hsub :: u32
  vsub :: u32
  cpp :: "u32 list"
  char_per_block :: "u32 list"
  modifier :: u64
  pitches :: "u32 list"
  offsets :: "u32 list"
  dma_addrs :: "u32 list"

text \<open>\<open>crtc_mode\<close> is the mode of the CRTC the plane is on, if any.\<close>

record plane_state =
  crtc_mode :: "display_mode option"
  fb :: "framebuffer option"
  visible :: bool
  src :: rect
  dst :: rect
  rotation :: u32
  crtc_x :: int
  crtc_y :: int
  crtc_h :: u32
  crtc_w :: u32
  state_src_x :: u32
  state_src_y :: u32
  state_src_h :: u32
  state_src_w :: u32

datatype scale_mode = SCALE_NONE | SCALE_UP | SCALE_DOWN

record vop_api =
  afbc_mod :: u64
  linear_mod :: u64
  min_pitch :: "framebuffer \<Rightarrow> nat \<Rightarrow> int \<Rightarrow> u32"
  check_plane_state :: "u32 \<Rightarrow> u32 \<Rightarrow> plane_state \<Rightarrow> int \<times> plane_state"
  GET_SCL_FT_BIC :: "u32 \<Rightarrow> u32 \<Rightarrow> u32"
  GET_SCL_FT_BILI_DN :: "u32 \<Rightarrow> u32 \<Rightarrow> u32"
  GET_SCL_FT_BILI_UP :: "u32 \<Rightarrow> u32 \<Rightarrow> u32"
  scl_get_vskiplines :: "u32 \<Rightarrow> u32 \<Rightarrow> int"
  scl_get_bili_dn_vskip :: "u32 \<Rightarrow> u32 \<Rightarrow> int \<Rightarrow> u32"
  scl_cal_scale2 :: "u32 \<Rightarrow> u32 \<Rightarrow> u32"
  scl_get_scl_mode :: "u32 \<Rightarrow> u32 \<Rightarrow> scale_mode"
  scl_vop_cal_lb_mode :: "u32 \<Rightarrow> bool \<Rightarrow> u32"

section \<open>Scaling\<close>

text \<open>The factor, cut to 16 bits, and the skipped lines when the caller asks for them.\<close>

definition scl_vop_cal_scale ::
  "vop_env \<Rightarrow> vop_api \<Rightarrow> scale_mode \<Rightarrow> u32 \<Rightarrow> u32 \<Rightarrow> bool \<Rightarrow> u32 \<Rightarrow> bool \<Rightarrow> u16 \<times> int" where
  "scl_vop_cal_scale env api mode s d is_horizontal vsu_mode want_skip =
     (let val = ucast (push_bit (unat (hdr env ''SCL_FT_DEFAULT_FIXPOINT_SHIFT'')) (1 :: u32)) in
      if is_horizontal then
        (case mode of
           SCALE_UP \<Rightarrow> (ucast (GET_SCL_FT_BIC api s d), 0)
         | SCALE_DOWN \<Rightarrow> (ucast (GET_SCL_FT_BILI_DN api s d), 0)
         | SCALE_NONE \<Rightarrow> (val, 0))
      else
        (case mode of
           SCALE_UP \<Rightarrow>
             (if vsu_mode = hdr env ''SCALE_UP_BIL'' then (ucast (GET_SCL_FT_BILI_UP api s d), 0)
              else (ucast (GET_SCL_FT_BIC api s d), 0))
         | SCALE_DOWN \<Rightarrow>
             (if want_skip then
                let k = scl_get_vskiplines api s d in (ucast (scl_get_bili_dn_vskip api s d k), k)
              else (ucast (GET_SCL_FT_BILI_DN api s d), 0))
         | SCALE_NONE \<Rightarrow> (val, 0)))"

definition scale_code :: "vop_env \<Rightarrow> scale_mode \<Rightarrow> u32" where
  "scale_code env m = (case m of SCALE_NONE \<Rightarrow> hdr env ''SCALE_NONE'' | SCALE_UP \<Rightarrow> hdr env ''SCALE_UP''
     | SCALE_DOWN \<Rightarrow> hdr env ''SCALE_DOWN'')"

definition of_bool32 :: "bool \<Rightarrow> u32" where
  "of_bool32 b = (if b then 1 else 0)"

definition set_scale_ext ::
  "vop_env \<Rightarrow> vop_api \<Rightarrow> win_data \<Rightarrow> scl_regs \<Rightarrow> (ext_field \<Rightarrow> vop_reg) \<Rightarrow> u32 \<Rightarrow> u32 \<Rightarrow> u32 \<Rightarrow> u32 \<Rightarrow> framebuffer
   \<Rightarrow> (vop, unit) state" where
  "set_scale_ext env api win sc ext src_w src_h dst_w dst_h f = do {
     let cw = ucast (ucast (src_w div hsub f) :: u16);
     let ch = ucast (ucast (src_h div vsub f) :: u16);
     let yh = scl_get_scl_mode api src_w dst_w;
     let yv = scl_get_scl_mode api src_h dst_h;
     let chm = (if is_yuv f then scl_get_scl_mode api cw dst_w else SCALE_NONE);
     let cvm = (if is_yuv f then scl_get_scl_mode api ch dst_h else SCALE_NONE);
     let lb = (if is_yuv f
               then (if chm = SCALE_DOWN then scl_vop_cal_lb_mode api dst_w True else scl_vop_cal_lb_mode api cw True)
               else (if yh = SCALE_DOWN then scl_vop_cal_lb_mode api dst_w False else scl_vop_cal_lb_mode api src_w False));
     VOP_SCL_SET_EXT win ext lb_mode lb;
     if lb = hdr env ''LB_RGB_3840X2'' \<and> (yv \<noteq> SCALE_NONE \<or> cvm \<noteq> SCALE_NONE) then returnS ()
     else do {
       let vsu = (if lb = hdr env ''LB_RGB_3840X2'' \<or> lb = hdr env ''LB_RGB_2560X4''
                  then hdr env ''SCALE_UP_BIL'' else hdr env ''SCALE_UP_BIC'');
       VOP_SCL_SET win sc scale_yrgb_x (ucast (fst (scl_vop_cal_scale env api yh src_w dst_w True 0 False)));
       let (val, skip) = scl_vop_cal_scale env api yv src_h dst_h False vsu True;
       VOP_SCL_SET win sc scale_yrgb_y (ucast val);
       VOP_SCL_SET_EXT win ext vsd_yrgb_gt4 (of_bool32 (skip = 4));
       VOP_SCL_SET_EXT win ext vsd_yrgb_gt2 (of_bool32 (skip = 2));
       VOP_SCL_SET_EXT win ext yrgb_hor_scl_mode (scale_code env yh);
       VOP_SCL_SET_EXT win ext yrgb_ver_scl_mode (scale_code env yv);
       VOP_SCL_SET_EXT win ext yrgb_hsd_mode (hdr env ''SCALE_DOWN_BIL'');
       VOP_SCL_SET_EXT win ext yrgb_vsd_mode (hdr env ''SCALE_DOWN_BIL'');
       VOP_SCL_SET_EXT win ext yrgb_vsu_mode vsu;
       when_do (is_yuv f) (do {
         VOP_SCL_SET win sc scale_cbcr_x (ucast (fst (scl_vop_cal_scale env api chm cw dst_w True 0 False)));
         let (val, skip) = scl_vop_cal_scale env api cvm ch dst_h False vsu True;
         VOP_SCL_SET win sc scale_cbcr_y (ucast val);
         VOP_SCL_SET_EXT win ext vsd_cbcr_gt4 (of_bool32 (skip = 4));
         VOP_SCL_SET_EXT win ext vsd_cbcr_gt2 (of_bool32 (skip = 2));
         VOP_SCL_SET_EXT win ext cbcr_hor_scl_mode (scale_code env chm);
         VOP_SCL_SET_EXT win ext cbcr_ver_scl_mode (scale_code env cvm);
         VOP_SCL_SET_EXT win ext cbcr_hsd_mode (hdr env ''SCALE_DOWN_BIL'');
         VOP_SCL_SET_EXT win ext cbcr_vsd_mode (hdr env ''SCALE_DOWN_BIL'');
         VOP_SCL_SET_EXT win ext cbcr_vsu_mode vsu
       })
     }
   }"

definition scl_vop_cal_scl_fac ::
  "vop_env \<Rightarrow> vop_api \<Rightarrow> win_data \<Rightarrow> scl_regs \<Rightarrow> u32 \<Rightarrow> u32 \<Rightarrow> u32 \<Rightarrow> u32 \<Rightarrow> framebuffer \<Rightarrow> (vop, unit) state" where
  "scl_vop_cal_scl_fac env api win sc src_w src_h dst_w dst_h f =
     (if dst_w > 4096 then returnS ()
      else case scl_ext sc of
        None \<Rightarrow> do {
          VOP_SCL_SET win sc scale_yrgb_x (scl_cal_scale2 api src_w dst_w);
          VOP_SCL_SET win sc scale_yrgb_y (scl_cal_scale2 api src_h dst_h);
          when_do (is_yuv f) (do {
            VOP_SCL_SET win sc scale_cbcr_x (scl_cal_scale2 api (ucast (ucast (src_w div hsub f) :: u16)) dst_w);
            VOP_SCL_SET win sc scale_cbcr_y (scl_cal_scale2 api (ucast (ucast (src_h div vsub f) :: u16)) dst_h)
          })
        }
      | Some ext \<Rightarrow> set_scale_ext env api win sc ext src_w src_h dst_w dst_h f)"

section \<open>Check\<close>

definition rockchip_afbc :: "vop_api \<Rightarrow> u64 \<Rightarrow> bool" where
  "rockchip_afbc api m = (m = afbc_mod api)"

definition rockchip_mod_supported :: "vop_api \<Rightarrow> drm_format \<Rightarrow> u64 \<Rightarrow> bool" where
  "rockchip_mod_supported api f m =
     (if m = linear_mod api then True
      else if \<not> rockchip_afbc api m then False
      else vop_convert_afbc_format f \<ge> 0)"

definition min_scale :: "vop_env \<Rightarrow> win_data \<Rightarrow> u32" where
  "min_scale env win = (if scl win \<noteq> None then hdr env ''FRAC_16_16(1, 8)'' else hdr env ''DRM_PLANE_NO_SCALING'')"

definition max_scale :: "vop_env \<Rightarrow> win_data \<Rightarrow> u32" where
  "max_scale env win = (if scl win \<noteq> None then hdr env ''FRAC_16_16(8, 1)'' else hdr env ''DRM_PLANE_NO_SCALING'')"

text \<open>The checks of a visible plane after the helper has clipped it.\<close>

definition check_visible :: "vop_env \<Rightarrow> vop_api \<Rightarrow> vop_data \<Rightarrow> framebuffer \<Rightarrow> plane_state \<Rightarrow> int" where
  "check_visible env api d f ps =
     (if vop_convert_format env (fb_format f) < 0 then vop_convert_format env (fb_format f)
      else if is_yuv f \<and> odd (drop_bit 16 (x1 (src ps))) then - EINVAL
      else if is_yuv f \<and> rotation ps AND hdr env ''DRM_MODE_REFLECT_Y'' \<noteq> 0 then - EINVAL
      else if rockchip_afbc api (modifier f) then
        (if afbc d = None then - EINVAL
         else if vop_convert_afbc_format (fb_format f) < 0 then vop_convert_afbc_format (fb_format f)
         else if x1 (src ps) \<noteq> 0 \<or> y1 (src ps) \<noteq> 0 then - EINVAL
         else if rotation ps \<noteq> 0 \<and> rotation ps \<noteq> hdr env ''DRM_MODE_ROTATE_0'' then - EINVAL
         else 0)
      else 0)"

definition vop_plane_atomic_check ::
  "vop_env \<Rightarrow> vop_api \<Rightarrow> vop_data \<Rightarrow> win_data \<Rightarrow> bool \<Rightarrow> plane_state \<Rightarrow> int \<times> plane_state" where
  "vop_plane_atomic_check env api d win has_crtc_state ps = (case (crtc_mode ps, fb ps) of
     (Some m, Some f) \<Rightarrow>
       if \<not> has_crtc_state then (- EINVAL, ps)
       else (case check_plane_state api (min_scale env win) (max_scale env win) ps of
         (ret, ps') \<Rightarrow>
           if ret \<noteq> 0 then (ret, ps')
           else if \<not> visible ps' then (0, ps')
           else (check_visible env api d f ps', ps'))
   | _ \<Rightarrow> (0, ps))"

section \<open>Update\<close>

definition vop_plane_atomic_disable :: "vop_env \<Rightarrow> nat \<times> win_data \<Rightarrow> bool \<Rightarrow> (vop, unit) state" where
  "vop_plane_atomic_disable env w old_has_crtc = (if \<not> old_has_crtc then returnS () else vop_win_disable env w)"

definition plane_offset :: "vop_api \<Rightarrow> framebuffer \<Rightarrow> nat \<Rightarrow> plane_state \<Rightarrow> u32" where
  "plane_offset api f k ps =
     (if char_per_block f ! k \<noteq> 0 then min_pitch api f k (drop_bit 16 (x1 (src ps)))
      else word_of_int (drop_bit 16 (x1 (src ps))) * cpp f ! k)"

definition actual_w :: "plane_state \<Rightarrow> u32" where
  "actual_w ps = word_of_int (drop_bit 16 (drm_rect_width (src ps)))"

definition actual_h :: "plane_state \<Rightarrow> u32" where
  "actual_h ps = word_of_int (drop_bit 16 (drm_rect_height (src ps)))"

definition yrgb_addr :: "vop_env \<Rightarrow> vop_api \<Rightarrow> framebuffer \<Rightarrow> plane_state \<Rightarrow> u32" where
  "yrgb_addr env api f ps =
     (let off = plane_offset api f 0 ps + word_of_int (drop_bit 16 (y1 (src ps))) * pitches f ! 0;
          dma_addr = dma_addrs f ! 0 + off + offsets f ! 0
      in if rotation ps AND hdr env ''DRM_MODE_REFLECT_Y'' \<noteq> 0
         then dma_addr + (actual_h ps - 1) * pitches f ! 0 else dma_addr)"

definition uv_addr :: "vop_api \<Rightarrow> framebuffer \<Rightarrow> plane_state \<Rightarrow> u32" where
  "uv_addr api f ps =
     (let off = plane_offset api f 1 ps div hsub f + word_of_int (drop_bit 16 (y1 (src ps))) * pitches f ! 1 div vsub f
      in dma_addrs f ! 1 + off + offsets f ! 1)"

definition act_info_of :: "plane_state \<Rightarrow> u32" where
  "act_info_of ps = push_bit 16 (actual_h ps - 1) OR ((actual_w ps - 1) AND 0xffff)"

definition dsp_info_of :: "plane_state \<Rightarrow> u32" where
  "dsp_info_of ps = push_bit 16 (word_of_int (drm_rect_height (dst ps)) - 1) OR
     ((word_of_int (drm_rect_width (dst ps)) - 1) AND 0xffff)"

definition dsp_st_of :: "display_mode \<Rightarrow> plane_state \<Rightarrow> u32" where
  "dsp_st_of m ps =
     (let dsp_stx = word_of_int (x1 (dst ps) + htotal m - hsync_start m);
          dsp_sty = word_of_int (y1 (dst ps) + vtotal m - vsync_start m)
      in push_bit 16 dsp_sty OR (dsp_stx AND 0xffff))"

definition words_up :: "u32 \<Rightarrow> u32" where
  "words_up n = DIV_ROUND_UP n 4"

definition set_yuv :: "vop_api \<Rightarrow> win_data \<Rightarrow> yuv2yuv_data option \<Rightarrow> framebuffer \<Rightarrow> plane_state \<Rightarrow> (vop, unit) state" where
  "set_yuv api win y2r f ps = do {
     VOP_WIN_SET win uv_vir (words_up (pitches f ! 1));
     VOP_WIN_SET win uv_mst (uv_addr api f ps);
     (case y2r of
        None \<Rightarrow> returnS ()
      | Some y \<Rightarrow> foreach (\<lambda>(r, c). when_do (has_reg r) (vop_reg_set r (y2r_base y) (- 1) c))
          (zip (y2r_coefficients y) bt601_yuv2rgb));
     VOP_WIN_SET win uv_swap (of_bool32 (has_uv_swapped (fb_format f)))
   }"

definition set_alpha :: "vop_env \<Rightarrow> nat \<times> win_data \<Rightarrow> framebuffer \<Rightarrow> (vop, unit) state" where
  "set_alpha env w f = do {
     let (i, win) = w;
     if has_alpha f \<and> i > 0 then do {
       VOP_WIN_SET win dst_alpha_ctl (hdr env ''DST_FACTOR_M0(ALPHA_SRC_INVERSE)'');
       VOP_WIN_SET win src_alpha_ctl (hdr env ''SRC_ALPHA_EN(1)'' OR hdr env ''SRC_COLOR_M0(ALPHA_SRC_PRE_MUL)'' OR
         hdr env ''SRC_ALPHA_M0(ALPHA_STRAIGHT)'' OR hdr env ''SRC_BLEND_M0(ALPHA_PER_PIX)'' OR
         hdr env ''SRC_ALPHA_CAL_M0(ALPHA_NO_SATURATION)'' OR hdr env ''SRC_FACTOR_M0(ALPHA_ONE)'');
       VOP_WIN_SET win alpha_pre_mul (hdr env ''ALPHA_SRC_PRE_MUL'');
       VOP_WIN_SET win alpha_mode (hdr env ''ALPHA_PER_PIX'');
       VOP_WIN_SET win alpha_en 1
     } else do {
       VOP_WIN_SET win src_alpha_ctl (hdr env ''SRC_ALPHA_EN(0)'');
       VOP_WIN_SET win alpha_en 0
     }
   }"

definition set_afbc :: "vop_data \<Rightarrow> nat \<Rightarrow> framebuffer \<Rightarrow> u32 \<Rightarrow> u32 \<Rightarrow> (vop, unit) state" where
  "set_afbc d i f addr act = do {
     VOP_AFBC_SET d afbc_format (word_of_int (vop_convert_afbc_format (fb_format f)) OR AFBC_TILE_16x16);
     VOP_AFBC_SET d hreg_block_split 0;
     VOP_AFBC_SET d win_sel (of_nat i);
     VOP_AFBC_SET d hdr_ptr addr;
     VOP_AFBC_SET d pic_size act
   }"

definition vop_plane_atomic_update ::
  "vop_env \<Rightarrow> vop_api \<Rightarrow> vop_data \<Rightarrow> nat \<times> win_data \<Rightarrow> yuv2yuv_data option \<Rightarrow> bool \<Rightarrow> plane_state \<Rightarrow> framebuffer
   \<Rightarrow> (vop, unit) state" where
  "vop_plane_atomic_update env api d w y2r old_has_crtc ps f = (case crtc_mode ps of
     None \<Rightarrow> returnS ()
   | Some m \<Rightarrow> do {
       on \<leftarrow> gets is_enabled;
       if \<not> on then returnS ()
       else if \<not> visible ps then vop_plane_atomic_disable env w old_has_crtc
       else do {
         let (i, win) = w;
         let addr = yrgb_addr env api f ps;
         when_do (rockchip_afbc api (modifier f)) (set_afbc d i f addr (act_info_of ps));
         VOP_WIN_SET win format (word_of_int (vop_convert_format env (fb_format f)));
         VOP_WIN_SET win fmt_10 (of_bool32 (is_fmt_10 (fb_format f)));
         VOP_WIN_SET win yrgb_vir (words_up (pitches f ! 0));
         VOP_WIN_SET win yrgb_mst addr;
         (case y2r of None \<Rightarrow> returnS ()
          | Some y \<Rightarrow> when_do (has_reg (y2r_en y)) (vop_reg_set (y2r_en y) 0 (- 1) (of_bool32 (is_yuv f))));
         VOP_WIN_SET win y_mir_en (of_bool32 (rotation ps AND hdr env ''DRM_MODE_REFLECT_Y'' \<noteq> 0));
         VOP_WIN_SET win x_mir_en (of_bool32 (rotation ps AND hdr env ''DRM_MODE_REFLECT_X'' \<noteq> 0));
         when_do (is_yuv f) (set_yuv api win y2r f ps);
         (case scl win of None \<Rightarrow> returnS ()
          | Some sc \<Rightarrow> scl_vop_cal_scl_fac env api win sc (actual_w ps) (actual_h ps)
              (word_of_int (drm_rect_width (dst ps))) (word_of_int (drm_rect_height (dst ps))) f);
         VOP_WIN_SET win act_info (act_info_of ps);
         VOP_WIN_SET win dsp_info (dsp_info_of ps);
         VOP_WIN_SET win dsp_st (dsp_st_of m ps);
         VOP_WIN_SET win rb_swap (of_bool32 (has_rb_swapped (version_major d) (fb_format f)));
         set_alpha env w f;
         VOP_WIN_SET win enable 1;
         modify (\<lambda>s. s\<lparr>win_enabled := win_enabled s OR push_bit i 1\<rparr>)
       }
     })"

section \<open>Asynchronous update\<close>

definition vop_plane_atomic_async_check ::
  "vop_env \<Rightarrow> vop_api \<Rightarrow> win_data \<Rightarrow> bool \<Rightarrow> plane_state option \<Rightarrow> int" where
  "vop_plane_atomic_async_check env api win is_cursor cur =
     (if \<not> is_cursor then - EINVAL
      else case cur of
        None \<Rightarrow> - EINVAL
      | Some ps \<Rightarrow> if fb ps = None then - EINVAL
                   else fst (check_plane_state api (min_scale env win) (max_scale env win) ps))"

text \<open>The plane's state takes the requested position, and the framebuffers of the two states change places; the update then reads the new state, which by now holds the old
  framebuffer. The result is the plane's state and the new state as they are left. \<open>f\<close> is the framebuffer the update
  finds in the new state.\<close>

definition vop_plane_atomic_async_update ::
  "vop_env \<Rightarrow> vop_api \<Rightarrow> vop_data \<Rightarrow> nat \<times> win_data \<Rightarrow> yuv2yuv_data option \<Rightarrow> bool \<Rightarrow> plane_state \<Rightarrow> plane_state
   \<Rightarrow> (vop, plane_state \<times> plane_state) state" where
  "vop_plane_atomic_async_update env api d w y2r old_has_crtc cur new = do {
     let cur' = cur\<lparr>crtc_x := crtc_x new, crtc_y := crtc_y new, crtc_h := crtc_h new, crtc_w := crtc_w new,
       state_src_x := state_src_x new, state_src_y := state_src_y new, state_src_h := state_src_h new, state_src_w := state_src_w new, fb := fb new\<rparr>;
     let new' = new\<lparr>fb := fb cur\<rparr>;
     on \<leftarrow> gets is_enabled;
     when_do on (do {
       (case fb new' of None \<Rightarrow> returnS () | Some f \<Rightarrow> vop_plane_atomic_update env api d w y2r old_has_crtc new' f);
       vop_cfg_done d;
       (case fb cur of None \<Rightarrow> returnS ()
        | Some old \<Rightarrow> when_do (map_option fb_id (fb cur') \<noteq> Some (fb_id old)) (queue_unref env (fb_id old)))
     });
     returnS (cur', new')
   }"

end
