(* ===== verification/Vop_Bind.thy ===== *)
theory Vop_Bind
  imports Vop_Plane
begin

text \<open>
  Creation of the CRTC and its planes, initialisation of the display controller with the take-over of a scan-out the
  boot loader left running, binding and unbinding of the component, the CRTC state helpers and the wait for the end of
  the active lines.
\<close>

section \<open>CRTC states and checksums\<close>

text \<open>What \<^verbatim>\<open>kzalloc\<close> leaves: all fields 0. The framework's part of duplicating and resetting a state is a parameter.\<close>

definition zero_mode :: display_mode where
  "zero_mode = \<lparr>hdisplay = 0, hsync_start = 0, hsync_end = 0, htotal = 0, vdisplay = 0, vsync_start = 0, vsync_end = 0,
     vtotal = 0, clock = 0, phsync = False, pvsync = False\<rparr>"

definition zero_state :: crtc_state where
  "zero_state = \<lparr>active = False, self_refresh_active = False, color_mgmt_changed = False, active_changed = False,
     state_event = None, gamma_lut = None, adjusted_mode = zero_mode, output_type = Other_connector 0, output_mode = 0,
     output_bpc = 0, output_dsi_dual = False, enable_afbc = False\<rparr>"

definition vop_crtc_duplicate_state ::
  "vop_env \<Rightarrow> (crtc_state \<Rightarrow> crtc_state) \<Rightarrow> crtc_state option \<Rightarrow> (vop, crtc_state option) state" where
  "vop_crtc_duplicate_state env helper st = (case st of
     None \<Rightarrow> returnS None
   | Some cs \<Rightarrow> do {
       ret \<leftarrow> call env (Mem Alloc_state);
       returnS (if ret < 0 then None else Some (helper cs))
     })"

definition vop_crtc_destroy_state :: "(vop, unit) state" where
  "vop_crtc_destroy_state = invoke (Mem Free_state)"

definition vop_crtc_reset ::
  "vop_env \<Rightarrow> (crtc_state \<Rightarrow> crtc_state) \<Rightarrow> crtc_state option \<Rightarrow> (vop, crtc_state option) state" where
  "vop_crtc_reset env helper st = do {
     ret \<leftarrow> call env (Mem Alloc_state);
     when_do (st \<noteq> None) vop_crtc_destroy_state;
     returnS (if ret < 0 then None else Some (helper zero_state))
   }"

text \<open>The checksum source, as built with and without \<^verbatim>\<open>CONFIG_DRM_ANALOGIX_DP\<close>. Connectors are listed by type.\<close>

fun vop_get_edp_connector :: "nat \<Rightarrow> connector list \<Rightarrow> nat option" where
  "vop_get_edp_connector i [] = None"
| "vop_get_edp_connector i (c # cs) = (if c = EDP then Some i else vop_get_edp_connector (Suc i) cs)"

definition vop_crtc_set_crc_source ::
  "vop_env \<Rightarrow> bool \<Rightarrow> connector list \<Rightarrow> string option \<Rightarrow> (vop, int) state" where
  "vop_crtc_set_crc_source env analogix_dp connectors source_name =
     (if \<not> analogix_dp then returnS (- ENODEV)
      else if vop_get_edp_connector 0 connectors = None then returnS (- EINVAL)
      else case source_name of
        None \<Rightarrow> call env (Mem Stop_crc)
      | Some name \<Rightarrow> if name = ''auto'' then call env (Mem Start_crc) else returnS (- EINVAL))"

definition vop_crtc_verify_crc_source :: "bool \<Rightarrow> string option \<Rightarrow> int \<times> nat option" where
  "vop_crtc_verify_crc_source analogix_dp source_name =
     (if \<not> analogix_dp then (- ENODEV, None)
      else if source_name \<noteq> None \<and> source_name \<noteq> Some ''auto'' then (- EINVAL, None)
      else (0, Some 3))"

section \<open>Planes and CRTC\<close>

definition vop_plane_add_properties :: "vop_env \<Rightarrow> nat \<Rightarrow> win_data \<Rightarrow> (vop, unit) state" where
  "vop_plane_add_properties env i win = do {
     let flags = (if has_reg (phy win x_mir_en) then hdr env ''DRM_MODE_REFLECT_X'' else 0) OR
                 (if has_reg (phy win y_mir_en) then hdr env ''DRM_MODE_REFLECT_Y'' else 0);
     when_do (flags \<noteq> 0) (invoke (Rotation_property i (hdr env ''DRM_MODE_ROTATE_0'' OR flags)))
   }"

text \<open>\<^verbatim>\<open>drm_universal_plane_init\<close> puts a plane on the list of the device, \<^verbatim>\<open>drm_plane_cleanup\<close> takes it off.\<close>

definition plane_init :: "vop_env \<Rightarrow> nat \<Rightarrow> win_data \<Rightarrow> (vop, int) state" where
  "plane_init env i win = do {
     ret \<leftarrow> call env (Plane_init i);
     if ret \<noteq> 0 then returnS ret else do {
       modify (\<lambda>s. s\<lparr>plane_list := plane_list s @ [Win i]\<rparr>);
       vop_plane_add_properties env i win;
       returnS 0
     }
   }"

fun init_planes :: "vop_env \<Rightarrow> plane_type list \<Rightarrow> (nat \<times> win_data) list \<Rightarrow> (vop, int) state" where
  "init_planes env types [] = returnS 0"
| "init_planes env types ((i, win) # ws) =
     (if win_type win \<notin> set types then init_planes env types ws
      else do {
        ret \<leftarrow> plane_init env i win;
        if ret \<noteq> 0 then returnS ret else init_planes env types ws
      })"

text \<open>The last window of a type is the one handed to the CRTC.\<close>

definition last_of :: "plane_type \<Rightarrow> (nat \<times> win_data) list \<Rightarrow> nat option" where
  "last_of t ws = (case filter (\<lambda>(i, win). win_type win = t) ws of [] \<Rightarrow> None | ps \<Rightarrow> Some (fst (last ps)))"

definition cleanup_planes :: "(vop, unit) state" where
  "cleanup_planes = do {
     ps \<leftarrow> gets plane_list;
     foreach (\<lambda>p. do {
       invoke (Plane_cleanup p);
       modify (\<lambda>s. s\<lparr>plane_list := remove1 p (plane_list s)\<rparr>)
     }) ps
   }"

definition vop_create_crtc :: "vop_env \<Rightarrow> vop_data \<Rightarrow> (vop, int) state" where
  "vop_create_crtc env d = do {
     let ws = enumerate 0 (wins d);
     ret \<leftarrow> init_planes env [DRM_PLANE_TYPE_PRIMARY, DRM_PLANE_TYPE_CURSOR] ws;
     if ret \<noteq> 0 then do { cleanup_planes; returnS ret } else do {
       ret \<leftarrow> call env (Crtc_init (last_of DRM_PLANE_TYPE_PRIMARY ws) (last_of DRM_PLANE_TYPE_CURSOR ws));
       if ret \<noteq> 0 then do { cleanup_planes; returnS ret } else do {
         has_lut \<leftarrow> gets lut_regs;
         when_do has_lut (invoke (Gamma_size (lut_size d)));
         ret \<leftarrow> init_planes env [DRM_PLANE_TYPE_OVERLAY] ws;
         if ret \<noteq> 0 then do { invoke (Dev Crtc_cleanup); cleanup_planes; returnS ret } else do {
           port \<leftarrow> call env (Dev Port_get);
           if port = 0 then do { invoke (Dev Crtc_cleanup); cleanup_planes; returnS (- ENOENT) } else do {
             _ \<leftarrow> call env (Mem Self_refresh_init);
             returnS 0
           }
         }
       }
     }
   }"

definition vop_destroy_crtc :: "(vop, unit) state" where
  "vop_destroy_crtc = do {
     invoke (Mem Self_refresh_cleanup);
     invoke (Dev Port_put);
     cleanup_planes;
     invoke (Dev Crtc_cleanup);
     invoke (Mem Flip_work_cleanup)
   }"

section \<open>Initialisation\<close>

text \<open>A window bit and no standby mean that the boot loader is scanning out; standby is read only if a window is on.\<close>

fun win_enables :: "vop_env \<Rightarrow> win_data list \<Rightarrow> u32 \<Rightarrow> (vop, u32) state" where
  "win_enables env [] acc = returnS acc"
| "win_enables env (win # ws) acc = do {
     v \<leftarrow> vop_read_reg env (base win) (phy win enable);
     win_enables env ws (acc OR v)
   }"

definition detect_loader :: "vop_env \<Rightarrow> vop_data \<Rightarrow> (vop, unit) state" where
  "detect_loader env d = do {
     ws \<leftarrow> win_enables env (wins d) 0;
     if ws = 0 then modify (\<lambda>s. s\<lparr>loader_active := False\<rparr>)
     else do {
       sb \<leftarrow> vop_read_reg env 0 (common d standby);
       modify (\<lambda>s. s\<lparr>loader_active := (sb = 0)\<rparr>)
     }
   }"

definition backup_regs :: "vop_env \<Rightarrow> (vop, unit) state" where
  "backup_regs env = foreach (\<lambda>i. do {
     v \<leftarrow> vop_readl env (4 * of_nat i);
     modify (\<lambda>s. s\<lparr>regsbak := (regsbak s)(of_nat i := v)\<rparr>)
   }) [0..<(vop_len env + 3) div 4]"

definition init_win :: "vop_env \<Rightarrow> nat \<times> win_data \<Rightarrow> (vop, unit) state" where
  "init_win env w = do {
     let (i, win) = w;
     let ch = of_nat i * 2 + 1;
     VOP_WIN_SET win channel (push_bit 4 (ch + 1) OR ch);
     vop_win_disable env w;
     VOP_WIN_SET win gate 1
   }"

definition initial_regs :: "vop_env \<Rightarrow> vop_data \<Rightarrow> bool \<Rightarrow> (vop, unit) state" where
  "initial_regs env d la = do {
     VOP_INTR_SET_TYPE d intr_clear (hdr env ''INTR_MASK'') 1;
     VOP_INTR_SET_TYPE d intr_enable (hdr env ''INTR_MASK'') 0;
     backup_regs env;
     VOP_REG_SET (global_regdone_en d) 1;
     VOP_REG_SET (common d dsp_blank) 0;
     when_do (\<not> la) (do {
       foreach (init_win env) (enumerate 0 (wins d));
       vop_cfg_done d
     })
   }"

text \<open>The error exits fall through to one another, in this order.\<close>

definition err_put_pm_runtime :: "int \<Rightarrow> (vop, int) state" where
  "err_put_pm_runtime ret = do { invoke (Pm Put); returnS ret }"

definition err_unprepare_dclk :: "int \<Rightarrow> (vop, int) state" where
  "err_unprepare_dclk ret = do { invoke (Clk Unprepare Dclk); err_put_pm_runtime ret }"

definition err_disable_hclk :: "int \<Rightarrow> (vop, int) state" where
  "err_disable_hclk ret = do { invoke (Clk Disable_unprepare Hclk); err_unprepare_dclk ret }"

definition err_disable_aclk :: "int \<Rightarrow> (vop, int) state" where
  "err_disable_aclk ret = do { invoke (Clk Disable_unprepare Aclk); err_disable_hclk ret }"

definition initial_finish :: "vop_env \<Rightarrow> bool \<Rightarrow> (vop, int) state" where
  "initial_finish env la = do {
     when_do (\<not> la) (invoke (Reset_pulse ''dclk''));
     (if la then ignore (call env (Clk Enable Dclk))
      else do { invoke (Clk Disable Hclk); invoke (Clk Disable Aclk) });
     modify (\<lambda>s. s\<lparr>is_enabled := False\<rparr>);
     when_do (\<not> la) (invoke (Pm Put));
     returnS 0
   }"

definition initial_setup :: "vop_env \<Rightarrow> vop_data \<Rightarrow> (vop, int) state" where
  "initial_setup env d = do {
     detect_loader env d;
     la \<leftarrow> gets loader_active;
     ret \<leftarrow> call env (Reset_get ''ahb'');
     if ret < 0 then err_disable_aclk ret else do {
       when_do (\<not> la) (invoke (Reset_pulse ''ahb''));
       initial_regs env d la;
       ret \<leftarrow> call env (Reset_get ''dclk'');
       if ret < 0 then err_disable_aclk ret else initial_finish env la
     }
   }"

definition initial_clocks :: "vop_env \<Rightarrow> vop_data \<Rightarrow> (vop, int) state" where
  "initial_clocks env d = do {
     ret \<leftarrow> call env (Pm Resume_and_get);
     if ret < 0 then returnS ret else do {
       ret \<leftarrow> call env (Clk Prepare Dclk);
       if ret < 0 then err_put_pm_runtime ret else do {
         ret \<leftarrow> call env (Clk Prepare_enable Hclk);
         if ret < 0 then err_unprepare_dclk ret else do {
           ret \<leftarrow> call env (Clk Prepare_enable Aclk);
           if ret < 0 then err_disable_hclk ret else initial_setup env d
         }
       }
     }
   }"

definition vop_initial :: "vop_env \<Rightarrow> vop_data \<Rightarrow> (vop, int) state" where
  "vop_initial env d = do {
     ret \<leftarrow> call env (Clk Get Hclk);
     if ret < 0 then returnS ret else do {
       ret \<leftarrow> call env (Clk Get Aclk);
       if ret < 0 then returnS ret else do {
         ret \<leftarrow> call env (Clk Get Dclk);
         if ret < 0 then returnS ret else initial_clocks env d
       }
     }
   }"

text \<open>A window of the controller, its register table and its conversion table.\<close>

definition vop_win_init :: "vop_data \<Rightarrow> (nat \<times> win_data \<times> yuv2yuv_data option) list" where
  "vop_win_init d = map (\<lambda>i. (i, wins d ! i, map_option (\<lambda>ys. ys ! i) (win_yuv2yuv d))) [0..<length (wins d)]"

section \<open>Waiting for the end of the active lines\<close>

definition rockchip_drm_wait_vact_end :: "vop_env \<Rightarrow> vop_data \<Rightarrow> nat \<Rightarrow> (vop, int) state" where
  "rockchip_drm_wait_vact_end env d mstimeout = do {
     on \<leftarrow> gets is_enabled;
     if \<not> on then returnS (- ENODEV)
     else if mstimeout = 0 then returnS (- EINVAL)
     else do {
       busy \<leftarrow> vop_line_flag_irq_is_enabled env d;
       if busy then returnS (- EBUSY) else do {
         vop_line_flag_irq_enable env d;
         jiffies_left \<leftarrow> call env (Wait_line_flag mstimeout);
         vop_line_flag_irq_disable env d;
         returnS (if jiffies_left = 0 then - ETIMEDOUT else 0)
       }
     }
   }"

section \<open>Binding\<close>

text \<open>The freshly allocated controller; the list of planes and the history belong to the device.\<close>

definition alloc_vop :: "vop \<Rightarrow> vop" where
  "alloc_vop s = s\<lparr>is_enabled := False, loader_active := False, win_enabled := 0, event := None, pending_fb_unref := False,
     fb_unref_queue := [], regsbak := (\<lambda>_. 0), lut_regs := False, rgb := False\<rparr>"

definition map_lut :: "vop_env \<Rightarrow> vop_data \<Rightarrow> bool \<Rightarrow> (vop, int) state" where
  "map_lut env d has_res =
     (if \<not> has_res then returnS 0
      else if lut_size d \<noteq> 1024 \<and> lut_size d \<noteq> 256 then returnS (- EINVAL)
      else do {
        ret \<leftarrow> call env (Mem Map_lut);
        if ret < 0 then returnS ret else do { modify (\<lambda>s. s\<lparr>lut_regs := True\<rparr>); returnS 0 }
      })"

definition err_disable_pm_runtime :: "int \<Rightarrow> (vop, int) state" where
  "err_disable_pm_runtime ret = do { invoke (Pm Pm_disable); vop_destroy_crtc; returnS ret }"

definition bind_irq :: "vop_env \<Rightarrow> vop_data \<Rightarrow> (vop, int) state" where
  "bind_irq env d = do {
     ret \<leftarrow> call env (Dev Request_irq);
     if ret \<noteq> 0 then err_disable_pm_runtime ret else do {
       ret \<leftarrow> (if feature_internal_rgb d then call env (Dev Rgb_init) else returnS 0);
       if ret < 0 then err_disable_pm_runtime ret else do {
         modify (\<lambda>s. s\<lparr>rgb := feature_internal_rgb d\<rparr>);
         invoke (Dev Dma_init);
         returnS 0
       }
     }
   }"

definition bind_tail :: "vop_env \<Rightarrow> vop_data \<Rightarrow> (vop, int) state" where
  "bind_tail env d = do {
     invoke (Pm Pm_enable);
     ret \<leftarrow> vop_initial env d;
     if ret < 0 then err_disable_pm_runtime ret else bind_irq env d
   }"

definition vop_bind :: "vop_env \<Rightarrow> vop_data option \<Rightarrow> bool \<Rightarrow> (vop, int) state" where
  "vop_bind env match_data has_lut_res = (case match_data of
     None \<Rightarrow> returnS (- ENODEV)
   | Some d \<Rightarrow> do {
       ret \<leftarrow> call env (Mem Alloc_vop);
       if ret < 0 then returnS (- ENOMEM) else do {
         modify alloc_vop;
         ret \<leftarrow> call env (Mem Map_regs);
         if ret < 0 then returnS ret else do {
           ret \<leftarrow> map_lut env d has_lut_res;
           if ret < 0 then returnS ret else do {
             ret \<leftarrow> call env (Mem Alloc_regsbak);
             if ret < 0 then returnS (- ENOMEM) else do {
               irq \<leftarrow> call env (Mem Get_irq);
               if irq < 0 then returnS irq else do {
                 ret \<leftarrow> vop_create_crtc env d;
                 if ret \<noteq> 0 then returnS ret else bind_tail env d
               }
             }
           }
         }
       }
     })"

definition vop_unbind :: "(vop, unit) state" where
  "vop_unbind = do {
     has_rgb \<leftarrow> gets rgb;
     when_do has_rgb (invoke (Dev Rgb_fini));
     invoke (Pm Pm_disable);
     vop_destroy_crtc;
     invoke (Clk Unprepare Aclk);
     invoke (Clk Unprepare Hclk);
     invoke (Clk Unprepare Dclk)
   }"

end
