(* ===== verification/Vop_View.thy ===== *)
theory Vop_View
  imports Vop_Bind
begin

text \<open>
  Views of the display controller's state that register traffic does not change. A locale states what such a view
  ignores and shows that every operation which only programs registers leaves it alone; it is used for the
  resources the driver holds and for its page-flip state.
\<close>

section \<open>Rules for the loops and polls of the driver\<close>

lemma keeps_when [keeps]: "(b \<Longrightarrow> keeps f m) \<Longrightarrow> keeps f (when_do b m)"
  unfolding when_do_def by (intro keeps)

lemma keeps_foreach [keeps]: "(\<And>x. x \<in> set xs \<Longrightarrow> keeps f (m x)) \<Longrightarrow> keeps f (foreach m xs)"
  by (induction xs) (auto intro!: keeps)

lemma keeps_poll: "keeps f op \<Longrightarrow> keeps f (poll n op cond)"
  by (induction n) (auto intro!: keeps)

lemma keeps_readx_poll [keeps]: "keeps f op \<Longrightarrow> keeps f (readx_poll_timeout env op cond)"
  unfolding readx_poll_timeout_def by (intro keeps keeps_poll)

section \<open>Views that ignore registers\<close>

locale register_blind =
  fixes f :: "vop \<Rightarrow> 'b"
  assumes readl: "f (s\<lparr>hist := hist s @ [Readl a v]\<rparr>) = f s"
    and writel: "f (s\<lparr>hist := hist s @ [Writel a v]\<rparr>) = f s"
    and lut_write: "f (s\<lparr>hist := hist s @ [Lut_write a v]\<rparr>) = f s"
    and shadow: "f (s\<lparr>regsbak := r\<rparr>) = f s"
begin

lemma keeps_readl [keeps]: "keeps f (vop_readl env a)"
  by (simp add: keeps_def vop_readl_def readl)

lemma keeps_read_reg [keeps]: "keeps f (vop_read_reg env b reg)"
  unfolding vop_read_reg_def by (intro keeps)

lemma keeps_writel [keeps]: "keeps f (Vop_Regs.writel v a)"
  unfolding writel_def by (rule keeps_modify) (rule writel)

lemma keeps_reg_set [keeps]: "keeps f (vop_reg_set reg a m v)"
  unfolding vop_reg_set_def by (intro keeps keeps_modify shadow)

lemma keeps_AFBC_SET [keeps]: "keeps f (VOP_AFBC_SET d name v)"
  unfolding VOP_AFBC_SET_def by (intro keeps)

lemma keeps_cfg_done [keeps]: "keeps f (vop_cfg_done d)"
  unfolding vop_cfg_done_def by (intro keeps)

lemma keeps_INTR_SET [keeps]: "keeps f (VOP_INTR_SET_TYPE d name type v)"
  unfolding VOP_INTR_SET_TYPE_def by (intro keeps)

lemma keeps_get_intr [keeps]: "keeps f (vop_get_intr_type env d reg type)"
  unfolding vop_get_intr_type_def by (intro keeps)

lemma keeps_irq_switch [keeps]:
  "keeps f (vop_dsp_hold_valid_irq_enable env d)" "keeps f (vop_dsp_hold_valid_irq_disable env d)"
  "keeps f (vop_line_flag_irq_enable env d)" "keeps f (vop_line_flag_irq_disable env d)"
  "keeps f (vop_line_flag_irq_is_enabled env d)"
  "keeps f (vop_crtc_enable_vblank env d)" "keeps f (vop_crtc_disable_vblank env d)"
  unfolding vop_dsp_hold_valid_irq_enable_def vop_dsp_hold_valid_irq_disable_def vop_line_flag_irq_enable_def
    vop_line_flag_irq_disable_def vop_line_flag_irq_is_enabled_def vop_crtc_enable_vblank_def vop_crtc_disable_vblank_def
  by (intro keeps)+

lemma keeps_restore [keeps]: "keeps f (restore_regs env)"
  unfolding restore_regs_def by (intro keeps)

lemma keeps_backup [keeps]: "keeps f (backup_regs env)"
  unfolding backup_regs_def by (intro keeps keeps_modify shadow)

lemma keeps_set_win_enabled [keeps]: "keeps f (rockchip_drm_set_win_enabled d b)"
  unfolding rockchip_drm_set_win_enabled_def by (intro keeps)

lemma keeps_lut_state [keeps]: "keeps f (vop_dsp_lut_is_enabled env d)" "keeps f (vop_lut_buffer_index env d)"
  unfolding vop_dsp_lut_is_enabled_def vop_lut_buffer_index_def by (intro keeps)+

lemma keeps_write_lut [keeps]: "keeps f (vop_crtc_write_gamma_lut extract d lut)"
  unfolding vop_crtc_write_gamma_lut_def by (intro keeps keeps_modify lut_write)

lemma keeps_gamma [keeps]: "keeps f (vop_crtc_gamma_set env extract d)"
  unfolding vop_crtc_gamma_set_def gamma_load_def by (intro keeps)

lemma keeps_begin [keeps]: "keeps f (vop_crtc_atomic_begin env extract d)"
  unfolding vop_crtc_atomic_begin_def by (intro keeps)

lemma keeps_set_output [keeps]: "keeps f (set_output d cs pol)"
  unfolding set_output_def by (cases "output_type cs") (auto intro!: keeps)

lemma keeps_set_dither [keeps]: "keeps f (set_dither env d out bpc)"
  unfolding set_dither_def by (intro keeps)

lemma keeps_set_timings [keeps]: "keeps f (set_timings d m)"
  unfolding set_timings_def by (intro keeps)

lemma keeps_fs_pending [keeps]: "keeps f (vop_fs_irq_is_pending env d)"
  unfolding vop_fs_irq_is_pending_def by (intro keeps)

lemma keeps_scale [keeps]: "keeps f (scl_vop_cal_scl_fac env api win sc sw sh dw dh fb')"
  unfolding scl_vop_cal_scl_fac_def set_scale_ext_def by (intro keeps)

lemma keeps_win_fields [keeps]:
  "keeps f (set_yuv api win y2r fb' ps)" "keeps f (set_alpha env w fb')" "keeps f (set_afbc d i fb' addr act)"
  unfolding set_yuv_def set_alpha_def set_afbc_def by (intro keeps)+

lemma keeps_win_enables [keeps]: "keeps f (win_enables env ws acc)"
  by (induction ws arbitrary: acc) (auto intro!: keeps)

end

text \<open>A view that also ignores which windows are on and the CRTC fields that enabling rewrites.\<close>

locale window_blind = register_blind +
  assumes win_enabled: "f (s\<lparr>win_enabled := w\<rparr>) = f s"
    and cstate_afbc: "f (s\<lparr>cstate := (cstate s)\<lparr>enable_afbc := b\<rparr>\<rparr>) = f s"
    and cstate_mode: "f (s\<lparr>cstate := (cstate s)\<lparr>output_mode := out\<rparr>\<rparr>) = f s"
begin

lemma keeps_win_disable [keeps]: "keeps f (vop_win_disable env w)"
  unfolding vop_win_disable_def by (intro keeps keeps_modify win_enabled)

lemma keeps_plane_update [keeps]: "keeps f (vop_plane_atomic_update env api d w y2r old ps fb')"
  unfolding vop_plane_atomic_update_def vop_plane_atomic_disable_def by (intro keeps keeps_modify win_enabled)

lemma keeps_initial_regs [keeps]: "keeps f (initial_regs env d la)"
  unfolding initial_regs_def init_win_def by (intro keeps)

end

section \<open>What an operation appends to the history\<close>

named_theorems emits \<open>events that operations append\<close>

definition emits :: "(vio \<Rightarrow> bool) \<Rightarrow> (vop, 'a) state \<Rightarrow> bool" where
  "emits P m \<longleftrightarrow> (\<forall>s. \<exists>t. hist (snd (run_state m s)) = hist s @ t \<and> list_all P t)"

lemma emitsD: "emits P m \<Longrightarrow> run_state m s = (a, s') \<Longrightarrow> \<exists>t. hist s' = hist s @ t \<and> list_all P t"
  by (metis emits_def snd_conv)

lemma emits_quiet: "(\<And>s. hist (snd (run_state m s)) = hist s) \<Longrightarrow> emits P m"
  by (simp add: emits_def)

lemma emits_return [emits]: "emits P (returnS a)"
  by (simp add: emits_quiet)

lemma emits_gets [emits]: "emits P (gets g)"
  by (simp add: emits_quiet gets_def)

lemma emits_modify: "(\<And>s. hist (g s) = hist s) \<Longrightarrow> emits P (modify g)"
  by (simp add: emits_quiet modify_def)

lemma emits_bind [emits]: "emits P m \<Longrightarrow> (\<And>a. emits P (k a)) \<Longrightarrow> emits P (State_Monad.bind m k)"
proof -
  assume m: "emits P m" and k: "\<And>a. emits P (k a)"
  have "\<exists>t. hist (snd (run_state (State_Monad.bind m k) s)) = hist s @ t \<and> list_all P t" for s
  proof -
    obtain a s1 where 1: "run_state m s = (a, s1)" by fastforce
    obtain b s2 where 2: "run_state (k a) s1 = (b, s2)" by fastforce
    from emitsD [OF m 1] emitsD [OF k 2] show ?thesis
      by (auto simp: 1 2)
  qed
  then show ?thesis by (simp add: emits_def)
qed

lemma emits_if [emits]: "(b \<Longrightarrow> emits P m) \<Longrightarrow> (\<not> b \<Longrightarrow> emits P n) \<Longrightarrow> emits P (if b then m else n)"
  by simp

lemma emits_when [emits]: "(b \<Longrightarrow> emits P m) \<Longrightarrow> emits P (when_do b m)"
  unfolding when_do_def by (intro emits)

lemma emits_option [emits]:
  "(x = None \<Longrightarrow> emits P m) \<Longrightarrow> (\<And>a. x = Some a \<Longrightarrow> emits P (k a)) \<Longrightarrow>
     emits P (case x of None \<Rightarrow> m | Some a \<Rightarrow> k a)"
  by (cases x) auto

lemma emits_prod [emits]: "(\<And>a b. x = (a, b) \<Longrightarrow> emits P (k a b)) \<Longrightarrow> emits P (case x of (a, b) \<Rightarrow> k a b)"
  by (cases x) auto

lemma emits_Let [emits]: "emits P (k x) \<Longrightarrow> emits P (Let x k)"
  by simp

lemma emits_ignore [emits]: "emits P m \<Longrightarrow> emits P (ignore m)"
  unfolding ignore_def by (intro emits)

lemma emits_foreach [emits]: "(\<And>x. x \<in> set xs \<Longrightarrow> emits P (m x)) \<Longrightarrow> emits P (foreach m xs)"
  by (induction xs) (auto intro!: emits)

lemma emits_call: "(\<And>r. P (Ret c r)) \<Longrightarrow> emits P (call env c)"
  by (simp add: emits_def call_def)

lemma emits_invoke: "P (Ret c 0) \<Longrightarrow> emits P (invoke c)"
  by (simp add: emits_def invoke_def modify_def)

lemma emits_readl: "(\<And>v. P (Readl a v)) \<Longrightarrow> emits P (vop_readl env a)"
  by (simp add: emits_def vop_readl_def)

lemma emits_read_reg: "(\<And>v. P (Readl (b + offset reg) v)) \<Longrightarrow> emits P (vop_read_reg env b reg)"
  unfolding vop_read_reg_def by (intro emits emits_readl)

lemma emits_writel: "(\<And>v. P (Writel a v)) \<Longrightarrow> emits P (writel v a)"
  by (simp add: emits_def writel_def modify_def)

lemma emits_reg_set: "(\<And>v. P (Writel (offset reg + a) v)) \<Longrightarrow> emits P (vop_reg_set reg a m v)"
  unfolding vop_reg_set_def by (intro emits emits_modify emits_writel) simp_all

lemma emits_INTR_SET: "(\<And>v. P (Writel (offset (name (intr d))) v)) \<Longrightarrow> emits P (VOP_INTR_SET_TYPE d name type v)"
  unfolding VOP_INTR_SET_TYPE_def by (intro emits emits_reg_set) simp

lemma emits_True_init_win [emits]: "emits (\<lambda>_. True) (init_win env w)"
  unfolding init_win_def vop_win_disable_def by (intro emits emits_reg_set emits_modify) simp_all

end
