(* ===== verification/Vop_Power.thy ===== *)
theory Vop_Power
  imports Vop_View
begin

text \<open>
  Clocks and power of the display controller. The references the driver holds are counted over the history of its
  calls; the count of every resource is shown to follow the driver's two flags, on all error paths.
\<close>

section \<open>References held\<close>

text \<open>By its documentation a clock call, and a runtime power call, takes its reference exactly if it does not fail;
  \<^verbatim>\<open>pm_runtime_get_if_in_use\<close> takes one exactly if its result is positive.\<close>

datatype resource = Clock clk | Prepared clk | Power

fun delta :: "resource \<Rightarrow> vio \<Rightarrow> int" where
  "delta x (Ret (Clk Enable c) r) = (if x = Clock c \<and> r \<ge> 0 then 1 else 0)"
| "delta x (Ret (Clk Disable c) r) = (if x = Clock c then - 1 else 0)"
| "delta x (Ret (Clk Prepare c) r) = (if x = Prepared c \<and> r \<ge> 0 then 1 else 0)"
| "delta x (Ret (Clk Unprepare c) r) = (if x = Prepared c then - 1 else 0)"
| "delta x (Ret (Clk Prepare_enable c) r) = (if (x = Clock c \<or> x = Prepared c) \<and> r \<ge> 0 then 1 else 0)"
| "delta x (Ret (Clk Disable_unprepare c) r) = (if x = Clock c \<or> x = Prepared c then - 1 else 0)"
| "delta x (Ret (Pm Resume_and_get) r) = (if x = Power \<and> r \<ge> 0 then 1 else 0)"
| "delta x (Ret (Pm Get_if_in_use) r) = (if x = Power \<and> r > 0 then 1 else 0)"
| "delta x (Ret (Pm Put) r) = (if x = Power then - 1 else 0)"
| "delta x _ = 0"

definition held :: "resource \<Rightarrow> vio list \<Rightarrow> int" where
  "held x h = sum_list (map (delta x) h)"

lemma held_Nil [simp]: "held x [] = 0"
  by (simp add: held_def)

lemma held_append [simp]: "held x (h @ t) = held x h + held x t"
  by (simp add: held_def)

lemma held_Cons [simp]: "held x (e # t) = delta x e + held x t"
  by (simp add: held_def)

text \<open>What the driver needs to scan out.\<close>

fun scanout :: "resource \<Rightarrow> int" where
  "scanout (Clock c) = 1"
| "scanout (Prepared c) = 0"
| "scanout Power = 1"

lemma scanout_eq:
  "scanout x = (if x = Clock Hclk \<or> x = Clock Aclk \<or> x = Clock Dclk \<or> x = Power then 1 else 0)"
  by (cases x rule: scanout.cases) (auto intro: clk.exhaust)

text \<open>The power view of a state.\<close>

definition power_view :: "vop \<Rightarrow> (resource \<Rightarrow> int) \<times> bool \<times> bool" where
  "power_view s = ((\<lambda>x. held x (hist s)), is_enabled s, loader_active s)"

interpretation pw: window_blind power_view
  by unfold_locales (simp_all add: power_view_def)

lemma power_eq: "power_view s' = power_view s \<longleftrightarrow>
    (\<forall>x. held x (hist s') = held x (hist s)) \<and> is_enabled s' = is_enabled s \<and> loader_active s' = loader_active s"
  by (auto simp: power_view_def fun_eq_iff)

section \<open>Calls\<close>

text \<open>A call returns any result; a proof goes on for each.\<close>

lemma wp_call:
  "(\<And>r. wp (k r) Q (s\<lparr>hist := hist s @ [Ret c r]\<rparr>)) \<Longrightarrow> wp (State_Monad.bind (call env c) k) Q s"
  by (simp add: wp_def call_def)

lemma wp_call_last: "(\<And>r. Q r (s\<lparr>hist := hist s @ [Ret c r]\<rparr>)) \<Longrightarrow> wp (call env c) Q s"
  by (simp add: wp_def call_def)

text \<open>The idiom \<^verbatim>\<open>ret = call(); if (ret < 0) goto exit;\<close>.\<close>

lemma wp_call_or:
  "(\<And>r. r < 0 \<Longrightarrow> wp (e r) Q (s\<lparr>hist := hist s @ [Ret c r]\<rparr>)) \<Longrightarrow> (\<And>r. 0 \<le> r \<Longrightarrow> wp k Q (s\<lparr>hist := hist s @ [Ret c r]\<rparr>)) \<Longrightarrow>
     wp (do { r \<leftarrow> call env c; if r < 0 then e r else k }) Q s"
  by (rule wp_call) simp

lemma wp_call_val: "wp (call env c) Q s = Q (env_ret env (hist s) c) (s\<lparr>hist := hist s @ [Ret c (env_ret env (hist s) c)]\<rparr>)"
  by (simp add: wp_def call_def)

lemma wp_invoke [wp]: "wp (invoke c) Q s = Q () (s\<lparr>hist := hist s @ [Ret c 0]\<rparr>)"
  by (simp add: invoke_def wp)

lemma wp_when [wp]: "wp (when_do b m) Q s = (if b then wp m Q s else Q () s)"
  by (simp add: when_do_def wp)

section \<open>Enabling\<close>

text \<open>The core clocks are both taken or neither.\<close>

lemma wp_core_clks_enable:
  assumes "\<And>r h. (\<And>x. held x h = held x (hist s) + (if r = 0 \<and> (x = Clock Hclk \<or> x = Clock Aclk) then 1 else 0)) \<Longrightarrow> r \<le> 0 \<Longrightarrow> Q r (s\<lparr>hist := h\<rparr>)"
  shows "wp (vop_core_clks_enable env) Q s"
  unfolding vop_core_clks_enable_def
  by (auto simp: wp intro!: wp_call_last assms)


lemma wp_core_clks_disable [wp]:
  "wp vop_core_clks_disable Q s = Q () (s\<lparr>hist := hist s @ [Ret (Clk Disable Aclk) 0, Ret (Clk Disable Hclk) 0]\<rparr>)"
  by (simp add: vop_core_clks_disable_def wp)

lemma wp_enable_regs:
  assumes "\<And>s'. power_view s' = (fst (power_view s), True, loader_active s) \<Longrightarrow> Q () s'"
  shows "wp (vop_enable_regs env d old) Q s"
  unfolding vop_enable_regs_def
  by ((rule wp_keeps_bind [where f = power_view], (intro keeps keeps_modify pw.cstate_afbc; fail))+, unfold wp_bind wp_modify,
      rule wp_keeps [where f = power_view], intro keeps) (simp add: power_view_def assms)

lemma wp_drop_loader:
  assumes "\<And>s'. is_enabled s' = is_enabled s \<Longrightarrow> \<not> loader_active s' \<Longrightarrow>
    (\<And>x. held x (hist s') = held x (hist s) - (if loader_active s then scanout x else 0)) \<Longrightarrow> Q () s'"
  shows "wp drop_loader Q s"
  unfolding drop_loader_def
  by (auto simp: wp scanout_eq intro!: assms)


definition enabled_by :: "vop \<Rightarrow> int \<Rightarrow> vop \<Rightarrow> bool" where
  "enabled_by s ret s' = (if ret = 0
     then is_enabled s' \<and> \<not> loader_active s' \<and>
       (\<forall>x. held x (hist s') = held x (hist s) + (if loader_active s then 0 else scanout x))
     else power_view s' = power_view s)"

lemma wp_vop_enable: "wp (vop_enable env d old) (enabled_by s) s"
  unfolding vop_enable_def
  by (rule wp_call_or, (auto simp: wp enabled_by_def power_eq; fail), unfold wp_bind [of "vop_core_clks_enable _"],
      rule wp_core_clks_enable, rule wp_ifI, (auto simp: wp enabled_by_def power_eq; fail),
      rule wp_call_or, (auto simp: wp enabled_by_def power_eq; fail),
      rule wp_call, rule wp_ifI, (auto simp: wp enabled_by_def power_eq; fail), unfold wp_bind,
      rule wp_enable_regs, rule wp_drop_loader)
    (auto simp: wp enabled_by_def power_eq scanout_eq power_view_def fun_eq_iff)

text \<open>Calls that take no reference.\<close>

lemma keeps_invoke_quiet: "(\<And>x. delta x (Ret c 0) = 0) \<Longrightarrow> keeps power_view (invoke c)"
  unfolding invoke_def by (rule keeps_modify) (simp add: power_view_def)

lemma keeps_call_quiet: "(\<And>x r. delta x (Ret c r) = 0) \<Longrightarrow> keeps power_view (call env c)"
  by (simp add: keeps_def call_def power_view_def)

lemmas quiet = keeps_invoke_quiet keeps_call_quiet

lemma keeps_modeset [keeps]: "keeps power_view (crtc_modeset env lut_extract d)"
  unfolding crtc_modeset_def by (intro keeps keeps_modify pw.cstate_mode quiet) simp

lemma enabled_by_cong: "power_view s'' = power_view s' \<Longrightarrow> enabled_by s 0 s' \<Longrightarrow> enabled_by s 0 s''"
  by (auto simp: enabled_by_def power_eq)

lemma wp_atomic_enable:
  "wp (vop_crtc_atomic_enable env lut_extract d old)
     (\<lambda>_ s'. power_view s' = power_view s \<or> old \<noteq> Some True \<and> enabled_by s 0 s') s"
  unfolding vop_crtc_atomic_enable_def
proof (rule wp_ifI)
  assume "old = Some True"
  show "wp (do { invoke (Vblank Vblank_on); rockchip_drm_set_win_enabled d True })
     (\<lambda>_ s'. power_view s' = power_view s \<or> old \<noteq> Some True \<and> enabled_by s 0 s') s"
    by (rule wp_keeps [where f = power_view], intro keeps quiet) simp_all
next
  assume old: "old \<noteq> Some True"
  have "wp (if ret \<noteq> 0 then returnS () else crtc_modeset env lut_extract d)
     (\<lambda>_ s'. power_view s' = power_view s \<or> old \<noteq> Some True \<and> enabled_by s 0 s') s'"
    if "enabled_by s ret s'" for ret s'
  proof (rule wp_ifI)
    assume "ret \<noteq> 0"
    then show "wp (returnS ()) (\<lambda>_ s'. power_view s' = power_view s \<or> old \<noteq> Some True \<and> enabled_by s 0 s') s'"
      using that by (simp add: wp enabled_by_def)
  next
    assume "\<not> ret \<noteq> 0"
    then show "wp (crtc_modeset env lut_extract d) (\<lambda>_ s'. power_view s' = power_view s \<or> old \<noteq> Some True \<and> enabled_by s 0 s') s'"
      using that old by (auto intro!: wp_keeps [OF keeps_modeset] intro: enabled_by_cong)
  qed
  then show "wp (do { ret \<leftarrow> vop_enable env d old; if ret \<noteq> 0 then returnS () else crtc_modeset env lut_extract d })
     (\<lambda>_ s'. power_view s' = power_view s \<or> old \<noteq> Some True \<and> enabled_by s 0 s') s"
    unfolding wp_bind by (rule wp_mono [OF wp_vop_enable])
qed

section \<open>Disabling and the interrupt handler\<close>

lemma keeps_disable_event [keeps]: "keeps power_view send_disable_event"
  unfolding send_disable_event_def by (intro keeps keeps_modify quiet) (simp_all add: power_view_def)

definition disabled_by :: "vop \<Rightarrow> vop \<Rightarrow> bool" where
  "disabled_by s s' \<longleftrightarrow> \<not> is_enabled s' \<and> loader_active s' = loader_active s \<and>
     (\<forall>x. held x (hist s') = held x (hist s) - scanout x)"

lemma wp_atomic_disable:
  "wp (vop_crtc_atomic_disable env d)
     (\<lambda>_ s'. if self_refresh_active (cstate s) then power_view s' = power_view s else disabled_by s s') s"
proof (cases "self_refresh_active (cstate s)")
  case True
  then show ?thesis
    unfolding vop_crtc_atomic_disable_def wp_bind wp_gets
    by (simp, unfold wp_bind [symmetric]) (rule wp_keeps [where f = power_view], intro keeps, simp)
next
  case False
  show ?thesis
    unfolding vop_crtc_atomic_disable_def wp_bind wp_gets if_not_P [OF False]
    by (unfold wp_invoke wp_modify wp_core_clks_disable, (rule wp_keeps [where f = power_view], (intro keeps; fail))+,
        rule wp_call_last, (rule wp_keeps [where f = power_view], (intro keeps; fail))+)
      (auto simp: power_eq disabled_by_def scanout_eq)
qed

lemma keeps_handle_vblank [keeps]: "keeps power_view vop_handle_vblank"
  unfolding vop_handle_vblank_def by (intro keeps keeps_modify quiet) (simp_all add: power_view_def)

lemma keeps_isr_dispatch [keeps]: "keeps power_view (isr_dispatch env irqs)"
  unfolding isr_dispatch_def by (intro keeps quiet) simp_all

text \<open>The handler puts back what it took, and puts a reference it did not take if runtime power management
  refuses with an error.\<close>

lemma wp_isr:
  "wp (vop_isr env d) (\<lambda>_ s'. is_enabled s' = is_enabled s \<and> loader_active s' = loader_active s \<and>
     (\<forall>x. held x (hist s') = held x (hist s) - (if x = Power \<and> env_ret env (hist s) (Pm Get_if_in_use) < 0 then 1 else 0))) s"
  unfolding vop_isr_def isr_serve_def
  by (unfold wp_bind [of "call _ _"], subst wp_call_val, rule wp_ifI, simp add: wp, unfold wp_bind [of "vop_core_clks_enable _"],
      rule wp_core_clks_enable, rule wp_ifI, simp add: wp, (rule wp_keeps_bind [where f = power_view], (intro keeps; fail))+)
    (auto simp: wp power_eq)

section \<open>The invariant\<close>

text \<open>Every clock stays prepared; clocks and power are held once while the controller scans out, for the driver or for
  the boot loader, and not otherwise.\<close>

fun prepared :: "resource \<Rightarrow> int" where
  "prepared (Prepared c) = 1"
| "prepared x = 0"

definition power_ok :: "vop \<Rightarrow> bool" where
  "power_ok s \<longleftrightarrow> \<not> (is_enabled s \<and> loader_active s) \<and>
     (\<forall>x. held x (hist s) = prepared x + (if is_enabled s \<or> loader_active s then scanout x else 0))"

lemma power_ok_view: "power_view s' = power_view s \<Longrightarrow> power_ok s \<Longrightarrow> power_ok s'"
  unfolding power_eq power_ok_def by simp

lemma power_ok_enabled: "enabled_by s 0 s' \<Longrightarrow> \<not> is_enabled s \<Longrightarrow> power_ok s \<Longrightarrow> power_ok s'"
  by (simp add: power_ok_def enabled_by_def)

lemma power_ok_disabled: "disabled_by s s' \<Longrightarrow> is_enabled s \<Longrightarrow> power_ok s \<Longrightarrow> power_ok s'"
  by (simp add: power_ok_def disabled_by_def)

text \<open>The operations the DRM core runs, in any order, on the windows of the controller. It enables a controller that is off and disables one that is on;
  a CRTC that only entered self-refresh stays on. Runtime power management is on while the component is bound, so
  \<^verbatim>\<open>pm_runtime_get_if_in_use\<close> does not return an error.\<close>

inductive vop_step :: "vop_env \<Rightarrow> (u32 \<Rightarrow> nat \<Rightarrow> u32) \<Rightarrow> vop_api \<Rightarrow> vop_data \<Rightarrow> vop \<Rightarrow> vop \<Rightarrow> bool"
  for env :: vop_env and lut_extract :: "u32 \<Rightarrow> nat \<Rightarrow> u32" and api :: vop_api and d :: vop_data where
  enable: "old = Some True \<or> \<not> is_enabled s \<Longrightarrow>
     run_state (vop_crtc_atomic_enable env lut_extract d old) s = (u, s') \<Longrightarrow> vop_step env lut_extract api d s s'"
| disable: "is_enabled s \<Longrightarrow> run_state (vop_crtc_atomic_disable env d) s = (u, s') \<Longrightarrow> vop_step env lut_extract api d s s'"
| atomic_begin: "run_state (vop_crtc_atomic_begin env lut_extract d) s = (u, s') \<Longrightarrow> vop_step env lut_extract api d s s'"
| flush: "run_state (vop_crtc_atomic_flush env d planes) s = (u, s') \<Longrightarrow> vop_step env lut_extract api d s s'"
| update: "(i, win, y2r) \<in> set (vop_win_init d) \<Longrightarrow>
     run_state (vop_plane_atomic_update env api d (i, win) y2r old ps f) s = (u, s') \<Longrightarrow> vop_step env lut_extract api d s s'"
| plane_off: "(i, win, y2r) \<in> set (vop_win_init d) \<Longrightarrow>
     run_state (vop_plane_atomic_disable env (i, win) old) s = (u, s') \<Longrightarrow> vop_step env lut_extract api d s s'"
| async: "(i, win, y2r) \<in> set (vop_win_init d) \<Longrightarrow>
     run_state (vop_plane_atomic_async_update env api d (i, win) y2r old cur new) s = (v, s') \<Longrightarrow> vop_step env lut_extract api d s s'"
| vblank_on: "run_state (vop_crtc_enable_vblank env d) s = (r, s') \<Longrightarrow> vop_step env lut_extract api d s s'"
| vblank_off: "run_state (vop_crtc_disable_vblank env d) s = (u, s') \<Longrightarrow> vop_step env lut_extract api d s s'"
| wait: "run_state (rockchip_drm_wait_vact_end env d ms) s = (r, s') \<Longrightarrow> vop_step env lut_extract api d s s'"
| irq: "env_ret env (hist s) (Pm Get_if_in_use) \<ge> 0 \<Longrightarrow> run_state (vop_isr env d) s = (q, s') \<Longrightarrow> vop_step env lut_extract api d s s'"
| swap_state: "vop_step env lut_extract api d s (s\<lparr>cstate := cs\<rparr>)"

lemma keeps_flush [keeps]: "keeps power_view (vop_crtc_atomic_flush env d planes)"
  unfolding vop_crtc_atomic_flush_def vop_wait_for_irq_handler_def take_event_def queue_unref_def
  by (intro keeps keeps_modify quiet) (simp_all add: power_view_def)

lemma keeps_async [keeps]: "keeps power_view (vop_plane_atomic_async_update env api d w y2r old cur new)"
  unfolding vop_plane_atomic_async_update_def queue_unref_def
  by (intro keeps keeps_modify quiet) (simp_all add: power_view_def)

lemma keeps_plane_off [keeps]: "keeps power_view (vop_plane_atomic_disable env w old)"
  unfolding vop_plane_atomic_disable_def by (intro keeps)

lemma keeps_wait [keeps]: "keeps power_view (rockchip_drm_wait_vact_end env d ms)"
  unfolding rockchip_drm_wait_vact_end_def by (intro keeps quiet) simp_all

lemma run_keeps: "run_state m s = (a, s') \<Longrightarrow> keeps power_view m \<Longrightarrow> power_ok s \<Longrightarrow> power_ok s'"
  by (blast intro: power_ok_view dest: keepsD)

lemma vop_step_power_ok: "vop_step env lut_extract api d s s' \<Longrightarrow> power_ok s \<Longrightarrow> power_ok s'"
proof (induction rule: vop_step.induct)
  case (enable old s u s')
  from wpD [OF wp_atomic_enable enable(2)] enable(1,3) show ?case
    by (blast intro: power_ok_view power_ok_enabled)
next
  case (disable s u s')
  from wpD [OF wp_atomic_disable disable(2)] disable(1,3) show ?case
    by (metis power_ok_view power_ok_disabled)
next
  case (irq s q s')
  from wpD [OF wp_isr irq(2)] irq(1,3) show ?case
    by (simp add: power_ok_def)
next
  case (swap_state s cs)
  then show ?case by (simp add: power_ok_def)
qed (erule run_keeps, intro keeps, assumption)+


section \<open>Initialisation and binding\<close>

text \<open>The loader's pixel clock is enabled last; that call may fail unnoticed.\<close>

definition dclk_failed :: "vop \<Rightarrow> bool" where
  "dclk_failed s \<longleftrightarrow> hist s \<noteq> [] \<and> (case last (hist s) of Ret (Clk Enable Dclk) r \<Rightarrow> r < 0 | _ \<Rightarrow> False)"

definition initialised :: "vop_env \<Rightarrow> (resource \<Rightarrow> int) \<Rightarrow> int \<Rightarrow> vop \<Rightarrow> bool" where
  "initialised env b ret s' = (if ret = 0
     then \<not> is_enabled s' \<and>
       (loader_active s' \<and> dclk_failed s' \<longrightarrow> (\<exists>h. env_ret env h (Clk Enable Dclk) < 0)) \<and> (\<forall>x. held x (hist s') = b x + prepared x +
       (if loader_active s' then scanout x - (if x = Clock Dclk \<and> dclk_failed s' then 1 else 0) else 0))
     else ret < 0 \<and> (\<forall>x. held x (hist s') = b x))"

definition held_view :: "vop \<Rightarrow> resource \<Rightarrow> int" where
  "held_view s = (\<lambda>x. held x (hist s))"

interpretation hv: window_blind held_view
  by unfold_locales (simp_all add: held_view_def)

lemma prepared_eq:
  "prepared x = (if x = Prepared Hclk \<or> x = Prepared Aclk \<or> x = Prepared Dclk then 1 else 0)"
  by (cases x rule: prepared.cases) (auto intro: clk.exhaust)

lemma keeps_detect_loader [keeps]: "keeps held_view (detect_loader env d)"
  unfolding detect_loader_def by (intro keeps keeps_modify) (simp_all add: held_view_def)

lemmas error_exits = err_disable_aclk_def err_disable_hclk_def err_unprepare_dclk_def err_put_pm_runtime_def

lemma wp_err_disable_aclk:
  assumes "ret < 0" and "\<And>x. held x (hist s) = b x + prepared x + scanout x - (if x = Clock Dclk then 1 else 0)"
  shows "wp (err_disable_aclk ret) (initialised env b) s"
  using assms by (auto simp: error_exits wp initialised_def scanout_eq prepared_eq)

lemma wp_initial_finish:
  assumes "\<And>x. held x (hist s) = b x + prepared x + scanout x - (if x = Clock Dclk then 1 else 0)"
    and "la = loader_active s"
  shows "wp (initial_finish env la) (initialised env b) s"
  unfolding initial_finish_def wp_bind wp_when
  using assms by (cases la) (auto simp: wp wp_call_val initialised_def scanout_eq dclk_failed_def)

lemma wp_initial_setup:
  assumes h: "\<And>x. held x (hist s) = b x + prepared x + scanout x - (if x = Clock Dclk then 1 else 0)"
  shows "wp (initial_setup env d) (initialised env b) s"
  unfolding initial_setup_def
proof (rule wp_keeps_bind [OF keeps_detect_loader], unfold wp_bind wp_gets, rule wp_call_last, rule wp_ifI)
  fix s1 and r :: int
  assume s1: "held_view s1 = held_view s" and "r < 0"
  then show "wp (err_disable_aclk r) (initialised env b) (s1\<lparr>hist := hist s1 @ [Ret (Reset_get ''ahb'') r]\<rparr>)"
    using h by (intro wp_err_disable_aclk) (auto simp: held_view_def fun_eq_iff)
next
  fix s1 and r :: int
  assume s1: "held_view s1 = held_view s"
  let ?s = "s1\<lparr>hist := hist s1 @ [Ret (Reset_get ''ahb'') r]\<rparr>"
  have tail: "wp (if ret < 0 then err_disable_aclk ret else initial_finish env (loader_active s1)) (initialised env b) s2"
    if "power_view s2 = power_view ?s" for ret s2
    using that h s1 by (intro wp_ifI wp_err_disable_aclk wp_initial_finish) (auto simp: held_view_def power_eq fun_eq_iff)
  show "wp (do {
      when_do (\<not> loader_active s1) (invoke (Reset_pulse ''ahb''));
      initial_regs env d (loader_active s1);
      ret \<leftarrow> call env (Reset_get ''dclk'');
      if ret < 0 then err_disable_aclk ret else initial_finish env (loader_active s1)
    }) (initialised env b) ?s"
    by ((rule wp_keeps_bind [where f = power_view], (intro keeps quiet; simp; fail))+, rule tail) simp
qed

lemma wp_vop_initial: "wp (vop_initial env d) (initialised env (\<lambda>x. held x (hist s))) s"
  unfolding vop_initial_def initial_clocks_def
  by ((rule wp_call_or, (auto simp: wp error_exits initialised_def; fail))+, rule wp_initial_setup)
    (auto simp: scanout_eq prepared_eq)


text \<open>Creating and destroying the CRTC takes no clock and no power reference.\<close>

lemma keeps_cleanup_planes [keeps]: "keeps power_view cleanup_planes"
  unfolding cleanup_planes_def by (intro keeps keeps_modify quiet) (simp_all add: power_view_def)

lemma keeps_init_planes [keeps]: "keeps power_view (init_planes env types ws)"
  unfolding plane_init_def vop_plane_add_properties_def
  by (induction ws rule: list.induct)
    (auto simp: plane_init_def vop_plane_add_properties_def intro!: keeps keeps_modify quiet, simp_all add: power_view_def)

lemma keeps_create_crtc [keeps]: "keeps power_view (vop_create_crtc env d)"
  unfolding vop_create_crtc_def by (intro keeps quiet) simp_all

lemma keeps_destroy_crtc [keeps]: "keeps power_view vop_destroy_crtc"
  unfolding vop_destroy_crtc_def by (intro keeps quiet) simp_all

lemma keeps_map_lut [keeps]: "keeps power_view (map_lut env d has_res)"
  unfolding map_lut_def by (intro keeps keeps_modify quiet) (simp_all add: power_view_def)

definition bound :: "(resource \<Rightarrow> int) \<Rightarrow> int \<Rightarrow> vop \<Rightarrow> bool" where
  "bound b ret s' = (if ret = 0
     then \<not> is_enabled s' \<and> (\<forall>x. held x (hist s') = b x + prepared x + (if loader_active s' then scanout x else 0))
     else (\<forall>x. held x (hist s') = b x) \<or>
       (\<forall>x. held x (hist s') = b x + prepared x + (if loader_active s' then scanout x else 0)))"

lemma wp_bind_error:
  assumes "ret \<noteq> 0" and "bound b 0 s \<or> (\<forall>x. held x (hist s) = b x)"
  shows "wp (err_disable_pm_runtime ret) (bound b) s"
  unfolding err_disable_pm_runtime_def
  by (rule wp_keeps_bind [where f = power_view], intro keeps quiet, simp, rule wp_keeps_bind [where f = power_view], intro keeps)
    (use assms in \<open>auto simp: wp bound_def power_eq split: if_splits\<close>)

lemma bound_view: "bound b 0 s \<Longrightarrow> power_view s' = power_view s \<Longrightarrow> bound b 0 s'"
  by (simp add: bound_def power_eq)

lemma wp_bind_irq:
  assumes "bound b 0 s"
  shows "wp (bind_irq env d) (bound b) s"
proof -
  have fin: "wp (do { modify (\<lambda>s. s\<lparr>rgb := feature_internal_rgb d\<rparr>); invoke (Dev Dma_init); returnS 0 }) (bound b) s'"
    if "bound b 0 s'" for s'
    using that by (simp add: wp bound_def)
  show ?thesis
    unfolding bind_irq_def
    by ((rule wp_keeps_bind [where f = power_view], (intro keeps quiet; simp; fail), rule wp_ifI, rule wp_bind_error, (simp; fail),
          (blast intro: bound_view assms; fail))+, rule fin)
      (blast intro: bound_view assms)
qed

lemma wp_bind_tail:
  assumes dclk: "\<And>h. env_ret env h (Clk Enable Dclk) \<ge> 0"
  shows "wp (bind_tail env d) (bound (\<lambda>x. held x (hist s))) s"
proof -
  let ?b = "\<lambda>x. held x (hist s)"
  have "wp (vop_initial env d) (\<lambda>ret s'. ret < 0 \<and> (\<forall>x. held x (hist s') = ?b x) \<or> ret = 0 \<and> bound ?b 0 s') (s\<lparr>hist := hist s @ [Ret (Pm Pm_enable) 0]\<rparr>)"
    by (rule wp_mono [OF wp_vop_initial]) (use dclk in \<open>auto simp: initialised_def bound_def not_less split: if_splits; metis not_le\<close>)
  from wp_mono [OF this] show ?thesis
    unfolding bind_tail_def wp_bind wp_invoke
    by (rule meta_mp) (auto simp: wp_if intro: wp_bind_error wp_bind_irq)
qed

lemma keeps_held: "keeps power_view m \<Longrightarrow> keeps held_view m"
  by (simp add: keeps_def power_view_def held_view_def)

lemma wp_bind_early: "ret \<noteq> 0 \<Longrightarrow> held_view s' = held_view s \<Longrightarrow> wp (returnS ret) (bound (\<lambda>x. held x (hist s))) s'"
  by (auto simp: wp bound_def held_view_def fun_eq_iff)

lemma wp_bind_late:
  assumes "\<And>h. env_ret env h (Clk Enable Dclk) \<ge> 0" and "held_view s' = held_view s"
  shows "wp (bind_tail env d) (bound (\<lambda>x. held x (hist s))) s'"
  using wp_bind_tail [OF assms(1), of d s'] assms(2) by (simp add: held_view_def)

lemma wp_vop_bind:
  assumes "\<And>h. env_ret env h (Clk Enable Dclk) \<ge> 0"
  shows "wp (vop_bind env match_data lut) (bound (\<lambda>x. held x (hist s))) s"
proof (cases match_data)
  case None
  then show ?thesis by (simp add: vop_bind_def ENODEV_def wp bound_def)
next
  case (Some d)
  show ?thesis
    unfolding vop_bind_def Some option.case
    by ((rule wp_keeps_bind [where f = held_view],
          (intro keeps keeps_held [OF keeps_map_lut] keeps_held [OF keeps_create_crtc] keeps_held [OF keeps_call_quiet] keeps_modify;
           simp add: held_view_def alloc_vop_def; fail), (rule wp_ifI, rule wp_bind_early)?, (simp add: ENOMEM_def; fail)?, (simp; fail)?)+,
        rule wp_bind_late [OF assms]) simp
qed

section \<open>A small controller\<close>

text \<open>A controller with one window whose enable bit and the standby bit can be read, and surroundings in which every call
  succeeds but \<open>bad\<close>; used by the witnesses.\<close>

definition no_reg :: vop_reg where
  "no_reg = \<lparr>mask = 0, offset = 0, shift = 0, write_mask = False\<rparr>"

definition bit_reg :: "u32 \<Rightarrow> vop_reg" where
  "bit_reg a = \<lparr>mask = 1, offset = a, shift = 0, write_mask = False\<rparr>"

definition small_win :: win_data where
  "small_win = \<lparr>base = 0, phy = (\<lambda>f. if f = enable then bit_reg 0x10 else no_reg), scl = None,
     win_type = DRM_PLANE_TYPE_PRIMARY\<rparr>"

definition small_data :: vop_data where
  "small_data = \<lparr>version_major = 2, feature_output_rgb10 = False, feature_internal_rgb = True, max_output_width = 0,
     lut_size = 0, common = (\<lambda>f. if f = standby then bit_reg 0x20 else no_reg), outputs = (\<lambda>_. no_reg),
     modeset = (\<lambda>_. no_reg),
     intr = \<lparr>intrs = [], line_flag_num = no_reg, intr_enable = no_reg, intr_clear = no_reg, intr_status = no_reg\<rparr>,
     global_regdone_en = no_reg, wins = [small_win], win_yuv2yuv = None, afbc = None\<rparr>"

definition small_env :: "bool \<Rightarrow> vcall \<Rightarrow> vop_env" where
  "small_env scanning bad = \<lparr>env_readl = (\<lambda>_ a. if scanning \<and> a = 0x10 then 1 else 0),
     env_ret = (\<lambda>_ c. if c = bad then - 16 else if c = Dev Port_get then 1 else 0), env_polls = (\<lambda>_. 0), vop_len = 0,
     hdr = (\<lambda>_. 0)\<rparr>"

definition blank_vop :: vop where
  "blank_vop = \<lparr>is_enabled = False, loader_active = False, win_enabled = 0, event = None, pending_fb_unref = False,
     fb_unref_queue = [], regsbak = (\<lambda>_. 0), lut_regs = False, rgb = False, plane_list = [], cstate = zero_state, hist = []\<rparr>"

definition prepared_vop :: vop where
  "prepared_vop = blank_vop\<lparr>hist := [Ret (Clk Prepare Hclk) 0, Ret (Clk Prepare Aclk) 0, Ret (Clk Prepare Dclk) 0]\<rparr>"

section \<open>Properties\<close>

text \<open>C9 (vop_enable_balanced): enabling the controller either succeeds, and then takes each clock and the power reference
  once and gives up those held for the boot loader's scan-out, or fails, and then leaves every reference count and
  both flags as they were, on each of its error paths.\<close>

theorem vop_enable_balanced:
  "let (ret, s') = run_state (vop_enable env d old) s in
     if ret = 0 then is_enabled s' \<and> \<not> loader_active s' \<and>
       held x (hist s') = held x (hist s) + (if loader_active s then 0 else scanout x)
     else held x (hist s') = held x (hist s) \<and> is_enabled s' = is_enabled s \<and> loader_active s' = loader_active s"
proof (cases "run_state (vop_enable env d old) s")
  case (Pair ret s')
  from wpD [OF wp_vop_enable this] Pair show ?thesis
    by (auto simp: enabled_by_def power_eq)
qed

lemma prepared_vop_ok: "power_ok prepared_vop"
  by (simp add: power_ok_def prepared_vop_def blank_vop_def prepared_eq)




lemma bind_without_irq: "fst (run_state (vop_bind (small_env False (Dev Request_irq)) (Some small_data) False) blank_vop) = - 16"
  by code_simp


text \<open>Unbinding gives every reference back exactly if the controller is off; a boot loader's
  scan-out that no mode set took over keeps its clocks, now unprepared, and its power reference.\<close>

theorem vop_unbind_releases:
  assumes "run_state vop_unbind s = (u, s')" and "power_ok s"
  shows "(\<forall>x. held x (hist s') = 0) \<longleftrightarrow> \<not> is_enabled s \<and> \<not> loader_active s"
proof -
  have "wp vop_unbind (\<lambda>_ s'. \<forall>x. held x (hist s') = held x (hist s) - prepared x) s"
    unfolding vop_unbind_def
    by ((rule wp_keeps_bind [where f = power_view], (intro keeps quiet; simp; fail))+) (auto simp: wp power_eq prepared_eq)
  from wpD [OF this assms(1)] assms(2) show ?thesis
    by (auto simp: power_ok_def dest: spec [of _ Power])
qed

theorem vop_unbind_releases_witness:
  "power_ok prepared_vop \<and> (\<forall>x. held x (hist (snd (run_state vop_unbind prepared_vop))) = 0)"
  using vop_unbind_releases [of prepared_vop "()" "snd (run_state vop_unbind prepared_vop)"] prepared_vop_ok
  by (simp add: prod_eq_iff) (simp add: prepared_vop_def blank_vop_def)

section \<open>Taking over from the boot loader\<close>

text \<open>The accesses of an initialisation that leaves the boot loader's picture on the screen.\<close>

fun seamless :: "vop_data \<Rightarrow> vio \<Rightarrow> bool" where
  "seamless d (Writel a v) \<longleftrightarrow> a \<in> {offset (intr_clear (intr d)), offset (intr_enable (intr d)),
     offset (global_regdone_en d), offset (common d dsp_blank)}"
| "seamless d (Ret (Reset_pulse line) r) \<longleftrightarrow> False"
| "seamless d (Lut_write a v) \<longleftrightarrow> False"
| "seamless d _ \<longleftrightarrow> True"

lemma emits_err: "emits (seamless d) (err_disable_aclk ret)"
  unfolding error_exits by (intro emits emits_invoke) simp_all

lemma emits_initial_regs: "emits (if la then seamless d else (\<lambda>_. True)) (initial_regs env d la)"
  unfolding initial_regs_def backup_regs_def vop_cfg_done_def
  by (intro emits emits_INTR_SET emits_reg_set emits_readl emits_modify) (auto intro: emits_True_init_win)

lemma emits_initial_finish: "emits (if la then seamless d else (\<lambda>_. True)) (initial_finish env la)"
  unfolding initial_finish_def by (intro emits emits_invoke emits_call emits_modify) auto

lemma emits_detect: "emits (seamless d) (detect_loader env d)"
proof -
  have "emits (seamless d) (win_enables env ws acc)" for ws acc
    by (induction ws arbitrary: acc) (auto intro!: emits emits_read_reg)
  then show ?thesis
    unfolding detect_loader_def by (intro emits emits_read_reg emits_modify) auto
qed

definition taken_over :: "vop_data \<Rightarrow> vop \<Rightarrow> vop \<Rightarrow> bool" where
  "taken_over d s s' \<longleftrightarrow> (\<exists>t. hist s' = hist s @ t \<and> (loader_active s' \<longrightarrow> list_all (seamless d) t))"

lemma taken_over_step:
  assumes "keeps loader_active m" and "emits (if loader_active s1 then seamless d else (\<lambda>_. True)) m" and "taken_over d s s1"
  shows "wp m (\<lambda>_. taken_over d s) s1"
proof (rule wpI)
  fix a s'
  assume r: "run_state m s1 = (a, s')"
  from emitsD [OF assms(2) r] keepsD [OF assms(1) r] assms(3) show "taken_over d s s'"
    by (auto simp: taken_over_def)
qed

interpretation lo: window_blind loader_active
  by unfold_locales simp_all

lemma keeps_loader_calls: "keeps loader_active (invoke c)" "keeps loader_active (call env c)"
  by (simp_all add: keeps_def invoke_def modify_def call_def)

lemma keeps_loader_err [keeps]: "keeps loader_active (err_disable_aclk ret)"
  unfolding error_exits by (intro keeps keeps_loader_calls)

lemma keeps_loader_finish [keeps]: "keeps loader_active (initial_finish env la)"
  unfolding initial_finish_def by (intro keeps keeps_loader_calls keeps_modify) simp

lemma setup_taken_over: "wp (initial_setup env d) (\<lambda>_. taken_over d s) s"
  unfolding initial_setup_def
proof (unfold wp_bind [of "detect_loader _ _"] wp_bind [of "gets _"] wp_gets, rule wpI)
  fix a s1
  assume "run_state (detect_loader env d) s = (a, s1)"
  from emitsD [OF emits_detect this] have 1: "taken_over d s s1"
    by (auto simp: taken_over_def)
  let ?P = "if loader_active s1 then seamless d else (\<lambda>_. True)"
  have err: "emits ?P (err_disable_aclk ret)" for ret
    unfolding error_exits by (intro emits emits_invoke) simp_all
  show "wp (do {
      ret \<leftarrow> call env (Reset_get ''ahb'');
      if ret < 0 then err_disable_aclk ret else do {
        when_do (\<not> loader_active s1) (invoke (Reset_pulse ''ahb''));
        initial_regs env d (loader_active s1);
        ret \<leftarrow> call env (Reset_get ''dclk'');
        if ret < 0 then err_disable_aclk ret else initial_finish env (loader_active s1)
      }
    }) (\<lambda>_. taken_over d s) s1"
    by (rule taken_over_step [OF _ _ 1],
        intro keeps keeps_loader_calls,
        intro emits emits_call emits_invoke emits_initial_regs emits_initial_finish err) auto
qed

lemma clocks_taken_over: "wp (vop_initial env d) (\<lambda>_. taken_over d s) s"
proof -
  have 0: "wp (initial_setup env d) (\<lambda>_. taken_over d s) s'" if "hist s' = hist s @ t" "list_all (seamless d) t" for s' t
    by (rule wp_mono [OF setup_taken_over]) (use that in \<open>auto simp: taken_over_def\<close>)
  show ?thesis
    unfolding vop_initial_def initial_clocks_def
    by ((rule wp_call_or, (auto simp: wp error_exits taken_over_def; fail))+, rule 0, simp) simp
qed

text \<open>C17 (vop_takeover_seamless): when initialisation finds the boot loader scanning out it writes no register but the
  interrupt registers, the register-done enable and the blanking bit, and pulses no reset, so the picture stays.\<close>

theorem vop_takeover_seamless:
  assumes "run_state (vop_initial env d) s = (ret, s')" and "loader_active s'"
  shows "\<exists>t. hist s' = hist s @ t \<and> list_all (seamless d) t"
  using wpD [OF clocks_taken_over assms(1)] assms(2) by (simp add: taken_over_def)

lemma small_takeover:
  "fst (run_state (vop_initial (small_env True (Pm Put)) small_data) blank_vop) = 0 \<and>
   loader_active (snd (run_state (vop_initial (small_env True (Pm Put)) small_data) blank_vop))"
  by code_simp

theorem vop_takeover_seamless_witness:
  "list_all (seamless small_data) (hist (snd (run_state (vop_initial (small_env True (Pm Put)) small_data) blank_vop)))"
  using vop_takeover_seamless [OF surjective_pairing conjunct2 [OF small_takeover]] by (simp add: blank_vop_def)

text \<open>C21 (vop_loader_takeover): the first enable after a take-over holds each clock and the power reference once in place
  of the loader's, except that the pixel clock ends up off while the controller counts as enabled if enabling it for
  the loader had failed.\<close>

theorem vop_loader_takeover:
  assumes "run_state (vop_initial env d) s = (0, s1)" and "loader_active s1" and "\<And>x. held x (hist s) = 0"
    and "run_state (vop_enable env' d old) s1 = (0, s2)"
  shows "is_enabled s2 \<and> held x (hist s2) = prepared x + scanout x - (if x = Clock Dclk \<and> dclk_failed s1 then 1 else 0)"
  using wpD [OF wp_vop_initial assms(1)] wpD [OF wp_vop_enable assms(4)] assms(2,3)
  by (auto simp: initialised_def enabled_by_def)

lemma small_takeover_enable:
  "let (r, s1) = run_state (vop_initial (small_env True (Clk Enable Dclk)) small_data) blank_vop;
       (r2, s2) = run_state (vop_enable (small_env True (Pm Put)) small_data None) s1
   in r = 0 \<and> loader_active s1 \<and> dclk_failed s1 \<and> r2 = 0"
  by code_simp

theorem vop_loader_takeover_witness:
  "let (r, s1) = run_state (vop_initial (small_env True (Clk Enable Dclk)) small_data) blank_vop;
       (r2, s2) = run_state (vop_enable (small_env True (Pm Put)) small_data None) s1
   in is_enabled s2 \<and> held (Clock Dclk) (hist s2) = 0"
proof -
  obtain r s1 r2 s2 where
    1: "run_state (vop_initial (small_env True (Clk Enable Dclk)) small_data) blank_vop = (r, s1)"
       "run_state (vop_enable (small_env True (Pm Put)) small_data None) s1 = (r2, s2)"
    by fastforce
  with small_takeover_enable have "r = 0" "r2 = 0" "loader_active s1" "dclk_failed s1"
    by simp_all
  with 1 vop_loader_takeover [of "small_env True (Clk Enable Dclk)" small_data blank_vop s1 "small_env True (Pm Put)" None s2 "Clock Dclk"]
  show ?thesis
    by (simp add: blank_vop_def)
qed

section \<open>A failed enable\<close>

lemma wp_True: "wp m (\<lambda>_ _. True) s"
  by (simp add: wp_def split: prod.split)

lemma vop_enable_failed: "wp (vop_enable env d old) (\<lambda>ret s'. ret \<noteq> 0 \<longrightarrow> cstate s' = cstate s) s"
proof -
  have 1: "wp (do { drop_loader; invoke (Vblank Vblank_on); returnS (0::int) }) (\<lambda>ret s'. ret \<noteq> 0 \<longrightarrow> R s') s'" for R s'
    unfolding wp_bind [of drop_loader] by (rule wp_mono [OF wp_True]) (simp add: wp)
  have "wp (vop_enable_regs env d old)
     (\<lambda>_. wp (do { drop_loader; invoke (Vblank Vblank_on); returnS (0::int) }) (\<lambda>ret s'. ret \<noteq> 0 \<longrightarrow> R s')) s'" for R s'
    by (rule wp_mono [OF wp_True]) (rule 1)
  then show ?thesis
    unfolding vop_enable_def vop_core_clks_enable_def
    by (auto simp: wp intro!: wp_call_last)
qed

text \<open>The DRM core does not learn that enabling failed and disables the CRTC later; the
  disable does not look at the flag, so each clock and the power reference is given back once more than it was
  taken.\<close>

theorem vop_disable_underflow:
  assumes "run_state (vop_enable env d old) s = (ret, s1)" and "ret \<noteq> 0" and "old \<noteq> Some True"
    and "power_ok s" and "\<not> is_enabled s" and "\<not> loader_active s" and "\<not> self_refresh_active (cstate s)"
    and "run_state (do { vop_crtc_atomic_enable env lut_extract d old; vop_crtc_atomic_disable env d }) s = (u, s')"
    and "scanout x = 1"
  shows "held x (hist s') = - 1"
proof -
  from wpD [OF vop_enable_failed assms(1)] wpD [OF wp_vop_enable assms(1)] assms(2)
  have s1: "cstate s1 = cstate s" "power_view s1 = power_view s"
    by (auto simp: enabled_by_def)
  have "run_state (vop_crtc_atomic_enable env lut_extract d old) s = ((), s1)"
    using assms(1-3) by (simp add: vop_crtc_atomic_enable_def)
  then have "run_state (vop_crtc_atomic_disable env d) s1 = (u, s')"
    using assms(8) by simp
  from wpD [OF wp_atomic_disable this] s1 assms(4-7,9) show ?thesis
    by (auto simp: disabled_by_def power_ok_def power_eq scanout_eq split: if_splits)
qed

lemma small_enable_fails: "fst (run_state (vop_enable (small_env False (Clk Enable Dclk)) small_data None) prepared_vop) = - 16"
  by code_simp

theorem vop_disable_underflow_witness:
  "held Power (hist (snd (run_state (do {
     vop_crtc_atomic_enable (small_env False (Clk Enable Dclk)) (\<lambda>v _. v) small_data None;
     vop_crtc_atomic_disable (small_env False (Clk Enable Dclk)) small_data }) prepared_vop))) = - 1"
  by (rule vop_disable_underflow [OF surjective_pairing _ _ prepared_vop_ok _ _ _ surjective_pairing, of "small_env False (Clk Enable Dclk)" small_data None])
    (simp add: small_enable_fails, simp_all add: prepared_vop_def blank_vop_def zero_state_def)

end
