(* ===== verification/Vop_Irq.thy ===== *)
theory Vop_Irq
  imports Vop_Power
begin

text \<open>
  Interrupts of the display controller: the translation between interrupt types and bits of the interrupt registers,
  and what the handler does.
\<close>

section \<open>Types and register bits\<close>

text \<open>The reference: bit \<open>j\<close> of the registers stands for the types of entry \<open>j\<close>.\<close>

definition listed :: "u32 list \<Rightarrow> u32 \<Rightarrow> nat \<Rightarrow> bool" where
  "listed xs t j \<longleftrightarrow> j < length xs \<and> xs ! j AND t \<noteq> 0"

lemma listed_0 [simp]: "listed [] t j \<longleftrightarrow> False"
  by (simp add: listed_def)

lemma listed_Cons: "listed (x # xs) t j \<longleftrightarrow> (case j of 0 \<Rightarrow> x AND t \<noteq> 0 | Suc k \<Rightarrow> listed xs t k)"
  by (auto simp: listed_def split: nat.split)

lemma bit_2_u32: "bit ((2 :: u32) ^ i) k \<longleftrightarrow> k = i \<and> i < 32"
  by (auto simp: bit_simps)

lemma and_2_u32: "(v :: u32) AND 2 ^ n = 0 \<longleftrightarrow> \<not> bit v n"
  by (simp add: and_exp_eq_0_iff_not_bit)

lemma bit_intr_mask:
  "bit (snd (intr_bits xs i t v (r, m))) k \<longleftrightarrow> bit m k \<or> i \<le> k \<and> k < 32 \<and> listed xs t (k - i)"
proof (induction xs arbitrary: i r m k)
  case Nil
  then show ?case by simp
next
  case (Cons x xs)
  consider "k < i" | "k = i" | n where "k = Suc (i + n)"
    using less_linear less_imp_Suc_add by blast
  then show ?case
  proof cases
    case 1
    then show ?thesis by (simp add: Cons bit_or_iff bit_2_u32)
  next
    case 2
    then show ?thesis by (auto simp: Cons bit_or_iff bit_2_u32 listed_Cons)
  next
    case 3
    then show ?thesis by (simp add: Cons bit_or_iff bit_2_u32 listed_Cons Suc_diff_le)
  qed
qed

lemma intr_bits_same: "intr_bits xs i t 1 (m, m) = (snd (intr_bits xs i t v (r, m)), snd (intr_bits xs i t v (r, m)))"
  by (induction xs arbitrary: i r m) auto

lemma bit_intr_type:
  "bit (intr_type xs i t regs acc) k \<longleftrightarrow> bit acc k \<or> (\<exists>j. listed xs t j \<and> bit regs (i + j) \<and> bit (xs ! j) k)"
proof (induction xs arbitrary: i acc)
  case Nil
  then show ?case by simp
next
  case (Cons x xs)
  have ex: "(\<exists>j. P j) \<longleftrightarrow> P 0 \<or> (\<exists>j. P (Suc j))" for P
    by (metis not0_implies_Suc)
  show ?case
    by (subst ex) (auto simp: Cons listed_Cons and_2_u32 bit_or_iff and.commute)
qed

lemma and_word_nonzero: "(a :: u32) AND b \<noteq> 0 \<longleftrightarrow> (\<exists>k. bit a k \<and> bit b k)"
  using bit_imp_le_length [of a] by (auto simp: bit_eq_iff bit_and_iff)

text \<open>C26 (vop_intr_ack): if no two entries of the interrupt table share a type bit, turning the status register into
  interrupt types and these back into register bits gives exactly the status bits of the requested types: the
  handler clears the interrupts it has seen and no others.\<close>

theorem vop_intr_ack:
  assumes "sorted_wrt (\<lambda>x y. x AND y = 0) xs"
  shows "intr_bits xs 0 (intr_type xs 0 t regs 0) 1 (0, 0) =
    (regs AND snd (intr_bits xs 0 t 1 (0, 0)), regs AND snd (intr_bits xs 0 t 1 (0, 0)))"
proof -
  have apart: "i = j" if "i < length xs" "j < length xs" "bit (xs ! i) k" "bit (xs ! j) k" for i j k
  proof (rule ccontr)
    assume "i \<noteq> j"
    then have "xs ! i AND xs ! j = 0 \<or> xs ! j AND xs ! i = 0"
      using sorted_wrt_nth_less [OF assms, of i j] sorted_wrt_nth_less [OF assms, of j i] that(1,2) by linarith
    with that(3,4) show False using and_word_nonzero by blast
  qed
  have "listed xs (intr_type xs 0 t regs 0) k \<longleftrightarrow> listed xs t k \<and> bit regs k" for k
  proof
    assume "listed xs (intr_type xs 0 t regs 0) k"
    then obtain b j where "k < length xs" "bit (xs ! k) b" "listed xs t j" "bit regs j" "bit (xs ! j) b"
      by (auto simp: listed_def and_word_nonzero bit_intr_type)
    moreover from this have "j = k" using apart by (auto simp: listed_def)
    ultimately show "listed xs t k \<and> bit regs k" by simp
  next
    assume "listed xs t k \<and> bit regs k"
    then show "listed xs (intr_type xs 0 t regs 0) k"
      unfolding listed_def and_word_nonzero bit_intr_type by auto
  qed
  then have "snd (intr_bits xs 0 (intr_type xs 0 t regs 0) 1 (0, 0)) = regs AND snd (intr_bits xs 0 t 1 (0, 0))"
    by (intro bit_word_eqI) (auto simp: bit_intr_mask bit_and_iff)
  then show ?thesis
    using intr_bits_same [where xs = xs and i = 0 and m = 0 and v = 1 and r = 0] by metis
qed

theorem vop_intr_ack_witness:
  "intr_bits [1, 2, 4, 8] 0 (intr_type [1, 2, 4, 8] 0 (0x5) 0xe 0) 1 (0, 0) = (4, 4)"
  using vop_intr_ack [where xs = "[1, 2, 4, 8]" and t = "0x5" and regs = "0xe"] by simp

section \<open>The handler\<close>

text \<open>A register write, as far as the rest of the state can tell: accesses of that register and some shadow.\<close>

fun access_of :: "u32 \<Rightarrow> vio \<Rightarrow> bool" where
  "access_of a (Writel b v) \<longleftrightarrow> b = a"
| "access_of a _ \<longleftrightarrow> False"

lemma wp_reg_set:
  assumes "\<And>w r. list_all (access_of (offset reg + a)) w \<Longrightarrow> Q () (s\<lparr>regsbak := r, hist := hist s @ w\<rparr>)"
  shows "wp (vop_reg_set reg a m v) Q s"
proof (cases "mask reg = 0")
  case True
  then show ?thesis
    using assms [of "[]" "regsbak s"] by (simp add: vop_reg_set_def wp)
next
  case False
  have "Q () (s\<lparr>regsbak := r, hist := hist s @ [Writel (offset reg + a) v]\<rparr>)" for v r
    by (rule assms) simp
  from this [where r = "regsbak s"] this False show ?thesis
    by (simp add: vop_reg_set_def wp Let_def writel_def)
qed

text \<open>What serving the active interrupts appends to the history.\<close>

definition vblank_events :: "vop \<Rightarrow> vio list" where
  "vblank_events s =
     (case event s of None \<Rightarrow> [] | Some e \<Rightarrow> [Ret (Send_event e) 0, Ret (Vblank Vblank_put) 0]) @
     (if pending_fb_unref s then [Ret (Flip_commit (fb_unref_queue s)) 0] else [])"

definition isr_events :: "vop_env \<Rightarrow> u32 \<Rightarrow> vop \<Rightarrow> vio list" where
  "isr_events env irqs s =
     (if irqs AND hdr env ''DSP_HOLD_VALID_INTR'' \<noteq> 0 then [Ret (Dev Complete_dsp_hold) 0] else []) @
     (if irqs AND hdr env ''LINE_FLAG_INTR'' \<noteq> 0 then [Ret (Dev Complete_line_flag) 0] else []) @
     (if irqs AND hdr env ''FS_INTR'' \<noteq> 0 then Ret (Vblank Handle_vblank) 0 # vblank_events s else [])"

lemma wp_handle_vblank: "wp vop_handle_vblank Q s =
  Q () (s\<lparr>event := None, pending_fb_unref := False,
          fb_unref_queue := (if pending_fb_unref s then [] else fb_unref_queue s), hist := hist s @ vblank_events s\<rparr>)"
  by (cases s, cases "event s") (auto simp: vop_handle_vblank_def vblank_events_def wp)

definition disjoint_irqs :: "vop_env \<Rightarrow> bool" where
  "disjoint_irqs env \<longleftrightarrow> hdr env ''DSP_HOLD_VALID_INTR'' AND hdr env ''LINE_FLAG_INTR'' = 0 \<and>
     hdr env ''DSP_HOLD_VALID_INTR'' AND hdr env ''FS_INTR'' = 0 \<and> hdr env ''LINE_FLAG_INTR'' AND hdr env ''FS_INTR'' = 0"

lemma and_not_disjoint:
  assumes "(h :: u32) AND f = 0"
  shows "(a AND NOT h) AND f = a AND f"
proof (rule bit_word_eqI)
  fix n
  from assms have "\<not> (bit h n \<and> bit f n)"
    using and_word_nonzero by blast
  then show "bit ((a AND NOT h) AND f) n = bit (a AND f) n"
    by (auto simp: bit_simps dest: bit_imp_le_length)
qed

lemma or_nonzero: "(a :: u32) AND (x OR y) \<noteq> 0 \<longleftrightarrow> a AND x \<noteq> 0 \<or> a AND y \<noteq> 0"
  by (auto simp: and_word_nonzero bit_or_iff)

lemma if_and_not: "(h :: u32) AND f = 0 \<Longrightarrow> (if b then a AND NOT h else a) AND f = a AND f"
  by (simp add: and_not_disjoint)

lemma isr_dispatch_eq:
  assumes "disjoint_irqs env"
  shows "isr_dispatch env irqs = do {
     when_do (irqs AND hdr env ''DSP_HOLD_VALID_INTR'' \<noteq> 0) (invoke (Dev Complete_dsp_hold));
     when_do (irqs AND hdr env ''LINE_FLAG_INTR'' \<noteq> 0) (invoke (Dev Complete_line_flag));
     when_do (irqs AND hdr env ''FS_INTR'' \<noteq> 0) (do { invoke (Vblank Handle_vblank); vop_handle_vblank });
     returnS (if irqs AND hdr env ''DSP_HOLD_VALID_INTR'' \<noteq> 0 \<or> irqs AND hdr env ''LINE_FLAG_INTR'' \<noteq> 0 \<or>
                 irqs AND hdr env ''FS_INTR'' \<noteq> 0 then IRQ_HANDLED else IRQ_NONE)
   }"
proof -
  note d = assms [unfolded disjoint_irqs_def]
  show ?thesis
    unfolding isr_dispatch_def Let_def
    by (simp only: if_and_not [OF conjunct1 [OF d]] if_and_not [OF conjunct1 [OF conjunct2 [OF d]]]
          if_and_not [OF conjunct2 [OF conjunct2 [OF d]]])
qed

lemma wp_isr_dispatch:
  assumes "disjoint_irqs env"
  shows "wp (isr_dispatch env irqs) Q s =
    (let fs = (irqs AND hdr env ''FS_INTR'' \<noteq> 0) in
     Q (if irqs AND (hdr env ''DSP_HOLD_VALID_INTR'' OR hdr env ''LINE_FLAG_INTR'' OR hdr env ''FS_INTR'') \<noteq> 0
        then IRQ_HANDLED else IRQ_NONE)
      (s\<lparr>event := (if fs then None else event s), pending_fb_unref := (\<not> fs \<and> pending_fb_unref s),
         fb_unref_queue := (if fs \<and> pending_fb_unref s then [] else fb_unref_queue s),
         hist := hist s @ isr_events env irqs s\<rparr>))"
  unfolding isr_dispatch_eq [OF assms] or_nonzero isr_events_def
  by (simp add: wp wp_handle_vblank vblank_events_def)

fun power_call :: "vio \<Rightarrow> bool" where
  "power_call (Ret (Clk ck c) r) \<longleftrightarrow> True"
| "power_call (Ret (Pm p) r) \<longleftrightarrow> True"
| "power_call _ \<longleftrightarrow> False"

definition active_irqs_of :: "vop_env \<Rightarrow> vop_data \<Rightarrow> u32 \<Rightarrow> u32" where
  "active_irqs_of env d v = intr_type (intrs (intr d)) 0 (hdr env ''INTR_MASK'')
     (drop_bit (shift (intr_status (intr d))) v AND mask (intr_status (intr d))) 0"

text \<open>The handler has read the status \<open>v\<close> and served it.\<close>

definition isr_served :: "vop_env \<Rightarrow> vop_data \<Rightarrow> u32 \<Rightarrow> vop \<Rightarrow> irqreturn \<Rightarrow> vop \<Rightarrow> bool" where
  "isr_served env d v s res s' =
     (let irqs = active_irqs_of env d v; fs = (irqs AND hdr env ''FS_INTR'' \<noteq> 0) in
      res = (if irqs AND (hdr env ''DSP_HOLD_VALID_INTR'' OR hdr env ''LINE_FLAG_INTR'' OR hdr env ''FS_INTR'') \<noteq> 0
             then IRQ_HANDLED else IRQ_NONE) \<and>
      (\<exists>r pre w. list_all power_call pre \<and> list_all (access_of (offset (intr_clear (intr d)))) w \<and>
        s' = s\<lparr>regsbak := r, event := (if fs then None else event s), pending_fb_unref := (\<not> fs \<and> pending_fb_unref s),
          fb_unref_queue := (if fs \<and> pending_fb_unref s then [] else fb_unref_queue s),
          hist := hist s @ pre @ [Readl (offset (intr_status (intr d))) v] @ w @ isr_events env irqs s @
            [Ret (Clk Disable Aclk) 0, Ret (Clk Disable Hclk) 0, Ret (Pm Put) 0]\<rparr>))"

lemma wp_clks_frame:
  assumes "\<And>r t. list_all power_call t \<Longrightarrow> Q r (s\<lparr>hist := hist s @ t\<rparr>)"
  shows "wp (vop_core_clks_enable env) Q s"
  unfolding vop_core_clks_enable_def by (auto simp: wp intro!: wp_call_last assms)

lemma wp_get_intr:
  assumes "\<And>v. Q (intr_type (intrs (intr d)) 0 t (drop_bit (shift reg) v AND mask reg) 0) (s\<lparr>hist := hist s @ [Readl (offset reg) v]\<rparr>)"
  shows "wp (vop_get_intr_type env d reg t) Q s"
  using assms by (simp add: vop_get_intr_type_def vop_read_reg_def wp) (simp add: wp_def vop_readl_def)

lemma isr_events_0 [simp]: "isr_events env 0 s = []"
  by (simp add: isr_events_def)

lemma isr_events_cong: "event s = event s' \<Longrightarrow> pending_fb_unref s = pending_fb_unref s' \<Longrightarrow>
    fb_unref_queue s = fb_unref_queue s' \<Longrightarrow> isr_events env irqs s = isr_events env irqs s'"
  by (simp add: isr_events_def vblank_events_def)

lemma wp_isr_serve:
  assumes "disjoint_irqs env"
    and "\<And>r w. list_all (access_of (offset (intr_clear (intr d)))) w \<Longrightarrow>
      Q (if irqs AND (hdr env ''DSP_HOLD_VALID_INTR'' OR hdr env ''LINE_FLAG_INTR'' OR hdr env ''FS_INTR'') \<noteq> 0
         then IRQ_HANDLED else IRQ_NONE)
       (s\<lparr>regsbak := r, event := (if irqs AND hdr env ''FS_INTR'' \<noteq> 0 then None else event s),
          pending_fb_unref := (\<not> irqs AND hdr env ''FS_INTR'' \<noteq> 0 \<and> pending_fb_unref s),
          fb_unref_queue := (if irqs AND hdr env ''FS_INTR'' \<noteq> 0 \<and> pending_fb_unref s then [] else fb_unref_queue s),
          hist := hist s @ w @ isr_events env irqs s @
            [Ret (Clk Disable Aclk) 0, Ret (Clk Disable Hclk) 0, Ret (Pm Put) 0]\<rparr>)"
  shows "wp (isr_serve env d irqs) Q s"
proof (cases "irqs = 0")
  case True
  then show ?thesis
    using assms(2) [of "[]" "regsbak s"] by (simp add: isr_serve_def wp)
next
  case False
  have "wp (VOP_INTR_SET_TYPE d intr_clear irqs 1) (\<lambda>_. wp (do {
      res \<leftarrow> isr_dispatch env irqs; vop_core_clks_disable; invoke (Pm Put); returnS res }) Q) s"
    unfolding VOP_INTR_SET_TYPE_def
  proof (cases "intr_bits (intrs (intr d)) 0 irqs 1 (0, 0)", simp only: Let_def prod.case, rule wp_reg_set)
    fix w r
    assume w: "list_all (access_of (offset (intr_clear (intr d)) + 0)) w"
    then show "wp (do { res \<leftarrow> isr_dispatch env irqs; vop_core_clks_disable; invoke (Pm Put); returnS res }) Q
        (s\<lparr>regsbak := r, hist := hist s @ w\<rparr>)"
      using assms(2) [of w r] isr_events_cong [of "s\<lparr>regsbak := r, hist := hist s @ w\<rparr>" s]
      by (simp add: wp wp_isr_dispatch [OF assms(1)] Let_def split del: if_split cong: if_cong)
  qed
  with False show ?thesis
    by (simp add: isr_serve_def wp)
qed

lemma isr_servedI:
  assumes "list_all power_call pre" and "list_all (access_of (offset (intr_clear (intr d)))) w" and "irqs = active_irqs_of env d v"
  shows "isr_served env d v s
    (if irqs AND (hdr env ''DSP_HOLD_VALID_INTR'' OR hdr env ''LINE_FLAG_INTR'' OR hdr env ''FS_INTR'') \<noteq> 0
     then IRQ_HANDLED else IRQ_NONE)
    (s\<lparr>regsbak := r, event := (if irqs AND hdr env ''FS_INTR'' \<noteq> 0 then None else event s),
       pending_fb_unref := (\<not> irqs AND hdr env ''FS_INTR'' \<noteq> 0 \<and> pending_fb_unref s),
       fb_unref_queue := (if irqs AND hdr env ''FS_INTR'' \<noteq> 0 \<and> pending_fb_unref s then [] else fb_unref_queue s),
       hist := hist s @ pre @ [Readl (offset (intr_status (intr d))) v] @ w @ isr_events env irqs s @
         [Ret (Clk Disable Aclk) 0, Ret (Clk Disable Hclk) 0, Ret (Pm Put) 0]\<rparr>)"
  unfolding isr_served_def Let_def assms(3)
  by (rule conjI [OF refl], rule exI [of _ r], rule exI [of _ pre], rule exI [of _ w], intro conjI assms(1,2) refl)

lemma serve_served:
  assumes "disjoint_irqs env" and "list_all power_call pre"
  shows "wp (isr_serve env d (active_irqs_of env d v)) (isr_served env d v s)
    (s\<lparr>hist := hist s @ pre @ [Readl (offset (intr_status (intr d))) v]\<rparr>)"
proof (rule wp_isr_serve [OF assms(1)])
  fix r w
  assume "list_all (access_of (offset (intr_clear (intr d)))) w"
  from isr_servedI [OF assms(2) this refl, of env v s r]
    isr_events_cong [of "s\<lparr>hist := hist s @ pre @ [Readl (offset (intr_status (intr d))) v]\<rparr>" s env "active_irqs_of env d v"]
  show "isr_served env d v s
    (if active_irqs_of env d v AND (hdr env ''DSP_HOLD_VALID_INTR'' OR hdr env ''LINE_FLAG_INTR'' OR hdr env ''FS_INTR'') \<noteq> 0
     then IRQ_HANDLED else IRQ_NONE)
    (s\<lparr>hist := hist s @ pre @ [Readl (offset (intr_status (intr d))) v],
       regsbak := r, event := (if active_irqs_of env d v AND hdr env ''FS_INTR'' \<noteq> 0 then None
         else event (s\<lparr>hist := hist s @ pre @ [Readl (offset (intr_status (intr d))) v]\<rparr>)),
       pending_fb_unref := (\<not> active_irqs_of env d v AND hdr env ''FS_INTR'' \<noteq> 0 \<and>
         pending_fb_unref (s\<lparr>hist := hist s @ pre @ [Readl (offset (intr_status (intr d))) v]\<rparr>)),
       fb_unref_queue := (if active_irqs_of env d v AND hdr env ''FS_INTR'' \<noteq> 0 \<and>
           pending_fb_unref (s\<lparr>hist := hist s @ pre @ [Readl (offset (intr_status (intr d))) v]\<rparr>) then []
         else fb_unref_queue (s\<lparr>hist := hist s @ pre @ [Readl (offset (intr_status (intr d))) v]\<rparr>)),
       hist := hist (s\<lparr>hist := hist s @ pre @ [Readl (offset (intr_status (intr d))) v]\<rparr>) @ w @
         isr_events env (active_irqs_of env d v) (s\<lparr>hist := hist s @ pre @ [Readl (offset (intr_status (intr d))) v]\<rparr>) @
         [Ret (Clk Disable Aclk) 0, Ret (Clk Disable Hclk) 0, Ret (Pm Put) 0]\<rparr>)"
    by (simp split del: if_split cong: if_cong)
qed

lemma wp_vop_isr:
  assumes "disjoint_irqs env"
  shows "wp (vop_isr env d) (\<lambda>res s'.
     (res = IRQ_NONE \<and> (\<exists>t. s' = s\<lparr>hist := hist s @ t\<rparr> \<and> list_all power_call t)) \<or> (\<exists>v. isr_served env d v s res s')) s"
    (is "wp _ ?Q s")
proof -
  have none: "?Q IRQ_NONE s1" if "hist s1 = hist s @ t" "list_all power_call t" "s\<lparr>hist := hist s1\<rparr> = s1" for t s1
    using that by metis
  have serve: "wp (do { active_irqs \<leftarrow> vop_get_intr_type env d (intr_status (intr d)) (hdr env ''INTR_MASK'');
      isr_serve env d active_irqs }) ?Q (s\<lparr>hist := hist s @ pre\<rparr>)" if "list_all power_call pre" for pre
  proof (unfold wp_bind, rule wp_get_intr)
    fix v
    have "wp (isr_serve env d (active_irqs_of env d v)) ?Q (s\<lparr>hist := hist s @ pre @ [Readl (offset (intr_status (intr d))) v]\<rparr>)"
      by (rule wp_mono [OF serve_served [OF assms that]]) blast
    then show "wp (isr_serve env d (intr_type (intrs (intr d)) 0 (hdr env ''INTR_MASK'')
        (drop_bit (shift (intr_status (intr d))) v AND mask (intr_status (intr d))) 0)) ?Q
        (s\<lparr>hist := hist s @ pre, hist := hist (s\<lparr>hist := hist s @ pre\<rparr>) @ [Readl (offset (intr_status (intr d))) v]\<rparr>)"
      by (simp add: active_irqs_of_def)
  qed
  show ?thesis
    unfolding vop_isr_def
    by (rule wp_call, rule wp_ifI, unfold wp_return, rule none, simp, simp, simp,
        unfold wp_bind [of "vop_core_clks_enable env"], rule wp_clks_frame, rule wp_ifI,
        unfold wp_bind [of "invoke _"] wp_invoke wp_return, rule none, simp, simp, simp)
      (use serve [of "[Ret (Pm Get_if_in_use) _] @ _"] in simp)
qed



end
