(* ===== verification/Vop_Flip.thy ===== *)
theory Vop_Flip
  imports Vop_Irq
begin

text \<open>
  Page flips. A flip event and every framebuffer that may still be scanned out keep a vertical-blanking reference, and
  a framebuffer a reference of its own, until the frame start that retires them and the work item behind it. The
  references are counted over the history; the invariant ties them to the driver's queue and the list of
  framebuffers that the flip work has committed.
\<close>

section \<open>References\<close>

fun vblank_delta :: "vio \<Rightarrow> int" where
  "vblank_delta (Ret (Vblank Vblank_get) r) = (if r = 0 then 1 else 0)"
| "vblank_delta (Ret (Vblank Vblank_put) r) = - 1"
| "vblank_delta _ = 0"

fun fb_delta :: "nat \<Rightarrow> vio \<Rightarrow> int" where
  "fb_delta f (Ret (Fb_get g) r) = (if f = g then 1 else 0)"
| "fb_delta f (Ret (Fb_put g) r) = (if f = g then - 1 else 0)"
| "fb_delta f _ = 0"

fun commit_of :: "vio \<Rightarrow> nat list" where
  "commit_of (Ret (Flip_commit q) r) = q"
| "commit_of _ = []"

definition vblank_refs :: "vio list \<Rightarrow> int" where
  "vblank_refs h = sum_list (map vblank_delta h)"

definition fb_refs :: "nat \<Rightarrow> vio list \<Rightarrow> int" where
  "fb_refs f h = sum_list (map (fb_delta f) h)"

text \<open>The framebuffers handed to the work item, in order.\<close>

definition committed :: "vio list \<Rightarrow> nat list" where
  "committed h = concat (map commit_of h)"

lemma refs_simps [simp]:
  "vblank_refs [] = 0" "vblank_refs (e # h) = vblank_delta e + vblank_refs h" "vblank_refs (h @ h') = vblank_refs h + vblank_refs h'"
  "fb_refs f [] = 0" "fb_refs f (e # h) = fb_delta f e + fb_refs f h" "fb_refs f (h @ h') = fb_refs f h + fb_refs f h'"
  "committed [] = []" "committed (e # h) = commit_of e @ committed h" "committed (h @ h') = committed h @ committed h'"
  by (simp_all add: vblank_refs_def fb_refs_def committed_def)

definition flip_view :: "vop \<Rightarrow> nat option \<times> bool \<times> nat list \<times> int \<times> (nat \<Rightarrow> int) \<times> nat list" where
  "flip_view s = (event s, pending_fb_unref s, fb_unref_queue s, vblank_refs (hist s), (\<lambda>f. fb_refs f (hist s)), committed (hist s))"

text \<open>The view with the event the CRTC state carries.\<close>

definition flip_state_view where
  "flip_state_view s = (flip_view s, state_event (cstate s))"

interpretation fl: window_blind flip_view
  by unfold_locales (simp_all add: flip_view_def)

interpretation fs: window_blind flip_state_view
  by unfold_locales (simp_all add: flip_state_view_def flip_view_def)

fun flip_quiet :: "vcall \<Rightarrow> bool" where
  "flip_quiet (Vblank Vblank_get) \<longleftrightarrow> False"
| "flip_quiet (Vblank Vblank_put) \<longleftrightarrow> False"
| "flip_quiet (Fb_get f) \<longleftrightarrow> False"
| "flip_quiet (Fb_put f) \<longleftrightarrow> False"
| "flip_quiet (Flip_commit q) \<longleftrightarrow> False"
| "flip_quiet _ \<longleftrightarrow> True"

lemma flip_quietD: "flip_quiet c \<Longrightarrow> vblank_delta (Ret c r) = 0 \<and> fb_delta f (Ret c r) = 0 \<and> commit_of (Ret c r) = []"
  by (cases c rule: flip_quiet.cases) auto

lemma keeps_flip_calls:
  "flip_quiet c \<Longrightarrow> keeps flip_view (invoke c)" "flip_quiet c \<Longrightarrow> keeps flip_view (call env c)"
  "flip_quiet c \<Longrightarrow> keeps flip_state_view (invoke c)" "flip_quiet c \<Longrightarrow> keeps flip_state_view (call env c)"
  using flip_quietD [of c]
  by (simp_all add: keeps_def invoke_def modify_def call_def flip_view_def flip_state_view_def)

section \<open>Operations that do not flip\<close>

lemma keeps_flip_clks [keeps]: "keeps flip_view (vop_core_clks_enable env)" "keeps flip_view vop_core_clks_disable"
  unfolding vop_core_clks_enable_def vop_core_clks_disable_def by (intro keeps keeps_flip_calls; simp)+

lemma keeps_flip_enable_regs [keeps]: "keeps flip_view (vop_enable_regs env d old)"
  unfolding vop_enable_regs_def by (intro keeps keeps_modify fl.cstate_afbc) (simp add: flip_view_def)

lemma keeps_flip_drop [keeps]: "keeps flip_view drop_loader"
  unfolding drop_loader_def by (intro keeps keeps_modify keeps_flip_calls) (simp_all add: flip_view_def)

lemma keeps_flip_enable [keeps]: "keeps flip_view (vop_enable env d old)"
  unfolding vop_enable_def by (intro keeps keeps_flip_calls) simp_all

lemma keeps_flip_modeset [keeps]: "keeps flip_view (crtc_modeset env extract d)"
  unfolding crtc_modeset_def by (intro keeps keeps_modify fl.cstate_mode keeps_flip_calls) simp_all

lemma keeps_flip_atomic_enable [keeps]: "keeps flip_view (vop_crtc_atomic_enable env extract d old)"
  unfolding vop_crtc_atomic_enable_def by (intro keeps keeps_flip_calls) simp_all

lemma keeps_flip_atomic_disable [keeps]: "keeps flip_view (vop_crtc_atomic_disable env d)"
  unfolding vop_crtc_atomic_disable_def send_disable_event_def
  by (intro keeps keeps_modify keeps_flip_calls) (simp_all add: flip_view_def)

lemma keeps_flip_plane_off [keeps]: "keeps flip_view (vop_plane_atomic_disable env w old)"
  unfolding vop_plane_atomic_disable_def by (intro keeps)

lemma keeps_flip_wait [keeps]: "keeps flip_view (rockchip_drm_wait_vact_end env d ms)"
  unfolding rockchip_drm_wait_vact_end_def by (intro keeps keeps_flip_calls) simp_all

section \<open>The invariant\<close>

text \<open>\<open>out\<close> is the list of framebuffers the flip work has yet to release.\<close>

definition flip_ok :: "vop \<Rightarrow> nat list \<Rightarrow> bool" where
  "flip_ok s out \<longleftrightarrow> (fb_unref_queue s \<noteq> [] \<longrightarrow> pending_fb_unref s) \<and>
     vblank_refs (hist s) = (if event s = None then 0 else 1) + int (length (fb_unref_queue s)) + int (length out) \<and>
     (\<forall>f. fb_refs f (hist s) = int (count_list (fb_unref_queue s) f) + int (count_list out f))"

lemma flip_ok_view: "flip_view s' = flip_view s \<Longrightarrow> flip_ok s out \<Longrightarrow> flip_ok s' out"
  by (auto simp: flip_ok_def flip_view_def fun_eq_iff)

text \<open>The framebuffers an operation commits.\<close>

definition newly :: "vop \<Rightarrow> vop \<Rightarrow> nat list" where
  "newly s s' = drop (length (committed (hist s))) (committed (hist s'))"

lemma newly_view: "flip_view s' = flip_view s \<Longrightarrow> newly s s' = []"
  by (simp add: newly_def flip_view_def)

text \<open>A step of the driver as before, of the flip work, or of the DRM core attaching an event to the next state; by the
  DRM core's contract an operation does not run with a new event in the CRTC state while the last one is pending.\<close>

inductive flip_step :: "vop_env \<Rightarrow> (u32 \<Rightarrow> nat \<Rightarrow> u32) \<Rightarrow> vop_api \<Rightarrow> vop_data \<Rightarrow> vop \<times> nat list \<Rightarrow> vop \<times> nat list \<Rightarrow> bool"
  for env :: vop_env and lut_extract :: "u32 \<Rightarrow> nat \<Rightarrow> u32" and api :: vop_api and d :: vop_data where
  driver: "vop_step env lut_extract api d s s' \<Longrightarrow> event s = None \<or> state_event (cstate s) = None \<Longrightarrow>
     flip_step env lut_extract api d (s, out) (s', out @ newly s s')"
| worker: "f \<in> set out \<Longrightarrow> run_state (vop_fb_unref_worker f) s = (u, s') \<Longrightarrow>
     flip_step env lut_extract api d (s, out) (s', remove1 f out)"

inductive_cases flip_stepE: "flip_step env lut_extract api d (s, out) (s', out')"

text \<open>What an operation leaves: the references are right for the framebuffers now outstanding.\<close>

definition flips :: "vop \<Rightarrow> nat list \<Rightarrow> vop \<Rightarrow> bool" where
  "flips s out s' \<longleftrightarrow> flip_ok s' (out @ newly s s') \<and> (\<exists>t. committed (hist s') = committed (hist s) @ t)"

lemma flips_refl: "flip_ok s out \<Longrightarrow> flips s out s"
  by (simp add: flips_def newly_def)

lemma flips_view: "flip_view s2 = flip_view s1 \<Longrightarrow> flips s out s1 \<Longrightarrow> flips s out s2"
  by (auto simp: flips_def newly_def flip_ok_def flip_view_def fun_eq_iff)

lemma wp_foreach_inv:
  assumes "\<And>x s. x \<in> set xs \<Longrightarrow> J s \<Longrightarrow> wp (m x) (\<lambda>_. J) s" and "J s"
  shows "wp (foreach m xs) (\<lambda>_. J) s"
  using assms
proof (induction xs arbitrary: s)
  case Nil
  then show ?case by (simp add: wp)
next
  case (Cons x xs)
  then show ?case
    by (simp add: wp) (rule wp_mono [of "m x" "\<lambda>_. J"], auto)
qed

definition vblank_ok :: "vop_env \<Rightarrow> bool" where
  "vblank_ok env \<longleftrightarrow> (\<forall>h. env_ret env h (Vblank Vblank_get) = 0)"

lemma wp_queue_unref:
  assumes "vblank_ok env" and "flips s0 out s"
  shows "wp (queue_unref env f) (\<lambda>_. flips s0 out) s"
  using assms by (auto simp: queue_unref_def wp wp_call_val vblank_ok_def flips_def newly_def flip_ok_def)

lemma wp_take_event:
  assumes "vblank_ok env" and "flips s0 out s" and "event s = None \<or> state_event (cstate s) = None"
  shows "wp (take_event env) (\<lambda>_. flips s0 out) s"
  using assms by (auto simp: take_event_def wp wp_call_val vblank_ok_def flips_def newly_def flip_ok_def)

lemma wp_flush:
  assumes "vblank_ok env" and "flip_ok s out" and "event s = None \<or> state_event (cstate s) = None"
  shows "wp (vop_crtc_atomic_flush env d planes) (\<lambda>_. flips s out) s"
proof -
  have queue: "wp (foreach (\<lambda>(old_fb, new_fb). case old_fb of None \<Rightarrow> returnS ()
         | Some g \<Rightarrow> when_do (new_fb \<noteq> Some g) (queue_unref env g)) planes) (\<lambda>_. flips s out) s'" if "flips s out s'" for s'
    by (rule wp_foreach_inv [where J = "flips s out", OF _ that]) (auto simp: wp wp_queue_unref assms(1) split: option.split)
  have take: "wp (take_event env) (\<lambda>_. wp (foreach (\<lambda>(old_fb, new_fb). case old_fb of None \<Rightarrow> returnS ()
         | Some g \<Rightarrow> when_do (new_fb \<noteq> Some g) (queue_unref env g)) planes) (\<lambda>_. flips s out)) s'"
    if "flip_state_view s' = flip_state_view s" for s'
  proof (rule wp_mono [OF wp_take_event [of env s out]])
    from that show "event s' = None \<or> state_event (cstate s') = None"
      using assms(3) by (simp add: flip_state_view_def flip_view_def)
    from that show "flips s out s'"
      using flips_view [OF _ flips_refl [OF assms(2)]] by (simp add: flip_state_view_def)
  qed (auto simp: assms(1) queue)
  show ?thesis
    unfolding vop_crtc_atomic_flush_def vop_wait_for_irq_handler_def wp_bind [of "gets _"] wp_gets
    by (rule wp_ifI, simp add: wp flips_refl assms,
        (rule wp_keeps_bind [where f = flip_state_view], (intro keeps keeps_flip_calls; simp; fail))+,
        unfold wp_bind [of "take_event _"], rule take) simp
qed

lemma wp_async:
  assumes "vblank_ok env" and "flip_ok s out"
  shows "wp (vop_plane_atomic_async_update env api d w y2r old cur new) (\<lambda>_. flips s out) s"
proof -
  have fin: "flips s out s'" if "flip_view s' = flip_view s" for s'
    by (rule flips_view [OF that flips_refl [OF assms(2)]])
  show ?thesis
    unfolding vop_plane_atomic_async_update_def Let_def wp_bind [of "gets _"] wp_gets wp_bind [of "when_do _ _"] wp_when wp_return
    by (rule if_goalI, unfold wp_bind [of "vop_cfg_done _"] wp_bind [of "case_option _ _ _"],
        rule wp_keeps [where f = flip_view], intro keeps, rule wp_keeps [where f = flip_view], intro keeps)
      (auto simp: wp flips_refl assms split: option.split intro!: wp_queue_unref fin)
qed

lemma handle_vblank_flips: "flip_ok s out \<Longrightarrow> wp vop_handle_vblank (\<lambda>_. flips s out) s"
  by (cases "event s") (auto simp: wp_handle_vblank vblank_events_def flips_def newly_def flip_ok_def)

lemma flips_start: "flip_view s1 = flip_view s \<Longrightarrow> flips s1 out s2 \<Longrightarrow> flips s out s2"
  by (simp add: flips_def newly_def flip_view_def)

lemma wp_return_eq: "wp (returnS a) Q = Q a"
  by (rule ext) (rule wp_return)

lemma run_flips: "run_state m s = (a, s') \<Longrightarrow> keeps flip_view m \<Longrightarrow> flip_ok s out \<Longrightarrow> flips s out s'"
  by (blast intro: flips_view flips_refl dest: keepsD)

lemma dispatch_flips:
  assumes "flip_ok s out"
  shows "wp (isr_dispatch env irqs) (\<lambda>_. flips s out) s"
proof -
  have "wp (when_do fs (do { invoke (Vblank Handle_vblank); vop_handle_vblank })) (\<lambda>_. wp (returnS r) (\<lambda>_. flips s out)) s'"
    if "flip_view s' = flip_view s" for fs and s' and r :: irqreturn
  proof (cases fs)
    case True
    have "wp (do { invoke (Vblank Handle_vblank); vop_handle_vblank }) (\<lambda>_. flips s out) s'"
      by (rule wp_keeps_bind [where f = flip_view], rule keeps_flip_calls, simp, rule wp_mono [OF handle_vblank_flips [of _ out]])
        (use that assms in \<open>auto intro: flip_ok_view flips_start\<close>)
    with True show ?thesis by (simp add: when_do_def wp_return_eq)
  next
    case False
    with that show ?thesis by (simp add: wp flips_view [OF that flips_refl [OF assms]])
  qed
  note fs = this
  show ?thesis
    unfolding isr_dispatch_def Let_def
    by ((rule wp_keeps_bind [where f = flip_view], (intro keeps keeps_flip_calls; simp; fail))+, unfold wp_bind [of "when_do _ _"], rule fs) simp
qed

lemma isr_flips:
  assumes "flip_ok s out"
  shows "wp (vop_isr env d) (\<lambda>_. flips s out) s"
proof -
  have k: "flips s out s'" if "flip_view s' = flip_view s" for s'
    by (rule flips_view [OF that flips_refl [OF assms]])
  have disp: "wp (if irqs = 0 then returnS IRQ_NONE else isr_dispatch env irqs) (\<lambda>_. flips s out) s'"
    if "flip_view s' = flip_view s" for irqs s'
    using wp_mono [OF dispatch_flips [OF flip_ok_view [OF that assms]] flips_start [OF that]] k [OF that] by (simp add: wp)
  have tail: "wp (do { vop_core_clks_disable; invoke (Pm Put); returnS res }) (\<lambda>_. flips s out) s'"
    if "flips s out s'" for s' and res :: irqreturn
    by (rule wp_keeps [where f = flip_view], intro keeps keeps_flip_calls, simp) (rule flips_view [OF _ that])
  have serve: "wp (isr_serve env d irqs) (\<lambda>_. flips s out) s'" if "flip_view s' = flip_view s" for irqs s'
    unfolding isr_serve_def
    by (rule wp_keeps_bind [where f = flip_view], intro keeps, unfold wp_bind [of "If _ _ _"], rule wp_mono [OF disp])
      (use that tail in auto)
  show ?thesis
    unfolding vop_isr_def
    by (rule wp_keeps_bind [where f = flip_view], intro keeps keeps_flip_calls, simp, rule wp_ifI, simp add: wp k,
        rule wp_keeps_bind [where f = flip_view], intro keeps, rule wp_ifI, rule wp_keeps [where f = flip_view],
        intro keeps keeps_flip_calls, simp, simp add: k, rule wp_keeps_bind [where f = flip_view], intro keeps, rule serve) simp
qed

lemma count_remove1: "f \<in> set out \<Longrightarrow> int (count_list (remove1 f out) g) = int (count_list out g) - (if g = f then 1 else 0)"
  by (induction out) auto

lemma length_remove1_int: "f \<in> set out \<Longrightarrow> int (length (remove1 f out)) = int (length out) - 1"
  by (induction out) auto

lemma worker_flip_ok:
  assumes "flip_ok s out" and "f \<in> set out"
  shows "wp (vop_fb_unref_worker f) (\<lambda>_ s'. flip_ok s' (remove1 f out)) s"
  using assms by (simp add: vop_fb_unref_worker_def wp flip_ok_def count_remove1 length_remove1_int del: count_list_remove1)

lemma step_flips:
  assumes "vblank_ok env" and "flip_ok s out" and "event s = None \<or> state_event (cstate s) = None"
    and "vop_step env lut_extract api d s s'"
  shows "flips s out s'"
  using assms(4,2,3)
proof (induction rule: vop_step.induct)
  case (flush planes s u s')
  then show ?case using wpD [OF wp_flush] assms(1) by blast
next
  case (async i win y2r old cur new s v s')
  then show ?case using wpD [OF wp_async] assms(1) by blast
next
  case (irq s q s')
  then show ?case using wpD [OF isr_flips] by blast
next
  case (swap_state s cs)
  then show ?case by (intro flips_view [OF _ flips_refl]) (simp_all add: flip_view_def)
qed (erule run_flips, intro keeps, assumption)+

text \<open>C6 (vop_flip_refs): through any interleaving of the driver's operations and its flip work item, the vertical-blanking
  references are one for a pending flip event and one for each framebuffer queued or committed but not yet
  released, each such framebuffer holds one reference, and queued framebuffers are always marked for the next frame
  start.\<close>

theorem vop_flip_refs:
  assumes "(flip_step env lut_extract api d)\<^sup>*\<^sup>* (s, out) (s', out')" and "flip_ok s out" and "vblank_ok env"
  shows "flip_ok s' out'"
  using assms(1)
proof (induction rule: rtranclp_induct2)
  case refl
  show ?case by (rule assms(2))
next
  case (step s1 out1 s2 out2)
  from step.hyps(2) step.IH show ?case
    by (elim flip_stepE) (auto dest: step_flips [OF assms(3)] wpD [OF worker_flip_ok] simp: flips_def)
qed

theorem vop_flip_refs_witness:
  "flip_ok blank_vop [] \<and> vblank_ok (small_env False (Pm Put)) \<and>
   (let s' = snd (run_state (vop_crtc_atomic_flush (small_env False (Pm Put)) small_data [(Some 3, None)]) blank_vop)
    in flip_ok s' ([] @ newly blank_vop s'))"
proof -
  let ?s = "snd (run_state (vop_crtc_atomic_flush (small_env False (Pm Put)) small_data [(Some 3, None)]) blank_vop)"
  have "flip_step (small_env False (Pm Put)) (\<lambda>v _. v) undefined small_data (blank_vop, []) (?s, [] @ newly blank_vop ?s)"
    by (rule flip_step.driver, rule vop_step.flush [of _ _ "[(Some 3, None)]" _ "()"]) (simp_all add: prod_eq_iff blank_vop_def)
  moreover have "flip_ok blank_vop []" "vblank_ok (small_env False (Pm Put))"
    by (simp_all add: flip_ok_def blank_vop_def vblank_ok_def small_env_def)
  ultimately show ?thesis
    using vop_flip_refs [OF r_into_rtranclp] by (auto simp: Let_def)
qed

section \<open>Release\<close>

lemma workers_release:
  "flip_ok s out \<Longrightarrow> wp (foreach vop_fb_unref_worker out)
     (\<lambda>_ s'. flip_ok s' [] \<and> event s' = event s \<and> fb_unref_queue s' = fb_unref_queue s) s"
proof (induction out arbitrary: s)
  case Nil
  then show ?case by (simp add: wp)
next
  case (Cons f out)
  have w: "wp (vop_fb_unref_worker f) (\<lambda>_ s'. flip_ok s' out \<and> event s' = event s \<and> fb_unref_queue s' = fb_unref_queue s) s"
    using worker_flip_ok [OF Cons.prems, of f] by (simp add: vop_fb_unref_worker_def wp)
  show ?case
    by (simp add: wp, rule wp_mono [OF w], rule wp_mono [OF Cons.IH]) auto
qed

lemma frame_start_served:
  assumes "isr_served env d v s res s1" and "Ret (Vblank Handle_vblank) 0 \<in> set (drop (length (hist s)) (hist s1))"
  shows "event s1 = None \<and> \<not> pending_fb_unref s1 \<and> (\<forall>e. event s = Some e \<longrightarrow> Ret (Send_event e) 0 \<in> set (drop (length (hist s)) (hist s1)))"
proof -
  have quiet: "Ret (Vblank Handle_vblank) 0 \<notin> set t" if "list_all power_call t \<or> list_all (access_of a) t" for t a
    using that by (auto simp: list_all_iff)
  from assms(1) obtain r pre w where *: "list_all power_call pre" "list_all (access_of (offset (intr_clear (intr d)))) w"
    "s1 = s\<lparr>regsbak := r, event := (if active_irqs_of env d v AND hdr env ''FS_INTR'' \<noteq> 0 then None else event s),
       pending_fb_unref := (\<not> active_irqs_of env d v AND hdr env ''FS_INTR'' \<noteq> 0 \<and> pending_fb_unref s),
       fb_unref_queue := (if active_irqs_of env d v AND hdr env ''FS_INTR'' \<noteq> 0 \<and> pending_fb_unref s then [] else fb_unref_queue s),
       hist := hist s @ pre @ [Readl (offset (intr_status (intr d))) v] @ w @ isr_events env (active_irqs_of env d v) s @
         [Ret (Clk Disable Aclk) 0, Ret (Clk Disable Hclk) 0, Ret (Pm Put) 0]\<rparr>"
    by (auto simp: isr_served_def Let_def split del: if_split)
  have "active_irqs_of env d v AND hdr env ''FS_INTR'' \<noteq> 0"
    using assms(2) quiet *(1,2) unfolding *(3) by (auto simp: isr_events_def split: if_splits)
  then show ?thesis
    unfolding *(3) by (auto simp: isr_events_def vblank_events_def)
qed

text \<open>C18 (vop_flip_released): once the handler has served a frame start and the work item has released what it was handed,
  the pending flip event has been delivered, nothing is queued, and every vertical-blanking and framebuffer
  reference taken for flips has been given back.\<close>

theorem vop_flip_released:
  assumes "flip_ok s out" and "disjoint_irqs env" and "run_state (vop_isr env d) s = (res, s1)"
    and "Ret (Vblank Handle_vblank) 0 \<in> set (drop (length (hist s)) (hist s1))"
    and "run_state (foreach vop_fb_unref_worker (out @ newly s s1)) s1 = (u, s2)"
  shows "event s2 = None \<and> fb_unref_queue s2 = [] \<and> vblank_refs (hist s2) = 0 \<and> fb_refs f (hist s2) = 0 \<and>
    (case event s of None \<Rightarrow> True | Some e \<Rightarrow> Ret (Send_event e) 0 \<in> set (drop (length (hist s)) (hist s1)))"
proof -
  have "list_all power_call t \<Longrightarrow> Ret (Vblank Handle_vblank) 0 \<notin> set t" for t
    by (auto simp: list_all_iff)
  with wpD [OF wp_vop_isr [OF assms(2)] assms(3)] assms(4) obtain v where "isr_served env d v s res s1"
    by auto
  note served = frame_start_served [OF this assms(4)]
  have ok: "flip_ok s1 (out @ newly s s1)"
    using wpD [OF isr_flips [OF assms(1)] assms(3)] by (simp add: flips_def)
  from wpD [OF workers_release [OF this] assms(5)] ok served show ?thesis
    by (auto simp: flip_ok_def split: option.split)
qed

text \<open>A controller whose frame-start interrupt is pending, with a flip event and a framebuffer to release.\<close>

definition fs_data :: vop_data where
  "fs_data = small_data\<lparr>intr := (intr small_data)\<lparr>intrs := [1], intr_status := bit_reg 0x30\<rparr>\<rparr>"

definition fs_env :: vop_env where
  "fs_env = (small_env False (Pm Put))\<lparr>env_readl := (\<lambda>_ _. 1), hdr := (\<lambda>n. if n = ''FS_INTR'' \<or> n = ''INTR_MASK'' then 1 else 0),
     env_ret := (\<lambda>_ c. if c = Pm Get_if_in_use then 1 else 0)\<rparr>"

definition flipping_vop :: vop where
  "flipping_vop = blank_vop\<lparr>event := Some 7, pending_fb_unref := True, fb_unref_queue := [3],
     hist := [Ret (Vblank Vblank_get) 0, Ret (Fb_get 3) 0, Ret (Vblank Vblank_get) 0]\<rparr>"

lemma frame_start: "Ret (Vblank Handle_vblank) 0 \<in> set (drop (length (hist flipping_vop)) (hist (snd (run_state (vop_isr fs_env fs_data) flipping_vop))))"
  by code_simp

theorem vop_flip_released_witness:
  "let s1 = snd (run_state (vop_isr fs_env fs_data) flipping_vop);
       s2 = snd (run_state (foreach vop_fb_unref_worker (newly flipping_vop s1)) s1)
   in event s2 = None \<and> vblank_refs (hist s2) = 0 \<and> fb_refs 3 (hist s2) = 0"
proof -
  have "flip_ok flipping_vop []" "disjoint_irqs fs_env"
    by (simp_all add: flip_ok_def flipping_vop_def blank_vop_def disjoint_irqs_def fs_env_def)
  from vop_flip_released [OF this surjective_pairing frame_start surjective_pairing, where f = 3] show ?thesis
    by (simp add: Let_def)
qed

end
