(* ===== verification/Vop_Shadow.thy ===== *)
theory Vop_Shadow
  imports Vop_Power
begin

text \<open>
  The shadow of the registers. A field that is set reads back from the shadow and leaves other fields alone; from the
  first enable on, the shadow is what the hardware was last told, through every operation of the driver.
\<close>

section \<open>Fields\<close>

definition field_of :: "vop_reg \<Rightarrow> u32 \<Rightarrow> vop \<Rightarrow> u32" where
  "field_of reg a s = drop_bit (shift reg) (regsbak s (drop_bit 2 (offset reg + a))) AND mask reg"

definition reg_fits :: "vop_reg \<Rightarrow> bool" where
  "reg_fits reg \<longleftrightarrow> drop_bit (shift reg) (push_bit (shift reg) (mask reg)) = mask reg"

text \<open>Writing a register does not touch a field: the register has no shadow, lies in another word, or shares no bit.\<close>

definition free :: "vop_reg \<Rightarrow> u32 \<Rightarrow> vop_reg \<Rightarrow> u32 \<Rightarrow> bool" where
  "free t b reg a \<longleftrightarrow> mask reg = 0 \<or> write_mask reg \<or> drop_bit 2 (offset reg + a) \<noteq> drop_bit 2 (offset t + b) \<or>
     push_bit (shift reg) (mask reg) AND push_bit (shift t) (mask t) = 0"

lemma bit_mask_shifted:
  "bit (drop_bit (n :: nat) (x :: u32) AND m) k \<longleftrightarrow> bit x (n + k) \<and> bit m k"
  by (simp add: bit_and_iff bit_drop_bit_eq)

lemma keeps_field: "free t b reg a \<Longrightarrow> keeps (field_of t b) (vop_reg_set reg a m v)"
proof -
  assume f: "free t b reg a"
  have bits: "drop_bit (shift t) ((c AND NOT (push_bit (shift reg) (mask reg AND m))) OR push_bit (shift reg) (v AND (mask reg AND m))) AND mask t =
      drop_bit (shift t) c AND mask t"
    if "push_bit (shift reg) (mask reg) AND push_bit (shift t) (mask t) = 0" for c
  proof (rule bit_word_eqI)
    fix k
    have "\<not> (bit (push_bit (shift reg) (mask reg)) (shift t + k) \<and> bit (push_bit (shift t) (mask t)) (shift t + k))"
      using that by (metis bit_and_iff bit_0_eq bot_apply bot_bool_def)
    then show "bit (drop_bit (shift t) ((c AND NOT (push_bit (shift reg) (mask reg AND m))) OR push_bit (shift reg) (v AND (mask reg AND m))) AND mask t) k =
      bit (drop_bit (shift t) c AND mask t) k"
      by (auto simp: bit_mask_shifted bit_simps dest: bit_imp_le_length)
  qed
  show ?thesis
    using f bits by (auto simp: free_def keeps_def vop_reg_set_def Let_def field_of_def gets_def modify_def writel_def)
qed

lemma field_set:
  assumes "mask reg \<noteq> 0" and "\<not> write_mask reg" and "reg_fits reg"
  shows "wp (vop_reg_set reg a (- 1) v) (\<lambda>_ s'. field_of reg a s' = v AND mask reg \<and>
    hist s' = hist s @ [Writel (offset reg + a) (regsbak s' (drop_bit 2 (offset reg + a)))]) s"
proof -
  have "drop_bit (shift reg) ((c AND NOT (push_bit (shift reg) (mask reg AND - 1))) OR push_bit (shift reg) (v AND (mask reg AND - 1))) AND mask reg =
      v AND mask reg" for c
  proof (rule bit_word_eqI)
    fix k
    have "bit (mask reg) k = bit (push_bit (shift reg) (mask reg)) (shift reg + k)"
      using arg_cong [OF assms(3) [unfolded reg_fits_def], of "\<lambda>w. bit w k"] by (simp add: bit_drop_bit_eq)
    then have "bit (mask reg) k \<Longrightarrow> shift reg + k < 32"
      using bit_imp_le_length [of "push_bit (shift reg) (mask reg)" "shift reg + k"] by simp
    then show "bit (drop_bit (shift reg) ((c AND NOT (push_bit (shift reg) (mask reg AND - 1))) OR push_bit (shift reg) (v AND (mask reg AND - 1))) AND mask reg) k =
      bit (v AND mask reg) k"
      by (auto simp: bit_mask_shifted bit_simps)
  qed
  with assms(1,2) show ?thesis
    by (simp add: vop_reg_set_def Let_def wp writel_def field_of_def)
qed

section \<open>Invariants of the register traffic\<close>

text \<open>The tables name only registers that satisfy \<open>ok\<close>.\<close>

definition win_ok :: "(vop_reg \<Rightarrow> u32 \<Rightarrow> bool) \<Rightarrow> win_data \<Rightarrow> bool" where
  "win_ok ok win \<longleftrightarrow> (\<forall>n. ok (phy win n) (base win)) \<and>
     (case scl win of None \<Rightarrow> True | Some sc \<Rightarrow> (\<forall>n. ok (scl_reg sc n) (base win)) \<and>
       (case scl_ext sc of None \<Rightarrow> True | Some ext \<Rightarrow> \<forall>n. ok (ext n) (base win)))"

definition y2r_ok :: "(vop_reg \<Rightarrow> u32 \<Rightarrow> bool) \<Rightarrow> yuv2yuv_data \<Rightarrow> bool" where
  "y2r_ok ok y \<longleftrightarrow> ok (y2r_en y) 0 \<and> (\<forall>r \<in> set (y2r_coefficients y). ok r (y2r_base y))"

definition intr_ok :: "(vop_reg \<Rightarrow> u32 \<Rightarrow> bool) \<Rightarrow> intr_regs \<Rightarrow> bool" where
  "intr_ok ok i \<longleftrightarrow> ok (line_flag_num i) 0 \<and> ok (intr_enable i) 0 \<and> ok (intr_clear i) 0"

definition data_ok :: "(vop_reg \<Rightarrow> u32 \<Rightarrow> bool) \<Rightarrow> vop_data \<Rightarrow> bool" where
  "data_ok ok d \<longleftrightarrow> (\<forall>n. ok (common d n) 0) \<and> (\<forall>n. ok (outputs d n) 0) \<and> (\<forall>n. ok (modeset d n) 0) \<and>
     intr_ok ok (intr d) \<and> list_all (win_ok ok) (wins d) \<and>
     (case afbc d of None \<Rightarrow> True | Some a \<Rightarrow> \<forall>n. ok (a n) 0) \<and>
     (case win_yuv2yuv d of None \<Rightarrow> True | Some ys \<Rightarrow> length ys = length (wins d) \<and> list_all (y2r_ok ok) ys)"

lemma preserves_when [preserves]: "(b \<Longrightarrow> preserves J m) \<Longrightarrow> preserves J (when_do b m)"
  unfolding when_do_def by (intro preserves)

lemma preserves_foreach [preserves]: "(\<And>x. x \<in> set xs \<Longrightarrow> preserves J (m x)) \<Longrightarrow> preserves J (foreach m xs)"
  by (induction xs) (auto intro!: preserves)

lemma preserves_poll: "preserves J op \<Longrightarrow> preserves J (poll n op cond)"
  by (induction n) (auto intro!: preserves)

lemma preserves_readx_poll [preserves]: "preserves J op \<Longrightarrow> preserves J (readx_poll_timeout env op cond)"
  unfolding readx_poll_timeout_def by (intro preserves preserves_poll)

locale register_invariant =
  fixes J :: "vop \<Rightarrow> bool" and ok :: "vop_reg \<Rightarrow> u32 \<Rightarrow> bool" and d :: vop_data
  assumes tables: "data_ok ok d"
    and set_reg: "ok reg a \<Longrightarrow> preserves J (vop_reg_set reg a m v)"
    and readl: "J s \<Longrightarrow> J (s\<lparr>hist := hist s @ [Readl a v]\<rparr>)"
    and lut_write: "J s \<Longrightarrow> J (s\<lparr>hist := hist s @ [Lut_write a v]\<rparr>)"
    and calls: "J s \<Longrightarrow> J (s\<lparr>hist := hist s @ [Ret c r]\<rparr>)"
    and fields: "J s \<Longrightarrow> J (s\<lparr>is_enabled := b\<rparr>)" "J s \<Longrightarrow> J (s\<lparr>loader_active := b\<rparr>)" "J s \<Longrightarrow> J (s\<lparr>win_enabled := we\<rparr>)"
      "J s \<Longrightarrow> J (s\<lparr>event := e\<rparr>)" "J s \<Longrightarrow> J (s\<lparr>pending_fb_unref := b\<rparr>)" "J s \<Longrightarrow> J (s\<lparr>fb_unref_queue := q\<rparr>)"
      "J s \<Longrightarrow> J (s\<lparr>cstate := cs\<rparr>)"
begin

lemma table_regs:
  "ok (common d n1) 0" "ok (outputs d n2) 0" "ok (modeset d n3) 0" "ok (line_flag_num (intr d)) 0"
  "ok (intr_enable (intr d)) 0" "ok (intr_clear (intr d)) 0" "afbc d = Some f \<Longrightarrow> ok (f n) 0"
  using tables by (auto simp: data_ok_def intr_ok_def)

lemma table_wins: "(i, win) \<in> set (enumerate 0 (wins d)) \<Longrightarrow> win_ok ok win"
  using tables by (auto simp: data_ok_def list_all_iff in_set_enumerate_eq)

lemma init_wins: "(i, win, y2r) \<in> set (vop_win_init d) \<Longrightarrow>
    win_ok ok win \<and> (case y2r of None \<Rightarrow> True | Some y \<Rightarrow> y2r_ok ok y)"
  using tables by (auto simp: data_ok_def vop_win_init_def list_all_iff split: option.splits)

lemma preserves_readl [preserves]: "preserves J (vop_readl env a)"
  by (simp add: preserves_def vop_readl_def readl)

lemma preserves_read_reg [preserves]: "preserves J (vop_read_reg env b reg)"
  unfolding vop_read_reg_def by (intro preserves)

lemma preserves_calls [preserves]: "preserves J (invoke c)" "preserves J (call env c)"
  by (simp_all add: preserves_def invoke_def modify_def call_def calls)

lemma preserves_AFBC [preserves]: "preserves J (VOP_AFBC_SET d n v)"
  unfolding VOP_AFBC_SET_def by (intro preserves set_reg table_regs)

lemma preserves_cfg_done [preserves]: "preserves J (vop_cfg_done d)"
  unfolding vop_cfg_done_def by (intro preserves set_reg table_regs)

lemma preserves_INTR_SET [preserves]:
  "preserves J (VOP_INTR_SET_TYPE d intr_enable type v)" "preserves J (VOP_INTR_SET_TYPE d intr_clear type v)"
  unfolding VOP_INTR_SET_TYPE_def by (intro preserves set_reg table_regs)+

lemma preserves_get_intr [preserves]: "preserves J (vop_get_intr_type env d reg type)"
  unfolding vop_get_intr_type_def by (intro preserves)

lemma preserves_irq_switch [preserves]:
  "preserves J (vop_dsp_hold_valid_irq_enable env d)" "preserves J (vop_dsp_hold_valid_irq_disable env d)"
  "preserves J (vop_line_flag_irq_enable env d)" "preserves J (vop_line_flag_irq_disable env d)"
  "preserves J (vop_line_flag_irq_is_enabled env d)"
  "preserves J (vop_crtc_enable_vblank env d)" "preserves J (vop_crtc_disable_vblank env d)"
  unfolding vop_dsp_hold_valid_irq_enable_def vop_dsp_hold_valid_irq_disable_def vop_line_flag_irq_enable_def
    vop_line_flag_irq_disable_def vop_line_flag_irq_is_enabled_def vop_crtc_enable_vblank_def vop_crtc_disable_vblank_def
  by (intro preserves)+

lemma preserves_win_disable [preserves]: "win_ok ok win \<Longrightarrow> preserves J (vop_win_disable env (i, win))"
  unfolding vop_win_disable_def
  by (intro preserves preserves_modify set_reg fields) (auto simp: win_ok_def split: option.splits)

lemma preserves_set_win_enabled [preserves]: "preserves J (rockchip_drm_set_win_enabled d b)"
  unfolding rockchip_drm_set_win_enabled_def
  by (intro preserves set_reg) (auto dest: table_wins simp: win_ok_def)

lemma preserves_gamma [preserves]: "preserves J (vop_crtc_gamma_set env extract d)"
  unfolding vop_crtc_gamma_set_def gamma_load_def vop_crtc_write_gamma_lut_def vop_dsp_lut_is_enabled_def vop_lut_buffer_index_def
  by (intro preserves preserves_modify set_reg table_regs lut_write)

lemma preserves_output [preserves]: "preserves J (set_output d cs pol)"
  unfolding set_output_def by (cases "output_type cs") (auto intro!: preserves set_reg table_regs)

lemma preserves_modeset [preserves]: "preserves J (crtc_modeset env extract d)"
  unfolding crtc_modeset_def set_dither_def set_timings_def
  by (intro preserves preserves_modify set_reg table_regs fields)

lemma preserves_disable [preserves]: "preserves J (vop_crtc_atomic_disable env d)"
  unfolding vop_crtc_atomic_disable_def send_disable_event_def vop_core_clks_disable_def
  by (intro preserves preserves_modify set_reg table_regs fields)

lemma preserves_begin [preserves]: "preserves J (vop_crtc_atomic_begin env extract d)"
  unfolding vop_crtc_atomic_begin_def by (intro preserves)

lemma preserves_queue [preserves]: "preserves J (queue_unref env f)"
  unfolding queue_unref_def by (intro preserves preserves_modify) (auto intro!: fields)

lemma preserves_flush [preserves]: "preserves J (vop_crtc_atomic_flush env d planes)"
  unfolding vop_crtc_atomic_flush_def vop_wait_for_irq_handler_def vop_fs_irq_is_pending_def take_event_def
  by (intro preserves preserves_modify set_reg table_regs) (auto intro!: fields)

lemma preserves_isr [preserves]: "preserves J (vop_isr env d)"
  unfolding vop_isr_def isr_serve_def isr_dispatch_def vop_handle_vblank_def vop_core_clks_enable_def vop_core_clks_disable_def
  by (intro preserves preserves_modify) (auto intro!: fields)

lemma preserves_wait [preserves]: "preserves J (rockchip_drm_wait_vact_end env d ms)"
  unfolding rockchip_drm_wait_vact_end_def by (intro preserves)

lemma win_okD:
  "win_ok ok win \<Longrightarrow> ok (phy win n) (base win)"
  "win_ok ok win \<Longrightarrow> scl win = Some sc \<Longrightarrow> ok (scl_reg sc n') (base win)"
  "win_ok ok win \<Longrightarrow> scl win = Some sc \<Longrightarrow> scl_ext sc = Some ext \<Longrightarrow> ok (ext n'') (base win)"
  by (auto simp: win_ok_def)

lemma preserves_scale [preserves]:
  "win_ok ok win \<Longrightarrow> scl win = Some sc \<Longrightarrow> preserves J (scl_vop_cal_scl_fac env api win sc sw sh dw dh f)"
  unfolding scl_vop_cal_scl_fac_def set_scale_ext_def by (intro preserves set_reg win_okD)

lemma preserves_yuv [preserves]:
  "win_ok ok win \<Longrightarrow> (case y2r of None \<Rightarrow> True | Some y \<Rightarrow> y2r_ok ok y) \<Longrightarrow> preserves J (set_yuv api win y2r f ps)"
  unfolding set_yuv_def
  by (intro preserves set_reg win_okD) (auto simp: y2r_ok_def dest: set_zip_leftD)

lemma preserves_alpha [preserves]: "win_ok ok win \<Longrightarrow> preserves J (set_alpha env (i, win) f)"
  unfolding set_alpha_def by (intro preserves set_reg) (auto simp: win_okD)

lemma preserves_set_afbc [preserves]: "preserves J (set_afbc d i f addr act)"
  unfolding set_afbc_def by (intro preserves)

lemma preserves_plane_update [preserves]:
  "win_ok ok win \<Longrightarrow> (case y2r of None \<Rightarrow> True | Some y \<Rightarrow> y2r_ok ok y) \<Longrightarrow>
     preserves J (vop_plane_atomic_update env api d (i, win) y2r old ps f)"
  unfolding vop_plane_atomic_update_def vop_plane_atomic_disable_def
  by (intro preserves preserves_modify set_reg fields) (auto simp: win_okD y2r_ok_def)

lemma preserves_async [preserves]:
  "win_ok ok win \<Longrightarrow> (case y2r of None \<Rightarrow> True | Some y \<Rightarrow> y2r_ok ok y) \<Longrightarrow>
     preserves J (vop_plane_atomic_async_update env api d (i, win) y2r old cur new)"
  unfolding vop_plane_atomic_async_update_def by (intro preserves)

lemma preserves_plane_off [preserves]: "win_ok ok win \<Longrightarrow> preserves J (vop_plane_atomic_disable env (i, win) old)"
  unfolding vop_plane_atomic_disable_def by (intro preserves)

text \<open>Restoring the registers is left to the instance.\<close>

lemma preserves_enable:
  assumes "\<And>s. wp (restore_regs env) (\<lambda>_. J) s"
  shows "wp (vop_enable_regs env d old) (\<lambda>_. J) s"
proof -
  have "preserves J (do {
     when_do (old \<noteq> Some True) (foreach (vop_win_disable env) (enumerate 0 (wins d)));
     when_do (afbc d \<noteq> None) (do {
       VOP_AFBC_SET d afbc_enable 0;
       modify (\<lambda>s. s\<lparr>cstate := (cstate s)\<lparr>enable_afbc := False\<rparr>\<rparr>)
     });
     vop_cfg_done d;
     modify (\<lambda>s. s\<lparr>is_enabled := True\<rparr>);
     VOP_REG_SET (common d standby) 1
   })"
    by (intro preserves preserves_modify set_reg table_regs fields) (auto intro!: preserves dest: table_wins)
  then show ?thesis
    unfolding vop_enable_regs_def wp_bind [of "restore_regs _"] by (rule wp_mono [OF assms preserves_wp])
qed

lemma preserves_drop [preserves]: "preserves J drop_loader"
  unfolding drop_loader_def vop_core_clks_disable_def by (intro preserves preserves_modify fields)

lemma enable_invariant:
  assumes "\<And>s. wp (restore_regs env) (\<lambda>_. J) s" and "J s"
  shows "wp (vop_enable env d old) (\<lambda>_. J) s"
proof -
  have regs: "preserves J (vop_enable_regs env d old)"
    by (rule wp_preserves) (rule preserves_enable [OF assms(1)])
  have "preserves J (vop_enable env d old)"
    unfolding vop_enable_def vop_core_clks_enable_def vop_core_clks_disable_def by (intro preserves regs)
  then show ?thesis
    by (rule preserves_wp) (rule assms(2))
qed

lemma enable_establishes:
  assumes "\<And>s. wp (restore_regs env) (\<lambda>_. J) s"
  shows "wp (vop_enable env d old) (\<lambda>ret s'. ret = 0 \<longrightarrow> J s') s"
proof -
  have tail: "wp (do { vop_enable_regs env d old; drop_loader; invoke (Vblank Vblank_on); returnS (0::int) })
      (\<lambda>ret s'. ret = 0 \<longrightarrow> J s') s'" for s'
  proof -
    have "preserves J (do { drop_loader; invoke (Vblank Vblank_on); returnS (0::int) })"
      by (intro preserves)
    from preserves_wp [OF this] show ?thesis
      unfolding wp_bind [of "vop_enable_regs _ _ _"]
      by (intro wp_mono [OF preserves_enable [OF assms]]) (blast intro: wp_mono)
  qed
  show ?thesis
    unfolding vop_enable_def
    by (rule wp_call_or, (simp add: wp; fail), unfold wp_bind [of "vop_core_clks_enable _"],
        rule wp_core_clks_enable, rule wp_ifI, (simp add: wp; fail), rule wp_call_or, (simp add: wp; fail),
        rule wp_call, rule wp_ifI, (simp add: wp; fail), rule tail)
qed

lemma run_invariant: "run_state m s = (a, s') \<Longrightarrow> preserves J m \<Longrightarrow> J s \<Longrightarrow> J s'"
  by (rule preservesD)

lemma step_invariant:
  assumes restore: "\<And>s. wp (restore_regs env) (\<lambda>_. J) s"
  shows "vop_step env lut_extract api d s s' \<Longrightarrow> J s \<Longrightarrow> J s'"
proof (induction rule: vop_step.induct)
  case (enable old s u s')
  have "preserves J (vop_enable env d old)"
    by (rule wp_preserves) (rule enable_invariant [OF restore])
  then have "preserves J (vop_crtc_atomic_enable env lut_extract d old)"
    unfolding vop_crtc_atomic_enable_def by (intro preserves)
  then show ?case using enable by (blast dest: preservesD)
next
  case (update i win y2r old ps f s u s')
  note w = init_wins [OF update(1)]
  show ?case by (rule preservesD [OF preserves_plane_update [OF conjunct1 [OF w] conjunct2 [OF w]] update(2,3)])
next
  case (plane_off i win y2r old s u s')
  show ?case by (rule preservesD [OF preserves_plane_off [OF conjunct1 [OF init_wins [OF plane_off(1)]]] plane_off(2,3)])
next
  case (async i win y2r old cur new s v s')
  note w = init_wins [OF async(1)]
  show ?case by (rule preservesD [OF preserves_async [OF conjunct1 [OF w] conjunct2 [OF w]] async(2,3)])
next
  case (swap_state s cs)
  then show ?case by (simp add: fields)
qed (erule run_invariant, intro preserves, assumption)+

end

section \<open>The shadow and the hardware\<close>

text \<open>What the hardware was last told at each address.\<close>

fun told :: "(u32 \<rightharpoonup> u32) \<Rightarrow> vio \<Rightarrow> u32 \<rightharpoonup> u32" where
  "told m (Writel a v) = m(a \<mapsto> v)"
| "told m _ = m"

definition told_at :: "vio list \<Rightarrow> u32 \<rightharpoonup> u32" where
  "told_at h = foldl told Map.empty h"

lemma told_at_snoc [simp]: "told_at (h @ [e]) = told (told_at h) e"
  by (simp add: told_at_def)

text \<open>\<open>D\<close> lists the addresses of registers with a write mask, which have no shadow. The register block is at most
  4 GiB long.\<close>

definition synced :: "vop_env \<Rightarrow> u32 list \<Rightarrow> vop \<Rightarrow> bool" where
  "synced env D s \<longleftrightarrow> (\<forall>i < (vop_len env + 3) div 4. i < 2 ^ 30 \<longrightarrow> 4 * of_nat i \<notin> set D \<longrightarrow>
     told_at (hist s) (4 * of_nat i) = Some (regsbak s (of_nat i)))"

definition shadowed :: "u32 list \<Rightarrow> vop_reg \<Rightarrow> u32 \<Rightarrow> bool" where
  "shadowed D reg a \<longleftrightarrow> mask reg = 0 \<or>
     (if write_mask reg then offset reg + a \<in> set D else 4 * drop_bit 2 (offset reg + a) = offset reg + a)"

lemma drop_bit_4: "i < 2 ^ 30 \<Longrightarrow> drop_bit 2 (4 * of_nat i :: u32) = of_nat i"
proof -
  assume i: "i < 2 ^ 30"
  have "unat (4 * of_nat i :: u32) = 4 * i"
    using i by (simp add: unat_word_ariths unat_of_nat take_bit_nat_eq_self)
  then have "unat (drop_bit 2 (4 * of_nat i :: u32)) = unat (of_nat i :: u32)"
    using i by (simp add: drop_bit_eq_div unat_div unat_of_nat take_bit_nat_eq_self)
  then show ?thesis by (simp add: word_unat_eq_iff)
qed

lemma synced_set:
  assumes "shadowed D reg a"
  shows "preserves (synced env D) (vop_reg_set reg a m v)"
proof (cases "mask reg = 0")
  case True
  then show ?thesis by (simp add: vop_reg_set_def preserves)
next
  case False
  let ?off = "offset reg + a"
  have plain: "synced env D (s\<lparr>regsbak := (regsbak s)(drop_bit 2 ?off := w), hist := hist s @ [Writel ?off w]\<rparr>)"
    if "synced env D s" "4 * drop_bit 2 ?off = ?off" for s w
  proof (unfold synced_def, intro allI impI)
    fix i assume i: "i < (vop_len env + 3) div 4" "i < 2 ^ 30" "4 * of_nat i \<notin> set D"
    show "told_at (hist (s\<lparr>regsbak := (regsbak s)(drop_bit 2 ?off := w), hist := hist s @ [Writel ?off w]\<rparr>)) (4 * of_nat i) =
        Some (regsbak (s\<lparr>regsbak := (regsbak s)(drop_bit 2 ?off := w), hist := hist s @ [Writel ?off w]\<rparr>) (of_nat i))"
    proof (cases "of_nat i = drop_bit 2 ?off")
      case True
      then show ?thesis using that(2) by simp
    next
      case False
      then have "4 * of_nat i \<noteq> ?off"
        using drop_bit_4 [OF i(2)] by metis
      with False that(1) i show ?thesis by (simp add: synced_def)
    qed
  qed
  show ?thesis
  proof (cases "write_mask reg")
    case True
    with False assms have D: "?off \<in> set D" by (simp add: shadowed_def)
    have "synced env D (s\<lparr>hist := hist s @ [Writel ?off w]\<rparr>)" if "synced env D s" for s w
      using that D by (auto simp: synced_def)
    with True False show ?thesis
      by (simp add: vop_reg_set_def Let_def writel_def preserves_modify)
  next
    case masked: False
    with False assms have "4 * drop_bit 2 ?off = ?off" by (simp add: shadowed_def)
    with masked False plain show ?thesis
      by (intro wp_preserves) (simp add: vop_reg_set_def Let_def wp writel_def)
  qed
qed

lemma foreach_append: "foreach f (xs @ ys) = do { foreach f xs; foreach f ys }"
  by (induction xs) (simp_all add: bind_assoc)

lemma restore_image:
  assumes "\<forall>i \<in> set xs. i < 2 ^ 30"
  shows "wp (foreach (\<lambda>i. do { v \<leftarrow> gets (\<lambda>s. regsbak s (of_nat i)); writel v (4 * of_nat i) }) xs)
    (\<lambda>_ s'. regsbak s' = regsbak s \<and> (\<forall>i \<in> set xs. told_at (hist s') (4 * of_nat i) = Some (regsbak s (of_nat i)))) s"
  using assms
proof (induction xs rule: rev_induct)
  case Nil
  then show ?case by (simp add: wp)
next
  case (snoc x xs)
  have same: "regsbak s (of_nat i) = regsbak s (of_nat x)"
    if "i \<in> set xs" "4 * of_nat i = (4 * of_nat x :: u32)" for i
    using that snoc.prems drop_bit_4 [of i] drop_bit_4 [of x] by (metis Un_iff list.set_intros(1) set_append)
  from snoc have "wp (foreach (\<lambda>i. do { v \<leftarrow> gets (\<lambda>s. regsbak s (of_nat i)); writel v (4 * of_nat i) }) xs)
    (\<lambda>_ s'. regsbak s' = regsbak s \<and> (\<forall>i \<in> set xs. told_at (hist s') (4 * of_nat i) = Some (regsbak s (of_nat i)))) s"
    by simp
  from wp_mono [OF this] show ?case
    unfolding foreach_append wp_bind by (rule meta_mp) (auto simp: wp writel_def intro: same [symmetric])
qed

lemma synced_restore: "vop_len env \<le> 2 ^ 32 \<Longrightarrow> wp (restore_regs env) (\<lambda>_. synced env D) s"
  unfolding restore_regs_def by (rule wp_mono [OF restore_image]) (auto simp: synced_def)

text \<open>The tables, if they name only registers that the shadow follows.\<close>

definition in_order :: "u32 list \<Rightarrow> vop_data \<Rightarrow> vop_data" where
  "in_order D d = (if data_ok (shadowed D) d then d else small_data)"

lemma small_data_ok: "data_ok (shadowed D) small_data"
  by (simp add: data_ok_def small_data_def win_ok_def small_win_def intr_ok_def shadowed_def no_reg_def bit_reg_def)

interpretation sh: register_invariant "synced env D" "shadowed D" "in_order D d" for env D d
proof unfold_locales
  show "data_ok (shadowed D) (in_order D d)"
    by (simp add: in_order_def small_data_ok)
qed (simp_all add: synced_set, simp_all add: synced_def)

text \<open>Setting a field makes the shadow hold the value cut to the field, tells the hardware the whole
  shadow word, and changes no field that shares no bit with it.\<close>

theorem vop_reg_set_field:
  assumes "run_state (vop_reg_set reg a (- 1) v) s = (u, s')" and "mask reg \<noteq> 0" and "\<not> write_mask reg" and "reg_fits reg"
  shows "field_of reg a s' = v AND mask reg \<and>
    hist s' = hist s @ [Writel (offset reg + a) (regsbak s' (drop_bit 2 (offset reg + a)))] \<and>
    (free t b reg a \<longrightarrow> field_of t b s' = field_of t b s)"
  using wpD [OF field_set [OF assms(2-4)] assms(1)] keepsD [OF keeps_field assms(1)] by blast

theorem vop_reg_set_field_witness:
  "let reg = \<lparr>mask = 0x3f, offset = 0x10, shift = 4, write_mask = False\<rparr>;
       s' = snd (run_state (vop_reg_set reg 0x100 (- 1) 0x25) blank_vop)
   in field_of reg 0x100 s' = 0x25 \<and> field_of (bit_reg 0x110) 0 s' = field_of (bit_reg 0x110) 0 blank_vop"
  unfolding Let_def
  using vop_reg_set_field [OF surjective_pairing, of "\<lparr>mask = 0x3f, offset = 0x10, shift = 4, write_mask = False\<rparr>"
      "0x100" "0x25" blank_vop "bit_reg 0x110" 0]
  by (simp add: reg_fits_def free_def bit_reg_def)

text \<open>C7 (vop_shadow_synced): if the tables name only word-aligned registers and registers with a write mask, then after an
  enable that restored the registers, and after any sequence of operations from there, the shadow of every word
  without write-mask registers is what the hardware was last told at its address.\<close>

theorem vop_shadow_synced:
  assumes "data_ok (shadowed D) d" and "vop_len env \<le> 2 ^ 32"
    and "run_state (vop_enable env d old) s = (0, s1)" and "(vop_step env lut_extract api d)\<^sup>*\<^sup>* s1 s2"
  shows "synced env D s2"
  using assms(4)
proof (induction rule: rtranclp_induct)
  case base
  show ?case
    using wpD [OF sh.enable_establishes [OF synced_restore [OF assms(2)], of D d old] ] assms(1,3) by (simp add: in_order_def)
next
  case (step s2 s3)
  show ?case
    using sh.step_invariant [OF synced_restore [OF assms(2)], of lut_extract api D d s2 s3] step assms(1) by (simp add: in_order_def)
qed

lemma enable_succeeds:
  assumes "\<And>h c. env_ret env h c = 0"
  shows "wp (vop_enable env d old) (\<lambda>ret _. ret = 0) s"
proof -
  have tail: "wp (do { drop_loader; invoke (Vblank Vblank_on); returnS (0::int) }) (\<lambda>ret _. ret = 0) s'" for s'
    unfolding wp_bind [of drop_loader] by (rule wp_mono [OF wp_True]) (simp add: wp)
  have "wp (vop_enable_regs env d old) (\<lambda>_. wp (do { drop_loader; invoke (Vblank Vblank_on); returnS (0::int) }) (\<lambda>ret _. ret = 0)) s'" for s'
    by (rule wp_mono [OF wp_True]) (rule tail)
  then show ?thesis
    by (simp add: vop_enable_def vop_core_clks_enable_def wp wp_call_val assms)
qed

theorem vop_shadow_synced_witness:
  "let env = (small_env False (Pm Put))\<lparr>vop_len := 0x40, env_ret := (\<lambda>_ _. 0)\<rparr>
   in synced env [] (snd (run_state (vop_enable env small_data None) prepared_vop))"
proof (unfold Let_def, rule vop_shadow_synced [OF small_data_ok _ _ rtranclp.rtrancl_refl])
  let ?env = "(small_env False (Pm Put))\<lparr>vop_len := 0x40, env_ret := (\<lambda>_ _. 0)\<rparr>"
  have "fst (run_state (vop_enable ?env small_data None) prepared_vop) = 0"
    by (rule wpD [OF enable_succeeds surjective_pairing]) simp
  then show "run_state (vop_enable ?env small_data None) prepared_vop = (0, snd (run_state (vop_enable ?env small_data None) prepared_vop))"
    by (simp add: prod_eq_iff)
qed simp

end
