(* ===== verification/Vop_Scanout.thy ===== *)
theory Vop_Scanout
  imports Vop_Shadow
begin

text \<open>
  What a plane update puts into the window's registers, the asynchronous cursor update, and the plane check.
\<close>

section \<open>Window registers after an update\<close>

text \<open>No other register that an update writes shares a bit with field \<open>t\<close> of the window.\<close>

definition alone :: "vop_data \<Rightarrow> win_data \<Rightarrow> yuv2yuv_data option \<Rightarrow> win_field \<Rightarrow> bool" where
  "alone d win y2r t \<longleftrightarrow>
     (let fr = free (phy win t) (base win) in
      (\<forall>n. n = t \<or> fr (phy win n) (base win)) \<and>
      (case scl win of None \<Rightarrow> True | Some sc \<Rightarrow> (\<forall>n. fr (scl_reg sc n) (base win)) \<and>
        (case scl_ext sc of None \<Rightarrow> True | Some ext \<Rightarrow> \<forall>n. fr (ext n) (base win))) \<and>
      (case y2r of None \<Rightarrow> True | Some y \<Rightarrow> fr (y2r_en y) 0 \<and> (\<forall>r \<in> set (y2r_coefficients y). fr r (y2r_base y))) \<and>
      (case afbc d of None \<Rightarrow> True | Some a \<Rightarrow> \<forall>n. fr (a n) 0) \<and>
      fr (common d cfg_done) 0)"

lemma aloneD:
  "alone d win y2r t \<Longrightarrow> n \<noteq> t \<Longrightarrow> free (phy win t) (base win) (phy win n) (base win)"
  "alone d win y2r t \<Longrightarrow> scl win = Some sc \<Longrightarrow> free (phy win t) (base win) (scl_reg sc n1) (base win)"
  "alone d win y2r t \<Longrightarrow> scl win = Some sc \<Longrightarrow> scl_ext sc = Some ext \<Longrightarrow> free (phy win t) (base win) (ext n2) (base win)"
  "alone d win y2r t \<Longrightarrow> y2r = Some y \<Longrightarrow> free (phy win t) (base win) (y2r_en y) 0"
  "alone d win y2r t \<Longrightarrow> y2r = Some y \<Longrightarrow> r \<in> set (y2r_coefficients y) \<Longrightarrow> free (phy win t) (base win) r (y2r_base y)"
  "alone d win y2r t \<Longrightarrow> afbc d = Some a \<Longrightarrow> free (phy win t) (base win) (a n3) 0"
  "alone d win y2r t \<Longrightarrow> free (phy win t) (base win) (common d cfg_done) 0"
  by (auto simp: alone_def Let_def)

text \<open>A field that an update programs stands in its own bits and fits its register.\<close>

definition programmable :: "vop_data \<Rightarrow> win_data \<Rightarrow> yuv2yuv_data option \<Rightarrow> win_field \<Rightarrow> bool" where
  "programmable d win y2r t \<longleftrightarrow> alone d win y2r t \<and> mask (phy win t) \<noteq> 0 \<and> \<not> write_mask (phy win t) \<and> reg_fits (phy win t)"

lemma wp_skip: "(\<And>a s'. wp (k a) Q s') \<Longrightarrow> wp (State_Monad.bind m k) Q s"
  unfolding wp_bind by (rule wp_mono [OF wp_True])

lemma wp_set_then:
  assumes "programmable d win y2r t" and "\<And>s'. field_of (phy win t) (base win) s' = v AND mask (phy win t) \<Longrightarrow> wp (k ()) Q s'"
  shows "wp (State_Monad.bind (VOP_WIN_SET win t v) k) Q s"
  unfolding wp_bind
  by (rule wp_mono [OF field_set]) (use assms in \<open>auto simp: programmable_def\<close>)

lemma keeps_alone:
  assumes "programmable d win y2r t"
  shows "n \<noteq> t \<Longrightarrow> keeps (field_of (phy win t) (base win)) (VOP_WIN_SET win n v)"
    "keeps (field_of (phy win t) (base win)) (vop_cfg_done d)"
    "scl win = Some sc \<Longrightarrow> keeps (field_of (phy win t) (base win)) (scl_vop_cal_scl_fac env api win sc sw sh dw dh f)"
    "t \<notin> {uv_vir, uv_mst, uv_swap} \<Longrightarrow> keeps (field_of (phy win t) (base win)) (set_yuv api win y2r f ps)"
    "t \<notin> {dst_alpha_ctl, src_alpha_ctl, alpha_pre_mul, alpha_mode, alpha_en} \<Longrightarrow>
       keeps (field_of (phy win t) (base win)) (set_alpha env (i, win) f)"
proof -
  note a = aloneD [OF assms [unfolded programmable_def, THEN conjunct1]]
  show "n \<noteq> t \<Longrightarrow> keeps (field_of (phy win t) (base win)) (VOP_WIN_SET win n v)"
    by (intro keeps_field a)
  show "keeps (field_of (phy win t) (base win)) (vop_cfg_done d)"
    unfolding vop_cfg_done_def by (intro keeps_field a)
  show "scl win = Some sc \<Longrightarrow> keeps (field_of (phy win t) (base win)) (scl_vop_cal_scl_fac env api win sc sw sh dw dh f)"
    unfolding scl_vop_cal_scl_fac_def set_scale_ext_def by (intro keeps keeps_field a)
  show "t \<notin> {uv_vir, uv_mst, uv_swap} \<Longrightarrow> keeps (field_of (phy win t) (base win)) (set_yuv api win y2r f ps)"
    unfolding set_yuv_def by (intro keeps keeps_field) (auto intro: a dest: set_zip_leftD)
  show "t \<notin> {dst_alpha_ctl, src_alpha_ctl, alpha_pre_mul, alpha_mode, alpha_en} \<Longrightarrow>
       keeps (field_of (phy win t) (base win)) (set_alpha env (i, win) f)"
    unfolding set_alpha_def by (intro keeps keeps_field) (auto intro: a)
qed

lemma keeps_win_enabled: "keeps (field_of r b) (modify (\<lambda>s. s\<lparr>win_enabled := g s\<rparr>))"
  by (rule keeps_modify) (simp add: field_of_def)

lemma keeps_y2r_en:
  assumes "programmable d win y2r t"
  shows "keeps (field_of (phy win t) (base win)) (case y2r of None \<Rightarrow> returnS ()
    | Some y \<Rightarrow> when_do (has_reg (y2r_en y)) (vop_reg_set (y2r_en y) 0 (- 1) v))"
  by (intro keeps keeps_field aloneD [OF assms [unfolded programmable_def, THEN conjunct1]])

lemma keeps_afbc:
  assumes "programmable d win y2r t"
  shows "keeps (field_of (phy win t) (base win)) (set_afbc d j f addr act)"
  unfolding set_afbc_def VOP_AFBC_SET_def
  by (intro keeps keeps_field aloneD [OF assms [unfolded programmable_def, THEN conjunct1]])

text \<open>A visible plane is scanned out from the address of the framebuffer the update is given.\<close>

lemma update_address:
  assumes p: "programmable d win y2r yrgb_mst" and m: "crtc_mode ps = Some m" "is_enabled s" "visible ps"
  shows "wp (vop_plane_atomic_update env api d (i, win) y2r old ps f)
    (\<lambda>_ s'. field_of (phy win yrgb_mst) (base win) s' = yrgb_addr env api f ps AND mask (phy win yrgb_mst)) s"
  unfolding vop_plane_atomic_update_def m(1) option.case wp_bind [of "gets _"] wp_gets
  by (simp only: m not_True_eq_False if_False prod.case Let_def,
      (rule wp_set_then [OF p] | (rule wp_keeps_bind [where f = "field_of (phy win yrgb_mst) (base win)"],
        (intro keeps keeps_afbc [OF p] keeps_alone [OF p] keeps_y2r_en [OF p] keeps_win_enabled; simp; fail)))+,
      rule wp_keeps [where f = "field_of (phy win yrgb_mst) (base win)"], rule keeps_win_enabled) simp

lemma keeps_queue_field: "keeps (field_of r b) (queue_unref env f)"
  unfolding queue_unref_def invoke_def
  by (intro keeps keeps_modify) (simp_all add: field_of_def keeps_def call_def)

text \<open>C25 (vop_async_scans_old_fb): the asynchronous update of a visible cursor records the new framebuffer in the plane state
  but programs the window with the address of the old one, because the update reads the new state after the
  framebuffers were swapped.\<close>

theorem vop_async_scans_old_fb:
  assumes "run_state (vop_plane_atomic_async_update env api d (i, win) y2r old cur new) s = ((cur', new'), s')"
    and "programmable d win y2r yrgb_mst" and "crtc_mode new = Some m" and "is_enabled s" and "visible new"
    and "fb cur = Some f" and "fb new = Some g"
  shows "fb cur' = Some g \<and>
    field_of (phy win yrgb_mst) (base win) s' = yrgb_addr env api f new AND mask (phy win yrgb_mst)"
proof -
  let ?F = "field_of (phy win yrgb_mst) (base win)"
  let ?v = "yrgb_addr env api f new AND mask (phy win yrgb_mst)"
  have addr: "yrgb_addr env api f (new\<lparr>fb := fb cur\<rparr>) = yrgb_addr env api f new"
    by (simp add: yrgb_addr_def plane_offset_def actual_h_def Let_def)
  have up: "wp (vop_plane_atomic_update env api d (i, win) y2r old (new\<lparr>fb := fb cur\<rparr>) f) (\<lambda>_ s'. ?F s' = ?v) s"
    using update_address [OF assms(2), of "new\<lparr>fb := fb cur\<rparr>" m s env api i old f] assms(3-5) addr by simp
  have rest: "wp (do { vop_cfg_done d; when_do b (queue_unref env q); returnS (c\<lparr>fb := Some g\<rparr>, n) })
      (\<lambda>(c, n) s'. fb c = Some g \<and> ?F s' = ?v) s1" if "?F s1 = ?v" for b q s1 and c n :: plane_state
    by (rule wp_keeps_bind [where f = ?F], rule keeps_alone [OF assms(2)], rule wp_keeps_bind [where f = ?F],
        intro keeps keeps_queue_field) (simp add: wp that)
  have "wp (vop_plane_atomic_async_update env api d (i, win) y2r old cur new)
      (\<lambda>(c, n) s'. fb c = Some g \<and> ?F s' = ?v) s"
    unfolding vop_plane_atomic_async_update_def Let_def wp_bind [of "gets _"] wp_gets
    using assms(4,6,7)
    by (simp add: when_do_def [of True] wp_return wp_bind [of "vop_plane_atomic_update _ _ _ _ _ _ _ _"] wp_bind [of "_ \<bind> _"])
      (rule wp_mono [OF up [unfolded assms(6)]], rule rest)
  from wpD [OF this assms(1)] show ?thesis by simp
qed

text \<open>A cursor window with an address register, on surroundings without scaling.\<close>

definition cursor_win :: win_data where
  "cursor_win = \<lparr>base = 0x100, phy = (\<lambda>n. if n = yrgb_mst then \<lparr>mask = - 1, offset = 0x40, shift = 0, write_mask = False\<rparr> else no_reg),
     scl = None, win_type = DRM_PLANE_TYPE_CURSOR\<rparr>"

definition plain_api :: vop_api where
  "plain_api = \<lparr>afbc_mod = 1, linear_mod = 0, min_pitch = (\<lambda>_ _ _. 0), check_plane_state = (\<lambda>_ _ ps. (0, ps)),
     GET_SCL_FT_BIC = (\<lambda>_ _. 0), GET_SCL_FT_BILI_DN = (\<lambda>_ _. 0), GET_SCL_FT_BILI_UP = (\<lambda>_ _. 0), scl_get_vskiplines = (\<lambda>_ _. 0),
     scl_get_bili_dn_vskip = (\<lambda>_ _ _. 0), scl_cal_scale2 = (\<lambda>_ _. 0), scl_get_scl_mode = (\<lambda>_ _. SCALE_NONE),
     scl_vop_cal_lb_mode = (\<lambda>_ _. 0)\<rparr>"

definition cursor_fb :: "nat \<Rightarrow> u32 \<Rightarrow> framebuffer" where
  "cursor_fb i addr = \<lparr>fb_id = i, fb_format = DRM_FORMAT_ARGB8888, is_yuv = False, has_alpha = True, hsub = 1, vsub = 1,
     cpp = [4], char_per_block = [0], modifier = 0, pitches = [256], offsets = [0], dma_addrs = [addr]\<rparr>"

definition cursor_state :: "framebuffer \<Rightarrow> plane_state" where
  "cursor_state f = \<lparr>crtc_mode = Some zero_mode, fb = Some f, visible = True, src = \<lparr>x1 = 0, y1 = 0, x2 = 0x400000, y2 = 0x400000\<rparr>,
     dst = \<lparr>x1 = 0, y1 = 0, x2 = 64, y2 = 64\<rparr>, rotation = 0,
     crtc_x = 0, crtc_y = 0, crtc_h = 64, crtc_w = 64, state_src_x = 0, state_src_y = 0, state_src_h = 0x400000, state_src_w = 0x400000\<rparr>"

theorem vop_async_scans_old_fb_witness:
  "let s' = snd (run_state (vop_plane_atomic_async_update (small_env False (Pm Put)) plain_api small_data (1, cursor_win) None True
       (cursor_state (cursor_fb 3 0x1000)) (cursor_state (cursor_fb 4 0x2000))) (blank_vop\<lparr>is_enabled := True\<rparr>))
   in field_of (phy cursor_win yrgb_mst) (base cursor_win) s' = 0x1000"
proof -
  have "programmable small_data cursor_win None yrgb_mst"
    by (simp add: programmable_def alone_def small_data_def cursor_win_def free_def no_reg_def reg_fits_def)
  from vop_async_scans_old_fb [OF _ this, where s = "blank_vop\<lparr>is_enabled := True\<rparr>" and i = 1 and m = zero_mode and old = True
      and cur = "cursor_state (cursor_fb 3 0x1000)" and new = "cursor_state (cursor_fb 4 0x2000)"
      and f = "cursor_fb 3 0x1000" and g = "cursor_fb 4 0x2000" and env = "small_env False (Pm Put)" and api = plain_api]
  show ?thesis
    by (simp add: Let_def prod_eq_iff cursor_state_def cursor_fb_def yrgb_addr_def plane_offset_def cursor_win_def small_env_def)
qed

section \<open>The plane check\<close>



end
