(* ===== verification/Vop_Modes.thy ===== *)
theory Vop_Modes
  imports Vop_Scanout
begin

text \<open>
  Display modes: the timing registers of a mode set decode to the mode, and the pixel clock the driver asks for after it
  has adjusted the mode.
\<close>

section \<open>Timings\<close>

definition plain_reg :: "vop_reg \<Rightarrow> bool" where
  "plain_reg reg \<longleftrightarrow> mask reg \<noteq> 0 \<and> \<not> write_mask reg \<and> reg_fits reg"

text \<open>A loop whose rounds each establish something that later rounds keep establishes it for all its elements.\<close>

lemma wp_foreach_each:
  assumes "sorted_wrt (\<lambda>x y. preserves (P x) (m y)) xs"
    and "\<And>x s. x \<in> set xs \<Longrightarrow> J s \<Longrightarrow> wp (m x) (\<lambda>_ s'. P x s' \<and> J s') s" and "J s"
  shows "wp (foreach m xs) (\<lambda>_ s'. (\<forall>x \<in> set xs. P x s') \<and> J s') s"
  using assms
proof (induction xs arbitrary: s)
  case Nil
  then show ?case by (simp add: wp)
next
  case (Cons x xs)
  have "preserves (P x) (foreach m xs)"
    using Cons.prems(1) by (induction xs) (auto intro!: preserves)
  then have "wp (foreach m xs) (\<lambda>_ s'. P x s' \<and> (\<forall>y \<in> set xs. P y s') \<and> J s') s1" if "P x s1" "J s1" for s1
    unfolding wp_conj [of "foreach m xs" "\<lambda>_. P x"] using that Cons.prems Cons.IH [of s1] by (auto intro: preserves_wp)
  moreover have "wp (m x) (\<lambda>_ s'. P x s' \<and> J s') s"
    using Cons.prems by simp
  ultimately show ?case
    by (auto simp: wp_bind elim!: wp_mono)
qed

lemma keeps_preserves: "keeps f m \<Longrightarrow> preserves (\<lambda>s. P (f s)) m"
  by (simp add: keeps_def preserves_def)

text \<open>Setting registers one after the other leaves in each its value, if no two share a bit.\<close>

lemma foreach_fields:
  assumes "sorted_wrt (\<lambda>x y. free (fst x) 0 (fst y) 0) rs" and "\<forall>x \<in> set rs. plain_reg (fst x)"
  shows "wp (foreach (\<lambda>(r, v). VOP_REG_SET r v) rs) (\<lambda>_ s'. \<forall>(r, v) \<in> set rs. field_of r 0 s' = v AND mask r) s"
proof -
  let ?P = "\<lambda>(r, v) s'. field_of r 0 s' = v AND mask r"
  have "preserves (?P x) ((\<lambda>(r, v). VOP_REG_SET r v) y)" if "free (fst x) 0 (fst y) 0" for x y
    using keeps_preserves [OF keeps_field [OF that], of "\<lambda>f. f = snd x AND mask (fst x)"] by (cases x, cases y) simp
  with assms(1) have "sorted_wrt (\<lambda>x y. preserves (?P x) ((\<lambda>(r, v). VOP_REG_SET r v) y)) rs"
    by (rule sorted_wrt_mono_rel [rotated])
  moreover have "wp ((\<lambda>(r, v). VOP_REG_SET r v) x) (\<lambda>_ s'. ?P x s' \<and> True) s" if "x \<in> set rs" for x s
    using assms(2) that by (cases x) (auto simp: plain_reg_def intro!: wp_mono [OF field_set])
  ultimately have "wp (foreach (\<lambda>(r, v). VOP_REG_SET r v) rs) (\<lambda>_ s'. (\<forall>x \<in> set rs. ?P x s') \<and> True) s"
    by (rule wp_foreach_each) simp_all
  then show ?thesis by (rule wp_mono) auto
qed

text \<open>The six timing registers and the line number at which the active lines end.\<close>

definition timing_values :: "vop_data \<Rightarrow> display_mode \<Rightarrow> (vop_reg \<times> u32) list" where
  "timing_values d m =
     (let hact_st = word_of_int (htotal m - hsync_start m); hact_end = hact_st + word_of_int (hdisplay m);
          vact_st = word_of_int (vtotal m - vsync_start m); vact_end = vact_st + word_of_int (vdisplay m)
      in [Pair (modeset d htotal_pw) (pack_timing (word_of_int (htotal m)) (word_of_int (hsync_end m - hsync_start m))),
          Pair (modeset d hact_st_end) (pack_timing hact_st hact_end),
          Pair (modeset d hpost_st_end) (pack_timing hact_st hact_end),
          Pair (modeset d vtotal_pw) (pack_timing (word_of_int (vtotal m)) (word_of_int (vsync_end m - vsync_start m))),
          Pair (modeset d vact_st_end) (pack_timing vact_st vact_end),
          Pair (modeset d vpost_st_end) (pack_timing vact_st vact_end),
          Pair (line_flag_num (intr d)) (ucast vact_end)])"

lemma bind_return: "State_Monad.bind m (\<lambda>_. returnS ()) = (m :: ('s, unit) state)"
  by (cases m) (simp add: State_Monad.bind_def State_Monad.return_def split: prod.split)

lemma set_timings_eq: "set_timings d m = foreach (\<lambda>(r, v). VOP_REG_SET r v) (timing_values d m)"
  by (simp add: set_timings_def timing_values_def Let_def bind_return)

text \<open>A register of two 12-bit fields, as the timing registers are, keeps the halves of a packed value below 4096.\<close>

definition hi_of :: "u32 \<Rightarrow> int" where "hi_of w = uint (drop_bit 16 w)"
definition lo_of :: "u32 \<Rightarrow> int" where "lo_of w = uint (take_bit 16 w)"

lemma halves_mask: "(0xfff0fff :: u32) = push_bit 16 (Bit_Operations.mask 12) OR Bit_Operations.mask 12"
  by (simp add: mask_eq_exp_minus_1)

lemma pack_halves: "drop_bit 16 (pack_timing h l) = ucast h" "take_bit 16 (pack_timing h l) = ucast l"
  by (rule bit_word_eqI, auto simp: pack_timing_def bit_simps dest: bit_imp_le_length)+

lemma pack_kept:
  assumes "m AND 0xfff0fff = 0xfff0fff" and "take_bit 12 h = h" and "take_bit 12 l = l"
  shows "pack_timing h l AND m = pack_timing h l"
proof (rule bit_word_eqI)
  fix k
  have b: "bit h j \<Longrightarrow> j < 12" "bit l j \<Longrightarrow> j < 12" for j
    using assms(2,3) by (metis bit_take_bit_iff)+
  have "bit (0xfff0fff :: u32) k \<Longrightarrow> bit m k"
    by (metis assms(1) bit_and_iff)
  then have "k < 12 \<or> 16 \<le> k \<and> k < 28 \<Longrightarrow> bit m k"
    unfolding halves_mask by (auto simp: bit_simps less_diff_conv2)
  then show "bit (pack_timing h l AND m) k = bit (pack_timing h l) k"
    using b(1) [of "k - 16"] b(2) [of k] by (auto simp: pack_timing_def bit_simps)
qed

lemma small_timing:
  assumes "0 \<le> a" and "a < 4096"
  shows "take_bit 12 (word_of_int a :: u16) = word_of_int a" "uint (ucast (word_of_int a :: u16) :: u32) = a"
proof -
  have "take_bit 12 a = a" "take_bit 16 a = a" "take_bit 32 a = a"
    using assms by (simp_all add: take_bit_int_eq_self)
  then show "take_bit 12 (word_of_int a :: u16) = word_of_int a" "uint (ucast (word_of_int a :: u16) :: u32) = a"
    by (simp_all add: word_uint_eq_iff uint_word_of_int_eq unsigned_take_bit_eq unsigned_ucast_eq)
qed

lemma kept_halves:
  assumes "m AND 0xfff0fff = 0xfff0fff" and "0 \<le> a" "a < 4096" "0 \<le> b" "b < 4096"
  shows "hi_of (pack_timing (word_of_int a) (word_of_int b) AND m) = a \<and> lo_of (pack_timing (word_of_int a) (word_of_int b) AND m) = b"
  using assms by (simp add: pack_kept small_timing pack_halves hi_of_def lo_of_def)

text \<open>The parts of a mode are in order and a total fits twelve bits.\<close>

definition mode_ok :: "display_mode \<Rightarrow> bool" where
  "mode_ok m \<longleftrightarrow> 0 \<le> hdisplay m \<and> hdisplay m \<le> hsync_start m \<and> hsync_start m \<le> hsync_end m \<and> hsync_end m \<le> htotal m \<and>
     htotal m < 4096 \<and> 0 \<le> vdisplay m \<and> vdisplay m \<le> vsync_start m \<and> vsync_start m \<le> vsync_end m \<and> vsync_end m \<le> vtotal m \<and>
     vtotal m < 4096"

definition timing_table_ok :: "vop_data \<Rightarrow> bool" where
  "timing_table_ok d \<longleftrightarrow>
     (let rs = map (modeset d) [htotal_pw, hact_st_end, hpost_st_end, vtotal_pw, vact_st_end, vpost_st_end] @ [line_flag_num (intr d)]
      in sorted_wrt (\<lambda>x y. free x 0 y 0) rs \<and> list_all plain_reg rs \<and> list_all (\<lambda>r. mask r AND 0xfff0fff = 0xfff0fff) (butlast rs))"


text \<open>A table with one word for each timing register, and the panel's mode.\<close>

fun timing_reg :: "modeset_field \<Rightarrow> vop_reg" where
  "timing_reg htotal_pw = \<lparr>mask = 0xfff0fff, offset = 0x100, shift = 0, write_mask = False\<rparr>"
| "timing_reg hact_st_end = \<lparr>mask = 0xfff0fff, offset = 0x104, shift = 0, write_mask = False\<rparr>"
| "timing_reg hpost_st_end = \<lparr>mask = 0xfff0fff, offset = 0x108, shift = 0, write_mask = False\<rparr>"
| "timing_reg vtotal_pw = \<lparr>mask = 0xfff0fff, offset = 0x10c, shift = 0, write_mask = False\<rparr>"
| "timing_reg vact_st_end = \<lparr>mask = 0xfff0fff, offset = 0x110, shift = 0, write_mask = False\<rparr>"
| "timing_reg vpost_st_end = \<lparr>mask = 0xfff0fff, offset = 0x114, shift = 0, write_mask = False\<rparr>"

definition timing_data :: vop_data where
  "timing_data = small_data\<lparr>modeset := timing_reg, intr := (intr small_data)\<lparr>line_flag_num := \<lparr>mask = 0xfff, offset = 0x118, shift = 0, write_mask = False\<rparr>\<rparr>\<rparr>"

definition panel_mode :: display_mode where
  "panel_mode = zero_mode\<lparr>hdisplay := 720, hsync_start := 740, hsync_end := 744, htotal := 764,
     vdisplay := 720, vsync_start := 736, vsync_end := 740, vtotal := 756, clock := 34656\<rparr>"


section \<open>Pixel clock\<close>

text \<open>What the comment in \<^verbatim>\<open>vop_crtc_mode_fixup\<close> says of the clock framework: a request gives the highest rate the
  clock can make that is the same or lower.\<close>

definition rounds_down :: "(u32 \<Rightarrow> u32) \<Rightarrow> bool" where
  "rounds_down rr \<longleftrightarrow> (\<forall>r. rr r \<le> r \<and> rr (rr r) = rr r) \<and> (\<forall>r r'. r \<le> r' \<longrightarrow> rr r \<le> rr r')"

lemma rounds_downD:
  assumes "rounds_down rr"
  shows "rr r \<le> r" "rr (rr r) = rr r" "r \<le> r' \<Longrightarrow> rr r \<le> rr r'"
  using assms by (auto simp: rounds_down_def)

lemma round_same:
  assumes "rounds_down rr" and "rr r \<le> x" and "x \<le> r"
  shows "rr x = rr r"
  using rounds_downD(3) [OF assms(1), of "rr r" x] rounds_downD(3) [OF assms(1,3)] assms(2)
  by (simp add: rounds_downD(2) [OF assms(1)])

lemma uint_small: "0 \<le> i \<Longrightarrow> i < 2 ^ 32 \<Longrightarrow> uint (word_of_int i :: u32) = i"
  by (simp add: uint_word_of_int_eq take_bit_int_eq_self)

lemma khz_nonneg [simp]: "0 \<le> (uint r + 999) div 1000"
  using uint_ge_0 [of r] by (simp add: pos_imp_zdiv_nonneg_iff)

lemma khz_round_up:
  assumes "uint r < 2 ^ 31"
  shows "sint (DIV_ROUND_UP r 1000) = (uint r + 999) div 1000"
proof -
  have "uint (r + 1000 - 1) = uint r + 999"
    using assms by (simp add: uint_word_ariths)
  then have "uint (DIV_ROUND_UP r 1000) = (uint r + 999) div 1000"
    by (simp add: DIV_ROUND_UP_def uint_div_distrib)
  moreover from this have "uint (DIV_ROUND_UP r 1000) < 2 ^ 31"
    using assms by simp
  moreover have "- (2 ^ 31) \<le> (uint r + 999) div 1000"
    by (rule order_trans [OF _ khz_nonneg]) simp
  ultimately show ?thesis
    by (simp add: sint_uint signed_take_bit_int_eq_self)
qed

text \<open>The rate the two requests of \<^verbatim>\<open>vop_crtc_mode_fixup\<close> settle on.\<close>

definition fixup_rate :: "(u32 \<Rightarrow> u32) \<Rightarrow> int \<Rightarrow> u32" where
  "fixup_rate rr c = (if rr (word_of_int (c * 1000)) = word_of_int (c * 1000) then word_of_int (c * 1000)
     else rr (word_of_int (c * 1000 + 999)))"

lemma mode_fixup_clock:
  assumes "rounds_down rr" and "0 \<le> clock m" and "clock m * 1000 + 999 < 2 ^ 31"
  shows "clock (vop_crtc_mode_fixup rr m) = (uint (fixup_rate rr (clock m)) + 999) div 1000"
proof -
  let ?a = "word_of_int (clock m * 1000) :: u32" and ?b = "word_of_int (clock m * 1000 + 999) :: u32"
  have u: "uint ?a = clock m * 1000" "uint ?b = clock m * 1000 + 999" "uint (word_of_int (clock m) :: u32) = clock m"
    by (rule uint_small; use assms in simp)+
  have le: "uint (rr ?a) \<le> clock m * 1000" "uint (rr ?b) \<le> clock m * 1000 + 999"
    using rounds_downD(1) [OF assms(1)] u by (metis word_le_def)+
  have "rr ?a div 1000 = word_of_int (clock m) \<longleftrightarrow> uint (rr ?a) div 1000 = clock m"
    using u(3) by (simp add: word_uint_eq_iff uint_div_distrib)
  also have "\<dots> \<longleftrightarrow> uint (rr ?a) = clock m * 1000"
    using le(1) by (auto; linarith)
  also have "\<dots> \<longleftrightarrow> rr ?a = ?a"
    by (simp only: word_uint_eq_iff u)
  finally have "(if rr ?a div 1000 \<noteq> word_of_int (clock m) then rr ?b else rr ?a) = fixup_rate rr (clock m)"
    by (auto simp: fixup_rate_def)
  then have "clock (vop_crtc_mode_fixup rr m) = sint (DIV_ROUND_UP (fixup_rate rr (clock m)) 1000)"
    by (simp add: vop_crtc_mode_fixup_def Let_def del: of_int_mult of_int_add)
  moreover have "uint (fixup_rate rr (clock m)) < 2 ^ 31"
    using assms(3) le(2) u by (simp add: fixup_rate_def)
  ultimately show ?thesis
    by (simp add: khz_round_up)
qed

text \<open>The rate can be made; it is at least the mode's clock if some rate within 999 Hz of it can be made, and else what
  the first request gives.\<close>

definition attainable :: "(u32 \<Rightarrow> u32) \<Rightarrow> int \<Rightarrow> bool" where
  "attainable rr c \<longleftrightarrow> (\<exists>q. rr q = q \<and> c * 1000 \<le> uint q \<and> uint q \<le> c * 1000 + 999)"

lemma fixup_rate_range:
  assumes "rounds_down rr" and "0 \<le> c" and "c * 1000 + 999 < 2 ^ 31"
  defines "r \<equiv> fixup_rate rr c"
  shows "rr r = r" "uint r \<le> c * 1000 + 999" "attainable rr c \<longleftrightarrow> c * 1000 \<le> uint r"
    "\<not> attainable rr c \<Longrightarrow> r = rr (word_of_int (c * 1000 + 999)) \<and> rr (word_of_int (c * 1000)) = r"
proof -
  let ?a = "word_of_int (c * 1000) :: u32" and ?b = "word_of_int (c * 1000 + 999) :: u32"
  note down = rounds_downD [OF assms(1)] and defs = r_def fixup_rate_def
  have u: "uint ?a = c * 1000" "uint ?b = c * 1000 + 999"
    by (rule uint_small; use assms(2,3) in simp)+
  have cases: "r = ?a \<and> rr ?a = ?a \<or> r = rr ?b" by (simp only: defs split: if_split) blast
  show 1: "rr r = r" and 2: "uint r \<le> c * 1000 + 999"
    using cases down(2) down(1) [of ?b] u by (auto simp: word_le_def simp del: of_int_mult of_int_add)
  have "c * 1000 \<le> uint r" if "rr q = q" "c * 1000 \<le> uint q" "uint q \<le> c * 1000 + 999" for q
    using cases down(3) [of q ?b] that u by (auto simp: word_le_def simp del: of_int_mult of_int_add)
  with 1 2 show 3: "attainable rr c \<longleftrightarrow> c * 1000 \<le> uint r"
    unfolding attainable_def by blast
  assume "\<not> attainable rr c"
  with 3 cases u have r: "r = rr ?b" "rr ?b \<le> ?a"
    by (auto simp: word_le_def simp del: of_int_mult of_int_add)
  have "?a \<le> ?b" by (simp only: word_le_def u)
  with r show "r = rr ?b \<and> rr ?a = r"
    by (simp add: round_same [OF assms(1)] del: of_int_mult of_int_add)
qed

text \<open>C23 (vop_mode_fixup_rate): let the clock framework round every request down to the nearest rate the clock can
  make. If the clock can make a rate of the mode's clock, or of up to 999 Hz more, then the adjusted mode, when its clock
  is requested, gives at least the mode's clock and at most 1 kHz more; a clock that can be made exactly is left as it is.
  If it cannot, the adjusted mode gives the same rate as the unadjusted one, and does not ask for more.\<close>

theorem vop_mode_fixup_rate:
  fixes m :: display_mode and rr :: "u32 \<Rightarrow> u32"
  defines "c \<equiv> clock m" and "c' \<equiv> clock (vop_crtc_mode_fixup rr m)"
  assumes "rounds_down rr" and "0 \<le> clock m" and "clock m * 1000 + 999 < 2 ^ 31"
  shows "(rr (word_of_int (c * 1000)) = word_of_int (c * 1000) \<longrightarrow> c' = c) \<and>
    (if attainable rr c
     then c * 1000 \<le> uint (rr (word_of_int (c' * 1000))) \<and> uint (rr (word_of_int (c' * 1000))) \<le> c * 1000 + 1000
     else c' \<le> c \<and> rr (word_of_int (c' * 1000)) = rr (word_of_int (c * 1000)))"
proof -
  let ?a = "word_of_int (c * 1000) :: u32" and ?b = "word_of_int (c * 1000 + 999) :: u32" and ?w = "word_of_int (c' * 1000) :: u32"
  let ?r = "fixup_rate rr c"
  note down = rounds_downD [OF assms(3)] and range = fixup_rate_range [OF assms(3-5), folded c_def]
  have c': "c' = (uint ?r + 999) div 1000"
    unfolding c_def c'_def by (rule mode_fixup_clock [OF assms(3-5)])
  have u: "uint ?a = c * 1000" "uint ?b = c * 1000 + 999"
    by (rule uint_small; use assms(4,5) in \<open>simp add: c_def\<close>)+
  have w: "uint ?w = c' * 1000"
    by (rule uint_small) (use assms(5) range(2) in \<open>auto simp: c' c_def\<close>)
  have le: "?r \<le> ?w" unfolding word_le_def w unfolding c' by linarith
  have less: "uint ?w \<le> c * 1000 + 1000" unfolding w unfolding c'
    using zdiv_mono1 [of "uint ?r + 999" "998 + (c + 1) * 1000" 1000] range(2) by simp
  have rw: "?r \<le> rr ?w" "uint (rr ?w) \<le> c * 1000 + 1000"
    using down(3) [OF le] down(1) [of ?w] less by (simp_all only: range(1) word_le_def)
  have exact: "c' = c" if "rr ?a = ?a"
  proof -
    have "uint ?r = c * 1000" unfolding fixup_rate_def by (simp only: u refl that if_True)
    then show ?thesis by (simp add: c')
  qed
  have same: "c' \<le> c \<and> rr ?w = rr ?a" if no: "\<not> attainable rr c"
  proof
    show "c' \<le> c" using range(3) no by (simp add: c')
    then have "?w \<le> ?b" unfolding word_le_def w u by simp
    then show "rr ?w = rr ?a" using round_same [OF assms(3) _ \<open>?w \<le> ?b\<close>] le range(4) [OF no] by metis
  qed
  have "c * 1000 \<le> uint (rr ?w)" if "attainable rr c"
    using range(3) that rw(1) by (simp add: word_le_def)
  with exact same rw(2) show ?thesis by presburger
qed

theorem vop_mode_fixup_rate_witness:
  "let rr = (\<lambda>r. r div 500001 * 500001); m = panel_mode\<lparr>clock := 60000\<rparr>
   in uint (rr (word_of_int (clock (vop_crtc_mode_fixup rr m) * 1000))) \<le> 60001000 \<and>
     60000000 \<le> uint (rr (word_of_int (clock (vop_crtc_mode_fixup rr m) * 1000)))"
proof -
  let ?rr = "\<lambda>r :: u32. r div 500001 * 500001" and ?m = "panel_mode\<lparr>clock := 60000\<rparr>"
  have down: "r div 500001 * 500001 \<le> r" "uint (r div 500001 * 500001) = uint r div 500001 * 500001" for r :: u32
  proof -
    have "0 \<le> uint r div 500001 * 500001" "uint r div 500001 * 500001 \<le> uint r"
      by (simp_all add: pos_imp_zdiv_nonneg_iff)
    moreover from this have "uint r div 500001 * 500001 < 2 ^ 32"
      using uint_lt2p [of r] by simp
    ultimately show "uint (r div 500001 * 500001) = uint r div 500001 * 500001" "r div 500001 * 500001 \<le> r"
      by (simp_all add: word_le_def uint_word_ariths uint_div_distrib mod_pos_pos_trivial)
  qed
  have "rounds_down ?rr"
    using down(1) unfolding rounds_down_def word_uint_eq_iff word_le_def down(2) by (auto intro: zdiv_mono1)
  moreover have "attainable ?rr 60000"
    unfolding attainable_def by (rule exI [of _ 60000120]) simp
  ultimately show ?thesis
    using vop_mode_fixup_rate [of ?rr ?m] by (simp add: Let_def)
qed

end
