(* ===== verification/Vop_Refresh.thy ===== *)
theory Vop_Refresh
  imports Vop_Modes
begin

text \<open>
  Self-refresh: while the panel shows its own memory the controller keeps its clocks and switches its windows off; the
  mask \<^verbatim>\<open>win_enabled\<close> remembers which of them to switch on again.
\<close>

section \<open>The enable bits of the windows\<close>

definition enable_of :: "nat \<times> win_data \<Rightarrow> vop \<Rightarrow> u32" where
  "enable_of w = field_of (phy (snd w) enable) (base (snd w))"

text \<open>Every window has an enable bit of its own, which applying the configuration does not touch.\<close>

definition windows_apart :: "vop_data \<Rightarrow> bool" where
  "windows_apart d \<longleftrightarrow>
     sorted_wrt (\<lambda>v w. free (phy v enable) (base v) (phy w enable) (base w)) (wins d) \<and>
     list_all (\<lambda>w. plain_reg (phy w enable) \<and> bit (mask (phy w enable)) 0 \<and>
       free (phy w enable) (base w) (common d cfg_done) 0) (wins d)"

lemma windows_apartD:
  assumes "windows_apart d" and "w \<in> set (enumerate 0 (wins d))"
  shows "plain_reg (phy (snd w) enable)" "bit (mask (phy (snd w) enable)) 0"
    "free (phy (snd w) enable) (base (snd w)) (common d cfg_done) 0"
proof -
  have "snd w \<in> set (wins d)"
    using imageI [OF assms(2), of snd] by (simp flip: set_map)
  then show "plain_reg (phy (snd w) enable)" "bit (mask (phy (snd w) enable)) 0"
    "free (phy (snd w) enable) (base (snd w)) (common d cfg_done) 0"
    using assms(1) by (auto simp: windows_apart_def list_all_iff)
qed

lemma truth_in_mask: "bit (m :: u32) 0 \<Longrightarrow> of_bool b AND m = of_bool b"
  by (cases b) (auto simp: bit_0 one_and_eq odd_iff_mod_2_eq_one)

lemma keeps_win_mask: "keeps win_enabled (vop_reg_set reg a m v)"
  unfolding vop_reg_set_def writel_def by (intro keeps keeps_modify) simp_all

definition shown :: "bool \<Rightarrow> vop \<Rightarrow> nat \<times> win_data \<Rightarrow> u32" where
  "shown on s w = of_bool (on \<and> bit (win_enabled s) (fst w))"

lemma wp_set_enable:
  assumes "plain_reg (phy win enable)" and "bit (mask (phy win enable)) 0"
  shows "wp (do { we \<leftarrow> gets win_enabled; VOP_WIN_SET win enable (if on \<and> we AND push_bit i 1 \<noteq> 0 then 1 else 0) })
    (\<lambda>_ s'. enable_of (i, win) s' = shown on s (i, win) \<and> win_enabled s' = win_enabled s) s"
proof -
  have v: "(if on \<and> win_enabled s AND push_bit i 1 \<noteq> 0 then 1 else 0) AND mask (phy win enable) = shown on s (i, win)"
    using truth_in_mask [OF assms(2)] unfolding and_bit_zero shown_def of_bool_def by simp
  have w: "wp (VOP_WIN_SET win enable v) (\<lambda>_ s'. field_of (phy win enable) (base win) s' = v AND mask (phy win enable) \<and>
      win_enabled s' = win_enabled s) s" for v
    unfolding wp_conj using assms(1) wp_keeps [OF keeps_win_mask] by (auto simp: plain_reg_def intro!: wp_mono [OF field_set])
  show ?thesis
    using w [of "if on \<and> win_enabled s AND push_bit i 1 \<noteq> 0 then 1 else 0"]
    unfolding v wp_bind wp_gets enable_of_def snd_conv .
qed

lemma wp_set_win_enabled:
  assumes "windows_apart d"
  shows "wp (rockchip_drm_set_win_enabled d on)
    (\<lambda>_ s'. (\<forall>w \<in> set (enumerate 0 (wins d)). enable_of w s' = shown on s w) \<and> win_enabled s' = win_enabled s) s"
proof -
  let ?ws = "enumerate 0 (wins d)"
  let ?m = "\<lambda>(i, win). do { we \<leftarrow> gets win_enabled; VOP_WIN_SET win enable (if on \<and> we AND push_bit i 1 \<noteq> 0 then 1 else 0) }"
  let ?P = "\<lambda>w s'. enable_of w s' = shown on s w"
  have "preserves (?P v) (?m w)" if "free (phy (snd v) enable) (base (snd v)) (phy (snd w) enable) (base (snd w))" for v w
    unfolding enable_of_def split_beta by (intro preserves keeps_preserves [OF keeps_field [OF that]])
  moreover have "sorted_wrt (\<lambda>v w. free (phy (snd v) enable) (base (snd v)) (phy (snd w) enable) (base (snd w))) ?ws"
    using assms sorted_wrt_map [of _ snd ?ws] by (simp add: windows_apart_def)
  ultimately have "sorted_wrt (\<lambda>v w. preserves (?P v) (?m w)) ?ws"
    by (rule sorted_wrt_mono_rel)
  moreover have "wp (?m w) (\<lambda>_ s'. ?P w s' \<and> win_enabled s' = win_enabled s) s1"
    if w: "w \<in> set ?ws" and s1: "win_enabled s1 = win_enabled s" for w s1
    using wp_set_enable [OF windows_apartD(1,2) [OF assms w], of on "fst w" s1] unfolding shown_def s1 by (simp add: split_beta)
  ultimately have loop: "wp (foreach ?m ?ws) (\<lambda>_ s'. (\<forall>w \<in> set ?ws. ?P w s') \<and> win_enabled s' = win_enabled s) s"
    by (rule wp_foreach_each) simp_all
  have cfg: "preserves (\<lambda>s'. (\<forall>w \<in> set ?ws. ?P w s') \<and> win_enabled s' = win_enabled s) (vop_cfg_done d)"
    using keeps_field [OF windows_apartD(3) [OF assms]] keeps_win_mask
    by (simp add: preserves_def keeps_def vop_cfg_done_def enable_of_def)
  show ?thesis
    unfolding rockchip_drm_set_win_enabled_def wp_bind [of "foreach _ _"] by (rule wp_mono [OF loop], rule preserves_wp [OF cfg])
qed

section \<open>Entering and leaving\<close>

text \<open>C19 (vop_self_refresh): entering self-refresh switches every window off and leaving it switches exactly those on that
  were marked when it began; the marks, both flags and all clock and power references stay as they were.\<close>

theorem vop_self_refresh:
  assumes "windows_apart d" and "self_refresh_active (cstate s)"
    and "run_state (vop_crtc_atomic_disable env d) s = (u, s1)"
    and "run_state (vop_crtc_atomic_enable env' lut_extract d (Some True)) s1 = (u', s2)"
  shows "(\<forall>w \<in> set (enumerate 0 (wins d)). enable_of w s1 = 0 \<and> enable_of w s2 = (if bit (win_enabled s) (fst w) then 1 else 0)) \<and>
    win_enabled s2 = win_enabled s \<and> power_view s2 = power_view s"
proof -
  have ev: "keeps (\<lambda>s. (regsbak s, win_enabled s)) send_disable_event" "keeps (\<lambda>s. (regsbak s, win_enabled s)) (invoke c)" for c
    unfolding send_disable_event_def invoke_def by (intro keeps keeps_modify; simp)+
  have "wp (vop_crtc_atomic_disable env d)
      (\<lambda>_ s'. (\<forall>w \<in> set (enumerate 0 (wins d)). enable_of w s' = shown False s w) \<and> win_enabled s' = win_enabled s) s"
    unfolding vop_crtc_atomic_disable_def wp_bind [of "gets _"] wp_gets if_P [OF assms(2)] wp_bind
    by (rule wp_mono [OF wp_set_win_enabled [OF assms(1)]], rule wp_keeps [OF ev(1)]) (auto simp: enable_of_def field_of_def)
  note s1 = wpD [OF this assms(3)]
  have "wp (vop_crtc_atomic_enable env' lut_extract d (Some True))
      (\<lambda>_ s'. (\<forall>w \<in> set (enumerate 0 (wins d)). enable_of w s' = shown True s1 w) \<and> win_enabled s' = win_enabled s1) s1"
    unfolding vop_crtc_atomic_enable_def if_P [OF refl] wp_bind
    by (rule wp_keeps [OF ev(2)], rule wp_mono [OF wp_set_win_enabled [OF assms(1)]]) (auto simp: shown_def)
  note s2 = wpD [OF this assms(4)]
  have "power_view s1 = power_view s"
    using wpD [OF wp_atomic_disable assms(3)] assms(2) by simp
  moreover have "power_view s2 = power_view s1"
    using wpD [OF wp_atomic_enable assms(4)] by simp
  ultimately show ?thesis
    using s1 s2 by (simp add: shown_def)
qed

text \<open>Two windows of which the second is on.\<close>

definition second_win :: win_data where
  "second_win = small_win\<lparr>base := 0x40\<rparr>"

definition two_wins :: vop_data where
  "two_wins = small_data\<lparr>wins := [small_win, second_win]\<rparr>"

definition refreshing_vop :: vop where
  "refreshing_vop = blank_vop\<lparr>win_enabled := 2, cstate := zero_state\<lparr>self_refresh_active := True\<rparr>\<rparr>"

theorem vop_self_refresh_witness:
  "let env = small_env False (Pm Put);
       s1 = snd (run_state (vop_crtc_atomic_disable env two_wins) refreshing_vop);
       s2 = snd (run_state (vop_crtc_atomic_enable env (\<lambda>v _. v) two_wins (Some True)) s1)
   in enable_of (1, second_win) s1 = 0 \<and> enable_of (0, small_win) s2 = 0 \<and> enable_of (1, second_win) s2 = 1"
proof -
  have "windows_apart two_wins"
    by (simp add: windows_apart_def two_wins_def second_win_def small_data_def small_win_def bit_reg_def no_reg_def plain_reg_def
        reg_fits_def free_def)
  moreover have "self_refresh_active (cstate refreshing_vop)"
    by (simp add: refreshing_vop_def)
  moreover have "enumerate 0 (wins two_wins) = [(0, small_win), (1, second_win)]"
    by (simp add: two_wins_def)
  moreover have "win_enabled refreshing_vop = 2"
    by (simp add: refreshing_vop_def)
  ultimately show ?thesis
    using vop_self_refresh [OF _ _ surjective_pairing surjective_pairing, of two_wins refreshing_vop "small_env False (Pm Put)"
        "small_env False (Pm Put)" "\<lambda>v _. v"]
    by (simp add: Let_def bit_2_iff)
qed

end
