(* ===== verification/Vop_Create.thy ===== *)
theory Vop_Create
  imports Vop_Power
begin

text \<open>
  The planes of the DRM device when a controller's CRTC is created and destroyed: which planes a successful creation
  adds, in which order, and what the error exits take off the list.
\<close>

section \<open>Taking planes off\<close>

text \<open>The clean-up visits the planes that were on the list when it began and empties the list.\<close>

lemma wp_cleanup_planes:
  "wp cleanup_planes (\<lambda>_ s'. s' = s\<lparr>plane_list := [], hist := hist s @ map (\<lambda>p. Ret (Plane_cleanup p) 0) (plane_list s)\<rparr>) s"
proof -
  let ?step = "\<lambda>p. do { invoke (Plane_cleanup p); modify (\<lambda>s. s\<lparr>plane_list := remove1 p (plane_list s)\<rparr>) }"
  have "wp (foreach ?step ps) (\<lambda>_ s'. s' = s\<lparr>plane_list := [], hist := hist s @ map (\<lambda>p. Ret (Plane_cleanup p) 0) ps\<rparr>) s"
    if "plane_list s = ps" for ps s
    using that
  proof (induction ps arbitrary: s)
    case Nil
    then show ?case by (simp add: wp)
  next
    case (Cons p ps)
    show ?case
      unfolding foreach.simps wp_bind invoke_def wp_modify
      by (rule wp_mono, rule Cons.IH [unfolded invoke_def]) (simp_all add: Cons.prems)
  qed
  from this [OF refl] show ?thesis
    unfolding cleanup_planes_def by (simp add: wp)
qed

section \<open>Putting planes on\<close>

definition windows :: "plane_type list \<Rightarrow> (nat \<times> win_data) list \<Rightarrow> plane_id list" where
  "windows types ws = map (Win \<circ> fst) (filter (\<lambda>(i, win). win_type win \<in> set types) ws)"

text \<open>The history and the list of planes both grow, the latter by \<open>q\<close>.\<close>

definition grows :: "vop \<Rightarrow> plane_id list \<Rightarrow> vop \<Rightarrow> bool" where
  "grows s q s' \<longleftrightarrow> (\<exists>t. hist s' = hist s @ t) \<and> plane_list s' = plane_list s @ q"

lemma grows_refl: "grows s [] s"
  by (simp add: grows_def)

lemma grows_trans: "grows s q s' \<Longrightarrow> grows s' q' s'' \<Longrightarrow> grows s (q @ q') s''"
  by (auto simp: grows_def)

lemma grows_call: "wp (call env c) (\<lambda>_. grows s []) s"
  by (simp add: wp_def call_def grows_def)

lemma grows_properties: "wp (vop_plane_add_properties env i win) (\<lambda>_. grows s []) s"
  by (simp add: vop_plane_add_properties_def Let_def wp when_do_def invoke_def grows_def)

lemma wp_plane_init: "wp (plane_init env i win) (\<lambda>ret s'. grows s (if ret = 0 then [Win i] else []) s') s"
proof -
  have "wp (do { vop_plane_add_properties env i win; returnS 0 }) (\<lambda>ret s2. grows s (if ret = 0 then [Win i] else []) s2) 
      (s1\<lparr>plane_list := plane_list s1 @ [Win i]\<rparr>)" if "grows s [] s1" for s1
    unfolding wp_bind by (rule wp_mono [OF grows_properties]) (use that in \<open>auto simp: grows_def wp\<close>)
  then show ?thesis
    unfolding plane_init_def wp_bind [of "call _ _"]
    by (intro wp_mono [OF grows_call]) (auto simp: wp_return wp_if wp_modify wp_bind [of "modify _"])
qed

lemma wp_init_planes:
  "wp (init_planes env types ws) (\<lambda>ret s'. \<exists>q. grows s q s' \<and> (ret = 0 \<longrightarrow> q = windows types ws)) s"
proof (induction ws arbitrary: s)
  case Nil
  then show ?case by (auto simp: wp windows_def intro: grows_refl)
next
  case (Cons w ws)
  obtain i win where w: "w = (i, win)" by fastforce
  show ?case
  proof (cases "win_type win \<in> set types")
    case False
    then show ?thesis using Cons.IH [of s] by (simp add: w windows_def)
  next
    case True
    have "wp (if ret \<noteq> 0 then returnS ret else init_planes env types ws)
        (\<lambda>ret s'. \<exists>q. grows s q s' \<and> (ret = 0 \<longrightarrow> q = windows types (w # ws))) s1"
      if "grows s (if ret = 0 then [Win i] else []) s1" for ret s1
    proof (cases "ret = 0")
      case False
      with that show ?thesis by (auto simp: wp)
    next
      case 0: True
      show ?thesis
        using that by (simp add: 0)
          (rule wp_mono [OF Cons.IH], use True in \<open>auto simp: w windows_def dest: grows_trans\<close>)
    qed
    then show ?thesis
      using True by (simp add: w wp_bind) (rule wp_mono [OF wp_plane_init], simp)
  qed
qed

section \<open>The CRTC\<close>

text \<open>What is on the list of planes after an attempt to create the CRTC, and whose planes the attempt cleaned up.\<close>

definition created :: "vop_data \<Rightarrow> vop \<Rightarrow> int \<Rightarrow> vop \<Rightarrow> bool" where
  "created d s ret s' \<longleftrightarrow>
     (if ret = 0
      then plane_list s' = plane_list s @ windows [DRM_PLANE_TYPE_PRIMARY, DRM_PLANE_TYPE_CURSOR] (enumerate 0 (wins d)) @
        windows [DRM_PLANE_TYPE_OVERLAY] (enumerate 0 (wins d))
      else plane_list s' = [] \<and> (\<forall>p \<in> set (plane_list s). Ret (Plane_cleanup p) 0 \<in> set (drop (length (hist s)) (hist s'))))"

lemma created_error:
  assumes "grows s q s1" and "ret \<noteq> 0"
  shows "wp (do { cleanup_planes; returnS ret }) (created d s) s1"
  unfolding wp_bind
  by (rule wp_mono [OF wp_cleanup_planes]) (use assms in \<open>auto simp: wp created_def grows_def\<close>)

lemma created_crtc_error:
  assumes "grows s q s1" and "ret \<noteq> 0"
  shows "wp (do { invoke (Dev Crtc_cleanup); cleanup_planes; returnS ret }) (created d s) s1"
  unfolding invoke_def wp_bind [of "modify _"] wp_modify
  by (rule created_error [of _ q]) (use assms in \<open>auto simp: grows_def\<close>)

lemma grows_call_bind:
  assumes "grows s q s1" and "\<And>a s2. grows s q s2 \<Longrightarrow> wp (k a) Q s2"
  shows "wp (State_Monad.bind (call env c) k) Q s1"
  unfolding wp_bind using assms by (intro wp_mono [OF grows_call]) (auto dest: grows_trans [OF assms(1)])

lemma grows_init_bind:
  assumes "grows s q s1" and "\<And>ret q' s2. ret \<noteq> 0 \<Longrightarrow> grows s q' s2 \<Longrightarrow> wp (err ret) Q s2"
    and "\<And>s2. grows s (q @ windows types ws) s2 \<Longrightarrow> wp k Q s2"
  shows "wp (do { ret \<leftarrow> init_planes env types ws; if ret \<noteq> 0 then err ret else k }) Q s1"
  unfolding wp_bind
proof (rule wp_mono [OF wp_init_planes], elim exE conjE)
  fix ret :: int and s2 q'
  assume "grows s1 q' s2" and q': "ret = 0 \<longrightarrow> q' = windows types ws"
  with assms(1) have "grows s (q @ q') s2" by (blast intro: grows_trans)
  with q' assms(2,3) show "wp (if ret \<noteq> 0 then err ret else k) Q s2"
    by (cases "ret = 0") auto
qed

lemma grows_gamma_size: "wp (when_do b (invoke c)) (\<lambda>_. grows s []) s"
  by (simp add: wp when_do_def invoke_def grows_def)

lemma created_done:
  "grows s (windows [DRM_PLANE_TYPE_PRIMARY, DRM_PLANE_TYPE_CURSOR] (enumerate 0 (wins d)) @
     windows [DRM_PLANE_TYPE_OVERLAY] (enumerate 0 (wins d))) s1 \<Longrightarrow> wp (returnS 0) (created d s) s1"
  by (simp add: wp created_def grows_def)

text \<open>C39 (vop_create_planes): a successful creation of the CRTC puts the primary and cursor windows and then the overlay
  windows on the device's list of planes, each group in the order of the window table, behind the planes already there.
  A failed one takes every plane off the list and cleans it up, those of other controllers included.\<close>

theorem vop_create_planes:
  assumes "run_state (vop_create_crtc env d) s = (ret, s')"
  shows "created d s ret s'"
proof (rule wpD [OF _ assms])
  show "wp (vop_create_crtc env d) (created d s) s"
    unfolding vop_create_crtc_def Let_def
    apply (rule grows_init_bind [OF grows_refl], (rule created_error; assumption), unfold append_Nil)
    apply (rule grows_call_bind, assumption, rule wp_ifI, (rule created_error; assumption))
    apply (unfold wp_bind [of "gets _"] wp_gets wp_bind [of "when_do _ _"])
    apply (rule wp_mono [OF grows_gamma_size], drule grows_trans, assumption, unfold append_Nil2)
    apply (rule grows_init_bind, assumption, (rule created_crtc_error; assumption))
    apply (rule grows_call_bind, assumption, rule wp_ifI)
     apply (rule created_crtc_error, assumption, simp add: ENOENT_def)
    apply (rule grows_call_bind, assumption, rule created_done, assumption)
    done
qed

lemma crtc_refused:
  "fst (run_state (vop_create_crtc (small_env False (Crtc_init (Some 0) None)) small_data) (blank_vop\<lparr>plane_list := [Foreign 7]\<rparr>)) = - 16"
  by code_simp

theorem vop_create_planes_witness:
  "let s' = snd (run_state (vop_create_crtc (small_env False (Crtc_init (Some 0) None)) small_data) (blank_vop\<lparr>plane_list := [Foreign 7]\<rparr>))
   in plane_list s' = [] \<and> Ret (Plane_cleanup (Foreign 7)) 0 \<in> set (hist s')"
  using vop_create_planes [OF surjective_pairing, where env = "small_env False (Crtc_init (Some 0) None)" and d = small_data
      and s = "blank_vop\<lparr>plane_list := [Foreign 7]\<rparr>"]
  by (auto simp: created_def crtc_refused dest: in_set_dropD)

end
