(* ===== verification/Vop_Gamma.thy ===== *)
theory Vop_Gamma
  imports Vop_Create
begin

text \<open>
  The gamma table: what is written to it, and that on a controller without a second table it is written only once the
  controller has been seen not to use it.
\<close>

section \<open>Polling\<close>

text \<open>A poll with time for \<open>n\<close> attempts reads the register at most \<open>n + 1\<close> times, and the last value read decides.\<close>

lemma wp_poll_reg:
  "wp (poll n (do { v \<leftarrow> vop_read_reg env b reg; returnS (g v) }) cond)
     (\<lambda>ret s'. \<exists>vs v. s' = s\<lparr>hist := hist s @ map (Readl (b + offset reg)) (vs @ [v])\<rparr> \<and> length vs \<le> n \<and>
        (ret = 0 \<longleftrightarrow> cond (g (drop_bit (shift reg) v AND mask reg))) \<and> (ret \<noteq> 0 \<longrightarrow> length vs = n)) s"
proof (induction n arbitrary: s)
  case 0
  show ?case by (auto simp: wp vop_read_reg_def vop_readl_def wp_def ETIMEDOUT_def)
next
  case (Suc n)
  let ?a = "b + offset reg"
  define v where "v = env_readl env (hist s) ?a"
  show ?case
  proof (cases "cond (g (drop_bit (shift reg) v AND mask reg))")
    case True
    then show ?thesis
      by (auto simp: vop_read_reg_def vop_readl_def wp_def v_def intro!: exI [of _ "[]"])
  next
    case False
    have "wp (poll n (do { v \<leftarrow> vop_read_reg env b reg; returnS (g v) }) cond)
      (\<lambda>ret s'. \<exists>vs w. s' = s\<lparr>hist := hist s @ map (Readl ?a) (vs @ [w])\<rparr> \<and> length vs \<le> Suc n \<and>
        (ret = 0 \<longleftrightarrow> cond (g (drop_bit (shift reg) w AND mask reg))) \<and> (ret \<noteq> 0 \<longrightarrow> length vs = Suc n)) (s\<lparr>hist := hist s @ [Readl ?a v]\<rparr>)"
      by (rule wp_mono [OF Suc.IH]) (elim exE conjE, rule_tac x = "v # vs" in exI, auto)
    with False show ?thesis
      by (simp add: vop_read_reg_def vop_readl_def wp_def v_def)
  qed
qed

section \<open>The table\<close>

fun lut_writes :: "vio list \<Rightarrow> (u32 \<times> u32) list" where
  "lut_writes [] = []"
| "lut_writes (Lut_write a v # t) = (a, v) # lut_writes t"
| "lut_writes (_ # t) = lut_writes t"

lemma lut_writes_append [simp]: "lut_writes (t @ t') = lut_writes t @ lut_writes t'"
  by (induction t rule: lut_writes.induct) auto

definition no_lut :: "vio \<Rightarrow> bool" where
  "no_lut e \<longleftrightarrow> lut_writes [e] = []"

lemma no_lut_simps [simp]: "no_lut (Readl a v)" "no_lut (Writel a v)" "no_lut (Ret c r)" "\<not> no_lut (Lut_write a v)"
  by (simp_all add: no_lut_def)

lemma no_lut_writes: "list_all no_lut t \<Longrightarrow> lut_writes t = []"
  by (induction t rule: lut_writes.induct) auto

definition table :: "(u32 \<Rightarrow> nat \<Rightarrow> u32) \<Rightarrow> vop_data \<Rightarrow> (u32 \<times> u32 \<times> u32) list \<Rightarrow> (u32 \<times> u32) list" where
  "table extract_entry d lut = map (\<lambda>i. (of_nat i * 4, lut_word extract_entry (ilog2 (lut_size d)) (lut ! i))) [0..<unat (lut_size d)]"

lemma wp_write_lut:
  "wp (vop_crtc_write_gamma_lut ex d lut) (\<lambda>_ s'. s' = s\<lparr>hist := hist s @ map (\<lambda>(a, v). Lut_write a v) (table ex d lut)\<rparr>) s"
proof -
  have "wp (foreach (\<lambda>i. modify (\<lambda>s. s\<lparr>hist := hist s @ [e i]\<rparr>)) is) (\<lambda>_ s'. s' = s\<lparr>hist := hist s @ map e is\<rparr>) s" for e "is" s
  proof (induction "is" arbitrary: s)
    case Nil
    then show ?case by (simp add: wp)
  next
    case (Cons i "is")
    show ?case
      unfolding foreach.simps wp_bind wp_modify by (rule wp_mono [OF Cons.IH]) simp
  qed
  then show ?thesis
    unfolding vop_crtc_write_gamma_lut_def table_def map_map comp_def prod.case .
qed

lemma emits_poll: "emits P op \<Longrightarrow> emits P (poll n op cond)"
  by (induction n) (auto intro!: emits)

lemma emits_readx_poll [emits]: "emits P op \<Longrightarrow> emits P (readx_poll_timeout env op cond)"
  unfolding readx_poll_timeout_def by (intro emits emits_poll)

lemma wp_emits: "emits P m \<Longrightarrow> (\<And>a s' t. hist s' = hist s @ t \<Longrightarrow> list_all P t \<Longrightarrow> Q a s') \<Longrightarrow> wp m Q s"
  by (rule wpI) (drule (1) emitsD, elim exE conjE)

lemma wp_gamma_load:
  "wp (gamma_load env ex d l old_idx)
     (\<lambda>_ s'. \<exists>t. hist s' = hist s @ map (\<lambda>(a, v). Lut_write a v) (table ex d l) @ t \<and> list_all no_lut t) s"
proof -
  have "emits no_lut (do {
     VOP_REG_SET (common d dsp_lut_en) 1;
     VOP_REG_SET (common d update_gamma_lut) 1;
     vop_cfg_done d;
     when_do (has_reg (common d update_gamma_lut)) (do {
       ret \<leftarrow> readx_poll_timeout env (vop_lut_buffer_index env d) (\<lambda>lut_idx. lut_idx \<noteq> old_idx);
       if ret \<noteq> 0 then returnS () else VOP_REG_SET (common d update_gamma_lut) 0
     })
   })" (is "emits _ ?rest")
    unfolding vop_cfg_done_def vop_lut_buffer_index_def by (intro emits emits_reg_set emits_read_reg) simp_all
  then show ?thesis
    unfolding gamma_load_def wp_bind [of "vop_crtc_write_gamma_lut _ _ _"]
    by (intro wp_mono [OF wp_write_lut] wp_emits [of no_lut ?rest]) auto
qed

lemma lut_writes_table [simp]: "lut_writes (map (\<lambda>(a, v). Lut_write a v) xs) = xs"
  by (induction xs) auto

section \<open>Setting the table\<close>

text \<open>The accesses \<open>t\<close> of a setting from \<open>s\<close>.\<close>

definition gamma_set_ok :: "(u32 \<Rightarrow> nat \<Rightarrow> u32) \<Rightarrow> vop_data \<Rightarrow> vop \<Rightarrow> vio list \<Rightarrow> bool" where
  "gamma_set_ok ex d s t \<longleftrightarrow> (case gamma_lut (cstate s) of
     None \<Rightarrow> lut_writes t = []
   | Some l \<Rightarrow>
       if \<not> lut_regs s then t = []
       else if has_reg (common d update_gamma_lut) then lut_writes t = table ex d l
       else \<exists>t1 v t2. t = t1 @ Readl (offset (common d dsp_lut_en)) v # t2 \<and> lut_writes t1 = [] \<and>
         (if drop_bit (shift (common d dsp_lut_en)) v AND mask (common d dsp_lut_en) = 0
          then lut_writes t2 = table ex d l else t2 = []))"

lemma lut_switched_off:
  "wp (do { VOP_REG_SET (common d dsp_lut_en) 0; vop_cfg_done d; readx_poll_timeout env (vop_dsp_lut_is_enabled env d) (\<lambda>idle. \<not> idle) })
     (\<lambda>ret s'. \<exists>t v. hist s' = hist s @ t @ [Readl (offset (common d dsp_lut_en)) v] \<and> lut_writes t = [] \<and>
        (ret = 0 \<longleftrightarrow> drop_bit (shift (common d dsp_lut_en)) v AND mask (common d dsp_lut_en) = 0)) s"
proof -
  have reg: "wp (VOP_REG_SET reg v) (\<lambda>_ s'. \<exists>t. hist s' = hist s @ t \<and> list_all no_lut t) s" for reg v s
    by (rule wp_emits [OF emits_reg_set]) auto
  have reads: "lut_writes (map (Readl a) vs) = []" for a vs
    by (induction vs) auto
  have "wp (readx_poll_timeout env (vop_dsp_lut_is_enabled env d) (\<lambda>idle. \<not> idle))
      (\<lambda>ret s'. \<exists>t v. hist s' = hist s @ t @ [Readl (offset (common d dsp_lut_en)) v] \<and> lut_writes t = [] \<and>
        (ret = 0 \<longleftrightarrow> drop_bit (shift (common d dsp_lut_en)) v AND mask (common d dsp_lut_en) = 0)) s1"
    if "hist s1 = hist s @ t" "list_all no_lut t" for s1 t
    unfolding readx_poll_timeout_def vop_dsp_lut_is_enabled_def wp_bind [of "gets _"] wp_gets
    by (rule wp_mono [OF wp_poll_reg]) (use that reads in \<open>fastforce simp: no_lut_writes\<close>)
  then show ?thesis
    unfolding vop_cfg_done_def wp_bind
    by (intro wp_mono [OF reg]) fastforce
qed

lemma wp_bind3:
  "wp (do { a; b; c }) R s \<Longrightarrow> (\<And>r s'. R r s' \<Longrightarrow> wp (k r) Q s') \<Longrightarrow> wp (do { a; b; r \<leftarrow> c; k r }) Q s"
  unfolding wp_bind by (erule wp_mono | assumption)+

lemma gamma_set_off:
  assumes "lut_regs s" and "gamma_lut (cstate s) = None \<or> \<not> has_reg (common d update_gamma_lut)"
  shows "wp (do {
      VOP_REG_SET (common d dsp_lut_en) 0;
      vop_cfg_done d;
      ret \<leftarrow> readx_poll_timeout env (vop_dsp_lut_is_enabled env d) (\<lambda>idle. \<not> idle);
      if ret \<noteq> 0 then returnS ()
      else (case gamma_lut (cstate s) of None \<Rightarrow> returnS () | Some l \<Rightarrow> gamma_load env ex d l 0)
    }) (\<lambda>_ s'. \<exists>t. hist s' = hist s @ t \<and> gamma_set_ok ex d s t) s"
proof (rule wp_bind3 [OF lut_switched_off], elim exE conjE)
  let ?ok = "\<lambda>_ s'. \<exists>t. hist s' = hist s @ t \<and> gamma_set_ok ex d s t" and ?lut = "gamma_lut (cstate s)"
  fix ret :: int and s1 :: vop and t v
  assume s1: "hist s1 = hist s @ t @ [Readl (offset (common d dsp_lut_en)) v]" "lut_writes t = []"
    and ret: "ret = 0 \<longleftrightarrow> drop_bit (shift (common d dsp_lut_en)) v AND mask (common d dsp_lut_en) = 0"
  show "wp (if ret \<noteq> 0 then returnS () else (case ?lut of None \<Rightarrow> returnS () | Some l \<Rightarrow> gamma_load env ex d l 0)) ?ok s1"
  proof (cases ?lut)
    case None
    then show ?thesis using s1 by (auto simp: wp gamma_set_ok_def)
  next
    case (Some l)
    with assms have ok: "gamma_set_ok ex d s (t @ Readl (offset (common d dsp_lut_en)) v # t2)"
      if "if ret = 0 then lut_writes t2 = table ex d l else t2 = []" for t2
      using s1(2) ret that by (fastforce simp: gamma_set_ok_def)
    show ?thesis
    proof (cases "ret = 0")
      case True
      then have "wp (gamma_load env ex d l 0) ?ok s1"
        by (intro wp_mono [OF wp_gamma_load]) (auto simp: s1(1) no_lut_writes intro!: ok)
      with Some True show ?thesis by simp
    next
      case False
      then show ?thesis using ok [of "[]"] s1(1) by (simp add: wp)
    qed
  qed
qed

lemma gamma_set_two:
  assumes "lut_regs s" and "gamma_lut (cstate s) = Some l" and "has_reg (common d update_gamma_lut)"
  shows "wp (do { old_idx \<leftarrow> vop_lut_buffer_index env d; gamma_load env ex d l old_idx })
    (\<lambda>_ s'. \<exists>t. hist s' = hist s @ t \<and> gamma_set_ok ex d s t) s"
proof -
  have "emits no_lut (vop_lut_buffer_index env d)"
    unfolding vop_lut_buffer_index_def by (rule emits_read_reg) simp
  then show ?thesis
    unfolding wp_bind by (intro wp_emits [of no_lut "vop_lut_buffer_index env d"] wp_mono [OF wp_gamma_load])
      (use assms in \<open>auto simp: gamma_set_ok_def no_lut_writes\<close>)
qed

text \<open>C40 (vop_gamma_set): without a new table nothing is written to the table. With one, a controller with two tables gets
  every entry, in order. A controller with one gets them only after a read that showed the table switched off, and if
  the last read before the time-out showed it still on, nothing is accessed any more.\<close>

theorem vop_gamma_set:
  assumes "run_state (vop_crtc_gamma_set env ex d) s = (u, s')"
  shows "\<exists>t. hist s' = hist s @ t \<and> gamma_set_ok ex d s t"
proof (rule wpD [OF _ assms])
  show "wp (vop_crtc_gamma_set env ex d) (\<lambda>_ s'. \<exists>t. hist s' = hist s @ t \<and> gamma_set_ok ex d s t) s"
    unfolding vop_crtc_gamma_set_def
    apply (unfold wp_bind [of "gets lut_regs"] wp_gets, rule wp_ifI)
     apply (simp add: wp_return gamma_set_ok_def split: option.split)
    apply (unfold wp_bind [of "gets _"] wp_gets comp_def, rule wp_ifI)
     apply (rule gamma_set_off; simp)
    using gamma_set_two by auto
qed

text \<open>A controller with two tables of two entries, and a table of black and white.\<close>

definition lut_data :: vop_data where
  "lut_data = small_data\<lparr>lut_size := 2, common := (\<lambda>f. if f = update_gamma_lut then bit_reg 0x34 else no_reg)\<rparr>"

definition lut_vop :: vop where
  "lut_vop = blank_vop\<lparr>lut_regs := True, cstate := zero_state\<lparr>gamma_lut := Some [(0, 0, 0), (0xffff, 0xffff, 0xffff)]\<rparr>\<rparr>"

theorem vop_gamma_set_witness:
  "lut_writes (hist (snd (run_state (vop_crtc_gamma_set (small_env False (Pm Put)) (\<lambda>v n. drop_bit (16 - n) v) lut_data) lut_vop))) =
     [(0, 0), (4, 7)]"
proof -
  have "table (\<lambda>v n. drop_bit (16 - n) v) lut_data [(0, 0, 0), (0xffff, 0xffff, 0xffff)] = [(0, 0), (4, 7)]"
    by code_simp
  with vop_gamma_set [OF surjective_pairing, where env = "small_env False (Pm Put)" and ex = "\<lambda>v n. drop_bit (16 - n) v"
      and d = lut_data and s = lut_vop]
  show ?thesis
    by (auto simp: gamma_set_ok_def lut_vop_def blank_vop_def zero_state_def) (simp_all add: lut_data_def has_reg_def bit_reg_def)
qed

end
