(* ===== verification/Spec2Isabelle.thy ===== *)
theory Spec2Isabelle
  imports Freshness Relays Mailbox_Echo Rtc_Device Npu_Version Clk_Tree Clk_Parents Clk_Rates Clk_Init Vop_Flip Vop_Refresh Vop_Gamma
begin

text \<open>
  A verification development for the C code of warden-sdk: the SDK's user-space drivers and the kernel and firmware code
  that enables the RV1106 board. Paths are relative to the repository.

  \<^bold>\<open>Parts of the program\<close>

  The C code has two layers. The user-space drivers below \<^verbatim>\<open>drivers/\<close> serve a panel: the freshness engine
  decides what a widget may show, the relay driver moves two GPIO lines through sysfs. The code below
  \<^verbatim>\<open>kernel/rv1106-enablement/\<close> brings the board up: clock and reset driver, RTC driver, display controller
  driver, the firmware of the small core behind the mailbox, and a smoke test for the NPU. The parts do not call one
  another; within the clock driver, initialisation registers the tables and schedules the calibration, and within the
  display driver the operations of the CRTC, the planes and the interrupt handler share one state, which the
  theories on it treat as steps of one machine.

  \<^bold>\<open>Theories, and what they model and show\<close>

  \<^item> \<open>Warden_Prelude\<close>: machine types, the C string functions with truncation, the scan of a table of slots (locale
    \<open>slot_scan\<close>) and word lemmas. \<open>Kernel_Monad\<close>: the state monad of the kernel code, its weakest preconditions, and
    the predicates \<open>keeps\<close> (a part of the state an operation leaves alone) and \<open>preserves\<close> (an invariant it keeps),
    with their rules by program structure.
  \<^item> \<open>Freshness\<close>, of \<^verbatim>\<open>drivers/freshness/freshness.{c,h}\<close>: the static table \<^verbatim>\<open>s_vals\<close> is a list of
    records in the state, each public function a function on the state; producers and renderers are the environment,
    and calls of them are logged. Shown: the contract after a tick, which bindings tick, show and invalidate
    select, that no call goes through a null pointer or overruns a buffer, and that the engine on 32-bit wrapping time
    refines a specification on unbounded time as long as a page is ticked often enough; also what happens without that.
  \<^item> \<open>Relays\<close>, of \<^verbatim>\<open>drivers/relays/relays.{c,h}\<close>: the backend is a record of functions, the contract of a
    GPIO backend the locale \<open>relay_backend\<close>, interpreted on the driver's own sysfs backend over a model of the sysfs
    files. Shown: making a relay available moves no line, set and get agree, and nothing else is written; the bound on
    the length of paths.
  \<^item> \<open>Mailbox_Echo\<close>, of \<^verbatim>\<open>mailbox/scr1-echo/main.c\<close>: the firmware makes one step per register access and is
    interleaved with a Linux side. Shown: replies are the messages sent and arrive within a bounded number of accesses,
    for a sender that waits; what a hasty sender can lose.
  \<^item> \<open>Rtc\<close> and \<open>Rtc_Device\<close>, of \<^verbatim>\<open>rtc/rtc-rockchip.c\<close>: every operation over an abstract register map (locale
    \<open>rtc_bus\<close>), interpreted on a device with scheduled bus faults. Shown: round trips of time and alarm, the counter
    left running, bounds of the compensation, and the balance of clock and wake-up references on every path.
  \<^item> \<open>Npu_Version\<close>, of \<^verbatim>\<open>npu/rknpu_version_test.c\<close>: the node the test settles on, its output, result and open
    descriptors.
  \<^item> \<open>Clk_Ids\<close>, \<open>Clk_Table\<close>, \<open>Clk_Tree\<close>, \<open>Clk_Parents\<close>, \<open>Clk_Rates\<close>, of \<^verbatim>\<open>clk/rv1106-cru.h\<close> and the tables of
    \<^verbatim>\<open>clk/clk-rv1106.c\<close>: the numbers and tables as data (\<open>Bit_Ranges\<close> decides disjointness of bit ranges, \<open>Hiword\<close> is
    the register with a write mask). Shown: fields disjoint but for named exceptions, parents registered first, rates
    produced by their settings, reset numbers decoded.
  \<^item> \<open>Clk_Pvtpll\<close>, \<open>Clk_Init\<close>, of the code of \<^verbatim>\<open>clk/clk-rv1106.c\<close>: the calibration work item and the entry points.
    Shown: calibration ends, is confined to the ring lengths and brings a linear oscillator to its target (locale
    \<open>calibrator\<close>, interpreted on both variants); the order of initialisation and its error exits.
  \<^item> \<open>Vop_Regs\<close>, \<open>Vop_Crtc\<close>, \<open>Vop_Plane\<close>, \<open>Vop_Bind\<close>, of \<^verbatim>\<open>display/rockchip_drm_vop.c\<close>: the record \<open>vop\<close> is
    \<^verbatim>\<open>struct vop\<close>, with the history of register accesses and kernel calls as its last field; one definition per
    function, and per exit label where the C code jumps.
  \<^item> \<open>Vop_View\<close>: the locales \<open>register_blind\<close> and \<open>window_blind\<close>, views of the state that register traffic does not
    change, and \<open>emits\<close>, the events an operation may append. They are interpreted on the resources (\<open>Vop_Power\<close>), on the
    loader's flag and on the page-flip state (\<open>Vop_Flip\<close>).
  \<^item> \<open>Vop_Power\<close>: the step relation \<open>vop_step\<close> of a bound controller, and the clock and power references on every path of
    enable, disable, bind and unbind, with the take-over of the boot loader's picture. \<open>Vop_Irq\<close>: the interrupt
    registers and the handler. \<open>Vop_Flip\<close>: page flips interleaved with their work item. \<open>Vop_Shadow\<close>: the shadow copy is
    what the hardware was told (locale \<open>register_invariant\<close>). \<open>Vop_Scanout\<close>: addresses of windows, the asynchronous update
    and the plane check. \<open>Vop_Modes\<close>: timings and pixel clock. \<open>Vop_Refresh\<close>: self-refresh
    and the enable bits of the windows. \<open>Vop_Create\<close>: the planes of the device. \<open>Vop_Gamma\<close>:
    polls and the gamma table.

  \<^bold>\<open>State, time and outside code\<close>

  A register read or a call of the kernel returns any function of the history so far, so a statement holds for every
  behaviour of the hardware and of the kernel unless it names a hypothesis. Kernel and DRM functions, macros and
  enumerators of headers that are not in the repository (among them the register tables of the display controllers,
  \<open>vop_data\<close>, and the scaling arithmetic) are parameters; hypotheses on them state what their documentation says, and the
  witnesses give functions for which they hold. Errors are the negative numbers the C code returns.

  \<^bold>\<open>Loops and bounds\<close>

  Loops over tables are recursion over lists. The calibration loop counts its rounds as the code does and is a terminating
  function; at most 69 register writes are made by a work item. A poll with a time-out reads as often as the environment
  allows, a number it gets before it starts, so polls are total; after \<open>n\<close> unsuccessful reads one more decides. The
  firmware's endless loop is a step function, and its liveness is a bound on the number of accesses. Times and ages of the
  freshness engine are 32-bit words, register values 32-bit words, \<^verbatim>\<open>int\<close> values that cannot overflow integers.

  \<^bold>\<open>Not modelled\<close>

  Locks and concurrency inside an operation: an operation of a kernel driver is one step, except for the mailbox, where
  every register access is one. Function-pointer tables, module registration, device-tree matching and log messages,
  which have no behaviour of their own. The test programs of the drivers, the simulator, QEMU and tool code (not C), and the
  patch queue (changes to kernel sources that are not in the repository), except for the macros the modelled code takes
  from it. The kernel configuration, build scripts and documents; where they promise something of the code the
  promise was compared with the theorems.
\<close>

end
